(* ===== verification/Js_Prelude.thy ===== *)
theory Js_Prelude
  imports Main "HOL-Library.Sublist"
begin

text \<open>
  The fragment of the JavaScript language and its standard library that the web client uses and
  that every component theory shares: strings, truthiness, number printing and parsing, and the
  value types of asynchronous calls.

  A JavaScript string is a \<^typ>\<open>string\<close>, one \<^typ>\<open>char\<close> per UTF-16 code unit. A code unit below
  256 is the \<^typ>\<open>char\<close> with that code; the three typographic symbols above that range that occur in
  the program's literals stand on three C1 control positions (the ones the windows-1252 code page
  gives them), so that lengths agree with JavaScript's: the em dash is \<^term>\<open>CHR 0x97\<close>, the
  ellipsis \<^term>\<open>CHR 0x85\<close> and the bullet \<^term>\<open>CHR 0x95\<close>.

  The methods \<open>startsWith\<close>, \<open>endsWith\<close> and \<open>includes\<close> are \<^const>\<open>prefix\<close>, \<^const>\<open>suffix\<close> and
  \<^const>\<open>sublist\<close> of the library, with the needle first.
\<close>

named_theorems js_str_simps \<open>equations that evaluate string operations on literals\<close>

section \<open>Strings\<close>

type_synonym jsstr = string

abbreviation em_dash :: char where
  "em_dash \<equiv> CHR 0x97"

abbreviation ellipsis :: char where
  "ellipsis \<equiv> CHR 0x85"

abbreviation bullet :: char where
  "bullet \<equiv> CHR 0x95"

abbreviation quote_c :: char where
  "quote_c \<equiv> CHR 0x22"

abbreviation newline :: char where
  "newline \<equiv> CHR 0x0A"

text \<open>White space as \<open>String.prototype.trim\<close> removes it.\<close>

definition is_space :: "char \<Rightarrow> bool" where
  "is_space c \<longleftrightarrow> c \<in> {CHR 0x09, CHR 0x0A, CHR 0x0B, CHR 0x0C, CHR 0x0D, CHR '' '', CHR 0xA0}"

definition trim_start :: "jsstr \<Rightarrow> jsstr" where
  "trim_start s = dropWhile is_space s"

definition trim :: "jsstr \<Rightarrow> jsstr" where
  "trim s = rev (dropWhile is_space (rev (dropWhile is_space s)))"

text \<open>
  Case mapping on code units below 256: the ASCII letters and the Latin-1 letters. The sharp s is
  the one of them whose upper case has two units.
\<close>

definition to_lower_char :: "char \<Rightarrow> char" where
  "to_lower_char c =
     (let n = (of_char c :: nat) in
      if (65 \<le> n \<and> n \<le> 90) \<or> (192 \<le> n \<and> n \<le> 222 \<and> n \<noteq> 215) then char_of (n + 32) else c)"

definition to_lower :: "jsstr \<Rightarrow> jsstr" where
  "to_lower s = map to_lower_char s"

definition to_upper_char :: "char \<Rightarrow> jsstr" where
  "to_upper_char c =
     (let n = (of_char c :: nat) in
      if (97 \<le> n \<and> n \<le> 122) \<or> (224 \<le> n \<and> n \<le> 254 \<and> n \<noteq> 247) then [char_of (n - 32)]
      else if n = 223 then ''SS'' else [c])"

definition to_upper :: "jsstr \<Rightarrow> jsstr" where
  "to_upper s = concat (map to_upper_char s)"

text \<open>\<open>s.split(c)\<close> for a separator of one unit, and \<open>xs.join(s)\<close>.\<close>

fun split_on :: "char \<Rightarrow> jsstr \<Rightarrow> jsstr list" where
  "split_on c [] = [[]]"
| "split_on c (x # xs) =
     (if x = c then [] # split_on c xs
      else (case split_on c xs of [] \<Rightarrow> [[x]] | y # ys \<Rightarrow> (x # y) # ys))"

fun join :: "jsstr \<Rightarrow> jsstr list \<Rightarrow> jsstr" where
  "join s [] = []"
| "join s [x] = x"
| "join s (x # y # ys) = x @ s @ join s (y # ys)"

text \<open>\<open>s.indexOf(c)\<close>, with \<^const>\<open>None\<close> for -1.\<close>

fun index_of :: "char \<Rightarrow> jsstr \<Rightarrow> nat option" where
  "index_of c [] = None"
| "index_of c (x # xs) = (if x = c then Some 0 else map_option Suc (index_of c xs))"

text \<open>\<open>s.replace(/c/g, r)\<close> and \<open>s.replace("c", r)\<close> for a pattern of one literal unit.\<close>

definition replace_all :: "char \<Rightarrow> jsstr \<Rightarrow> jsstr \<Rightarrow> jsstr" where
  "replace_all c r s = concat (map (\<lambda>x. if x = c then r else [x]) s)"

fun replace_first :: "char \<Rightarrow> jsstr \<Rightarrow> jsstr \<Rightarrow> jsstr" where
  "replace_first c r [] = []"
| "replace_first c r (x # xs) = (if x = c then r @ xs else x # replace_first c r xs)"

text \<open>\<open>s.split(/\s+/)\<close>, and \<open>s.replace(/\s+/g, "-")\<close>, which joins the same pieces.\<close>

function split_ws :: "jsstr \<Rightarrow> jsstr list" where
  "split_ws s =
     (let w = takeWhile (\<lambda>c. \<not> is_space c) s; r = dropWhile (\<lambda>c. \<not> is_space c) s
      in if r = [] then [w] else w # split_ws (dropWhile is_space r))"
  by pat_completeness auto
termination
proof (relation "measure length", goal_cases)
  case (2 s w r)
  obtain a l where r: "r = a # l" using 2(3) by (meson list.exhaust)
  have "is_space a" using 2(2,3) r by (metis hd_dropWhile list.sel(1))
  then have "length (dropWhile is_space r) < length r"
    using r length_dropWhile_le [of is_space l] by (simp add: less_Suc_eq_le)
  also have "length r \<le> length s" using 2 by (simp add: length_dropWhile_le)
  finally show ?case by simp
qed simp

declare split_ws.simps [simp del]

definition hyphenate :: "jsstr \<Rightarrow> jsstr" where
  "hyphenate s = join ''-'' (split_ws s)"

section \<open>Truthiness\<close>

text \<open>\<open>a || b\<close> on strings, and \<open>a ?? b\<close> on a value that may be null or undefined.\<close>

definition str_or :: "jsstr \<Rightarrow> jsstr \<Rightarrow> jsstr" where
  "str_or a b = (if a = [] then b else a)"

definition nullish :: "'a option \<Rightarrow> 'a \<Rightarrow> 'a" where
  "nullish a b = (case a of None \<Rightarrow> b | Some x \<Rightarrow> x)"

definition truthy :: "jsstr option \<Rightarrow> bool" where
  "truthy a \<longleftrightarrow> (case a of None \<Rightarrow> False | Some s \<Rightarrow> s \<noteq> [])"

text \<open>\<open>s || undefined\<close> and \<open>s || null\<close>: the empty string becomes the absent value.\<close>

definition or_absent :: "jsstr \<Rightarrow> jsstr option" where
  "or_absent s = (if s = [] then None else Some s)"

section \<open>Numbers\<close>

definition digit :: "nat \<Rightarrow> char" where
  "digit n = char_of (48 + n)"

fun nat_str :: "nat \<Rightarrow> jsstr" where
  "nat_str n = (if n < 10 then [digit n] else nat_str (n div 10) @ [digit (n mod 10)])"

declare nat_str.simps [simp del]

definition int_str :: "int \<Rightarrow> jsstr" where
  "int_str i = (if i < 0 then CHR ''-'' # nat_str (nat (- i)) else nat_str (nat i))"

definition is_digit :: "char \<Rightarrow> bool" where
  "is_digit c \<longleftrightarrow> 48 \<le> (of_char c :: nat) \<and> (of_char c :: nat) \<le> 57"

definition digit_val :: "char \<Rightarrow> nat" where
  "digit_val c = of_char c - 48"

fun nat_val :: "nat \<Rightarrow> jsstr \<Rightarrow> nat" where
  "nat_val a [] = a"
| "nat_val a (c # cs) = nat_val (10 * a + digit_val c) cs"

text \<open>
  \<open>parseInt(s, 10)\<close>: leading white space, an optional sign, the longest run of digits;
  \<^const>\<open>None\<close> is NaN.
\<close>

definition parse_digits :: "jsstr \<Rightarrow> nat option" where
  "parse_digits s = (let ds = takeWhile is_digit s in if ds = [] then None else Some (nat_val 0 ds))"

definition parse_int :: "jsstr \<Rightarrow> int option" where
  "parse_int s =
     (case trim_start s of
        [] \<Rightarrow> None
      | c # cs \<Rightarrow>
          if c = CHR ''-'' then map_option (\<lambda>n. - int n) (parse_digits cs)
          else if c = CHR ''+'' then map_option int (parse_digits cs)
          else map_option int (parse_digits (c # cs)))"

section \<open>Arrays\<close>

text \<open>
  \<open>xs.sort(cmp)\<close> with a comparison that says when \<open>a\<close> goes strictly after \<open>b\<close>: JavaScript's sort
  is stable, so it is insertion from the right in front of the first element that is not before.
\<close>

fun insert_by :: "('a \<Rightarrow> 'a \<Rightarrow> bool) \<Rightarrow> 'a \<Rightarrow> 'a list \<Rightarrow> 'a list" where
  "insert_by after x [] = [x]"
| "insert_by after x (y # ys) = (if after x y then y # insert_by after x ys else x # y # ys)"

fun sort_by :: "('a \<Rightarrow> 'a \<Rightarrow> bool) \<Rightarrow> 'a list \<Rightarrow> 'a list" where
  "sort_by after [] = []"
| "sort_by after (x # xs) = insert_by after x (sort_by after xs)"

text \<open>Membership toggling, the idiom of every multi-selection of the client.\<close>

definition toggle :: "'a \<Rightarrow> 'a list \<Rightarrow> 'a list" where
  "toggle x xs = (if x \<in> set xs then filter (\<lambda>y. y \<noteq> x) xs else xs @ [x])"

text \<open>
  A JavaScript object or \<open>Map\<close> used as a dictionary, in insertion order: writing an existing key
  keeps its place.
\<close>

fun assoc_set :: "'k \<Rightarrow> 'v \<Rightarrow> ('k \<times> 'v) list \<Rightarrow> ('k \<times> 'v) list" where
  "assoc_set k v [] = [(k, v)]"
| "assoc_set k v ((k', v') # xs) = (if k' = k then (k, v) # xs else (k', v') # assoc_set k v xs)"

section \<open>Times\<close>

text \<open>
  The label the lists show for a time, from the current time and the time, both in milliseconds; a
  date that does not parse is \<open>NaN\<close>, for which every comparison is false.
\<close>

definition ago :: "int \<Rightarrow> int option \<Rightarrow> jsstr" where
  "ago now t =
     (case t of
        None \<Rightarrow> ''NaNd ago''
      | Some t \<Rightarrow>
          let diff = now - t in
          if diff < 60000 then ''just now''
          else if diff < 3600000 then int_str (diff div 60000) @ ''m ago''
          else if diff < 86400000 then int_str (diff div 3600000) @ ''h ago''
          else int_str (diff div 86400000) @ ''d ago'')"

section \<open>Responses\<close>

text \<open>
  What an awaited \<open>fetch\<close> or axios call can come back with: no response at all (network failure,
  CORS, abort), or a status with a body.
\<close>

datatype 'b response = NoResponse | Response nat 'b

fun resp_ok :: "'b response \<Rightarrow> bool" where
  "resp_ok NoResponse = False"
| "resp_ok (Response st b) = (200 \<le> st \<and> st \<le> 299)"

fun resp_status :: "'b response \<Rightarrow> nat option" where
  "resp_status NoResponse = None"
| "resp_status (Response st b) = Some st"

section \<open>Lemmas on strings\<close>

lemma split_on_not_Nil [simp]: "split_on c s \<noteq> []"
  by (induction s) (auto split: list.splits)

lemma split_on_no_sep: "c \<notin> set s \<Longrightarrow> split_on c s = [s]"
  by (induction s) auto

lemma split_on_append_sep: "c \<notin> set a \<Longrightarrow> split_on c (a @ c # s) = a # split_on c s"
  by (induction a) auto

lemma split_on_pieces: "p \<in> set (split_on c s) \<Longrightarrow> c \<notin> set p"
  by (induction s arbitrary: p) (auto split: if_splits list.splits)

lemma join_split_on: "join [c] (split_on c s) = s"
proof (induction s)
  case (Cons x s)
  obtain y ys where sp: "split_on c s = y # ys" by (meson list.exhaust split_on_not_Nil)
  show ?case using Cons sp by (cases ys) auto
qed simp

lemma split_on_join:
  "xs \<noteq> [] \<Longrightarrow> \<forall>x\<in>set xs. c \<notin> set x \<Longrightarrow> split_on c (join [c] xs) = xs"
  by (induction "[c]" xs rule: join.induct) (auto simp: split_on_no_sep split_on_append_sep)

lemma index_of_Some:
  "index_of c s = Some i \<Longrightarrow> i < length s \<and> s ! i = c \<and> c \<notin> set (take i s)"
  by (induction s arbitrary: i) (auto split: if_splits)

lemma index_of_None [simp]: "index_of c s = None \<longleftrightarrow> c \<notin> set s"
  by (induction s) auto

lemma index_of_append: "c \<notin> set a \<Longrightarrow> index_of c (a @ c # b) = Some (length a)"
  by (induction a) auto

declare trim_def [js_str_simps] is_space_def [js_str_simps] str_or_def [js_str_simps]

lemma trim_Nil [simp]: "trim [] = []"
  by (simp add: trim_def)

lemma trim_no_space:
  assumes "\<forall>c\<in>set s. \<not> is_space c"
  shows "trim s = s"
proof -
  have d: "dropWhile is_space t = t" if "\<forall>c\<in>set t. \<not> is_space c" for t
    using that by (cases t) auto
  show ?thesis using assms by (simp add: trim_def d)
qed

lemma trim_subset: "set (trim s) \<subseteq> set s"
  unfolding trim_def by (auto dest!: set_dropWhileD)

lemma trim_idem [simp]: "trim (trim s) = trim s"
proof -
  have *: "dropWhile is_space (rev (dropWhile is_space (rev t))) = rev (dropWhile is_space (rev t))"
    if "dropWhile is_space t = t" for t
  proof (cases "rev (dropWhile is_space (rev t))")
    case (Cons c cs)
    obtain z where z: "t = rev (dropWhile is_space (rev t)) @ z"
      by (metis rev_append rev_rev_ident takeWhile_dropWhile_id)
    with Cons have "t = c # cs @ z" by simp
    then have "\<not> is_space c" using that by (metis dropWhile_eq_Cons_conv)
    then show ?thesis using Cons by simp
  next
    case Nil
    then show ?thesis by (simp only: Nil dropWhile.simps)
  qed
  have "dropWhile is_space (dropWhile is_space s) = dropWhile is_space s" by simp
  from *[OF this] show ?thesis by (simp add: trim_def)
qed

lemma to_lower_Nil [simp]: "to_lower [] = []"
  by (simp add: to_lower_def)

lemma to_lower_char_idem [simp]: "to_lower_char (to_lower_char c) = to_lower_char c"
proof -
  have "(of_char c :: nat) < 256" by (rule nat_of_char_less_256)
  then show ?thesis by (auto simp: to_lower_char_def Let_def)
qed

lemma to_lower_idem [simp]: "to_lower (to_lower s) = to_lower s"
  by (simp add: to_lower_def comp_def)

lemma to_lower_append: "to_lower (a @ b) = to_lower a @ to_lower b"
  by (simp add: to_lower_def)

lemma replace_all_removes: "c \<notin> set r \<Longrightarrow> c \<notin> set (replace_all c r s)"
  by (auto simp: replace_all_def)

lemma replace_all_id: "c \<notin> set s \<Longrightarrow> replace_all c r s = s"
  by (induction s) (auto simp: replace_all_def)

section \<open>Lemmas on truthiness\<close>

lemma truthy_simps [simp]: "truthy None = False" "truthy (Some s) = (s \<noteq> [])"
  by (simp_all add: truthy_def)

lemma nullish_simps [simp]: "nullish None b = b" "nullish (Some a) b = a"
  by (simp_all add: nullish_def)

lemma or_absent_simps [simp]: "or_absent [] = None" "or_absent (c # cs) = Some (c # cs)"
  by (simp_all add: or_absent_def)

section \<open>Lemmas on numbers\<close>

lemma is_digit_digit: "n < 10 \<Longrightarrow> is_digit (digit n)"
  by (simp add: is_digit_def digit_def)

lemma digit_val_digit: "n < 10 \<Longrightarrow> digit_val (digit n) = n"
  by (simp add: digit_val_def digit_def)

lemma nat_str_digits: "c \<in> set (nat_str n) \<Longrightarrow> is_digit c"
proof (induction n rule: nat_str.induct)
  case (1 n)
  then show ?case by (subst (asm) (2) nat_str.simps) (auto simp: is_digit_digit split: if_splits)
qed

lemma nat_str_not_Nil [simp]: "nat_str n \<noteq> []"
  by (subst nat_str.simps) simp

lemma nat_val_append: "nat_val a (xs @ ys) = nat_val (nat_val a xs) ys"
  by (induction xs arbitrary: a) auto

lemma nat_val_nat_str: "nat_val 0 (nat_str n) = n"
proof (induction n rule: nat_str.induct)
  case (1 n)
  then show ?case
    by (subst nat_str.simps) (auto simp: digit_val_digit nat_val_append)
qed

lemma takeWhile_all_append: "\<forall>x\<in>set xs. P x \<Longrightarrow> takeWhile P (xs @ ys) = xs @ takeWhile P ys"
  by (induction xs) auto

lemma parse_digits_nat_str: "parse_digits (nat_str n) = Some n"
proof -
  have "takeWhile is_digit (nat_str n) = nat_str n"
    by (simp add: nat_str_digits)
  then show ?thesis
    unfolding parse_digits_def Let_def by (simp only: nat_str_not_Nil nat_val_nat_str if_False)
qed

lemma is_digit_not_space: "is_digit c \<Longrightarrow> \<not> is_space c"
  by (auto simp: is_digit_def is_space_def)

lemma parse_int_nat_str: "parse_int (nat_str n) = Some (int n)"
proof (cases "nat_str n")
  case (Cons c cs)
  have d: "is_digit c" using nat_str_digits [of c n] Cons by simp
  then have "trim_start (nat_str n) = c # cs"
    using Cons by (simp add: trim_start_def is_digit_not_space)
  moreover have "c \<noteq> CHR ''-''" "c \<noteq> CHR ''+''" using d by (auto simp: is_digit_def)
  ultimately show ?thesis
    using parse_digits_nat_str [of n] Cons by (simp add: parse_int_def)
qed simp

text \<open>Printing an integer and reading it back with \<open>parseInt\<close> gives the integer.\<close>

lemma parse_int_int_str: "parse_int (int_str i) = Some i"
proof (cases "i < 0")
  case True
  have "trim_start (CHR ''-'' # nat_str (nat (- i))) = CHR ''-'' # nat_str (nat (- i))"
    by (simp add: trim_start_def is_space_def)
  then show ?thesis using True by (simp add: int_str_def parse_int_def parse_digits_nat_str)
qed (simp add: int_str_def parse_int_nat_str)

section \<open>Lemmas on arrays\<close>

lemma set_toggle: "set (toggle x xs) = (if x \<in> set xs then set xs - {x} else insert x (set xs))"
  by (auto simp: toggle_def)

lemma distinct_toggle: "distinct xs \<Longrightarrow> distinct (toggle x xs)"
  by (auto simp: toggle_def)

lemma toggle_toggle_set: "set (toggle x (toggle x xs)) = set xs"
  by (auto simp: set_toggle)

lemma map_of_assoc_set: "map_of (assoc_set k v xs) = (map_of xs)(k \<mapsto> v)"
  by (induction xs) (auto simp: fun_eq_iff)

lemma assoc_set_keys:
  "map fst (assoc_set k v xs) = (if k \<in> fst ` set xs then map fst xs else map fst xs @ [k])"
  by (induction xs) (auto simp: rev_image_eqI)

lemma set_assoc_set_subset: "set (assoc_set k v xs) \<subseteq> insert (k, v) (set xs)"
  by (induction xs) (auto split: if_splits)

lemma distinct_assoc_set: "distinct (map fst xs) \<Longrightarrow> distinct (map fst (assoc_set k v xs))"
  by (simp add: assoc_set_keys)

lemma set_insert_by [simp]: "set (insert_by after x xs) = insert x (set xs)"
  by (induction xs) auto

lemma set_sort_by [simp]: "set (sort_by after xs) = set xs"
  by (induction xs) auto

lemma length_insert_by [simp]: "length (insert_by after x xs) = Suc (length xs)"
  by (induction xs) auto

lemma length_sort_by [simp]: "length (sort_by after xs) = length xs"
  by (induction xs) auto

text \<open>
  A comparison a sort can be called with: it never puts two elements after each other, and not being
  after is transitive (the comparison is by a key in a linear order).
\<close>

locale js_comparator =
  fixes after :: "'a \<Rightarrow> 'a \<Rightarrow> bool"
  assumes after_asym: "after a b \<Longrightarrow> \<not> after b a"
    and not_after_trans: "\<not> after a b \<Longrightarrow> \<not> after b c \<Longrightarrow> \<not> after a c"
begin

lemma sorted_insert_by:
  "sorted_wrt (\<lambda>a b. \<not> after a b) xs \<Longrightarrow> sorted_wrt (\<lambda>a b. \<not> after a b) (insert_by after x xs)"
proof (induction xs)
  case (Cons y ys)
  show ?case
  proof (cases "after x y")
    case True
    then show ?thesis using Cons by (auto dest: after_asym)
  next
    case False
    then show ?thesis using Cons.prems by (auto dest: not_after_trans [OF False])
  qed
qed simp

lemma sorted_sort_by: "sorted_wrt (\<lambda>a b. \<not> after a b) (sort_by after xs)"
  by (induction xs) (auto intro: sorted_insert_by)

text \<open>The first element of the result goes after no other.\<close>

lemma sort_by_head:
  assumes "sort_by after xs = best # others"
  shows "best \<in> set xs" and "\<forall>x\<in>set xs. \<not> after best x"
proof -
  have s: "set xs = insert best (set others)" using set_sort_by [of after xs] assms by simp
  then show "best \<in> set xs" by simp
  have "\<forall>x\<in>set others. \<not> after best x" using sorted_sort_by [of xs] assms by simp
  moreover have "\<not> after best best" using after_asym by blast
  ultimately show "\<forall>x\<in>set xs. \<not> after best x" using s by simp
qed

lemma filter_insert_by_other: "\<not> P x \<Longrightarrow> filter P (insert_by after x xs) = filter P xs"
  by (induction xs) auto

text \<open>Elements that compare equal to \<open>k\<close> keep the order they had: the sort is stable.\<close>

lemma filter_insert_by_same:
  assumes "\<not> after x k" "\<not> after k x"
  shows "filter (\<lambda>y. \<not> after y k \<and> \<not> after k y) (insert_by after x xs) =
         x # filter (\<lambda>y. \<not> after y k \<and> \<not> after k y) xs"
proof (induction xs)
  case (Cons y ys)
  have "after x y \<Longrightarrow> \<not> (\<not> after y k \<and> \<not> after k y)"
    using assms not_after_trans by blast
  then show ?case using Cons assms by auto
qed (use assms in simp)

lemma sort_by_stable:
  "filter (\<lambda>y. \<not> after y k \<and> \<not> after k y) (sort_by after xs) =
   filter (\<lambda>y. \<not> after y k \<and> \<not> after k y) xs"
proof (induction xs)
  case (Cons x xs)
  then show ?case
    by (cases "\<not> after x k \<and> \<not> after k x") (auto simp: filter_insert_by_same filter_insert_by_other)
qed simp

end

section \<open>Responses\<close>

lemma resp_ok_iff: "resp_ok r \<longleftrightarrow> (\<exists>st b. r = Response st b \<and> 200 \<le> st \<and> st \<le> 299)"
  by (cases r) auto

section \<open>Refinement\<close>

text \<open>
  The contract most components of the client are verified against: concrete steps on the state of
  the program, an invariant they keep, and an abstraction under which each is a step of a simple
  specification. Whole runs then refine runs of the specification.
\<close>

locale functional_refinement =
  fixes inv :: "'s \<Rightarrow> bool"
    and abs :: "'s \<Rightarrow> 'v"
    and step :: "'op \<Rightarrow> 's \<Rightarrow> 's"
    and spec :: "'op \<Rightarrow> 'v \<Rightarrow> 'v"
  assumes inv_step: "inv s \<Longrightarrow> inv (step x s)"
    and abs_step: "inv s \<Longrightarrow> abs (step x s) = spec x (abs s)"
begin

lemma inv_run: "inv s \<Longrightarrow> inv (fold step xs s)"
  by (induction xs arbitrary: s) (auto simp: inv_step)

lemma run_refines: "inv s \<Longrightarrow> abs (fold step xs s) = fold spec xs (abs s)"
  by (induction xs arbitrary: s) (auto simp: inv_step abs_step)

end

text \<open>An invariant of a step function, lifted to runs.\<close>

locale step_invariant =
  fixes inv :: "'s \<Rightarrow> bool"
    and step :: "'op \<Rightarrow> 's \<Rightarrow> 's"
  assumes inv_step: "inv s \<Longrightarrow> inv (step x s)"
begin

lemma inv_run: "inv s \<Longrightarrow> inv (fold step xs s)"
  by (induction xs arbitrary: s) (auto simp: inv_step)

end

sublocale functional_refinement \<subseteq> si: step_invariant inv step
  by unfold_locales (rule inv_step)

end
