(* ===== verification/Js_Uri.thy ===== *)
theory Js_Uri
  imports Js_Prelude
begin

text \<open>
  The URI component codec of the language, \<open>encodeURIComponent\<close> and \<open>decodeURIComponent\<close>, on the
  strings of \<open>Js_Prelude\<close>: percent-encoded UTF-8, with the error of a malformed sequence
  (\<open>URIError\<close>) as \<^const>\<open>None\<close>. The client uses it for the value of the CSRF cookie and for the
  destination a login redirect carries. The main fact is the round trip
  \<open>decode_encode_uri_component\<close>.
\<close>

section \<open>Code points and UTF-8\<close>

definition code_point :: "char \<Rightarrow> nat" where
  "code_point c =
     (if c = em_dash then 0x2014 else if c = ellipsis then 0x2026 else if c = bullet then 0x2022
      else of_char c)"

definition of_code_point :: "nat \<Rightarrow> char option" where
  "of_code_point n =
     (if n = 0x2014 then Some em_dash else if n = 0x2026 then Some ellipsis
      else if n = 0x2022 then Some bullet
      else if n < 256 \<and> n \<notin> {0x97, 0x85, 0x95} then Some (char_of n) else None)"

definition utf8 :: "nat \<Rightarrow> nat list" where
  "utf8 n =
     (if n < 128 then [n]
      else if n < 2048 then [192 + n div 64, 128 + n mod 64]
      else [224 + n div 4096, 128 + n div 64 mod 64, 128 + n mod 64])"

definition hex_upper :: "nat \<Rightarrow> char" where
  "hex_upper n = char_of (if n < 10 then 48 + n else 55 + n)"

definition hex_val :: "char \<Rightarrow> nat option" where
  "hex_val c =
     (let n = (of_char c :: nat) in
      if 48 \<le> n \<and> n \<le> 57 then Some (n - 48)
      else if 65 \<le> n \<and> n \<le> 70 then Some (n - 55)
      else if 97 \<le> n \<and> n \<le> 102 then Some (n - 87)
      else None)"

section \<open>Encoding\<close>

definition unreserved :: "char \<Rightarrow> bool" where
  "unreserved c \<longleftrightarrow>
     (let n = (of_char c :: nat) in
      (65 \<le> n \<and> n \<le> 90) \<or> (97 \<le> n \<and> n \<le> 122) \<or> (48 \<le> n \<and> n \<le> 57)) \<or>
     c \<in> {CHR ''-'', CHR ''_'', CHR ''.'', CHR ''!'', CHR ''~'', CHR ''*'', CHR 0x27, CHR ''('', CHR '')''}"

definition pct :: "nat \<Rightarrow> jsstr" where
  "pct b = [CHR ''%'', hex_upper (b div 16), hex_upper (b mod 16)]"

definition encode_char :: "char \<Rightarrow> jsstr" where
  "encode_char c = (if unreserved c then [c] else concat (map pct (utf8 (code_point c))))"

definition encode_uri_component :: "jsstr \<Rightarrow> jsstr" where
  "encode_uri_component s = concat (map encode_char s)"

section \<open>Decoding\<close>

fun read_pct :: "jsstr \<Rightarrow> (nat \<times> jsstr) option" where
  "read_pct (p # h # l # r) =
     (if p = CHR ''%'' then
        (case (hex_val h, hex_val l) of
           (Some a, Some b) \<Rightarrow> Some (16 * a + b, r)
         | _ \<Rightarrow> None)
      else None)"
| "read_pct _ = None"

definition read_cont :: "jsstr \<Rightarrow> (nat \<times> jsstr) option" where
  "read_cont s =
     (case read_pct s of
        Some (b, r) \<Rightarrow> if 128 \<le> b \<and> b < 192 then Some (b - 128, r) else None
      | None \<Rightarrow> None)"

definition emit :: "nat \<Rightarrow> jsstr \<Rightarrow> (char \<times> jsstr) option" where
  "emit n r = map_option (\<lambda>c. (c, r)) (of_code_point n)"

definition decode_rest :: "nat \<Rightarrow> jsstr \<Rightarrow> (char \<times> jsstr) option" where
  "decode_rest b r =
     (if b < 128 then emit b r
      else if 194 \<le> b \<and> b < 224 then
        (case read_cont r of
           None \<Rightarrow> None
         | Some (c1, r1) \<Rightarrow> emit ((b - 192) * 64 + c1) r1)
      else if 224 \<le> b \<and> b < 240 then
        (case read_cont r of
           None \<Rightarrow> None
         | Some (c1, r1) \<Rightarrow>
             (case read_cont r1 of
                None \<Rightarrow> None
              | Some (c2, r2) \<Rightarrow>
                  if (b - 224) * 4096 + c1 * 64 + c2 < 2048 then None
                  else emit ((b - 224) * 4096 + c1 * 64 + c2) r2))
      else None)"

definition decode_seq :: "jsstr \<Rightarrow> (char \<times> jsstr) option" where
  "decode_seq s = (case read_pct s of None \<Rightarrow> None | Some (b, r) \<Rightarrow> decode_rest b r)"

lemma read_pct_shorter: "read_pct s = Some (b, r) \<Longrightarrow> length r < length s"
  by (cases s rule: read_pct.cases) (auto split: if_splits option.splits)

lemma read_cont_shorter: "read_cont s = Some (b, r) \<Longrightarrow> length r < length s"
  by (auto simp: read_cont_def split: option.splits if_splits dest: read_pct_shorter)

lemma emit_rest: "emit n r = Some (c, t) \<Longrightarrow> t = r"
  by (auto simp: emit_def)

lemma decode_rest_shorter: "decode_rest b r = Some (c, t) \<Longrightarrow> length t \<le> length r"
  unfolding decode_rest_def
  by (auto split: option.split_asm if_split_asm prod.split_asm
      dest!: read_cont_shorter emit_rest)

lemma decode_seq_shorter: "decode_seq s = Some (c, r) \<Longrightarrow> length r < length s"
  unfolding decode_seq_def
  by (auto split: option.split_asm prod.split_asm dest!: read_pct_shorter decode_rest_shorter)

function decode_uri_component :: "jsstr \<Rightarrow> jsstr option" where
  "decode_uri_component [] = Some []"
| "decode_uri_component (c # cs) =
     (if c \<noteq> CHR ''%'' then map_option ((#) c) (decode_uri_component cs)
      else (case decode_seq (c # cs) of
              None \<Rightarrow> None
            | Some (d, r) \<Rightarrow> map_option ((#) d) (decode_uri_component r)))"
  by pat_completeness auto
termination
  by (relation "measure length") (auto dest: decode_seq_shorter)

section \<open>Round trip\<close>

lemma hex_val_upper: "n < 16 \<Longrightarrow> hex_val (hex_upper n) = Some n"
  by (auto simp: hex_val_def hex_upper_def Let_def)

lemma read_pct_pct: "b < 256 \<Longrightarrow> read_pct (pct b @ t) = Some (b, t)"
  by (simp add: pct_def hex_val_upper)

lemma read_cont_pct: "x < 64 \<Longrightarrow> read_cont (pct (128 + x) @ t) = Some (x, t)"
  by (simp add: read_cont_def read_pct_pct)

text \<open>Decoding the UTF-8 bytes of a code point of the basic plane gives that code point back.\<close>

lemma decode_seq_utf8:
  assumes "n < 65536"
  shows "decode_seq (concat (map pct (utf8 n)) @ t) = emit n t"
proof -
  consider "n < 128" | "128 \<le> n" "n < 2048" | "2048 \<le> n" by linarith
  then show ?thesis
  proof cases
    case 1
    then show ?thesis by (simp add: utf8_def decode_seq_def decode_rest_def read_pct_pct)
  next
    case 2
    then have d: "192 + n div 64 < 224" "194 \<le> 192 + n div 64" by auto
    then have "read_pct (pct (192 + n div 64) @ u) = Some (192 + n div 64, u)" for u
      by (simp add: read_pct_pct)
    then show ?thesis using 2 d
      by (simp add: utf8_def decode_seq_def decode_rest_def read_cont_pct)
  next
    case 3
    have d: "224 + n div 4096 < 240" using assms by auto
    then have r: "read_pct (pct (224 + n div 4096) @ u) = Some (224 + n div 4096, u)" for u
      by (simp add: read_pct_pct)
    have e: "n div 4096 * 4096 + n div 64 mod 64 * 64 + n mod 64 = n"
    proof -
      have "n div 4096 = n div 64 div 64" using div_mult2_eq [of n 64 64] by simp
      moreover have "n div 64 div 64 * 64 + n div 64 mod 64 = n div 64" by (rule div_mult_mod_eq)
      moreover have "n div 64 * 64 + n mod 64 = n" by (rule div_mult_mod_eq)
      ultimately show ?thesis by linarith
    qed
    show ?thesis using 3 d r e
      by (simp add: utf8_def decode_seq_def decode_rest_def read_cont_pct)
  qed
qed

lemma of_code_point_code_point: "of_code_point (code_point c) = Some c"
proof -
  have "(of_char c :: nat) < 256" by simp
  moreover from this have "(of_char c :: nat) \<noteq> 0x2022" "(of_char c :: nat) \<noteq> 0x2026"
    "(of_char c :: nat) \<noteq> 0x2014" by linarith+
  moreover have "(of_char c = (0x97::nat)) = (c = em_dash)" "(of_char c = (0x85::nat)) = (c = ellipsis)"
    "(of_char c = (0x95::nat)) = (c = bullet)"
    using of_char_eq_iff [of c em_dash, where 'a = nat] of_char_eq_iff [of c ellipsis, where 'a = nat]
      of_char_eq_iff [of c bullet, where 'a = nat] by simp_all
  ultimately show ?thesis by (auto simp: of_code_point_def code_point_def)
qed

lemma code_point_bound: "code_point c < 65536"
  using nat_of_char_less_256 [of c, THEN less_trans, of 65536] by (simp add: code_point_def)

lemma decode_seq_encode_char:
  "\<not> unreserved c \<Longrightarrow> decode_seq (encode_char c @ t) = Some (c, t)"
  by (simp add: encode_char_def decode_seq_utf8 code_point_bound emit_def of_code_point_code_point)

lemma encode_char_pct: "\<not> unreserved c \<Longrightarrow> \<exists>cs. encode_char c = CHR ''%'' # cs"
  by (auto simp: encode_char_def utf8_def pct_def)

lemma unreserved_not_pct: "unreserved c \<Longrightarrow> c \<noteq> CHR ''%''"
  by (auto simp: unreserved_def)

lemma decode_encode_char:
  "decode_uri_component (encode_char c @ t) = map_option ((#) c) (decode_uri_component t)"
proof (cases "unreserved c")
  case True
  then show ?thesis by (simp add: encode_char_def unreserved_not_pct)
next
  case False
  then obtain cs where e: "encode_char c = CHR ''%'' # cs" using encode_char_pct by blast
  have "decode_seq (encode_char c @ t) = Some (c, t)"
    by (rule decode_seq_encode_char [OF False])
  then show ?thesis using e by simp
qed

lemma decode_encode_uri_component: "decode_uri_component (encode_uri_component s) = Some s"
  by (induction s) (simp_all add: encode_uri_component_def decode_encode_char)

section \<open>Encoded text is safe inside a cookie or a query string\<close>

definition uri_safe :: "char \<Rightarrow> bool" where
  "uri_safe c \<longleftrightarrow> unreserved c \<or> c = CHR ''%''"

lemma hex_upper_unreserved: "n < 16 \<Longrightarrow> unreserved (hex_upper n)"
  by (auto simp: hex_upper_def unreserved_def)

lemma utf8_bound: "b \<in> set (utf8 n) \<Longrightarrow> n < 65536 \<Longrightarrow> b < 256"
  by (auto simp: utf8_def split: if_splits)

lemma encode_char_safe: "x \<in> set (encode_char c) \<Longrightarrow> uri_safe x"
proof (cases "unreserved c")
  case False
  assume "x \<in> set (encode_char c)"
  with False obtain b where b: "b \<in> set (utf8 (code_point c))" "x \<in> set (pct b)"
    by (auto simp: encode_char_def)
  then have "b < 256" using utf8_bound code_point_bound by blast
  then have "b div 16 < 16" "b mod 16 < 16" by auto
  with b show ?thesis by (auto simp: pct_def uri_safe_def hex_upper_unreserved)
qed (auto simp: encode_char_def uri_safe_def)

lemma encode_uri_component_safe: "x \<in> set (encode_uri_component s) \<Longrightarrow> uri_safe x"
  by (auto simp: encode_uri_component_def dest: encode_char_safe)

lemma uri_safe_separators:
  "\<not> uri_safe (CHR '';'')" "\<not> uri_safe (CHR ''='')" "\<not> uri_safe (CHR ''&'')" "\<not> uri_safe (CHR '' '')"
  "\<not> uri_safe (CHR ''?'')" "\<not> uri_safe (CHR ''#'')" "\<not> uri_safe (CHR ''/'')"
  by (auto simp: uri_safe_def unreserved_def)

lemma encode_uri_component_unreserved: "\<forall>c\<in>set s. unreserved c \<Longrightarrow> encode_uri_component s = s"
  by (induction s) (auto simp: encode_uri_component_def encode_char_def)

end
