(* ===== verification/Browser.thy ===== *)
theory Browser
  imports Js_Uri
begin

text \<open>
  The browser as the client sees it: tab-scoped and persistent key/value storage (either of which
  may throw), the cookies JavaScript can read, the clock, and the requests sent so far. The platform
  parts follow their documented behaviour: the setter of \<open>document.cookie\<close> parses one
  \<open>Set-Cookie\<close>-style line, the getter prints the live cookies as \<open>n=v\<close> pairs joined by \<open>"; "\<close>, and
  the client finds a cookie in that text with the regular expression \<open>(?:^|; )KEY=([^;]*)\<close>, here
  \<open>match_cookie\<close>. The lemma group at the end shows that this text-level store behaves as a
  dictionary; the locale \<open>cookie_store\<close> states that contract and is interpreted on it.
\<close>

section \<open>State\<close>

record cookie =
  ck_value :: jsstr
  ck_expires :: "int option"
  ck_samesite :: jsstr
  ck_secure :: bool

record http_request =
  rq_url :: jsstr
  rq_method :: jsstr
  rq_headers :: "(jsstr \<times> jsstr) list"
  rq_body :: "jsstr option"
  rq_credentials :: bool

record browser =
  has_window :: bool
  https :: bool
  now :: int
  session_ok :: bool
  session_write_ok :: bool
  local_ok :: bool
  session_store :: "jsstr \<rightharpoonup> jsstr"
  local_store :: "jsstr \<rightharpoonup> jsstr"
  jar :: "(jsstr \<times> cookie) list"
  sent :: "http_request list"

text \<open>Errors the modelled code can throw, as values.\<close>

datatype js_error = URIError | StorageError | JsError jsstr

text \<open>The build-time environment of the client.\<close>

record env =
  API_URL :: "jsstr option"
  API_INTERNAL_URL :: "jsstr option"
  SSO_SLUG :: "jsstr option"
  CLERK_KEY :: "jsstr option"

definition api_base :: "env \<Rightarrow> jsstr" where
  "api_base e = nullish (API_URL e) ''http://localhost:8000''"

section \<open>Storage\<close>

text \<open>
  On the server there is no window and no storage object, so an access throws there too; in the
  browser it throws when storage is blocked, and a write also when the quota is used up.
\<close>

definition session_get :: "jsstr \<Rightarrow> browser \<Rightarrow> js_error + jsstr option" where
  "session_get k b = (if has_window b \<and> session_ok b then Inr (session_store b k) else Inl StorageError)"

definition session_set :: "jsstr \<Rightarrow> jsstr \<Rightarrow> browser \<Rightarrow> js_error + browser" where
  "session_set k v b =
     (if has_window b \<and> session_ok b \<and> session_write_ok b then Inr (b\<lparr>session_store := (session_store b)(k \<mapsto> v)\<rparr>)
      else Inl StorageError)"

definition session_remove :: "jsstr \<Rightarrow> browser \<Rightarrow> js_error + browser" where
  "session_remove k b =
     (if has_window b \<and> session_ok b then Inr (b\<lparr>session_store := (session_store b)(k := None)\<rparr>)
      else Inl StorageError)"

definition local_get :: "jsstr \<Rightarrow> browser \<Rightarrow> js_error + jsstr option" where
  "local_get k b = (if has_window b \<and> local_ok b then Inr (local_store b k) else Inl StorageError)"

definition local_remove :: "jsstr \<Rightarrow> browser \<Rightarrow> js_error + browser" where
  "local_remove k b =
     (if has_window b \<and> local_ok b then Inr (b\<lparr>local_store := (local_store b)(k := None)\<rparr>)
      else Inl StorageError)"

text \<open>\<open>try { b = op(b) } catch { }\<close>: a throwing operation leaves the state as it was.\<close>

definition try_op :: "(browser \<Rightarrow> js_error + browser) \<Rightarrow> browser \<Rightarrow> browser" where
  "try_op f b = (case f b of Inl _ \<Rightarrow> b | Inr b' \<Rightarrow> b')"

section \<open>Cookies\<close>

definition cookie_attr :: "jsstr \<Rightarrow> jsstr \<times> jsstr" where
  "cookie_attr s =
     (case index_of (CHR ''='') s of
        None \<Rightarrow> (to_lower (trim s), [])
      | Some i \<Rightarrow> (to_lower (trim (take i s)), trim (drop (Suc i) s)))"

definition cookie_pair :: "jsstr \<Rightarrow> jsstr \<times> jsstr" where
  "cookie_pair s =
     (case index_of (CHR ''='') s of
        None \<Rightarrow> ([], trim s)
      | Some i \<Rightarrow> (trim (take i s), trim (drop (Suc i) s)))"

definition drop_cookie :: "jsstr \<Rightarrow> browser \<Rightarrow> browser" where
  "drop_cookie n b = b\<lparr>jar := filter (\<lambda>p. fst p \<noteq> n) (jar b)\<rparr>"

definition put_cookie :: "jsstr \<Rightarrow> cookie \<Rightarrow> browser \<Rightarrow> browser" where
  "put_cookie n c b = b\<lparr>jar := assoc_set n c (jar b)\<rparr>"

text \<open>The setter of \<open>document.cookie\<close>.\<close>

definition set_cookie :: "jsstr \<Rightarrow> browser \<Rightarrow> browser" where
  "set_cookie s b =
     (case split_on (CHR '';'') s of
        [] \<Rightarrow> b
      | p # attrs \<Rightarrow>
          let (n, v) = cookie_pair p;
              as = map cookie_attr attrs;
              secure = ''secure'' \<in> fst ` set as;
              ss = nullish (map_of as ''samesite'') ''Lax'';
              age = Option.bind (map_of as ''max-age'') parse_int
          in if secure \<and> \<not> https b then b
             else (case age of
                     None \<Rightarrow>
                       put_cookie n \<lparr>ck_value = v, ck_expires = None, ck_samesite = ss, ck_secure = secure\<rparr> b
                   | Some m \<Rightarrow>
                       if m \<le> 0 then drop_cookie n b
                       else put_cookie n
                              \<lparr>ck_value = v, ck_expires = Some (now b + m), ck_samesite = ss, ck_secure = secure\<rparr> b))"

definition live :: "int \<Rightarrow> cookie \<Rightarrow> bool" where
  "live t c \<longleftrightarrow> (case ck_expires c of None \<Rightarrow> True | Some e \<Rightarrow> t < e)"

definition live_cookies :: "browser \<Rightarrow> (jsstr \<times> jsstr) list" where
  "live_cookies b = map (\<lambda>(n, c). (n, ck_value c)) (filter (\<lambda>(n, c). live (now b) c) (jar b))"

definition pair_text :: "jsstr \<times> jsstr \<Rightarrow> jsstr" where
  "pair_text p = fst p @ ''='' @ snd p"

text \<open>The getter of \<open>document.cookie\<close>.\<close>

definition cookie_text :: "browser \<Rightarrow> jsstr" where
  "cookie_text b = join ''; '' (map pair_text (live_cookies b))"

text \<open>\<open>text.match(new RegExp("(?:^|; )" + key + "=([^;]*)"))\<close>, leftmost match, group 1.\<close>

definition match_here :: "jsstr \<Rightarrow> jsstr \<Rightarrow> jsstr option" where
  "match_here key s =
     (if prefix (key @ ''='') s then Some (takeWhile (\<lambda>c. c \<noteq> CHR '';'') (drop (Suc (length key)) s))
      else None)"

fun match_sep :: "jsstr \<Rightarrow> jsstr \<Rightarrow> jsstr option" where
  "match_sep key [] = None"
| "match_sep key (c # cs) =
     (if prefix ''; '' (c # cs) then
        (case match_here key (drop 2 (c # cs)) of Some v \<Rightarrow> Some v | None \<Rightarrow> match_sep key cs)
      else match_sep key cs)"

definition match_cookie :: "jsstr \<Rightarrow> jsstr \<Rightarrow> jsstr option" where
  "match_cookie key s = (case match_here key s of Some v \<Rightarrow> Some v | None \<Rightarrow> match_sep key s)"

section \<open>Network\<close>

definition send :: "http_request \<Rightarrow> browser \<Rightarrow> browser" where
  "send r b = b\<lparr>sent := sent b @ [r]\<rparr>"

section \<open>Cookie text as a dictionary\<close>

text \<open>
  Names and values the lemmas are about: a name is not empty and has no separator, equals sign or
  white space; a value has no separator.
\<close>

definition name_ok :: "jsstr \<Rightarrow> bool" where
  "name_ok n \<longleftrightarrow> n \<noteq> [] \<and> CHR '';'' \<notin> set n \<and> CHR ''='' \<notin> set n \<and> (\<forall>c\<in>set n. \<not> is_space c)"

definition value_ok :: "jsstr \<Rightarrow> bool" where
  "value_ok v \<longleftrightarrow> CHR '';'' \<notin> set v"

definition pairs_ok :: "(jsstr \<times> jsstr) list \<Rightarrow> bool" where
  "pairs_ok ps \<longleftrightarrow> (\<forall>(n, v)\<in>set ps. name_ok n \<and> value_ok v)"

definition jar_ok :: "browser \<Rightarrow> bool" where
  "jar_ok b \<longleftrightarrow> distinct (map fst (jar b)) \<and> (\<forall>(n, c)\<in>set (jar b). name_ok n \<and> value_ok (ck_value c))"

lemma prefix_key_eq:
  assumes "CHR ''='' \<notin> set k" "CHR ''='' \<notin> set n"
  shows "prefix (k @ ''='') (n @ ''='' @ r) \<longleftrightarrow> k = n"
proof
  assume "prefix (k @ ''='') (n @ ''='' @ r)"
  then obtain z where "k @ CHR ''='' # z = n @ CHR ''='' # r"
    by (auto simp: prefix_def)
  then have "index_of (CHR ''='') (k @ CHR ''='' # z) = index_of (CHR ''='') (n @ CHR ''='' # r)"
    by simp
  then have "length k = length n" by (simp add: index_of_append assms)
  with \<open>k @ CHR ''='' # z = n @ CHR ''='' # r\<close> show "k = n" by simp
qed (auto simp: prefix_def)

lemma match_sep_skip: "CHR '';'' \<notin> set a \<Longrightarrow> match_sep k (a @ s) = match_sep k s"
  by (induction a) auto

lemma match_sep_sep:
  "match_sep k (''; '' @ s) = (case match_here k s of Some v \<Rightarrow> Some v | None \<Rightarrow> match_sep k s)"
  by (simp split: option.split)

lemma match_here_pair:
  assumes "name_ok n" "name_ok k" "value_ok v" "r = [] \<or> (\<exists>t. r = CHR '';'' # t)"
  shows "match_here k (pair_text (n, v) @ r) = (if k = n then Some v else None)"
proof -
  have "takeWhile (\<lambda>c. c \<noteq> CHR '';'') (v @ r) = v"
  proof -
    have "takeWhile (\<lambda>c. c \<noteq> CHR '';'') (v @ r) = v @ takeWhile (\<lambda>c. c \<noteq> CHR '';'') r"
      by (rule takeWhile_all_append) (use assms(3) in \<open>auto simp: value_ok_def\<close>)
    then show ?thesis using assms(4) by auto
  qed
  moreover have "prefix (k @ ''='') (n @ ''='' @ v @ r) \<longleftrightarrow> k = n"
    using assms by (intro prefix_key_eq) (auto simp: name_ok_def)
  ultimately show ?thesis by (simp add: match_here_def pair_text_def)
qed

lemma pair_text_no_sep: "name_ok n \<Longrightarrow> value_ok v \<Longrightarrow> CHR '';'' \<notin> set (pair_text (n, v))"
  by (auto simp: pair_text_def name_ok_def value_ok_def)

lemma match_cookie_pairs:
  assumes "pairs_ok ps" "name_ok k"
  shows "match_cookie k (join ''; '' (map pair_text ps)) = map_of ps k"
  using assms(1)
proof (induction ps)
  case Nil
  then show ?case by (simp add: match_cookie_def match_here_def)
next
  case (Cons p ps)
  obtain n v where p: "p = (n, v)" by fastforce
  from Cons.prems p have ok: "name_ok n" "value_ok v" and ps: "pairs_ok ps"
    by (auto simp: pairs_ok_def)
  show ?case
  proof (cases ps)
    case Nil
    then show ?thesis
      using match_here_pair [OF ok(1) assms(2) ok(2), of "[]"]
        match_sep_skip [OF pair_text_no_sep [OF ok], of k "[]"] p
      by (simp add: match_cookie_def)
  next
    case (Cons q qs)
    let ?r = "join ''; '' (map pair_text ps)"
    have t: "join ''; '' (map pair_text (p # ps)) = pair_text (n, v) @ ''; '' @ ?r"
      using Cons p by simp
    have "match_here k (pair_text (n, v) @ ''; '' @ ?r) = (if k = n then Some v else None)"
      by (rule match_here_pair [OF ok(1) assms(2) ok(2)]) simp
    moreover have "match_sep k (pair_text (n, v) @ ''; '' @ ?r) = match_cookie k ?r"
      by (simp only: match_sep_skip [OF pair_text_no_sep [OF ok]] match_sep_sep match_cookie_def)
    ultimately show ?thesis
      using Cons.IH [OF ps] t p by (simp add: match_cookie_def)
  qed
qed

definition read_cookie :: "jsstr \<Rightarrow> browser \<Rightarrow> jsstr option" where
  "read_cookie k b = map_of (live_cookies b) k"

lemma jar_ok_pairs: "jar_ok b \<Longrightarrow> pairs_ok (live_cookies b)"
  by (auto simp: jar_ok_def pairs_ok_def live_cookies_def)

lemma match_cookie_text: "jar_ok b \<Longrightarrow> name_ok k \<Longrightarrow> match_cookie k (cookie_text b) = read_cookie k b"
  by (simp add: cookie_text_def read_cookie_def match_cookie_pairs jar_ok_pairs)

lemma map_of_live:
  "map_of (map (\<lambda>(n, c). (n, ck_value c)) (filter (\<lambda>(n, c). live t c) xs)) k =
   (if distinct (map fst xs)
    then (case map_of xs k of Some c \<Rightarrow> if live t c then Some (ck_value c) else None | None \<Rightarrow> None)
    else map_of (map (\<lambda>(n, c). (n, ck_value c)) (filter (\<lambda>(n, c). live t c) xs)) k)"
proof (cases "distinct (map fst xs)")
  case True
  then show ?thesis
  proof (induction xs)
    case (Cons p xs)
    obtain n c where p: "p = (n, c)" by fastforce
    show ?case
    proof (cases "n = k")
      case True
      have "map_of xs k = None" using Cons.prems p True by (auto simp: map_of_eq_None_iff)
      then show ?thesis using Cons p True by auto
    next
      case False
      then show ?thesis using Cons p by auto
    qed
  qed simp
qed simp

lemma read_cookie_jar:
  "jar_ok b \<Longrightarrow> read_cookie k b =
     (case map_of (jar b) k of Some c \<Rightarrow> if live (now b) c then Some (ck_value c) else None | None \<Rightarrow> None)"
  unfolding read_cookie_def live_cookies_def by (subst map_of_live) (simp add: jar_ok_def)

lemma jar_ok_put:
  "jar_ok b \<Longrightarrow> name_ok n \<Longrightarrow> value_ok (ck_value c) \<Longrightarrow> jar_ok (put_cookie n c b)"
  using set_assoc_set_subset [of n c "jar b"]
  by (fastforce simp: jar_ok_def put_cookie_def distinct_assoc_set)

lemma jar_ok_drop: "jar_ok b \<Longrightarrow> jar_ok (drop_cookie n b)"
  by (auto simp: jar_ok_def drop_cookie_def distinct_map_filter)

lemma map_of_filter_key: "map_of (filter (\<lambda>p. fst p \<noteq> n) xs) k = (if k = n then None else map_of xs k)"
  by (induction xs) auto

lemma read_put:
  assumes "jar_ok b" "name_ok n" "value_ok (ck_value c)"
  shows "read_cookie k (put_cookie n c b) =
    (if k = n then (if live (now b) c then Some (ck_value c) else None) else read_cookie k b)"
proof -
  have "jar_ok (put_cookie n c b)" using assms by (rule jar_ok_put)
  then show ?thesis
    using assms(1) by (simp add: read_cookie_jar map_of_assoc_set put_cookie_def split: option.split)
qed

lemma read_drop:
  "jar_ok b \<Longrightarrow> read_cookie k (drop_cookie n b) = (if k = n then None else read_cookie k b)"
  by (simp add: read_cookie_jar jar_ok_drop) (simp add: drop_cookie_def map_of_filter_key split: option.split)

section \<open>The lines the client writes\<close>

text \<open>
  Every cookie line of the client has the form \<open>n=v; path=/; max-age=m; SameSite=ss[; Secure]\<close>. The
  setter splits it, reads the attributes, and stores or drops the one cookie it names.
\<close>

definition cookie_line :: "jsstr \<Rightarrow> jsstr \<Rightarrow> nat \<Rightarrow> jsstr \<Rightarrow> bool \<Rightarrow> jsstr" where
  "cookie_line n v m ss sec =
     n @ ''='' @ v @ ''; path=/; max-age='' @ nat_str m @ ''; SameSite='' @ ss @
     (if sec then ''; Secure'' else [])"

lemma nat_str_no_space: "c \<in> set (nat_str m) \<Longrightarrow> \<not> is_space c"
  by (auto dest: nat_str_digits is_digit_not_space)

lemma nat_str_trim [simp]: "trim (nat_str m) = nat_str m"
  by (rule trim_no_space) (auto dest: nat_str_no_space)

lemma nat_str_no_sep: "CHR '';'' \<notin> set (nat_str m)"
  by (auto dest!: nat_str_digits simp: is_digit_def)

lemma cookie_attr_age: "cookie_attr ('' max-age='' @ nat_str m) = (''max-age'', nat_str m)"
proof -
  have "trim '' max-age'' = ''max-age''" by (simp add: trim_def is_space_def)
  moreover have "to_lower ''max-age'' = ''max-age''" by (simp add: to_lower_def to_lower_char_def)
  ultimately show ?thesis by (simp add: cookie_attr_def)
qed

lemma cookie_attr_consts:
  "cookie_attr '' path=/'' = (''path'', ''/'')"
  "cookie_attr '' SameSite=Lax'' = (''samesite'', ''Lax'')"
  "cookie_attr '' SameSite=Strict'' = (''samesite'', ''Strict'')"
  "cookie_attr '' Secure'' = (''secure'', [])"
  by code_simp+

lemma split_cookie_line:
  assumes "name_ok n" "value_ok v" "ss \<in> {''Lax'', ''Strict''}"
  shows "split_on (CHR '';'') (cookie_line n v m ss sec) =
    [n @ ''='' @ v, '' path=/'', '' max-age='' @ nat_str m, '' SameSite='' @ ss] @
    (if sec then ['' Secure''] else [])"
    (is "_ = ?ps")
proof -
  have line: "cookie_line n v m ss sec = join [CHR '';''] ?ps"
    by (simp add: cookie_line_def)
  have ne: "?ps \<noteq> []" by simp
  have pieces: "\<forall>x\<in>set ?ps. CHR '';'' \<notin> set x"
    using assms nat_str_no_sep [of m] by (auto simp: name_ok_def value_ok_def)
  show ?thesis unfolding line by (rule split_on_join [OF ne pieces])
qed

lemma cookie_pair_line:
  assumes "name_ok n" "trim v = v"
  shows "cookie_pair (n @ ''='' @ v) = (n, v)"
  using assms by (simp add: cookie_pair_def index_of_append name_ok_def trim_no_space)

lemma set_cookie_line:
  assumes "name_ok n" "value_ok v" "trim v = v" "ss \<in> {''Lax'', ''Strict''}" "sec \<longrightarrow> https b"
  shows "set_cookie (cookie_line n v m ss sec) b =
    (if m = 0 then drop_cookie n b
     else put_cookie n \<lparr>ck_value = v, ck_expires = Some (now b + int m), ck_samesite = ss, ck_secure = sec\<rparr> b)"
proof -
  have attrs: "map cookie_attr ['' path=/'', '' max-age='' @ nat_str m, '' SameSite='' @ ss] =
     [(''path'', ''/''), (''max-age'', nat_str m), (''samesite'', ss)]"
    using assms(4) by (auto simp: cookie_attr_consts cookie_attr_age [simplified])
  show ?thesis
    using assms attrs
    by (simp add: set_cookie_def split_cookie_line [OF assms(1,2,4)] cookie_pair_line [simplified]
        cookie_attr_consts parse_int_nat_str)
qed

section \<open>The contract of the cookie store\<close>

text \<open>
  What the session storage relies on: reading back a cookie that was just written, forgetting one
  that was expired, other cookies untouched, and the store staying well-formed.
\<close>

locale cookie_store =
  fixes store_w :: "jsstr \<Rightarrow> jsstr \<Rightarrow> nat \<Rightarrow> 's \<Rightarrow> 's"
    and store_r :: "jsstr \<Rightarrow> 's \<Rightarrow> jsstr option"
    and wf :: "'s \<Rightarrow> bool"
    and nameP :: "jsstr \<Rightarrow> bool"
    and valueP :: "jsstr \<Rightarrow> bool"
  assumes wf_write: "wf s \<Longrightarrow> nameP n \<Longrightarrow> valueP v \<Longrightarrow> wf (store_w n v m s)"
    and read_write: "wf s \<Longrightarrow> nameP n \<Longrightarrow> valueP v \<Longrightarrow>
      store_r k (store_w n v m s) = (if k = n then (if m = 0 then None else Some v) else store_r k s)"
begin

lemma write_read_same: "wf s \<Longrightarrow> nameP n \<Longrightarrow> valueP v \<Longrightarrow> 0 < m \<Longrightarrow> store_r n (store_w n v m s) = Some v"
  by (simp add: read_write)

lemma expire_read_same: "wf s \<Longrightarrow> nameP n \<Longrightarrow> valueP v \<Longrightarrow> store_r n (store_w n v 0 s) = None"
  by (simp add: read_write)

lemma write_commute:
  assumes "wf s" "nameP n" "nameP n'" "valueP v" "valueP v'" "n \<noteq> n'"
  shows "store_r k (store_w n v m (store_w n' v' m' s)) = store_r k (store_w n' v' m' (store_w n v m s))"
  using assms by (auto simp: read_write wf_write)

end

definition write_lax :: "jsstr \<Rightarrow> jsstr \<Rightarrow> nat \<Rightarrow> browser \<Rightarrow> browser" where
  "write_lax n v m b = set_cookie (cookie_line n v m ''Lax'' (https b)) b"

definition write_strict :: "jsstr \<Rightarrow> jsstr \<Rightarrow> nat \<Rightarrow> browser \<Rightarrow> browser" where
  "write_strict n v m b = set_cookie (cookie_line n v m ''Strict'' (https b)) b"

definition trimmed_value :: "jsstr \<Rightarrow> bool" where
  "trimmed_value v \<longleftrightarrow> value_ok v \<and> trim v = v"

lemma cookie_store_write:
  assumes "jar_ok b" "name_ok n" "trimmed_value v" "ss \<in> {''Lax'', ''Strict''}"
  shows "jar_ok (set_cookie (cookie_line n v m ss (https b)) b)"
    and "read_cookie k (set_cookie (cookie_line n v m ss (https b)) b) =
      (if k = n then (if m = 0 then None else Some v) else read_cookie k b)"
  using assms
  by (auto simp: set_cookie_line trimmed_value_def read_put read_drop jar_ok_put jar_ok_drop live_def)

interpretation lax: cookie_store write_lax read_cookie jar_ok name_ok trimmed_value
  by unfold_locales (simp_all add: write_lax_def cookie_store_write)

interpretation strict: cookie_store write_strict read_cookie jar_ok name_ok trimmed_value
  by unfold_locales (simp_all add: write_strict_def cookie_store_write)

end
