(* ===== verification/Auth_Storage.thy ===== *)
theory Auth_Storage
  imports Browser "HOL-Library.Word"
begin

text \<open>
  The session storage of the client, \<open>web/src/lib/auth.ts\<close>: where a pasted API key lives, the guard
  cookie that marks a session, the CSRF cookie, the one-time migration of a key left in persistent
  storage, and the check against the backend. Each exported function is one definition over the
  browser state; a function that can throw returns the error beside the state it leaves behind.

  The lemmas give an abstract view of a session (\<open>session_view\<close>), the effect of every operation on
  it, and the confinement of the key: no operation writes it to persistent storage or into a cookie.
\<close>

section \<open>Constants\<close>

definition SESSION_KEY :: jsstr where "SESSION_KEY = ''portcullis_token''"
definition LEGACY_KEY :: jsstr where "LEGACY_KEY = ''portcullis_token''"
definition COOKIE_KEY :: jsstr where "COOKIE_KEY = ''portcullis_token''"
definition CSRF_COOKIE_KEY :: jsstr where "CSRF_COOKIE_KEY = ''portcullis_csrf''"
definition COOKIE_MAX_AGE :: nat where "COOKIE_MAX_AGE = 60 * 60 * 12"
definition COOKIE_MAX_AGE_REMEMBER :: nat where "COOKIE_MAX_AGE_REMEMBER = 60 * 60 * 24 * 7"

section \<open>Cookies\<close>

definition hex_lower :: "nat \<Rightarrow> char" where
  "hex_lower n = char_of (if n < 10 then 48 + n else 87 + n)"

definition pad_start :: "nat \<Rightarrow> char \<Rightarrow> jsstr \<Rightarrow> jsstr" where
  "pad_start k c s = replicate (k - length s) c @ s"

text \<open>\<open>b.toString(16)\<close> of a byte.\<close>

definition byte_to_string16 :: "8 word \<Rightarrow> jsstr" where
  "byte_to_string16 w =
     (if unat w < 16 then [hex_lower (unat w)]
      else [hex_lower (unat w div 16), hex_lower (unat w mod 16)])"

text \<open>The argument is what \<open>crypto.getRandomValues\<close> fills the 32-byte array with.\<close>

definition generate_csrf_token :: "8 word list \<Rightarrow> jsstr" where
  "generate_csrf_token array = concat (map (\<lambda>w. pad_start 2 (CHR ''0'') (byte_to_string16 w)) array)"

definition is_secure_context :: "browser \<Rightarrow> bool" where
  "is_secure_context b = (if \<not> has_window b then False else https b)"

definition set_guard_cookie :: "bool \<Rightarrow> browser \<Rightarrow> browser" where
  "set_guard_cookie remember b =
     (if \<not> has_window b then b
      else let secure = (if is_secure_context b then ''; Secure'' else []);
               maxAge = (if remember then COOKIE_MAX_AGE_REMEMBER else COOKIE_MAX_AGE)
           in set_cookie (COOKIE_KEY @ ''=1; path=/; max-age='' @ nat_str maxAge @ ''; SameSite=Lax'' @ secure) b)"

definition get_csrf_token :: "browser \<Rightarrow> js_error + jsstr option" where
  "get_csrf_token b =
     (if \<not> has_window b then Inr None
      else (case match_cookie CSRF_COOKIE_KEY (cookie_text b) of
              None \<Rightarrow> Inr None
            | Some v \<Rightarrow>
                (case decode_uri_component v of
                   None \<Rightarrow> Inl URIError
                 | Some t \<Rightarrow> Inr (Some t))))"

definition set_csrf_cookie :: "8 word list \<Rightarrow> browser \<Rightarrow> browser \<times> js_error option" where
  "set_csrf_cookie rnd b =
     (if \<not> has_window b then (b, None)
      else (case get_csrf_token b of
              Inl err \<Rightarrow> (b, Some err)
            | Inr existing \<Rightarrow>
                if truthy existing then (b, None)
                else let token = generate_csrf_token rnd;
                         secure = (if is_secure_context b then ''; Secure'' else [])
                     in (set_cookie
                           (CSRF_COOKIE_KEY @ ''='' @ encode_uri_component token @ ''; path=/; '' @
                            ''max-age='' @ nat_str COOKIE_MAX_AGE @ ''; SameSite=Strict'' @ secure) b,
                         None)))"

definition ensure_csrf_cookie :: "8 word list \<Rightarrow> browser \<Rightarrow> browser \<times> js_error option" where
  "ensure_csrf_cookie rnd b = set_csrf_cookie rnd b"

definition logout_request :: "env \<Rightarrow> http_request" where
  "logout_request e =
     \<lparr>rq_url = api_base e @ ''/auth/sso/'' @ nullish (SSO_SLUG e) ''google'' @ ''/logout'',
      rq_method = ''GET'', rq_headers = [], rq_body = None, rq_credentials = True\<rparr>"

definition clear_guard_cookie :: "env \<Rightarrow> browser \<Rightarrow> browser" where
  "clear_guard_cookie e b =
     (if \<not> has_window b then b
      else let secure = (if is_secure_context b then ''; Secure'' else []);
               b1 = set_cookie (COOKIE_KEY @ ''=; path=/; max-age=0; SameSite=Lax'' @ secure) b;
               b2 = set_cookie (CSRF_COOKIE_KEY @ ''=; path=/; max-age=0; SameSite=Strict'' @ secure) b1
           in send (logout_request e) b2)"

section \<open>Tokens\<close>

definition migrate_legacy_token :: "browser \<Rightarrow> browser \<times> jsstr option" where
  "migrate_legacy_token b =
     (case local_get LEGACY_KEY b of
        Inl _ \<Rightarrow> (b, None)
      | Inr None \<Rightarrow> (b, None)
      | Inr (Some legacy) \<Rightarrow>
          if legacy = [] then (b, None)
          else (case local_remove LEGACY_KEY b of
                  Inl _ \<Rightarrow> (b, None)
                | Inr b1 \<Rightarrow>
                    if trim legacy \<noteq> [] then (try_op (session_set SESSION_KEY legacy) b1, Some legacy)
                    else (b1, None)))"

definition get_token :: "browser \<Rightarrow> browser \<times> jsstr option" where
  "get_token b =
     (if \<not> has_window b then (b, None)
      else (case session_get SESSION_KEY b of
              Inl _ \<Rightarrow> migrate_legacy_token b
            | Inr v \<Rightarrow> if truthy v then (b, v) else migrate_legacy_token b))"

definition set_token :: "jsstr \<Rightarrow> bool \<Rightarrow> 8 word list \<Rightarrow> browser \<Rightarrow> browser \<times> js_error option" where
  "set_token token remember rnd b =
     (let b1 = try_op (session_set SESSION_KEY token) b;
          b2 = try_op (local_remove LEGACY_KEY) b1;
          b3 = set_guard_cookie remember b2
      in set_csrf_cookie rnd b3)"

definition mark_cookie_session :: "bool \<Rightarrow> 8 word list \<Rightarrow> browser \<Rightarrow> browser \<times> js_error option" where
  "mark_cookie_session remember rnd b =
     (let b1 = try_op (session_remove SESSION_KEY) b;
          b2 = try_op (local_remove LEGACY_KEY) b1;
          b3 = set_guard_cookie remember b2
      in set_csrf_cookie rnd b3)"

definition clear_token :: "env \<Rightarrow> browser \<Rightarrow> browser" where
  "clear_token e b =
     (let b1 = try_op (session_remove SESSION_KEY) b;
          b2 = try_op (local_remove LEGACY_KEY) b1
      in clear_guard_cookie e b2)"

definition is_authenticated :: "browser \<Rightarrow> browser \<times> bool" where
  "is_authenticated b =
     (if \<not> has_window b then (b, False)
      else (case get_token b of
              (b1, t) \<Rightarrow>
                if truthy t then (b1, True)
                else (b1, list_ex (\<lambda>c. prefix (COOKIE_KEY @ ''='') (trim c))
                            (split_on (CHR '';'') (cookie_text b1)))))"

definition verify_request :: "env \<Rightarrow> jsstr option \<Rightarrow> http_request" where
  "verify_request e token =
     \<lparr>rq_url = api_base e @ ''/auth/me'', rq_method = ''GET'',
      rq_headers = (''Accept'', ''application/json'') #
        (case token of Some t \<Rightarrow> if t \<noteq> [] then [(''Authorization'', ''Bearer '' @ t)] else [] | None \<Rightarrow> []),
      rq_body = None, rq_credentials = True\<rparr>"

text \<open>The backend is the argument \<open>net\<close>: what comes back for a request.\<close>

definition verify_session :: "env \<Rightarrow> (http_request \<Rightarrow> 'r response) \<Rightarrow> browser \<Rightarrow> browser \<times> bool" where
  "verify_session e net b =
     (case get_token b of
        (b1, token) \<Rightarrow>
          let r = verify_request e token in (send r b1, resp_ok (net r)))"

section \<open>Constants and text of the cookies\<close>

lemmas key_defs = SESSION_KEY_def LEGACY_KEY_def COOKIE_KEY_def CSRF_COOKIE_KEY_def

lemma keys_ok [simp]: "name_ok COOKIE_KEY" "name_ok CSRF_COOKIE_KEY" "COOKIE_KEY \<noteq> CSRF_COOKIE_KEY"
  "CSRF_COOKIE_KEY \<noteq> COOKIE_KEY"
  by (simp_all add: key_defs name_ok_def is_space_def)

lemma hex_lower_unreserved: "n < 16 \<Longrightarrow> unreserved (hex_lower n)"
  by (auto simp: hex_lower_def unreserved_def)

lemma hex_lower_is_hex: "n < 16 \<Longrightarrow> hex_lower n \<in> set ''0123456789abcdef''"
proof -
  have "list_all (\<lambda>n. hex_lower n \<in> set ''0123456789abcdef'') [0..<16]" by code_simp
  then show "n < 16 \<Longrightarrow> ?thesis" by (simp add: list_all_iff)
qed

lemma unat_byte: "unat (w :: 8 word) < 256"
  using unsigned_less [of w, where 'a = nat] by simp

lemma byte_hex:
  "pad_start 2 (CHR ''0'') (byte_to_string16 w) = [hex_lower (unat w div 16), hex_lower (unat w mod 16)]"
proof -
  have z: "CHR ''0'' = hex_lower 0" by code_simp
  show ?thesis by (simp add: byte_to_string16_def pad_start_def z numeral_2_eq_2)
qed

lemma byte_hex_digits:
  "\<exists>a<16. \<exists>b<16. pad_start 2 (CHR ''0'') (byte_to_string16 w) = [hex_lower a, hex_lower b]"
proof -
  have "unat w div 16 < 16" "unat w mod 16 < 16" using unat_byte [of w] by auto
  then show ?thesis using byte_hex by blast
qed

lemma hex_lower_inj: "a < 16 \<Longrightarrow> b < 16 \<Longrightarrow> hex_lower a = hex_lower b \<Longrightarrow> a = b"
  by (drule arg_cong [where f = "of_char :: char \<Rightarrow> nat"]) (auto simp: hex_lower_def split: if_splits)

lemma byte_hex_inj:
  assumes "pad_start 2 (CHR ''0'') (byte_to_string16 v) = pad_start 2 (CHR ''0'') (byte_to_string16 w)"
  shows "v = w"
proof -
  have "unat v div 16 = unat w div 16"
    using assms unat_byte [of v] unat_byte [of w] by (intro hex_lower_inj) (auto simp: byte_hex)
  moreover have "unat v mod 16 = unat w mod 16"
    using assms by (intro hex_lower_inj) (auto simp: byte_hex)
  ultimately have "unat v = unat w" by (metis div_mult_mod_eq)
  then show ?thesis by (simp add: word_unat_eq_iff)
qed

lemma csrf_token_digit: "c \<in> set (generate_csrf_token rnd) \<Longrightarrow> \<exists>n<16. c = hex_lower n"
proof -
  assume "c \<in> set (generate_csrf_token rnd)"
  then obtain w where "c \<in> set (pad_start 2 (CHR ''0'') (byte_to_string16 w))"
    by (auto simp: generate_csrf_token_def)
  with byte_hex_digits [of w] show ?thesis by auto
qed

lemma csrf_token_hex: "c \<in> set (generate_csrf_token rnd) \<Longrightarrow> c \<in> set ''0123456789abcdef''"
  by (drule csrf_token_digit) (blast intro: hex_lower_is_hex)

lemma csrf_token_encode: "encode_uri_component (generate_csrf_token rnd) = generate_csrf_token rnd"
  by (rule encode_uri_component_unreserved) (auto dest!: csrf_token_digit intro: hex_lower_unreserved)

lemma csrf_token_Cons:
  "generate_csrf_token (w # ws) = pad_start 2 (CHR ''0'') (byte_to_string16 w) @ generate_csrf_token ws"
  by (simp add: generate_csrf_token_def)

lemma csrf_token_inject: "generate_csrf_token xs = generate_csrf_token ys \<Longrightarrow> xs = ys"
proof (induction xs arbitrary: ys)
  case Nil
  then show ?case by (cases ys) (simp_all add: csrf_token_Cons byte_hex generate_csrf_token_def)
next
  case (Cons x xs)
  obtain y ys' where ys: "ys = y # ys'"
    using Cons.prems by (cases ys) (auto simp: csrf_token_Cons byte_hex generate_csrf_token_def)
  have h: "pad_start 2 (CHR ''0'') (byte_to_string16 x) = pad_start 2 (CHR ''0'') (byte_to_string16 y)"
    and t: "generate_csrf_token xs = generate_csrf_token ys'"
    using Cons.prems ys by (simp_all add: csrf_token_Cons byte_hex)
  show ?case using byte_hex_inj [OF h] Cons.IH [OF t] ys by simp
qed

lemma csrf_token_length: "length (generate_csrf_token rnd) = 2 * length rnd"
proof (induction rnd)
  case (Cons w rnd)
  then show ?case using byte_hex_digits [of w] by (auto simp: generate_csrf_token_def)
qed (simp add: generate_csrf_token_def)

lemma unreserved_no_space: "unreserved c \<Longrightarrow> \<not> is_space c"
  by (auto simp: unreserved_def is_space_def)

lemma unreserved_no_semicolon: "unreserved c \<Longrightarrow> c \<noteq> CHR '';''"
  by (auto simp: unreserved_def)

lemma trimmed_values [simp]:
  "trimmed_value []" "trimmed_value ''1''" "trimmed_value (generate_csrf_token rnd)"
proof -
  show "trimmed_value []" by (simp add: trimmed_value_def value_ok_def)
  show "trimmed_value ''1''" by (simp add: trimmed_value_def value_ok_def trim_def is_space_def)
  have "\<forall>c\<in>set (generate_csrf_token rnd). unreserved c"
    by (auto dest!: csrf_token_digit intro: hex_lower_unreserved)
  then show "trimmed_value (generate_csrf_token rnd)"
    unfolding trimmed_value_def value_ok_def
    by (auto intro!: trim_no_space dest: unreserved_no_space unreserved_no_semicolon)
qed

lemma nat_str_0: "nat_str 0 = ''0''"
  by code_simp

text \<open>The cookie lines of the code, as writes to the cookie store.\<close>

lemma set_guard_cookie_write:
  "has_window b \<Longrightarrow> set_guard_cookie remember b =
     write_lax COOKIE_KEY ''1'' (if remember then COOKIE_MAX_AGE_REMEMBER else COOKIE_MAX_AGE) b"
  by (simp add: set_guard_cookie_def write_lax_def cookie_line_def is_secure_context_def)

lemma set_csrf_cookie_write:
  assumes "has_window b" "get_csrf_token b = Inr existing"
  shows "set_csrf_cookie rnd b =
    (if truthy existing then b
     else write_strict CSRF_COOKIE_KEY (generate_csrf_token rnd) COOKIE_MAX_AGE b, None)"
  using assms
  by (simp add: set_csrf_cookie_def write_strict_def cookie_line_def is_secure_context_def
      csrf_token_encode)

lemma clear_guard_cookie_write:
  "has_window b \<Longrightarrow> clear_guard_cookie e b =
     send (logout_request e) (write_strict CSRF_COOKIE_KEY [] 0 (write_lax COOKIE_KEY [] 0 b))"
proof -
  have [simp]: "https (set_cookie s b) = https b" for s
    by (simp add: set_cookie_def Let_def put_cookie_def drop_cookie_def split: list.split prod.split option.split)
  show "has_window b \<Longrightarrow> ?thesis"
    by (simp add: clear_guard_cookie_def write_lax_def write_strict_def cookie_line_def
        is_secure_context_def nat_str_0 Let_def)
qed

section \<open>Frame\<close>

lemma set_cookie_frame [simp]:
  "has_window (set_cookie s b) = has_window b" "https (set_cookie s b) = https b"
  "now (set_cookie s b) = now b" "session_ok (set_cookie s b) = session_ok b"
  "session_write_ok (set_cookie s b) = session_write_ok b" "local_ok (set_cookie s b) = local_ok b"
  "session_store (set_cookie s b) = session_store b" "local_store (set_cookie s b) = local_store b"
  "sent (set_cookie s b) = sent b"
  by (simp_all add: set_cookie_def Let_def put_cookie_def drop_cookie_def
      split: list.split prod.split option.split)

lemma write_frame [simp]:
  "has_window (write_lax n v m b) = has_window b" "has_window (write_strict n v m b) = has_window b"
  "session_ok (write_lax n v m b) = session_ok b" "session_ok (write_strict n v m b) = session_ok b"
  "session_write_ok (write_lax n v m b) = session_write_ok b"
  "session_write_ok (write_strict n v m b) = session_write_ok b"
  "local_ok (write_lax n v m b) = local_ok b" "local_ok (write_strict n v m b) = local_ok b"
  "session_store (write_lax n v m b) = session_store b"
  "session_store (write_strict n v m b) = session_store b"
  "local_store (write_lax n v m b) = local_store b" "local_store (write_strict n v m b) = local_store b"
  by (simp_all add: write_lax_def write_strict_def)

lemma send_frame [simp]:
  "has_window (send r b) = has_window b" "session_ok (send r b) = session_ok b"
  "session_write_ok (send r b) = session_write_ok b" "local_ok (send r b) = local_ok b"
  "session_store (send r b) = session_store b" "local_store (send r b) = local_store b"
  "jar (send r b) = jar b" "now (send r b) = now b"
  by (simp_all add: send_def)

lemma cookies_of_jar:
  "jar b' = jar b \<Longrightarrow> now b' = now b \<Longrightarrow> read_cookie k b' = read_cookie k b"
  "jar b' = jar b \<Longrightarrow> now b' = now b \<Longrightarrow> cookie_text b' = cookie_text b"
  "jar b' = jar b \<Longrightarrow> jar_ok b' = jar_ok b"
  by (simp_all add: read_cookie_def cookie_text_def live_cookies_def jar_ok_def)

lemma send_cookies [simp]:
  "read_cookie k (send r b) = read_cookie k b" "cookie_text (send r b) = cookie_text b"
  "jar_ok (send r b) = jar_ok b"
  by (rule cookies_of_jar; simp)+

lemma store_cookies [simp]:
  "read_cookie k (b\<lparr>session_store := m\<rparr>) = read_cookie k b"
  "read_cookie k (b\<lparr>local_store := m\<rparr>) = read_cookie k b"
  "jar_ok (b\<lparr>session_store := m\<rparr>) = jar_ok b" "jar_ok (b\<lparr>local_store := m\<rparr>) = jar_ok b"
  by (rule cookies_of_jar; simp)+

section \<open>The abstract session\<close>

text \<open>
  What the rest of the client can observe of the storage: the tab's key, the key left by an old
  version, whether the guard cookie is there, and the CSRF token.
\<close>

record session_view =
  v_token :: "jsstr option"
  v_legacy :: "jsstr option"
  v_guard :: bool
  v_csrf :: "jsstr option"

definition view :: "browser \<Rightarrow> session_view" where
  "view b = \<lparr>v_token = session_store b SESSION_KEY, v_legacy = local_store b LEGACY_KEY,
     v_guard = (read_cookie COOKIE_KEY b \<noteq> None),
     v_csrf = Option.bind (read_cookie CSRF_COOKIE_KEY b) decode_uri_component\<rparr>"

text \<open>
  A browser tab in which storage works and the cookies JavaScript can see are well-formed; in
  particular the CSRF cookie, if any, decodes.
\<close>

definition auth_ok :: "browser \<Rightarrow> bool" where
  "auth_ok b \<longleftrightarrow> has_window b \<and> session_ok b \<and> session_write_ok b \<and> local_ok b \<and> jar_ok b \<and>
     (case read_cookie CSRF_COOKIE_KEY b of None \<Rightarrow> True | Some v \<Rightarrow> decode_uri_component v \<noteq> None)"

definition anonymous :: session_view where
  "anonymous = \<lparr>v_token = None, v_legacy = None, v_guard = False, v_csrf = None\<rparr>"

definition fresh_csrf :: "jsstr option \<Rightarrow> jsstr \<Rightarrow> jsstr option" where
  "fresh_csrf old new = (if truthy old then old else Some new)"

lemma get_csrf_token_view: "auth_ok b \<Longrightarrow> get_csrf_token b = Inr (v_csrf (view b))"
  by (auto simp: auth_ok_def get_csrf_token_def match_cookie_text view_def split: option.splits)

lemma decode_csrf_token: "decode_uri_component (generate_csrf_token rnd) = Some (generate_csrf_token rnd)"
  using decode_encode_uri_component [of "generate_csrf_token rnd"] by (simp add: csrf_token_encode)

lemma auth_ok_guard: "auth_ok b \<Longrightarrow> auth_ok (set_guard_cookie r b)"
  by (auto simp: auth_ok_def set_guard_cookie_write lax.wf_write lax.read_write
      COOKIE_MAX_AGE_def COOKIE_MAX_AGE_REMEMBER_def split: option.splits)

lemma view_guard: "auth_ok b \<Longrightarrow> view (set_guard_cookie r b) = (view b)\<lparr>v_guard := True\<rparr>"
  by (auto simp: view_def auth_ok_def set_guard_cookie_write lax.read_write
      COOKIE_MAX_AGE_def COOKIE_MAX_AGE_REMEMBER_def)

lemma csrf_refines:
  assumes "auth_ok b"
  shows "snd (set_csrf_cookie rnd b) = None"
    and "auth_ok (fst (set_csrf_cookie rnd b))"
    and "view (fst (set_csrf_cookie rnd b)) =
      (view b)\<lparr>v_csrf := fresh_csrf (v_csrf (view b)) (generate_csrf_token rnd)\<rparr>"
proof -
  have e: "set_csrf_cookie rnd b =
    (if truthy (v_csrf (view b)) then b
     else write_strict CSRF_COOKIE_KEY (generate_csrf_token rnd) COOKIE_MAX_AGE b, None)"
    using assms by (intro set_csrf_cookie_write get_csrf_token_view) (auto simp: auth_ok_def)
  show "snd (set_csrf_cookie rnd b) = None" by (simp add: e)
  show "auth_ok (fst (set_csrf_cookie rnd b))"
    using assms
    by (simp add: e auth_ok_def strict.wf_write strict.read_write COOKIE_MAX_AGE_def decode_csrf_token)
  show "view (fst (set_csrf_cookie rnd b)) =
      (view b)\<lparr>v_csrf := fresh_csrf (v_csrf (view b)) (generate_csrf_token rnd)\<rparr>"
    using assms
    by (auto simp: e auth_ok_def view_def fresh_csrf_def strict.read_write COOKIE_MAX_AGE_def
        decode_csrf_token)
qed

text \<open>The storage part of a login or logout: it touches no cookie.\<close>

lemma storage_ops:
  assumes "auth_ok b"
  shows "try_op (session_set k t) b = b\<lparr>session_store := (session_store b)(k \<mapsto> t)\<rparr>"
    and "try_op (session_remove k) b = b\<lparr>session_store := (session_store b)(k := None)\<rparr>"
    and "try_op (local_remove k) b = b\<lparr>local_store := (local_store b)(k := None)\<rparr>"
  using assms
  by (simp_all add: auth_ok_def try_op_def session_set_def session_remove_def local_remove_def)

lemma auth_ok_store [simp]:
  "auth_ok (b\<lparr>session_store := m\<rparr>) = auth_ok b" "auth_ok (b\<lparr>local_store := m\<rparr>) = auth_ok b"
  by (simp_all add: auth_ok_def)

lemma view_store [simp]:
  "view (b\<lparr>session_store := m\<rparr>) = (view b)\<lparr>v_token := m SESSION_KEY\<rparr>"
  "view (b\<lparr>local_store := m\<rparr>) = (view b)\<lparr>v_legacy := m LEGACY_KEY\<rparr>"
  by (simp_all add: view_def)

lemma set_token_refines:
  assumes "auth_ok b"
  shows "snd (set_token t r rnd b) = None" and "auth_ok (fst (set_token t r rnd b))"
    and "view (fst (set_token t r rnd b)) =
      \<lparr>v_token = Some t, v_legacy = None, v_guard = True,
       v_csrf = fresh_csrf (v_csrf (view b)) (generate_csrf_token rnd)\<rparr>"
  using assms
  by (auto simp: set_token_def storage_ops csrf_refines auth_ok_guard view_guard)

lemma mark_cookie_session_refines:
  assumes "auth_ok b"
  shows "snd (mark_cookie_session r rnd b) = None" and "auth_ok (fst (mark_cookie_session r rnd b))"
    and "view (fst (mark_cookie_session r rnd b)) =
      \<lparr>v_token = None, v_legacy = None, v_guard = True,
       v_csrf = fresh_csrf (v_csrf (view b)) (generate_csrf_token rnd)\<rparr>"
  using assms
  by (auto simp: mark_cookie_session_def storage_ops csrf_refines auth_ok_guard view_guard)

lemma auth_ok_send [simp]: "auth_ok (send r b) = auth_ok b"
  by (simp add: auth_ok_def)

lemma view_send [simp]: "view (send r b) = view b"
  by (simp add: view_def)

lemma clear_token_refines:
  assumes "auth_ok b"
  shows "auth_ok (clear_token e b)" and "view (clear_token e b) = anonymous"
proof -
  let ?b = "b\<lparr>session_store := (session_store b)(SESSION_KEY := None),
               local_store := (local_store b)(LEGACY_KEY := None)\<rparr>"
  have ok: "auth_ok ?b" using assms by simp
  have c: "clear_token e b = send (logout_request e)
     (write_strict CSRF_COOKIE_KEY [] 0 (write_lax COOKIE_KEY [] 0 ?b))"
    using assms by (simp add: clear_token_def storage_ops clear_guard_cookie_write auth_ok_def)
  show "auth_ok (clear_token e b)" and "view (clear_token e b) = anonymous"
    using ok unfolding c
    by (simp_all add: auth_ok_def view_def anonymous_def strict.wf_write strict.read_write
        lax.wf_write lax.read_write)
qed

section \<open>Reading the session back\<close>

lemma migrate_view:
  assumes "auth_ok b"
  shows "migrate_legacy_token b =
    (case local_store b LEGACY_KEY of
       None \<Rightarrow> (b, None)
     | Some l \<Rightarrow>
         if l = [] then (b, None)
         else let b1 = b\<lparr>local_store := (local_store b)(LEGACY_KEY := None)\<rparr>
              in if trim l \<noteq> [] then (b1\<lparr>session_store := (session_store b)(SESSION_KEY \<mapsto> l)\<rparr>, Some l)
                 else (b1, None))"
  using assms
  by (auto simp: migrate_legacy_token_def local_get_def local_remove_def try_op_def session_set_def
      auth_ok_def Let_def split: option.splits)

definition effective_token :: "session_view \<Rightarrow> jsstr option" where
  "effective_token v =
     (if truthy (v_token v) then v_token v
      else if (case v_legacy v of None \<Rightarrow> False | Some l \<Rightarrow> trim l \<noteq> []) then v_legacy v else None)"

definition after_read :: "session_view \<Rightarrow> session_view" where
  "after_read v =
     (if truthy (v_token v) \<or> \<not> truthy (v_legacy v) then v
      else v\<lparr>v_legacy := None,
             v_token := (if trim (the (v_legacy v)) \<noteq> [] then v_legacy v else v_token v)\<rparr>)"

lemma get_token_refines:
  assumes "auth_ok b"
  shows "snd (get_token b) = effective_token (view b)"
    and "auth_ok (fst (get_token b))"
    and "view (fst (get_token b)) = after_read (view b)"
proof -
  have w: "has_window b" "session_ok b" using assms by (auto simp: auth_ok_def)
  have t: "v_token (view b) = session_store b SESSION_KEY" "v_legacy (view b) = local_store b LEGACY_KEY"
    by (simp_all add: view_def)
  show "snd (get_token b) = effective_token (view b)"
    and "auth_ok (fst (get_token b))"
    and "view (fst (get_token b)) = after_read (view b)"
    using assms w t
    by (auto simp: get_token_def session_get_def effective_token_def after_read_def migrate_view
        Let_def truthy_def split: option.splits)
qed

lemma split_cookie_text:
  assumes "pairs_ok ps"
  shows "split_on (CHR '';'') (join ''; '' (map pair_text ps)) =
    (case ps of [] \<Rightarrow> [[]] | p # qs \<Rightarrow> pair_text p # map (\<lambda>q. CHR '' '' # pair_text q) qs)"
  using assms
proof (induction ps)
  case (Cons p ps)
  have no: "CHR '';'' \<notin> set (pair_text p)"
    using Cons.prems pair_text_no_sep [of "fst p" "snd p"] by (auto simp: pairs_ok_def)
  have ps: "pairs_ok ps" using Cons.prems by (auto simp: pairs_ok_def)
  show ?case
  proof (cases ps)
    case Nil
    then show ?thesis using no by (simp add: split_on_no_sep)
  next
    case (Cons q qs)
    then show ?thesis
      using split_on_append_sep [OF no] Cons.IH [OF ps] by simp
  qed
qed simp

lemma prefix_trim_pair:
  assumes "name_ok n" "name_ok k"
  shows "prefix (k @ ''='') (trim (pair_text (n, v))) \<longleftrightarrow> k = n"
    and "trim (CHR '' '' # pair_text (n, v)) = trim (pair_text (n, v))"
proof -
  obtain c cs where n: "n = c # cs" "\<not> is_space c"
    using assms(1) by (cases n) (auto simp: name_ok_def)
  then have d: "dropWhile is_space (pair_text (n, v)) = pair_text (n, v)"
    by (simp add: pair_text_def)
  have "\<not> is_space (CHR ''='')" by (simp add: is_space_def)
  then have "dropWhile is_space (rev (pair_text (n, v))) = dropWhile is_space (rev v) @ CHR ''='' # rev n"
    by (simp add: pair_text_def dropWhile_append3)
  then have t: "trim (pair_text (n, v)) = n @ ''='' @ rev (dropWhile is_space (rev v))"
    by (simp add: trim_def d)
  show "prefix (k @ ''='') (trim (pair_text (n, v))) \<longleftrightarrow> k = n"
    unfolding t by (rule prefix_key_eq) (use assms in \<open>auto simp: name_ok_def\<close>)
  show "trim (CHR '' '' # pair_text (n, v)) = trim (pair_text (n, v))"
    by (simp add: trim_def is_space_def)
qed

lemma some_cookie_named:
  assumes "pairs_ok ps" "name_ok k"
  shows "list_ex (\<lambda>c. prefix (k @ ''='') (trim c)) (split_on (CHR '';'') (join ''; '' (map pair_text ps))) \<longleftrightarrow>
    k \<in> fst ` set ps"
proof -
  have p: "prefix (k @ ''='') (trim (pair_text q)) \<longleftrightarrow> k = fst q"
    "prefix (k @ ''='') (trim (CHR '' '' # pair_text q)) \<longleftrightarrow> k = fst q" if "q \<in> set ps" for q
    using that assms prefix_trim_pair [of "fst q" k "snd q"] by (auto simp: pairs_ok_def)
  show ?thesis
  proof (cases ps)
    case Nil
    then show ?thesis unfolding split_cookie_text [OF assms(1)] by simp
  next
    case (Cons q qs)
    have "(\<exists>q\<in>set qs. prefix (k @ ''='') (trim (CHR '' '' # pair_text q))) \<longleftrightarrow> (\<exists>q\<in>set qs. k = fst q)"
      using p(2) Cons by (intro bex_cong) auto
    moreover have "prefix (k @ ''='') (trim (pair_text q)) \<longleftrightarrow> k = fst q" using p(1) Cons by simp
    ultimately show ?thesis
      unfolding split_cookie_text [OF assms(1)] using Cons by (auto simp: list_ex_iff image_iff)
  qed
qed

lemma is_authenticated_refines:
  assumes "auth_ok b"
  shows "snd (is_authenticated b) \<longleftrightarrow> effective_token (view b) \<noteq> None \<or> v_guard (view b)"
    and "auth_ok (fst (is_authenticated b))"
    and "view (fst (is_authenticated b)) = after_read (view b)"
proof -
  obtain b1 t where g: "get_token b = (b1, t)" by fastforce
  have t: "t = effective_token (view b)" "auth_ok b1" "view b1 = after_read (view b)"
    using get_token_refines [OF assms] g by auto
  have w: "has_window b" using assms by (simp add: auth_ok_def)
  have "list_ex (\<lambda>c. prefix (COOKIE_KEY @ ''='') (trim c)) (split_on (CHR '';'') (cookie_text b1)) \<longleftrightarrow>
      v_guard (view b1)"
    using t(2) by (auto simp: cookie_text_def some_cookie_named jar_ok_pairs auth_ok_def view_def
        read_cookie_def map_of_eq_None_iff)
  moreover have "v_guard (after_read (view b)) = v_guard (view b)"
    by (simp add: after_read_def)
  moreover have "truthy (effective_token (view b)) = (effective_token (view b) \<noteq> None)"
    by (auto simp: effective_token_def truthy_def split: option.splits)
  ultimately show "snd (is_authenticated b) \<longleftrightarrow> effective_token (view b) \<noteq> None \<or> v_guard (view b)"
    using g t w by (simp add: is_authenticated_def)
  show "auth_ok (fst (is_authenticated b))" "view (fst (is_authenticated b)) = after_read (view b)"
    using g t w by (simp_all add: is_authenticated_def)
qed

section \<open>Runs of the session storage\<close>

text \<open>The calls the client makes, in any order.\<close>

datatype session_op =
    SetToken jsstr bool "8 word list"
  | MarkCookieSession bool "8 word list"
  | EnsureCsrf "8 word list"
  | GetToken
  | IsAuthenticated
  | ClearToken

fun run_op :: "env \<Rightarrow> session_op \<Rightarrow> browser \<Rightarrow> browser" where
  "run_op e (SetToken t r rnd) b = fst (set_token t r rnd b)"
| "run_op e (MarkCookieSession r rnd) b = fst (mark_cookie_session r rnd b)"
| "run_op e (EnsureCsrf rnd) b = fst (ensure_csrf_cookie rnd b)"
| "run_op e GetToken b = fst (get_token b)"
| "run_op e IsAuthenticated b = fst (is_authenticated b)"
| "run_op e ClearToken b = clear_token e b"

text \<open>What they mean for a session.\<close>

fun spec_op :: "session_op \<Rightarrow> session_view \<Rightarrow> session_view" where
  "spec_op (SetToken t r rnd) v =
     \<lparr>v_token = Some t, v_legacy = None, v_guard = True,
      v_csrf = fresh_csrf (v_csrf v) (generate_csrf_token rnd)\<rparr>"
| "spec_op (MarkCookieSession r rnd) v =
     \<lparr>v_token = None, v_legacy = None, v_guard = True,
      v_csrf = fresh_csrf (v_csrf v) (generate_csrf_token rnd)\<rparr>"
| "spec_op (EnsureCsrf rnd) v = v\<lparr>v_csrf := fresh_csrf (v_csrf v) (generate_csrf_token rnd)\<rparr>"
| "spec_op GetToken v = after_read v"
| "spec_op IsAuthenticated v = after_read v"
| "spec_op ClearToken v = anonymous"

lemma run_op_refines:
  assumes "auth_ok b"
  shows "auth_ok (run_op e x b)" and "view (run_op e x b) = spec_op x (view b)"
  using assms
  by (cases x; simp add: set_token_refines mark_cookie_session_refines get_token_refines
      is_authenticated_refines clear_token_refines csrf_refines ensure_csrf_cookie_def)+

interpretation session: functional_refinement auth_ok view "run_op e" spec_op for e
  by unfold_locales (simp_all add: run_op_refines)

section \<open>Confinement of the key\<close>

text \<open>
  Where a run that started from \<open>b0\<close> may have put data: persistent storage only loses entries, and a
  cookie is one that was there before, the guard cookie with its constant value, or the CSRF cookie
  with a generated token.
\<close>

definition confined :: "browser \<Rightarrow> browser \<Rightarrow> bool" where
  "confined b0 b \<longleftrightarrow> local_store b \<subseteq>\<^sub>m local_store b0 \<and>
     (\<forall>p\<in>set (jar b). p \<in> set (jar b0) \<or> (fst p = COOKIE_KEY \<and> ck_value (snd p) = ''1'') \<or>
        (fst p = CSRF_COOKIE_KEY \<and> (\<exists>rnd. ck_value (snd p) = generate_csrf_token rnd)))"

lemma confined_refl: "confined b b"
  by (simp add: confined_def)

lemma confined_same: "confined b0 b \<Longrightarrow> jar b' = jar b \<Longrightarrow> local_store b' \<subseteq>\<^sub>m local_store b \<Longrightarrow> confined b0 b'"
  by (auto simp: confined_def map_le_def domIff) force

lemma map_le_remove: "m(k := None) \<subseteq>\<^sub>m m"
  by (auto simp: map_le_def)

lemma confined_storage:
  assumes "confined b0 b"
  shows "confined b0 (try_op (session_set k t) b)" "confined b0 (try_op (session_remove k) b)"
    "confined b0 (try_op (local_remove k) b)"
  by (rule confined_same [OF assms];
      simp add: try_op_def session_set_def session_remove_def local_remove_def map_le_remove)+

definition permitted :: "browser \<Rightarrow> jsstr \<times> cookie \<Rightarrow> bool" where
  "permitted b0 p \<longleftrightarrow> p \<in> set (jar b0) \<or> (fst p = COOKIE_KEY \<and> ck_value (snd p) = ''1'') \<or>
     (fst p = CSRF_COOKIE_KEY \<and> (\<exists>rnd. ck_value (snd p) = generate_csrf_token rnd))"

lemma confined_permitted:
  "confined b0 b \<longleftrightarrow> local_store b \<subseteq>\<^sub>m local_store b0 \<and> (\<forall>p\<in>set (jar b). permitted b0 p)"
  by (simp only: confined_def permitted_def)

lemma confined_put:
  assumes "confined b0 b" "permitted b0 (n, c)"
  shows "confined b0 (put_cookie n c b)"
  using assms set_assoc_set_subset [of n c "jar b"]
  unfolding confined_permitted put_cookie_def by auto

lemma permitted_guard: "ck_value c = ''1'' \<Longrightarrow> permitted b0 (COOKIE_KEY, c)"
  by (simp add: permitted_def)

lemma permitted_csrf: "ck_value c = generate_csrf_token rnd \<Longrightarrow> permitted b0 (CSRF_COOKIE_KEY, c)"
  by (auto simp: permitted_def)

lemma confined_drop: "confined b0 b \<Longrightarrow> confined b0 (drop_cookie n b)"
  by (simp add: confined_def drop_cookie_def)

lemma confined_guard: "confined b0 b \<Longrightarrow> confined b0 (set_guard_cookie r b)"
proof (cases "has_window b")
  case True
  assume c: "confined b0 b"
  show ?thesis
    using c True trimmed_values(2) unfolding set_guard_cookie_write [OF True] write_lax_def
    by (simp add: set_cookie_line trimmed_value_def confined_put permitted_guard confined_drop)
qed (simp add: set_guard_cookie_def)

lemma confined_csrf: "confined b0 b \<Longrightarrow> confined b0 (fst (set_csrf_cookie rnd b))"
proof (cases "has_window b \<and> (\<exists>x. get_csrf_token b = Inr x)")
  case True
  assume c: "confined b0 b"
  from True obtain x where x: "has_window b" "get_csrf_token b = Inr x" by blast
  show ?thesis
    using c trimmed_values(3) [of rnd] unfolding set_csrf_cookie_write [OF x] write_strict_def
    by (simp add: set_cookie_line trimmed_value_def confined_put permitted_csrf confined_drop)
qed (auto simp: set_csrf_cookie_def split: sum.splits)

lemma confined_send: "confined b0 b \<Longrightarrow> confined b0 (send r b)"
  by (simp add: confined_def)

lemma confined_clear: "confined b0 b \<Longrightarrow> confined b0 (clear_guard_cookie e b)"
proof (cases "has_window b")
  case True
  assume c: "confined b0 b"
  show ?thesis
    using c trimmed_values(1) unfolding clear_guard_cookie_write [OF True] write_lax_def write_strict_def
    by (simp add: set_cookie_line trimmed_value_def confined_send confined_drop)
qed (simp add: clear_guard_cookie_def)

lemma confined_read: "confined b0 b \<Longrightarrow> confined b0 (fst (get_token b))"
proof -
  assume c: "confined b0 b"
  have "jar (fst (get_token b)) = jar b" "local_store (fst (get_token b)) \<subseteq>\<^sub>m local_store b"
    by (auto simp: get_token_def migrate_legacy_token_def local_get_def local_remove_def try_op_def
        session_set_def session_get_def map_le_remove split: sum.splits option.splits)
  then show ?thesis by (rule confined_same [OF c])
qed

lemma confined_auth: "confined b0 b \<Longrightarrow> confined b0 (fst (is_authenticated b))"
  using confined_read [of b0 b] by (auto simp: is_authenticated_def split: prod.splits)

lemma confined_step: "confined b0 b \<Longrightarrow> confined b0 (run_op e x b)"
  by (cases x) (simp_all add: set_token_def mark_cookie_session_def clear_token_def Let_def
      ensure_csrf_cookie_def confined_csrf confined_guard confined_storage confined_clear
      confined_read confined_auth)

interpretation confinement: step_invariant "confined b0" "run_op e" for b0 e
  by unfold_locales (rule confined_step)

section \<open>Properties\<close>

text \<open>A tab that has just been opened on an https page, for the concrete instances below.\<close>

definition new_tab :: browser where
  "new_tab = \<lparr>has_window = True, https = True, now = 1000, session_ok = True, session_write_ok = True,
     local_ok = True, session_store = Map.empty, local_store = Map.empty, jar = [], sent = []\<rparr>"

definition demo_env :: env where
  "demo_env = \<lparr>API_URL = None, API_INTERNAL_URL = None, SSO_SLUG = None, CLERK_KEY = None\<rparr>"

definition demo_rnd :: "8 word list" where
  "demo_rnd = [0, 15, 255]"

lemma new_tab_ok [simp]: "auth_ok new_tab"
  by (simp add: auth_ok_def new_tab_def jar_ok_def read_cookie_def live_cookies_def)

lemma new_tab_view: "view new_tab = anonymous"
  by (simp add: view_def anonymous_def new_tab_def read_cookie_def live_cookies_def)

text \<open>
  C2. Every run of the session operations refines the abstract session: from a well-formed tab, any
  sequence of calls keeps the tab well-formed and has on the stored key, the legacy key, the guard
  cookie and the CSRF token exactly the effect the specification gives, although the code goes through
  the text of \<open>document.cookie\<close>.
\<close>

theorem session_run_refines:
  assumes "auth_ok b"
  shows "auth_ok (fold (run_op e) ops b) \<and> view (fold (run_op e) ops b) = fold spec_op ops (view b)"
  using assms by (simp add: session.inv_run session.run_refines)

theorem session_run_refines_witness:
  "view (fold (run_op demo_env) [SetToken ''pk_live'' False demo_rnd, GetToken, ClearToken] new_tab) = anonymous"
  using session_run_refines [OF new_tab_ok, of demo_env "[SetToken ''pk_live'' False demo_rnd, GetToken, ClearToken]"]
  by simp

text \<open>
  A pasted key is stored and read back: after \<open>setToken\<close> with a non-empty key, \<open>getToken\<close> returns
  that key, \<open>isAuthenticated\<close> holds, no copy is left in persistent storage, and \<open>getCsrfToken\<close> returns
  the token that was there or the one just generated.
\<close>

lemma set_token_roundtrip:
  assumes "auth_ok b" and "t \<noteq> []"
  shows "snd (get_token (fst (set_token t r rnd b))) = Some t \<and>
    snd (is_authenticated (fst (set_token t r rnd b))) \<and>
    local_store (fst (set_token t r rnd b)) LEGACY_KEY = None \<and>
    get_csrf_token (fst (set_token t r rnd b)) =
      Inr (fresh_csrf (v_csrf (view b)) (generate_csrf_token rnd))"
proof -
  note ref = set_token_refines [OF assms(1), of t r rnd]
  have "local_store (fst (set_token t r rnd b)) LEGACY_KEY = v_legacy (view (fst (set_token t r rnd b)))"
    by (simp add: view_def)
  then show ?thesis
    using assms(2) ref
    by (simp add: get_token_refines is_authenticated_refines get_csrf_token_view effective_token_def)
qed

text \<open>
  Signing out ends the session whatever happened before: after any run, \<open>clearToken\<close> leaves a tab
  in which \<open>getToken\<close> and \<open>getCsrfToken\<close> return null and \<open>isAuthenticated\<close> is false.
\<close>

lemma clear_token_signs_out:
  assumes "auth_ok b"
  shows "\<not> snd (is_authenticated (clear_token e (fold (run_op e) ops b))) \<and>
    snd (get_token (clear_token e (fold (run_op e) ops b))) = None \<and>
    get_csrf_token (clear_token e (fold (run_op e) ops b)) = Inr None"
proof -
  have "auth_ok (fold (run_op e) ops b)" using assms by (rule session.inv_run)
  note c = clear_token_refines [OF this, of e]
  then show ?thesis
    by (simp add: get_token_refines is_authenticated_refines get_csrf_token_view effective_token_def
        anonymous_def)
qed

text \<open>
  C4. The key is confined: from any state, storage failing or not, no run of the session operations
  writes to persistent storage, and every cookie it adds is the guard cookie with the constant value
  \<open>1\<close> or the CSRF cookie with a generated token. So the key is never in a cookie or in
  \<open>localStorage\<close>.
\<close>

theorem key_confined: "confined b (fold (run_op e) ops b)"
  by (rule confinement.inv_run [OF confined_refl])

text \<open>
  The CSRF token of a 32-byte array is 64 lower-case hexadecimal digits, and different arrays give
  different tokens, so printing and padding lose no entropy.
\<close>

lemma csrf_token_entropy:
  assumes "length xs = 32" and "length ys = 32"
  shows "length (generate_csrf_token xs) = 64 \<and>
    set (generate_csrf_token xs) \<subseteq> set ''0123456789abcdef'' \<and>
    (generate_csrf_token xs = generate_csrf_token ys \<longleftrightarrow> xs = ys)"
  using assms csrf_token_hex csrf_token_inject by (auto simp: csrf_token_length simp del: set_simps)

text \<open>
  Migration of a key left in persistent storage: with no key in the tab, the first \<open>getToken\<close>
  returns the old key and moves it to the tab, deleting the persistent copy; the second read returns
  the same key and changes nothing.
\<close>

lemma legacy_token_migrates:
  assumes "auth_ok b" and "\<not> truthy (session_store b SESSION_KEY)"
    and "local_store b LEGACY_KEY = Some l" and "trim l \<noteq> []"
  shows "snd (get_token b) = Some l \<and> local_store (fst (get_token b)) LEGACY_KEY = None \<and>
    session_store (fst (get_token b)) SESSION_KEY = Some l \<and>
    get_token (fst (get_token b)) = (fst (get_token b), Some l)"
proof -
  have l: "l \<noteq> []" using assms(4) by auto
  then have g: "get_token b = (b\<lparr>local_store := (local_store b)(LEGACY_KEY := None),
      session_store := (session_store b)(SESSION_KEY \<mapsto> l)\<rparr>, Some l)"
    using assms by (auto simp: get_token_def session_get_def auth_ok_def migrate_view [OF assms(1)] Let_def)
  then show ?thesis
    using l assms(1) by (simp add: get_token_def session_get_def auth_ok_def)
qed

end
