(* ===== verification/Http_Client.thy ===== *)
theory Http_Client
  imports Auth_Storage
begin

text \<open>
  The shared HTTP client, \<open>web/src/lib/axios-instance.ts\<close>: the request interceptor that attaches the
  key and the CSRF token, the response interceptor that ends the session on a 401, and the mutator of
  the generated API client. The platform-admin hook of \<open>web/src/lib/use-platform-admin.ts\<close> and the
  clipboard helper of \<open>web/src/lib/clipboard.ts\<close> stand at the end.

  The axios package itself is the argument \<open>transport\<close>: given the final configuration of a request it
  either resolves with a status and data or rejects, with or without a response.
\<close>

section \<open>Configurations, outcomes and errors\<close>

record location =
  pathname :: jsstr
  search :: jsstr

record 'b axios_config =
  cf_base :: jsstr
  cf_timeout :: nat
  cf_credentials :: bool
  cf_url :: jsstr
  cf_method :: jsstr
  cf_headers :: "(jsstr \<times> jsstr) list"
  cf_data :: "'b option"

text \<open>
  \<^term>\<open>Rejected st d\<close> has the status of \<open>error.response\<close>, if there is one, and its \<open>data.detail\<close>.
\<close>

datatype 'd axios_outcome = Resolved nat 'd | Rejected "nat option" "jsstr option"

datatype api_error = NotSent js_error | Failed "nat option" "jsstr option"

text \<open>\<open>err?.response?.data?.detail ?? fallback\<close>, the text every failed call is reported with.\<close>

fun error_detail :: "api_error \<Rightarrow> jsstr option" where
  "error_detail (NotSent _) = None"
| "error_detail (Failed _ d) = d"

definition error_text :: "api_error \<Rightarrow> jsstr \<Rightarrow> jsstr" where
  "error_text err fallback = nullish (error_detail err) fallback"

section \<open>The client and its interceptors\<close>

definition axios_client :: "env \<Rightarrow> jsstr \<Rightarrow> jsstr \<Rightarrow> (jsstr \<times> jsstr) list \<Rightarrow> 'b option \<Rightarrow> 'b axios_config" where
  "axios_client e method url headers data =
     \<lparr>cf_base = api_base e, cf_timeout = 15000, cf_credentials = True, cf_url = url,
      cf_method = method, cf_headers = headers, cf_data = data\<rparr>"

definition add_bearer :: "browser \<Rightarrow> 'b axios_config \<Rightarrow> 'b axios_config" where
  "add_bearer b config =
     (let token = (case session_get ''portcullis_token'' b of Inl _ \<Rightarrow> None | Inr t \<Rightarrow> t)
      in if truthy token
         then config\<lparr>cf_headers := assoc_set ''Authorization'' (''Bearer '' @ the token) (cf_headers config)\<rparr>
         else config)"

definition request_interceptor :: "browser \<Rightarrow> 'b axios_config \<Rightarrow> js_error + 'b axios_config" where
  "request_interceptor b config =
     (if has_window b then
        let config1 = add_bearer b config in
        (case match_cookie ''portcullis_csrf'' (cookie_text b) of
           None \<Rightarrow> Inr config1
         | Some v \<Rightarrow>
             (case decode_uri_component v of
                None \<Rightarrow> Inl URIError
              | Some t \<Rightarrow> Inr (config1\<lparr>cf_headers := assoc_set ''X-CSRF-Token'' t (cf_headers config1)\<rparr>)))
      else Inr config)"

text \<open>The second component is the address the page is sent to, if it is.\<close>

definition on_response_error :: "location \<Rightarrow> nat option \<Rightarrow> browser \<Rightarrow> browser \<times> jsstr option" where
  "on_response_error loc status b =
     (if status = Some 401 \<and> has_window b then
        let b1 = try_op (session_remove ''portcullis_token'') b;
            b2 = set_cookie ''portcullis_token=; path=/; max-age=0; SameSite=Lax'' b1;
            next_url = pathname loc @ search loc
        in (b2, if \<not> prefix ''/login'' (pathname loc)
                then Some (''/login?next='' @ encode_uri_component next_url) else None)
      else (b, None))"

type_synonym 'r call_result = "browser \<times> jsstr option \<times> (api_error + 'r)"

definition client_request ::
  "location \<Rightarrow> ('b axios_config \<Rightarrow> 'd axios_outcome) \<Rightarrow> 'b axios_config \<Rightarrow> browser \<Rightarrow> (nat \<times> 'd) call_result" where
  "client_request loc transport config b =
     (case request_interceptor b config of
        Inl err \<Rightarrow> (b, None, Inl (NotSent err))
      | Inr c \<Rightarrow>
          (case transport c of
             Resolved st d \<Rightarrow> (b, None, Inr (st, d))
           | Rejected st det \<Rightarrow>
               (case on_response_error loc st b of (b', nav) \<Rightarrow> (b', nav, Inl (Failed st det)))))"

text \<open>The mutator of the generated client: an absent method is a GET.\<close>

definition axios_instance ::
  "env \<Rightarrow> location \<Rightarrow> ('b axios_config \<Rightarrow> 'd axios_outcome) \<Rightarrow> jsstr \<Rightarrow> jsstr option \<Rightarrow> (jsstr \<times> jsstr) list \<Rightarrow>
     'b option \<Rightarrow> browser \<Rightarrow> (nat \<times> 'd) call_result" where
  "axios_instance e loc transport url method headers body b =
     client_request loc transport (axios_client e (nullish method ''GET'') url headers body) b"

section \<open>Platform-admin check\<close>

text \<open>
  The query is enabled only for a session; \<open>answer\<close> is what the backend has answered so far, and a
  disabled query has no data.
\<close>

definition use_is_platform_admin :: "browser \<Rightarrow> 'd response option \<Rightarrow> browser \<times> bool" where
  "use_is_platform_admin b answer =
     (case is_authenticated b of
        (b1, authed) \<Rightarrow>
          (b1, authed \<and> has_window b \<and>
            (case answer of None \<Rightarrow> False | Some r \<Rightarrow> resp_status r = Some 200)))"

section \<open>Clipboard\<close>

text \<open>
  \<open>navigator.clipboard.writeText\<close> is absent, rejects, or writes; \<open>document.execCommand\<close> answers, or
  something on that path throws; it copies exactly when it answers true. The state is the clipboard.
\<close>

datatype clipboard_api = NoApi | ApiRejects | ApiWrites
datatype exec_copy = NoDocument | ExecThrows | ExecAnswers bool

definition copy_to_clipboard :: "clipboard_api \<Rightarrow> exec_copy \<Rightarrow> jsstr \<Rightarrow> jsstr \<Rightarrow> jsstr \<times> bool" where
  "copy_to_clipboard api doc text clip =
     (if api = ApiWrites then (text, True)
      else (case doc of
              ExecAnswers ok \<Rightarrow> if ok then (text, True) else (clip, False)
            | ExecThrows \<Rightarrow> (clip, False)
            | NoDocument \<Rightarrow> (clip, False)))"

section \<open>Lemmas\<close>

lemma add_bearer_headers:
  "map_of (cf_headers (add_bearer b c)) k =
     (if k = ''Authorization'' \<and> has_window b \<and> session_ok b \<and> truthy (session_store b SESSION_KEY)
      then Some (''Bearer '' @ the (session_store b SESSION_KEY)) else map_of (cf_headers c) k)"
  by (auto simp: add_bearer_def session_get_def map_of_assoc_set key_defs Let_def)

lemma add_bearer_frame [simp]:
  "cf_base (add_bearer b c) = cf_base c" "cf_url (add_bearer b c) = cf_url c"
  "cf_method (add_bearer b c) = cf_method c" "cf_data (add_bearer b c) = cf_data c"
  "cf_credentials (add_bearer b c) = cf_credentials c"
  by (auto simp: add_bearer_def Let_def)

text \<open>In a well-formed tab the request interceptor always succeeds and is determined by the session.\<close>

lemma request_interceptor_view:
  assumes "auth_ok b"
  shows "request_interceptor b c =
    (case v_csrf (view b) of
       None \<Rightarrow> Inr (add_bearer b c)
     | Some t \<Rightarrow> Inr ((add_bearer b c)\<lparr>cf_headers := assoc_set ''X-CSRF-Token'' t (cf_headers (add_bearer b c))\<rparr>))"
proof -
  have m: "match_cookie ''portcullis_csrf'' (cookie_text b) = read_cookie CSRF_COOKIE_KEY b"
    using assms match_cookie_text [of b CSRF_COOKIE_KEY] keys_ok(2) unfolding auth_ok_def CSRF_COOKIE_KEY_def
    by blast
  show ?thesis
    using assms by (auto simp: request_interceptor_def m auth_ok_def view_def Let_def split: option.splits)
qed

lemma guard_expiry:
  "set_cookie ''portcullis_token=; path=/; max-age=0; SameSite=Lax'' b = drop_cookie COOKIE_KEY b"
proof -
  have "cookie_line COOKIE_KEY [] 0 ''Lax'' False = ''portcullis_token=; path=/; max-age=0; SameSite=Lax''"
    by (simp add: cookie_line_def COOKIE_KEY_def nat_str_0)
  then show ?thesis
    using set_cookie_line [of COOKIE_KEY "[]" "''Lax''" False b 0] by (simp add: value_ok_def)
qed

lemma drop_cookie_frame [simp]:
  "has_window (drop_cookie n b) = has_window b" "session_ok (drop_cookie n b) = session_ok b"
  "session_write_ok (drop_cookie n b) = session_write_ok b" "local_ok (drop_cookie n b) = local_ok b"
  "session_store (drop_cookie n b) = session_store b" "local_store (drop_cookie n b) = local_store b"
  by (simp_all add: drop_cookie_def)

lemma on_401:
  assumes "auth_ok b"
  shows "auth_ok (fst (on_response_error loc (Some 401) b))"
    and "view (fst (on_response_error loc (Some 401) b)) = (view b)\<lparr>v_token := None, v_guard := False\<rparr>"
proof -
  let ?b = "b\<lparr>session_store := (session_store b)(SESSION_KEY := None)\<rparr>"
  have r: "session_remove ''portcullis_token'' = session_remove SESSION_KEY" by (simp add: key_defs)
  have e: "fst (on_response_error loc (Some 401) b) = drop_cookie COOKIE_KEY ?b"
    using assms storage_ops [OF assms] by (simp add: on_response_error_def guard_expiry auth_ok_def r Let_def)
  have ok: "jar_ok ?b" using assms by (simp add: auth_ok_def)
  show "auth_ok (fst (on_response_error loc (Some 401) b))"
    and "view (fst (on_response_error loc (Some 401) b)) = (view b)\<lparr>v_token := None, v_guard := False\<rparr>"
    using assms ok unfolding e by (auto simp: auth_ok_def view_def jar_ok_drop read_drop)
qed

lemma on_other_status:
  "st \<noteq> Some 401 \<Longrightarrow> on_response_error loc st b = (b, None)"
  by (simp add: on_response_error_def)

section \<open>Properties\<close>

lemma signed_request:
  assumes "auth_ok b" and "key \<noteq> []"
  shows "\<exists>c. request_interceptor (fst (set_token key r rnd b)) config = Inr c \<and>
    cf_base c = cf_base config \<and> cf_url c = cf_url config \<and> cf_data c = cf_data config \<and>
    map_of (cf_headers c) ''Authorization'' = Some (''Bearer '' @ key) \<and>
    get_csrf_token (fst (set_token key r rnd b)) = Inr (map_of (cf_headers c) ''X-CSRF-Token'') \<and>
    (\<forall>k. k = ''Authorization'' \<or> k = ''X-CSRF-Token'' \<or> map_of (cf_headers c) k = map_of (cf_headers config) k)"
proof -
  let ?b = "fst (set_token key r rnd b)"
  note ref = set_token_refines [OF assms(1), of key r rnd]
  have st: "session_store ?b SESSION_KEY = Some key"
    using arg_cong [OF ref(3), of v_token] by (simp add: view_def)
  have ok: "has_window ?b" "session_ok ?b" using ref(2) by (auto simp: auth_ok_def)
  obtain t where t: "v_csrf (view ?b) = Some t"
    using ref(3) by (cases "v_csrf (view b)") (auto simp: fresh_csrf_def truthy_def split: if_splits)
  show ?thesis
    using assms(2) st ok t
    by (simp add: request_interceptor_view [OF ref(2)] map_of_assoc_set add_bearer_headers
        get_csrf_token_view [OF ref(2)])
qed

text \<open>
  C15. A request carries the session: after \<open>setToken\<close> with a non-empty key, the request interceptor
  does not throw, the request goes to the same address with the same body, its \<open>Authorization\<close> header
  is the key as a bearer token, its CSRF header is what \<open>getCsrfToken\<close> reads from the cookie, and
  every other header is as the caller gave it.
\<close>

theorem request_carries_session:
  assumes "auth_ok b" and "key \<noteq> []"
  shows "\<exists>c. request_interceptor (fst (set_token key r rnd b)) config = Inr c \<and>
    cf_base c = cf_base config \<and> cf_url c = cf_url config \<and> cf_data c = cf_data config \<and>
    map_of (cf_headers c) ''Authorization'' = Some (''Bearer '' @ key) \<and>
    get_csrf_token (fst (set_token key r rnd b)) = Inr (map_of (cf_headers c) ''X-CSRF-Token'') \<and>
    (\<forall>k. k = ''Authorization'' \<or> k = ''X-CSRF-Token'' \<or> map_of (cf_headers c) k = map_of (cf_headers config) k)"
  by (rule signed_request [OF assms])

theorem request_carries_session_witness:
  "\<exists>c. request_interceptor (fst (set_token ''pk'' False demo_rnd new_tab))
      (axios_client demo_env ''GET'' ''/v1/tools'' [] (None :: unit option)) = Inr c \<and>
    map_of (cf_headers c) ''Authorization'' = Some ''Bearer pk''"
  using request_carries_session [OF new_tab_ok, of "''pk''" False demo_rnd
      "axios_client demo_env ''GET'' ''/v1/tools'' [] (None :: unit option)"] by auto

text \<open>
  C9. A 401 ends the session and no other outcome touches it: on a 401 the caller still sees the
  rejection, the tab stays well-formed and keeps neither key nor guard cookie, and the page goes to the
  login page (unless it is on it) with a \<open>next\<close> parameter that decodes to the path and query the user
  was on. Any other outcome leaves the tab as it was and the page where it is.
\<close>

theorem client_request_401:
  assumes "auth_ok b" and "request_interceptor b config = Inr c"
  shows "case client_request loc transport config b of (b', nav, res) \<Rightarrow>
    if \<exists>d. transport c = Rejected (Some 401) d
    then auth_ok b' \<and> view b' = (view b)\<lparr>v_token := None, v_guard := False\<rparr> \<and>
         (\<exists>d. res = Inl (Failed (Some 401) d)) \<and>
         (nav = None \<longleftrightarrow> prefix ''/login'' (pathname loc)) \<and>
         (\<forall>url. nav = Some url \<longrightarrow> (\<exists>enc. url = ''/login?next='' @ enc \<and>
            decode_uri_component enc = Some (pathname loc @ search loc)))
    else b' = b \<and> nav = None"
proof (cases "\<exists>d. transport c = Rejected (Some 401) d")
  case True
  then obtain d where d: "transport c = Rejected (Some 401) d" by blast
  obtain b' nav where r: "on_response_error loc (Some 401) b = (b', nav)" by fastforce
  have n: "nav = (if \<not> prefix ''/login'' (pathname loc)
                then Some (''/login?next='' @ encode_uri_component (pathname loc @ search loc)) else None)"
    using r assms(1) by (auto simp: on_response_error_def auth_ok_def Let_def)
  show ?thesis
    using d r on_401 [OF assms(1), of loc] n
    by (auto simp: client_request_def assms(2) decode_encode_uri_component)
next
  case False
  then show ?thesis
    by (cases "transport c") (auto simp: client_request_def assms(2) on_other_status)
qed

theorem client_request_401_witness:
  "fst (snd (client_request \<lparr>pathname = ''/dashboard'', search = ''?tab=a''\<rparr>
      (\<lambda>_. Rejected (Some 401) None :: unit axios_outcome)
      (axios_client demo_env ''GET'' ''/v1/tools'' [] (None :: unit option)) new_tab)) \<noteq> None"
proof -
  let ?cfg = "axios_client demo_env ''GET'' ''/v1/tools'' [] (None :: unit option)"
  have i: "request_interceptor new_tab ?cfg = Inr (add_bearer new_tab ?cfg)"
    using request_interceptor_view [OF new_tab_ok, of ?cfg] by (simp add: new_tab_view anonymous_def)
  show ?thesis
    using client_request_401 [OF new_tab_ok i, of "\<lambda>_. Rejected (Some 401) None :: unit axios_outcome"
        "\<lparr>pathname = ''/dashboard'', search = ''?tab=a''\<rparr>"]
    by (auto split: prod.splits)
qed

text \<open>
  A key left in persistent storage outlives a 401: the interceptor clears the tab, but the next
  read of the session migrates the old key back, so the client is authenticated again with it. The
  comment of the interceptor says the old copies are purged on that read.
\<close>

lemma legacy_key_survives_401:
  assumes "auth_ok b" and "local_store b LEGACY_KEY = Some l" and "trim l \<noteq> []"
  shows "snd (get_token (fst (on_response_error loc (Some 401) b))) = Some l \<and>
    snd (is_authenticated (fst (on_response_error loc (Some 401) b)))"
proof -
  note r = on_401 [OF assms(1), of loc]
  have "v_legacy (view b) = Some l" using assms(2) by (simp add: view_def)
  then show ?thesis
    using r assms(3) by (simp add: get_token_refines is_authenticated_refines effective_token_def)
qed

end
