(* ===== verification/Form_Action.thy ===== *)
theory Form_Action
  imports Http_Client
begin

text \<open>
  The shape every asynchronous handler of the client has: a click or a submit that is ignored while a
  call is running or the input is not valid, one call to the backend, and a continuation that reports
  the result and clears the busy flag. Handlers are split at their \<open>await\<close>: \<open>start\<close> is the part
  before it and \<open>finish\<close> the part after it, which sees the values captured at the start.

  \<open>form_step\<close> runs such a handler against an environment that edits the form, submits it again and
  settles calls in any order. The locale \<open>guarded_form\<close> states what makes the handler safe; the
  components interpret it.
\<close>

section \<open>Effects\<close>

datatype effect =
    ToastSuccess jsstr
  | ToastError jsstr
  | Refetch jsstr
  | CloseDialog
  | Navigate jsstr

section \<open>Runs of a handler\<close>

datatype ('x, 'o) form_event = Edit 'x | Submit | Settle nat 'o

record ('s, 'c) form_run =
  fr_state :: 's
  fr_pending :: "('s \<times> 'c) list"
  fr_issued :: "'c list"
  fr_effects :: "effect list"

definition remove_nth :: "nat \<Rightarrow> 'a list \<Rightarrow> 'a list" where
  "remove_nth i xs = take i xs @ drop (Suc i) xs"

fun form_step ::
  "('s \<Rightarrow> ('c \<times> 's) option) \<Rightarrow> ('s \<Rightarrow> 'c \<Rightarrow> 'o \<Rightarrow> 's \<Rightarrow> 's \<times> effect list) \<Rightarrow> ('x \<Rightarrow> 's \<Rightarrow> 's) \<Rightarrow>
     ('x, 'o) form_event \<Rightarrow> ('s, 'c) form_run \<Rightarrow> ('s, 'c) form_run" where
  "form_step start finish edit (Edit x) r = r\<lparr>fr_state := edit x (fr_state r)\<rparr>"
| "form_step start finish edit Submit r =
     (case start (fr_state r) of
        None \<Rightarrow> r
      | Some (c, s) \<Rightarrow> r\<lparr>fr_state := s, fr_pending := fr_pending r @ [(fr_state r, c)],
                        fr_issued := fr_issued r @ [c]\<rparr>)"
| "form_step start finish edit (Settle i out) r =
     (if i < length (fr_pending r) then
        (case fr_pending r ! i of
           (s0, c) \<Rightarrow>
             (case finish s0 c out (fr_state r) of
                (s, effs) \<Rightarrow> r\<lparr>fr_state := s, fr_pending := remove_nth i (fr_pending r),
                              fr_effects := fr_effects r @ effs\<rparr>))
      else r)"

definition form_init :: "'s \<Rightarrow> ('s, 'c) form_run" where
  "form_init s = \<lparr>fr_state = s, fr_pending = [], fr_issued = [], fr_effects = []\<rparr>"

section \<open>The contract of a guarded handler\<close>

text \<open>
  While the form is busy a submit does nothing; starting makes it busy, settling makes it idle, and
  editing does not change that; a call that is started is acceptable.
\<close>

locale guarded_form =
  fixes start :: "'s \<Rightarrow> ('c \<times> 's) option"
    and finish :: "'s \<Rightarrow> 'c \<Rightarrow> 'o \<Rightarrow> 's \<Rightarrow> 's \<times> effect list"
    and edit :: "'x \<Rightarrow> 's \<Rightarrow> 's"
    and busy :: "'s \<Rightarrow> bool"
    and acceptable :: "'c \<Rightarrow> bool"
  assumes busy_blocks: "busy s \<Longrightarrow> start s = None"
    and start_busy: "start s = Some (c, s') \<Longrightarrow> busy s'"
    and finish_idle: "\<not> busy (fst (finish s0 c out s))"
    and edit_busy: "busy (edit x s) = busy s"
    and start_acceptable: "start s = Some (c, s') \<Longrightarrow> acceptable c"
begin

lemma single_flight_step:
  assumes "length (fr_pending r) = (if busy (fr_state r) then 1 else 0) \<and> list_all acceptable (fr_issued r)"
  shows "length (fr_pending (form_step start finish edit ev r)) =
      (if busy (fr_state (form_step start finish edit ev r)) then 1 else 0) \<and>
    list_all acceptable (fr_issued (form_step start finish edit ev r))"
proof (cases ev)
  case (Edit x)
  then show ?thesis using assms by (simp add: edit_busy)
next
  case Submit
  then show ?thesis
    using assms start_busy busy_blocks start_acceptable
    by (auto split: option.split prod.split if_splits)
next
  case (Settle i out)
  then show ?thesis
    using assms finish_idle [of _ _ out "fr_state r"]
    by (auto simp: remove_nth_def split: prod.split if_splits) (metis fst_conv)+
qed

end

sublocale guarded_form \<subseteq> flight: step_invariant
  "\<lambda>r. length (fr_pending r) = (if busy (fr_state r) then 1 else 0) \<and> list_all acceptable (fr_issued r)"
  "form_step start finish edit"
  by unfold_locales (rule single_flight_step)

context guarded_form
begin

text \<open>From an idle form there is never more than one call running, and every call made is acceptable.\<close>

lemma single_flight:
  assumes "\<not> busy s"
  shows "length (fr_pending (fold (form_step start finish edit) evs (form_init s))) \<le> 1 \<and>
    list_all acceptable (fr_issued (fold (form_step start finish edit) evs (form_init s)))"
  using flight.inv_run [of "form_init s" evs] assms by (simp add: form_init_def split: if_splits)

end

end
