(* ===== verification/Roles_Tab.thy ===== *)
theory Roles_Tab
  imports Form_Action
begin

text \<open>
  The roles tab, \<open>web/src/app/dashboard/access-control/roles-tab.tsx\<close>, and the tab selection of the
  page around it: the role archetypes with their permission matrix, which of them a caller may see,
  the loop that seeds the standard roles, and the forms that create a role and bind a subject to it.
\<close>

section \<open>Role archetypes\<close>

datatype PermCategory =
    PServers | PTools | PPolicies | PLogs | PKeys | PBilling | PMembers | PSettings | PSecurity | PIntegrations

datatype Access = FullAccess | ReadAccess | OwnAccess | NoAccess

record RoleArchetype =
  ar_key :: jsstr
  ar_label :: jsstr
  ar_description :: jsstr
  ar_icon :: jsstr
  ar_iconColor :: jsstr
  ar_iconBg :: jsstr
  ar_permissions :: "PermCategory \<Rightarrow> Access"
  ar_capabilities :: "jsstr list"

definition PERM_CATEGORIES :: "PermCategory list" where
  "PERM_CATEGORIES =
     [PServers, PTools, PPolicies, PLogs, PKeys, PBilling, PMembers, PSettings, PSecurity, PIntegrations]"

text \<open>The permissions of an archetype, written in the order of the categories.\<close>

definition perms :: "Access list \<Rightarrow> PermCategory \<Rightarrow> Access" where
  "perms xs c = nullish (map_of (zip PERM_CATEGORIES xs) c) NoAccess"

definition ROLE_ARCHETYPES :: "RoleArchetype list" where
  "ROLE_ARCHETYPES =
    [\<lparr>ar_key = ''super-admin'', ar_label = ''Platform Super Admin'',
       ar_description = ''Full platform control '' @ [em_dash] @ '' organizations, infra, and system settings.'',
       ar_icon = ''Crown'', ar_iconColor = ''#F4B942'', ar_iconBg = ''rgba(244,185,66,0.15)'',
       ar_permissions = perms [FullAccess, FullAccess, FullAccess, FullAccess, FullAccess, FullAccess, FullAccess, FullAccess, FullAccess, FullAccess],
       ar_capabilities =
         [''View all organizations'',
          ''Suspend organizations'',
          ''View platform-wide usage'',
          ''Manage plans and limits'',
          ''Review security incidents'',
          ''Configure system settings'',
          ''Manage infrastructure integrations'',
          ''View global audit logs'']\<rparr>,
     \<lparr>ar_key = ''org-owner'', ar_label = ''Organization Owner'',
       ar_description = ''Manages one organization '' @ [em_dash] @ '' billing, servers, policies, and team.'',
       ar_icon = ''Shield'', ar_iconColor = ''#F05D5E'', ar_iconBg = ''rgba(240,93,94,0.15)'',
       ar_permissions = perms [FullAccess, FullAccess, FullAccess, FullAccess, FullAccess, FullAccess, FullAccess, FullAccess, FullAccess, FullAccess],
       ar_capabilities =
         [''Manage organization settings'',
          ''Invite and remove members'',
          ''Configure billing'',
          ''Register MCP servers'',
          ''Create policies'',
          ''Manage API keys'',
          ''View all organization logs'',
          ''Configure alerts'']\<rparr>,
     \<lparr>ar_key = ''org-admin'', ar_label = ''Organization Admin'',
       ar_description = ''Technical admin '' @ [em_dash] @ '' servers, tools, policies, users, and integrations.'',
       ar_icon = ''ShieldCheck'', ar_iconColor = ''#2DD4A7'', ar_iconBg = ''rgba(45,212,167,0.15)'',
       ar_permissions = perms [FullAccess, FullAccess, FullAccess, FullAccess, FullAccess, NoAccess, FullAccess, FullAccess, FullAccess, FullAccess],
       ar_capabilities =
         [''Register and manage MCP servers'',
          ''Manage tools'',
          ''Create policies'',
          ''Manage users and roles'',
          ''View usage and audit logs'',
          ''Configure webhooks and integrations'']\<rparr>,
     \<lparr>ar_key = ''developer'', ar_label = ''Developer'',
       ar_description = ''Uses approved MCP servers and tools. Creates personal API keys.'',
       ar_icon = ''Code2'', ar_iconColor = ''#48B8E8'', ar_iconBg = ''rgba(72,184,232,0.15)'',
       ar_permissions = perms [ReadAccess, ReadAccess, NoAccess, OwnAccess, OwnAccess, NoAccess, NoAccess, NoAccess, NoAccess, NoAccess],
       ar_capabilities =
         [''View approved servers'',
          ''Discover approved tools'',
          ''Create personal API keys'',
          ''Test tool invocations'',
          ''View personal usage'',
          ''View permitted logs'',
          ''Access documentation'']\<rparr>,
     \<lparr>ar_key = ''security-auditor'', ar_label = ''Security Auditor'',
       ar_description = ''Read-only security visibility '' @ [em_dash] @ '' policies, audit logs, auth events.'',
       ar_icon = ''Eye'', ar_iconColor = ''#8B98A7'', ar_iconBg = ''rgba(139,152,167,0.15)'',
       ar_permissions = perms [ReadAccess, ReadAccess, ReadAccess, FullAccess, NoAccess, NoAccess, NoAccess, NoAccess, ReadAccess, NoAccess],
       ar_capabilities =
         [''View policies'',
          ''View audit logs'',
          ''View authentication events'',
          ''View blocked requests'',
          ''Export compliance reports'',
          ''Cannot change configuration'']\<rparr>,
     \<lparr>ar_key = ''billing-manager'', ar_label = ''Billing Manager'',
       ar_description = ''Manages subscriptions, invoices, and payment details.'',
       ar_icon = ''CreditCard'', ar_iconColor = ''#35C88A'', ar_iconBg = ''rgba(53,200,138,0.15)'',
       ar_permissions = perms [NoAccess, NoAccess, NoAccess, NoAccess, NoAccess, FullAccess, NoAccess, NoAccess, NoAccess, NoAccess],
       ar_capabilities =
         [''View billing'',
          ''Download invoices'',
          ''View usage'',
          ''Upgrade or downgrade plans'',
          ''Manage payment details'']\<rparr>]"

section \<open>Visibility\<close>

definition visibleArchetypes :: "bool \<Rightarrow> RoleArchetype list" where
  "visibleArchetypes isPlatformAdmin =
     (if isPlatformAdmin then ROLE_ARCHETYPES
      else filter (\<lambda>a. ar_key a \<noteq> ''super-admin'') ROLE_ARCHETYPES)"

text \<open>The badge of one cell of the matrix, and the matrix: a row per visible archetype.\<close>

fun AccessBadge :: "Access \<Rightarrow> jsstr" where
  "AccessBadge FullAccess = ''Check''"
| "AccessBadge ReadAccess = ''Eye''"
| "AccessBadge OwnAccess = ''own''"
| "AccessBadge NoAccess = ''Minus''"

definition MatrixPanel :: "bool \<Rightarrow> (jsstr \<times> jsstr list) list" where
  "MatrixPanel isPlatformAdmin =
     map (\<lambda>a. (ar_label a, map (\<lambda>cat. AccessBadge (ar_permissions a cat)) PERM_CATEGORIES))
       (visibleArchetypes isPlatformAdmin)"

section \<open>Seeding\<close>

definition missing_archetypes :: "bool \<Rightarrow> jsstr set \<Rightarrow> RoleArchetype list" where
  "missing_archetypes isPlatformAdmin existingNames =
     filter (\<lambda>r. ar_label r \<notin> existingNames \<and> ar_key r \<notin> existingNames) (visibleArchetypes isPlatformAdmin)"

text \<open>
  The loop. \<open>post\<close> is the backend: it takes the name of a role to create, and answers with its next
  state and whether the call succeeded; a failed call is skipped. The count is the second component.
\<close>

fun seed_loop :: "(jsstr \<Rightarrow> 'b \<Rightarrow> 'b \<times> bool) \<Rightarrow> RoleArchetype list \<Rightarrow> 'b \<Rightarrow> nat \<Rightarrow> 'b \<times> nat" where
  "seed_loop post [] b created = (b, created)"
| "seed_loop post (a # as) b created =
     (case post (ar_label a) b of
        (b', True) \<Rightarrow> seed_loop post as b' (created + 1)
      | (b', False) \<Rightarrow> seed_loop post as b' created)"

definition handleSeed ::
  "(jsstr \<Rightarrow> 'b \<Rightarrow> 'b \<times> bool) \<Rightarrow> bool \<Rightarrow> jsstr set \<Rightarrow> 'b \<Rightarrow> 'b \<times> effect list" where
  "handleSeed post isPlatformAdmin existingNames b =
     (case seed_loop post (missing_archetypes isPlatformAdmin existingNames) b 0 of
        (b', created) \<Rightarrow>
          (b', [Refetch ''/v1/roles'',
                ToastSuccess (''Created '' @ nat_str created @ '' standard role'' @ (if created \<noteq> 1 then ''s'' else []))]))"

text \<open>The button is there only when something is missing.\<close>

definition seed_button :: "bool \<Rightarrow> jsstr set \<Rightarrow> jsstr option" where
  "seed_button isPlatformAdmin existingNames =
     (let missing = missing_archetypes isPlatformAdmin existingNames in
      if length missing = 0 then None
      else Some (''Seed '' @ nat_str (length missing) @ '' standard role'' @ (if length missing \<noteq> 1 then ''s'' else [])))"

section \<open>The roles panel\<close>

record role_view =
  rv_id :: jsstr
  rv_name :: jsstr
  rv_created_at :: jsstr

text \<open>The cards: label, description, capabilities and the mark that the role exists.\<close>

definition archetype_cards :: "bool \<Rightarrow> role_view list \<Rightarrow> (jsstr \<times> jsstr \<times> jsstr list \<times> bool) list" where
  "archetype_cards isPlatformAdmin roles =
     (let existingNames = rv_name ` set roles in
      map (\<lambda>a. (ar_label a, ar_description a, ar_capabilities a,
                ar_label a \<in> existingNames \<or> ar_key a \<in> existingNames))
        (visibleArchetypes isPlatformAdmin))"

text \<open>The icon and colours of a row of the table of existing roles.\<close>

definition role_row :: "role_view \<Rightarrow> jsstr \<times> jsstr \<times> jsstr" where
  "role_row r =
     (case find (\<lambda>a. ar_label a = rv_name r \<or> ar_key a = rv_name r) ROLE_ARCHETYPES of
        None \<Rightarrow> (''ShieldCheck'', ''var(--pc-muted)'', ''rgba(139,152,167,0.1)'')
      | Some a \<Rightarrow> (ar_icon a, ar_iconColor a, ar_iconBg a))"

section \<open>Creating a role and binding a subject\<close>

datatype SubjectType = api_key_subject | oauth_subject

record binding_form =
  bf_subject_id :: jsstr
  bf_subject_type :: SubjectType
  bf_role_id :: jsstr

definition binding_init :: binding_form where
  "binding_init = \<lparr>bf_subject_id = [], bf_subject_type = api_key_subject, bf_role_id = []\<rparr>"

text \<open>The submit of the binding form up to its wait: an error, or the role, subject and type it sends.\<close>

definition binding_start :: "binding_form \<Rightarrow> effect list + (jsstr \<times> jsstr \<times> SubjectType)" where
  "binding_start form =
     (if bf_role_id form = [] then Inl [ToastError ''Select a role'']
      else Inr (bf_role_id form, bf_subject_id form, bf_subject_type form))"

definition binding_finish :: "(api_error + 'd) \<Rightarrow> binding_form \<Rightarrow> binding_form \<times> effect list" where
  "binding_finish out form =
     (case out of
        Inr _ \<Rightarrow> (form\<lparr>bf_subject_id := []\<rparr>, [ToastSuccess ''Member added to role'', Refetch ''/v1/roles''])
      | Inl err \<Rightarrow> (form, [ToastError (error_text err ''Failed to add member'')]))"

record role_form =
  rf_open :: bool
  rf_name :: jsstr

definition create_role_finish :: "(api_error + 'd) \<Rightarrow> jsstr \<Rightarrow> role_form \<Rightarrow> role_form \<times> effect list" where
  "create_role_finish out newRoleName s =
     (case out of
        Inr _ \<Rightarrow>
          (s\<lparr>rf_open := False, rf_name := []\<rparr>,
           [ToastSuccess (''Role '' @ [quote_c] @ newRoleName @ [quote_c] @ '' created''), Refetch ''/v1/roles''])
      | Inl err \<Rightarrow> (s, [ToastError (error_text err ''Failed to create role'')]))"

section \<open>The page's tabs\<close>

definition TABS :: "(jsstr \<times> jsstr) list" where
  "TABS = [(''members'', ''Members''), (''teams'', ''Teams''), (''roles'', ''Roles & Permissions'')]"

definition current_tab :: "jsstr option \<Rightarrow> jsstr" where
  "current_tab requested =
     (if list_ex (\<lambda>t. Some (fst t) = requested) TABS then the requested else ''members'')"

definition tab_href :: "jsstr \<Rightarrow> jsstr" where
  "tab_href key = ''/dashboard/access-control'' @ (if key = ''members'' then [] else ''?tab='' @ key)"

section \<open>Lemmas\<close>

lemma visible_subset: "set (visibleArchetypes p) \<subseteq> set ROLE_ARCHETYPES"
  by (auto simp: visibleArchetypes_def)

lemma archetype_names:
  "map (\<lambda>a. (ar_key a, ar_label a)) ROLE_ARCHETYPES =
     [(''super-admin'', ''Platform Super Admin''), (''org-owner'', ''Organization Owner''),
      (''org-admin'', ''Organization Admin''), (''developer'', ''Developer''),
      (''security-auditor'', ''Security Auditor''), (''billing-manager'', ''Billing Manager'')]"
  by (simp only: ROLE_ARCHETYPES_def list.map RoleArchetype.simps)

lemma super_admin_label:
  assumes "a \<in> set ROLE_ARCHETYPES"
  shows "ar_label a = ''Platform Super Admin'' \<longleftrightarrow> ar_key a = ''super-admin''"
proof -
  have "(ar_key a, ar_label a) \<in> set (map (\<lambda>a. (ar_key a, ar_label a)) ROLE_ARCHETYPES)"
    using assms by force
  then show ?thesis unfolding archetype_names by (elim set_ConsD [elim_format] disjE) auto
qed

lemma seed_loop_names:
  assumes "\<And>n b. names (fst (post n b)) = insert n (names b)"
  shows "names (fst (seed_loop post as b k)) = names b \<union> ar_label ` set as"
proof (induction as arbitrary: b k)
  case (Cons a as)
  obtain b' ok where p: "post (ar_label a) b = (b', ok)" by fastforce
  then have "names b' = insert (ar_label a) (names b)" using assms [of "ar_label a" b] by simp
  then show ?case using Cons p by (cases ok) auto
qed simp

lemma seed_loop_confined:
  assumes "\<And>n b. n \<in> N \<Longrightarrow> P b \<Longrightarrow> P (fst (post n b))" "P b" "ar_label ` set as \<subseteq> N"
  shows "P (fst (seed_loop post as b k))"
  using assms(2,3)
proof (induction as arbitrary: b k)
  case (Cons a as)
  obtain b' ok where p: "post (ar_label a) b = (b', ok)" by fastforce
  then have "P b'" using assms(1) [of "ar_label a" b] Cons.prems by auto
  then show ?case using Cons p by (cases ok) auto
qed simp

lemma visible_not_secret: "''Platform Super Admin'' \<notin> ar_label ` set (visibleArchetypes False)"
proof
  assume "''Platform Super Admin'' \<in> ar_label ` set (visibleArchetypes False)"
  then obtain a where a: "a \<in> set (visibleArchetypes False)" "ar_label a = ''Platform Super Admin''"
    by (rule imageE) (rule that, assumption, rule sym)
  then have m: "a \<in> set ROLE_ARCHETYPES" and k: "ar_key a \<noteq> ''super-admin''"
    unfolding visibleArchetypes_def by (simp_all only: if_False set_filter mem_Collect_eq simp_thms)
  show False using super_admin_label [OF m] a(2) k by blast
qed

lemma missing_labels: "ar_label ` set (missing_archetypes p ns) \<subseteq> ar_label ` set (visibleArchetypes p)"
  by (auto simp: missing_archetypes_def)

section \<open>Properties\<close>

text \<open>
  The platform super admin stays secret: without the platform-admin flag the archetype is on no
  card and in no row of the matrix, and seeding asks the backend only for the other names, so no
  backend state in which the secret role can only come from a request for it ever gets it.
\<close>

lemma super_admin_secret:
  "(\<forall>c. c \<in> set (archetype_cards False roles) \<longrightarrow> fst c \<noteq> ''Platform Super Admin'') \<and>
   (\<forall>c. c \<in> set (MatrixPanel False) \<longrightarrow> fst c \<noteq> ''Platform Super Admin'') \<and>
   (\<forall>P post b. P b \<and> (\<forall>n b. n \<noteq> ''Platform Super Admin'' \<longrightarrow> P b \<longrightarrow> P (fst (post n b))) \<longrightarrow>
      P (fst (handleSeed post False existingNames b)))"
proof (intro conjI allI impI)
  let ?V = "ar_label ` set (visibleArchetypes False)"
  show "fst c \<noteq> ''Platform Super Admin''" if "c \<in> set (archetype_cards False roles)" for c
  proof -
    have "fst c \<in> ?V" using that unfolding archetype_cards_def Let_def by force
    then show ?thesis using visible_not_secret by metis
  qed
  show "fst c \<noteq> ''Platform Super Admin''" if "c \<in> set (MatrixPanel False)" for c
  proof -
    have "fst c \<in> ?V" using that unfolding MatrixPanel_def by force
    then show ?thesis using visible_not_secret by metis
  qed
  fix P :: "'b \<Rightarrow> bool" and post :: "jsstr \<Rightarrow> 'b \<Rightarrow> 'b \<times> bool" and b
  assume a: "P b \<and> (\<forall>n b. n \<noteq> ''Platform Super Admin'' \<longrightarrow> P b \<longrightarrow> P (fst (post n b)))"
  have "P (fst (post n b))" if "n \<in> ?V" "P b" for n b
    using a that visible_not_secret by metis
  then have "P (fst (seed_loop post (missing_archetypes False existingNames) b 0))"
    using conjunct1 [OF a] missing_labels by (rule seed_loop_confined [where N = ?V and P = P])
  then show "P (fst (handleSeed post False existingNames b))"
    by (cases "seed_loop post (missing_archetypes False existingNames) b 0") (simp add: handleSeed_def)
qed

text \<open>
  Seeding is complete: if creating a role leaves the backend with that name, whether the call
  reported success or a duplicate, then after the loop and a refetch nothing is missing and the seed
  button is gone.
\<close>

lemma seed_completes:
  assumes "\<And>n b. names (fst (post n b)) = insert n (names b)"
  shows "seed_button p (names (fst (handleSeed post p (names b) b))) = None"
proof -
  let ?as = "missing_archetypes p (names b)"
  have "names (fst (handleSeed post p (names b) b)) = names b \<union> ar_label ` set ?as"
    using seed_loop_names [of names post ?as b 0, OF assms]
    by (cases "seed_loop post ?as b 0") (simp add: handleSeed_def)
  then show ?thesis
    by (auto simp: seed_button_def missing_archetypes_def filter_empty_conv Let_def)
qed

text \<open>The page shows exactly one of its tabs, and the link of a tab leads to it.\<close>

lemma current_tab_valid: "current_tab r \<in> fst ` set TABS"
  by (auto simp: current_tab_def TABS_def list_ex_iff)

end
