(* ===== verification/Admin_Rbac.thy ===== *)
theory Admin_Rbac
  imports Http_Client
begin

text \<open>
  The client of the administrative API, \<open>web/src/lib/admin-rbac.ts\<close>: the types of teams and members,
  the roles with their metadata, and one definition per request function, which is the configuration
  it hands to the shared HTTP client (\<^const>\<open>client_request\<close> then runs it). The lemmas show that the
  requests of different operations never meet on one route.
\<close>

section \<open>Types\<close>

datatype OrgMemberRole = org_owner | org_admin | developer | team_member | viewer | auditor | billing_admin

fun role_str :: "OrgMemberRole \<Rightarrow> jsstr" where
  "role_str org_owner = ''org_owner''"
| "role_str org_admin = ''org_admin''"
| "role_str developer = ''developer''"
| "role_str team_member = ''team_member''"
| "role_str viewer = ''viewer''"
| "role_str auditor = ''auditor''"
| "role_str billing_admin = ''billing_admin''"

record TeamView =
  tv_id :: jsstr
  tv_tenant_id :: jsstr
  tv_name :: jsstr
  tv_created_at :: jsstr
  tv_updated_at :: jsstr
  tv_server_ids :: "jsstr list"

record OrgMemberView =
  om_id :: jsstr
  om_tenant_id :: jsstr
  om_user_subject :: jsstr
  om_admin_role :: OrgMemberRole
  om_team_id :: "jsstr option"
  om_created_at :: jsstr
  om_updated_at :: jsstr

text \<open>
  The bodies. In an update a field may be left out (outer \<^const>\<open>None\<close>); the team may also be null.
\<close>

datatype rbac_body =
    TeamCreate jsstr
  | OrgMemberCreate jsstr OrgMemberRole "jsstr option"
  | OrgMemberUpdate "OrgMemberRole option" "jsstr option option"

section \<open>Role metadata\<close>

definition ROLE_ORDER :: "OrgMemberRole list" where
  "ROLE_ORDER = [org_owner, org_admin, developer, team_member, viewer, auditor, billing_admin]"

record role_meta =
  rm_label :: jsstr
  rm_description :: jsstr
  rm_color :: jsstr

fun ROLE_META :: "OrgMemberRole \<Rightarrow> role_meta" where
  "ROLE_META org_owner =
     \<lparr>rm_label = ''Org Owner'',
      rm_description = ''Full control '' @ [em_dash] @ '' billing, deletion, all members and servers'',
      rm_color = ''#F4B942''\<rparr>"
| "ROLE_META org_admin =
     \<lparr>rm_label = ''Org Admin'',
      rm_description = ''Operational control '' @ [em_dash] @ '' servers, RBAC, keys, members'',
      rm_color = ''#2DD4A7''\<rparr>"
| "ROLE_META developer =
     \<lparr>rm_label = ''Developer'',
      rm_description = ''Manage servers, tools and rate limits within their team'',
      rm_color = ''#48B8E8''\<rparr>"
| "ROLE_META team_member =
     \<lparr>rm_label = ''Team Member'',
      rm_description = ''Developer-level access without team/member management'',
      rm_color = ''#A78BFA''\<rparr>"
| "ROLE_META viewer =
     \<lparr>rm_label = ''Viewer'',
      rm_description = ''Read-only access to servers, tools and audit logs'',
      rm_color = ''#8B98A7''\<rparr>"
| "ROLE_META auditor =
     \<lparr>rm_label = ''Auditor'',
      rm_description = ''Org-wide audit + RBAC read access, no changes'',
      rm_color = ''#2DD4A7''\<rparr>"
| "ROLE_META billing_admin =
     \<lparr>rm_label = ''Billing Admin'',
      rm_description = ''Payments, invoices and seats only'',
      rm_color = ''#F0A35E''\<rparr>"

section \<open>Requests\<close>

definition listTeams :: "env \<Rightarrow> rbac_body axios_config" where
  "listTeams e = axios_client e ''GET'' ''/auth/teams'' [] None"

definition createTeam :: "env \<Rightarrow> jsstr \<Rightarrow> rbac_body axios_config" where
  "createTeam e name = axios_client e ''POST'' ''/auth/teams'' [] (Some (TeamCreate name))"

definition updateTeam :: "env \<Rightarrow> jsstr \<Rightarrow> jsstr \<Rightarrow> rbac_body axios_config" where
  "updateTeam e teamId name = axios_client e ''PATCH'' (''/auth/teams/'' @ teamId) [] (Some (TeamCreate name))"

definition deleteTeam :: "env \<Rightarrow> jsstr \<Rightarrow> rbac_body axios_config" where
  "deleteTeam e teamId = axios_client e ''DELETE'' (''/auth/teams/'' @ teamId) [] None"

definition assignServerToTeam :: "env \<Rightarrow> jsstr \<Rightarrow> jsstr \<Rightarrow> rbac_body axios_config" where
  "assignServerToTeam e teamId serverId =
     axios_client e ''POST'' (''/auth/teams/'' @ teamId @ ''/servers/'' @ serverId) [] None"

definition removeServerFromTeam :: "env \<Rightarrow> jsstr \<Rightarrow> jsstr \<Rightarrow> rbac_body axios_config" where
  "removeServerFromTeam e teamId serverId =
     axios_client e ''DELETE'' (''/auth/teams/'' @ teamId @ ''/servers/'' @ serverId) [] None"

definition listTeamMembers :: "env \<Rightarrow> jsstr \<Rightarrow> rbac_body axios_config" where
  "listTeamMembers e teamId = axios_client e ''GET'' (''/auth/teams/'' @ teamId @ ''/members'') [] None"

definition listMembers :: "env \<Rightarrow> rbac_body axios_config" where
  "listMembers e = axios_client e ''GET'' ''/auth/members'' [] None"

definition createMember :: "env \<Rightarrow> jsstr \<Rightarrow> OrgMemberRole \<Rightarrow> jsstr option \<Rightarrow> rbac_body axios_config" where
  "createMember e subject role team =
     axios_client e ''POST'' ''/auth/members'' [] (Some (OrgMemberCreate subject role team))"

definition updateMember ::
  "env \<Rightarrow> jsstr \<Rightarrow> OrgMemberRole option \<Rightarrow> jsstr option option \<Rightarrow> rbac_body axios_config" where
  "updateMember e memberId role team =
     axios_client e ''PATCH'' (''/auth/members/'' @ memberId) [] (Some (OrgMemberUpdate role team))"

definition deleteMember :: "env \<Rightarrow> jsstr \<Rightarrow> rbac_body axios_config" where
  "deleteMember e memberId = axios_client e ''DELETE'' (''/auth/members/'' @ memberId) [] None"

section \<open>Routes\<close>

text \<open>An operation with the identifiers it is about, and the request it makes.\<close>

datatype rbac_op =
    ListTeams | CreateTeam jsstr | UpdateTeam jsstr jsstr | DeleteTeam jsstr
  | AssignServer jsstr jsstr | RemoveServer jsstr jsstr | ListTeamMembers jsstr
  | ListMembers | CreateMember jsstr OrgMemberRole "jsstr option"
  | UpdateMember jsstr "OrgMemberRole option" "jsstr option option" | DeleteMember jsstr

fun rbac_request :: "env \<Rightarrow> rbac_op \<Rightarrow> rbac_body axios_config" where
  "rbac_request e ListTeams = listTeams e"
| "rbac_request e (CreateTeam n) = createTeam e n"
| "rbac_request e (UpdateTeam t n) = updateTeam e t n"
| "rbac_request e (DeleteTeam t) = deleteTeam e t"
| "rbac_request e (AssignServer t s) = assignServerToTeam e t s"
| "rbac_request e (RemoveServer t s) = removeServerFromTeam e t s"
| "rbac_request e (ListTeamMembers t) = listTeamMembers e t"
| "rbac_request e ListMembers = listMembers e"
| "rbac_request e (CreateMember s r t) = createMember e s r t"
| "rbac_request e (UpdateMember m r t) = updateMember e m r t"
| "rbac_request e (DeleteMember m) = deleteMember e m"

fun op_ids :: "rbac_op \<Rightarrow> jsstr list" where
  "op_ids (UpdateTeam t n) = [t]"
| "op_ids (DeleteTeam t) = [t]"
| "op_ids (AssignServer t s) = [t, s]"
| "op_ids (RemoveServer t s) = [t, s]"
| "op_ids (ListTeamMembers t) = [t]"
| "op_ids (UpdateMember m r t) = [m]"
| "op_ids (DeleteMember m) = [m]"
| "op_ids _ = []"

text \<open>The segments of the path, between its slashes.\<close>

fun op_path :: "rbac_op \<Rightarrow> jsstr list" where
  "op_path ListTeams = [''teams'']"
| "op_path (CreateTeam n) = [''teams'']"
| "op_path (UpdateTeam t n) = [''teams'', t]"
| "op_path (DeleteTeam t) = [''teams'', t]"
| "op_path (AssignServer t s) = [''teams'', t, ''servers'', s]"
| "op_path (RemoveServer t s) = [''teams'', t, ''servers'', s]"
| "op_path (ListTeamMembers t) = [''teams'', t, ''members'']"
| "op_path ListMembers = [''members'']"
| "op_path (CreateMember s r t) = [''members'']"
| "op_path (UpdateMember m r t) = [''members'', m]"
| "op_path (DeleteMember m) = [''members'', m]"

lemmas rbac_defs = listTeams_def createTeam_def updateTeam_def deleteTeam_def assignServerToTeam_def
  removeServerFromTeam_def listTeamMembers_def listMembers_def createMember_def updateMember_def
  deleteMember_def axios_client_def

lemma rbac_request_path: "cf_url (rbac_request e op) = join ''/'' ([] # ''auth'' # op_path op)"
  by (cases op) (simp_all add: rbac_defs)

definition id_ok :: "jsstr \<Rightarrow> bool" where
  "id_ok s \<longleftrightarrow> CHR ''/'' \<notin> set s"

lemma op_path_ok: "\<forall>x\<in>set (op_ids op). id_ok x \<Longrightarrow> \<forall>x\<in>set ([] # ''auth'' # op_path op). CHR ''/'' \<notin> set x"
  by (cases op) (auto simp: id_ok_def)

lemma rbac_segments:
  "\<forall>x\<in>set (op_ids op). id_ok x \<Longrightarrow>
     split_on (CHR ''/'') (cf_url (rbac_request e op)) = [] # ''auth'' # op_path op"
  unfolding rbac_request_path by (rule split_on_join [OF _ op_path_ok]) auto

section \<open>Properties\<close>

text \<open>
  Requests determine their operation: with identifiers that contain no slash, two requests of the
  administrative client that agree on method, address and body are the same operation on the same
  team, server or member. No deletion of a server assignment can be taken for the deletion of a team.
\<close>

lemma rbac_routes_injective:
  assumes "\<forall>x\<in>set (op_ids a). id_ok x" and "\<forall>x\<in>set (op_ids b). id_ok x"
  shows "rbac_request e a = rbac_request e b \<longleftrightarrow> a = b"
proof
  assume eq: "rbac_request e a = rbac_request e b"
  have p: "op_path a = op_path b"
    using rbac_segments [OF assms(1), of e] rbac_segments [OF assms(2), of e] eq by simp
  have m: "cf_method (rbac_request e a) = cf_method (rbac_request e b)"
    and d: "cf_data (rbac_request e a) = cf_data (rbac_request e b)" using eq by simp_all
  show "a = b"
    using p m d by (cases a; cases b; simp add: rbac_defs)
qed simp

text \<open>The role menu lists every role once.\<close>

lemma ROLE_ORDER_complete: "distinct ROLE_ORDER \<and> set ROLE_ORDER = UNIV"
proof -
  have "r \<in> set ROLE_ORDER" for r by (cases r) (simp_all add: ROLE_ORDER_def)
  then show ?thesis by (auto simp: ROLE_ORDER_def)
qed

end
