(* ===== verification/Confirm_Dialog.thy ===== *)
theory Confirm_Dialog
  imports Js_Prelude
begin

text \<open>
  The confirmation dialog of \<open>web/src/components/confirm-dialog.tsx\<close>, in front of every destructive
  action, and its four pre-built instances. The dialog's own state is the typed text; being open and
  the running call belong to the parent, whose \<open>onClose\<close> closes it. The lemmas show when a run of
  events can reach \<open>onConfirm\<close>.
\<close>

section \<open>Properties of an instance\<close>

datatype variant = Danger | Warning

record confirm_props =
  cp_title :: jsstr
  cp_description :: jsstr
  cp_consequences :: "jsstr list"
  cp_confirmLabel :: "jsstr option"
  cp_cancelLabel :: jsstr
  cp_variant :: variant
  cp_typedConfirmation :: "jsstr option"

fun VARIANT_LABEL :: "variant \<Rightarrow> jsstr" where
  "VARIANT_LABEL Danger = ''Delete''"
| "VARIANT_LABEL Warning = ''Confirm''"

section \<open>State and events\<close>

record confirm_state =
  cd_open :: bool
  cd_typed :: jsstr

datatype confirm_event =
    Opens
  | Types jsstr
  | PressesEnter
  | ClicksConfirm
  | ClicksCancel
  | ClicksClose
  | ClicksBackdrop
  | PressesEscape

definition can_confirm :: "confirm_props \<Rightarrow> jsstr \<Rightarrow> bool" where
  "can_confirm p typed =
     (if truthy (cp_typedConfirmation p) then Some typed = cp_typedConfirmation p else True)"

text \<open>
  One event, with \<open>loading\<close> as the parent passes it; the second component says whether \<open>onConfirm\<close> is
  called. Nothing but opening reaches a dialog that is closed, since it renders nothing and its key
  listener checks \<open>open\<close>; the input and its Enter key exist only with a phrase to type.
\<close>

fun confirm_step :: "confirm_props \<Rightarrow> bool \<Rightarrow> confirm_event \<Rightarrow> confirm_state \<Rightarrow> confirm_state \<times> bool" where
  "confirm_step p loading Opens s = (if cd_open s then s else s\<lparr>cd_open := True, cd_typed := []\<rparr>, False)"
| "confirm_step p loading (Types t) s =
     (if cd_open s \<and> truthy (cp_typedConfirmation p) then s\<lparr>cd_typed := t\<rparr> else s, False)"
| "confirm_step p loading PressesEnter s =
     (s, cd_open s \<and> truthy (cp_typedConfirmation p) \<and> can_confirm p (cd_typed s) \<and> \<not> loading)"
| "confirm_step p loading ClicksConfirm s = (s, cd_open s \<and> \<not> (\<not> can_confirm p (cd_typed s) \<or> loading))"
| "confirm_step p loading ClicksCancel s = (if cd_open s \<and> \<not> loading then s\<lparr>cd_open := False\<rparr> else s, False)"
| "confirm_step p loading ClicksClose s = (s\<lparr>cd_open := False\<rparr>, False)"
| "confirm_step p loading ClicksBackdrop s = (s\<lparr>cd_open := False\<rparr>, False)"
| "confirm_step p loading PressesEscape s = (s\<lparr>cd_open := False\<rparr>, False)"

section \<open>What is rendered\<close>

record confirm_view =
  cv_title :: jsstr
  cv_description :: jsstr
  cv_consequences :: "jsstr list"
  cv_phrase :: "jsstr option"
  cv_input :: "jsstr option"
  cv_mismatch :: bool
  cv_cancel :: "jsstr \<times> bool"
  cv_confirm :: "jsstr \<times> bool"

text \<open>\<^const>\<open>None\<close> when closed; a button is its text and whether it is disabled.\<close>

definition confirm_dialog :: "confirm_props \<Rightarrow> bool \<Rightarrow> confirm_state \<Rightarrow> confirm_view option" where
  "confirm_dialog p loading s =
     (if \<not> cd_open s then None
      else let label = nullish (cp_confirmLabel p) (VARIANT_LABEL (cp_variant p));
               typing = truthy (cp_typedConfirmation p)
           in Some \<lparr>cv_title = cp_title p, cv_description = cp_description p,
                    cv_consequences = cp_consequences p,
                    cv_phrase = (if typing then cp_typedConfirmation p else None),
                    cv_input = (if typing then Some (cd_typed s) else None),
                    cv_mismatch = (typing \<and> cd_typed s \<noteq> [] \<and> Some (cd_typed s) \<noteq> cp_typedConfirmation p),
                    cv_cancel = (cp_cancelLabel p, loading),
                    cv_confirm = (if loading then ''Processing'' @ [ellipsis] else label,
                                  \<not> can_confirm p (cd_typed s) \<or> loading)\<rparr>)"

section \<open>Pre-built dialogs\<close>

definition DeleteServerDialog :: "jsstr \<Rightarrow> confirm_props" where
  "DeleteServerDialog serverSlug =
     \<lparr>cp_title = ''Delete '' @ serverSlug,
      cp_description = ''This server and all its associated configuration will be permanently removed. This action cannot be undone.'',
      cp_consequences =
        [''All tool permission rules for this server will be deleted'',
         ''Active API keys scoped to this server will stop working'',
         ''Historical audit logs will be retained but the server won'' @ [CHR 0x27] @ ''t be resolvable''],
      cp_confirmLabel = Some ''Delete server'', cp_cancelLabel = ''Cancel'', cp_variant = Danger,
      cp_typedConfirmation = Some (''delete-'' @ serverSlug)\<rparr>"

definition RevokeAllKeysDialog :: confirm_props where
  "RevokeAllKeysDialog =
     \<lparr>cp_title = ''Revoke all API keys'',
      cp_description = ''All active API keys in this organization will be immediately revoked. Any integrations or CI/CD pipelines using these keys will stop working.'',
      cp_consequences =
        [''All in-flight requests using a revoked key will return 401'',
         ''Automated systems will need new keys to resume operation'',
         ''This affects all members'' @ [CHR 0x27] @ '' keys, not just yours''],
      cp_confirmLabel = Some ''Revoke all keys'', cp_cancelLabel = ''Cancel'', cp_variant = Danger,
      cp_typedConfirmation = Some ''revoke-all-keys''\<rparr>"

definition DisableToolDialog :: "jsstr \<Rightarrow> jsstr \<Rightarrow> confirm_props" where
  "DisableToolDialog toolName environment =
     \<lparr>cp_title = ''Disable '' @ toolName @ '' in '' @ environment,
      cp_description = ''Disabling this tool in '' @ environment @
        '' will immediately prevent all callers from invoking it, regardless of their role or permissions.'',
      cp_consequences =
        [''Callers will receive a policy-denied error immediately'',
         ''No data will be lost, but in-progress operations may fail'',
         ''The tool can be re-enabled at any time''],
      cp_confirmLabel = Some ''Disable tool'', cp_cancelLabel = ''Cancel'', cp_variant = Warning,
      cp_typedConfirmation = Some (''disable-'' @ environment)\<rparr>"

definition RemoveOrganizationDialog :: "jsstr \<Rightarrow> confirm_props" where
  "RemoveOrganizationDialog orgName =
     \<lparr>cp_title = ''Remove '' @ orgName,
      cp_description = ''This organization and all its data will be permanently deleted. This action cannot be undone and affects all members.'',
      cp_consequences =
        [''All servers, tools, and policies will be deleted'',
         ''All API keys will be immediately revoked'',
         ''All audit logs and billing history will be erased'',
         ''All team members will lose access immediately''],
      cp_confirmLabel = Some ''Remove organization'', cp_cancelLabel = ''Cancel'', cp_variant = Danger,
      cp_typedConfirmation = Some (''remove-'' @ hyphenate (to_lower orgName))\<rparr>"

section \<open>Runs\<close>

text \<open>A run is a list of events, each with the value of \<open>loading\<close> at that moment.\<close>

definition confirm_run :: "confirm_props \<Rightarrow> (bool \<times> confirm_event) list \<Rightarrow> confirm_state \<Rightarrow> confirm_state" where
  "confirm_run p evs s = fold (\<lambda>(l, ev) s. fst (confirm_step p l ev s)) evs s"

text \<open>The events since the dialog was last opened, newest first; \<^const>\<open>None\<close> while it is closed.\<close>

fun since_open :: "(bool \<times> confirm_event) list \<Rightarrow> confirm_event list option" where
  "since_open [] = None"
| "since_open ((l, ev) # newest_first) =
     (let old = since_open newest_first in
      case ev of
        Opens \<Rightarrow> (case old of None \<Rightarrow> Some [] | Some es \<Rightarrow> Some es)
      | ClicksCancel \<Rightarrow> if l then old else None
      | ClicksClose \<Rightarrow> None
      | ClicksBackdrop \<Rightarrow> None
      | PressesEscape \<Rightarrow> None
      | _ \<Rightarrow> map_option (\<lambda>es. ev # es) old)"

fun last_typed :: "confirm_event list \<Rightarrow> jsstr" where
  "last_typed [] = []"
| "last_typed (Types t # es) = t"
| "last_typed (_ # es) = last_typed es"

lemma confirm_run_snoc:
  "confirm_run p (evs @ [(l, ev)]) s = fst (confirm_step p l ev (confirm_run p evs s))"
  by (simp add: confirm_run_def)

lemma confirm_run_history:
  assumes "truthy (cp_typedConfirmation p)"
  shows "cd_open (confirm_run p evs \<lparr>cd_open = False, cd_typed = t0\<rparr>) = (since_open (rev evs) \<noteq> None) \<and>
    (\<forall>es. since_open (rev evs) = Some es \<longrightarrow>
       cd_typed (confirm_run p evs \<lparr>cd_open = False, cd_typed = t0\<rparr>) = last_typed es)"
proof (induction evs rule: rev_induct)
  case Nil
  show ?case by (simp add: confirm_run_def)
next
  case (snoc x evs)
  obtain l ev where x: "x = (l, ev)" by fastforce
  show ?case
    using snoc.IH assms by (cases ev) (auto simp: x confirm_run_snoc Let_def split: option.splits)
qed

section \<open>Properties\<close>

text \<open>
  C19. A destructive action needs its phrase: in any run that starts with the dialog closed, an event
  calls \<open>onConfirm\<close> only while no call is running, after the dialog was opened, and when the text typed
  last since that opening is exactly the phrase. Text typed in an earlier opening does not count.
\<close>

theorem confirm_needs_phrase:
  assumes "cp_typedConfirmation p = Some phrase" and "phrase \<noteq> []"
    and "snd (confirm_step p loading ev (confirm_run p evs \<lparr>cd_open = False, cd_typed = t0\<rparr>))"
  shows "\<not> loading \<and> (\<exists>es. since_open (rev evs) = Some es \<and> last_typed es = phrase)"
proof -
  let ?s = "confirm_run p evs \<lparr>cd_open = False, cd_typed = t0\<rparr>"
  have t: "truthy (cp_typedConfirmation p)" using assms(1,2) by simp
  have "cd_open ?s" "can_confirm p (cd_typed ?s)" "\<not> loading"
    using assms(3) by (cases ev; simp)+
  then show ?thesis
    using confirm_run_history [OF t, of evs t0] t assms(1) by (auto simp: can_confirm_def)
qed

theorem confirm_needs_phrase_witness:
  "last_typed [Types ''delete-web'', Types ''del''] = ''delete-web''"
proof -
  let ?evs = "[(False, Opens), (False, Types ''del''), (False, Types ''delete-web'')]"
  have ph: "cp_typedConfirmation (DeleteServerDialog ''web'') = Some ''delete-web''"
    by (simp add: DeleteServerDialog_def)
  have c: "snd (confirm_step (DeleteServerDialog ''web'') False ClicksConfirm
      (confirm_run (DeleteServerDialog ''web'') ?evs \<lparr>cd_open = False, cd_typed = []\<rparr>))"
    by (simp add: confirm_run_def ph can_confirm_def)
  show ?thesis using confirm_needs_phrase [OF ph _ c] by (simp add: Let_def)
qed

text \<open>The confirm button is drawn enabled exactly when a click on it calls \<open>onConfirm\<close>.\<close>

lemma confirm_button_faithful:
  "(\<exists>v. confirm_dialog p loading s = Some v \<and> \<not> snd (cv_confirm v)) \<longleftrightarrow>
     snd (confirm_step p loading ClicksConfirm s)"
  by (auto simp: confirm_dialog_def Let_def)

end
