(* ===== verification/Members_Tab.thy ===== *)
theory Members_Tab
  imports Admin_Rbac Form_Action Confirm_Dialog
begin

text \<open>
  The members tab, \<open>web/src/app/dashboard/access-control/members-tab.tsx\<close>: the dialogs that invite
  and edit a member, the removal behind the confirmation dialog, who may manage, the search, the
  statistics and the table. The three handlers are interpretations of \<open>guarded_form\<close>.
\<close>

section \<open>Inviting a member\<close>

record invite_state =
  iv_userSubject :: jsstr
  iv_role :: OrgMemberRole
  iv_teamId :: jsstr
  iv_busy :: bool

definition invite_init :: invite_state where
  "invite_init = \<lparr>iv_userSubject = [], iv_role = developer, iv_teamId = [], iv_busy = False\<rparr>"

datatype invite_edit = SetUserSubject jsstr | SetRole OrgMemberRole | SetTeamId jsstr

fun invite_change :: "invite_edit \<Rightarrow> invite_state \<Rightarrow> invite_state" where
  "invite_change (SetUserSubject v) s = s\<lparr>iv_userSubject := v\<rparr>"
| "invite_change (SetRole r) s = s\<lparr>iv_role := r\<rparr>"
| "invite_change (SetTeamId t) s = s\<lparr>iv_teamId := t\<rparr>"

definition invite_start :: "env \<Rightarrow> invite_state \<Rightarrow> (rbac_body axios_config \<times> invite_state) option" where
  "invite_start e s =
     (if trim (iv_userSubject s) = [] \<or> iv_busy s then None
      else Some (createMember e (trim (iv_userSubject s)) (iv_role s) (or_absent (iv_teamId s)),
                 s\<lparr>iv_busy := True\<rparr>))"

definition invite_finish ::
  "invite_state \<Rightarrow> rbac_body axios_config \<Rightarrow> (api_error + 'd) \<Rightarrow> invite_state \<Rightarrow> invite_state \<times> effect list" where
  "invite_finish s0 c out s =
     (case out of
        Inr _ \<Rightarrow>
          (s\<lparr>iv_userSubject := [], iv_role := developer, iv_teamId := [], iv_busy := False\<rparr>,
           [ToastSuccess (''Member '' @ [quote_c] @ trim (iv_userSubject s0) @ [quote_c] @ '' added''),
            Refetch ''members'', CloseDialog])
      | Inl err \<Rightarrow> (s\<lparr>iv_busy := False\<rparr>, [ToastError (error_text err ''Failed to add member'')]))"

text \<open>The menus of the form and its submit button (text and whether it is disabled).\<close>

definition role_options :: "(jsstr \<times> jsstr) list" where
  "role_options = map (\<lambda>r. (role_str r, rm_label (ROLE_META r) @ '' '' @ [em_dash] @ '' '' @ rm_description (ROLE_META r))) ROLE_ORDER"

definition team_options :: "TeamView list \<Rightarrow> (jsstr \<times> jsstr) list" where
  "team_options teams = ([], ''No team '' @ [em_dash] @ '' org-wide role'') # map (\<lambda>t. (tv_id t, tv_name t)) teams"

definition invite_button :: "invite_state \<Rightarrow> jsstr \<times> bool" where
  "invite_button s =
     (if iv_busy s then ''Adding'' @ [ellipsis] else ''Add Member'', trim (iv_userSubject s) = [] \<or> iv_busy s)"

section \<open>Editing a member\<close>

record edit_state =
  ed_role :: OrgMemberRole
  ed_teamId :: jsstr
  ed_busy :: bool

text \<open>The dialog is keyed by the member, so it starts from that member's role and team.\<close>

definition edit_init :: "OrgMemberView option \<Rightarrow> edit_state" where
  "edit_init member =
     \<lparr>ed_role = nullish (map_option om_admin_role member) developer,
      ed_teamId = nullish (Option.bind member om_team_id) [], ed_busy = False\<rparr>"

datatype edit_edit = EdRole OrgMemberRole | EdTeam jsstr

fun edit_change :: "edit_edit \<Rightarrow> edit_state \<Rightarrow> edit_state" where
  "edit_change (EdRole r) s = s\<lparr>ed_role := r\<rparr>"
| "edit_change (EdTeam t) s = s\<lparr>ed_teamId := t\<rparr>"

definition edit_start ::
  "env \<Rightarrow> OrgMemberView \<Rightarrow> edit_state \<Rightarrow> (rbac_body axios_config \<times> edit_state) option" where
  "edit_start e member s =
     (if ed_busy s then None
      else Some (updateMember e (om_id member) (Some (ed_role s)) (Some (or_absent (ed_teamId s))),
                 s\<lparr>ed_busy := True\<rparr>))"

definition edit_finish ::
  "edit_state \<Rightarrow> rbac_body axios_config \<Rightarrow> (api_error + 'd) \<Rightarrow> edit_state \<Rightarrow> edit_state \<times> effect list" where
  "edit_finish s0 c out s =
     (s\<lparr>ed_busy := False\<rparr>,
      case out of
        Inr _ \<Rightarrow> [ToastSuccess ''Member updated'', Refetch ''members'', CloseDialog]
      | Inl err \<Rightarrow> [ToastError (error_text err ''Failed to update member'')])"

definition edit_button :: "edit_state \<Rightarrow> jsstr \<times> bool" where
  "edit_button s = (if ed_busy s then ''Saving'' @ [ellipsis] else ''Save Changes'', ed_busy s)"

section \<open>Removing a member\<close>

record removal_state =
  dl_target :: "OrgMemberView option"
  dl_deleting :: bool

definition member_delete_start ::
  "env \<Rightarrow> removal_state \<Rightarrow> (rbac_body axios_config \<times> removal_state) option" where
  "member_delete_start e s =
     (case dl_target s of
        None \<Rightarrow> None
      | Some m \<Rightarrow> if dl_deleting s then None else Some (deleteMember e (om_id m), s\<lparr>dl_deleting := True\<rparr>))"

definition member_delete_finish ::
  "removal_state \<Rightarrow> rbac_body axios_config \<Rightarrow> (api_error + 'd) \<Rightarrow> removal_state \<Rightarrow> removal_state \<times> effect list" where
  "member_delete_finish s0 c out s =
     (case out of
        Inr _ \<Rightarrow> (s\<lparr>dl_target := None, dl_deleting := False\<rparr>, [ToastSuccess ''Member removed'', Refetch ''members''])
      | Inl err \<Rightarrow> (s\<lparr>dl_deleting := False\<rparr>, [ToastError (error_text err ''Failed to remove member'')]))"

definition member_delete_dialog :: "OrgMemberView option \<Rightarrow> confirm_props" where
  "member_delete_dialog target =
     \<lparr>cp_title = ''Remove member'',
      cp_description = ''Remove '' @ nullish (map_option om_user_subject target) ''this member'' @ '' from the organization.'',
      cp_consequences =
        [''They lose all dashboard access immediately'',
         ''Their administrative role and team scope are revoked''],
      cp_confirmLabel = Some ''Remove member'', cp_cancelLabel = ''Cancel'', cp_variant = Danger,
      cp_typedConfirmation = map_option (\<lambda>m. hyphenate (to_lower (om_user_subject m))) target\<rparr>"

section \<open>Who may manage\<close>

text \<open>The answer of \<open>/auth/me\<close> is its status and the role of the caller, or no data yet.\<close>

definition my_role :: "jsstr option response option \<Rightarrow> jsstr option" where
  "my_role answer =
     (case answer of
        Some (Response st role) \<Rightarrow> if st = 200 then role else None
      | _ \<Rightarrow> None)"

definition can_manage :: "bool \<Rightarrow> jsstr option \<Rightarrow> bool" where
  "can_manage isPlatformAdmin myRole \<longleftrightarrow>
     isPlatformAdmin \<or> myRole = Some ''org_owner'' \<or> myRole = Some ''org_admin''"

section \<open>Search and statistics\<close>

definition team_name_by_id :: "TeamView list \<Rightarrow> jsstr \<Rightarrow> jsstr option" where
  "team_name_by_id teams = fold (\<lambda>t m. m(tv_id t \<mapsto> tv_name t)) teams Map.empty"

definition member_matches :: "(jsstr \<Rightarrow> jsstr option) \<Rightarrow> jsstr \<Rightarrow> OrgMemberView \<Rightarrow> bool" where
  "member_matches teamName q m \<longleftrightarrow>
     sublist q (to_lower (om_user_subject m)) \<or>
     sublist q (to_lower (role_str (om_admin_role m))) \<or>
     (truthy (om_team_id m) \<and> sublist q (to_lower (nullish (teamName (the (om_team_id m))) [])))"

definition filtered_members ::
  "OrgMemberView list option \<Rightarrow> TeamView list \<Rightarrow> jsstr \<Rightarrow> OrgMemberView list" where
  "filtered_members members teams query =
     (case members of
        None \<Rightarrow> []
      | Some ms \<Rightarrow>
          if trim query = [] then ms
          else filter (member_matches (team_name_by_id teams) (to_lower query)) ms)"

record member_stats =
  ms_total :: nat
  ms_owners :: nat
  ms_admins :: nat
  ms_teamScoped :: nat

definition member_stats_of :: "OrgMemberView list option \<Rightarrow> member_stats" where
  "member_stats_of members =
     (case members of
        None \<Rightarrow> \<lparr>ms_total = 0, ms_owners = 0, ms_admins = 0, ms_teamScoped = 0\<rparr>
      | Some ms \<Rightarrow>
          \<lparr>ms_total = length ms,
           ms_owners = length (filter (\<lambda>m. om_admin_role m = org_owner) ms),
           ms_admins = length (filter (\<lambda>m. om_admin_role m = org_admin \<or> om_admin_role m = developer) ms),
           ms_teamScoped = length (filter (\<lambda>m. truthy (om_team_id m)) ms)\<rparr>)"

text \<open>The seat card: label, value and whether it is drawn as critical.\<close>

definition seat_card :: "int \<Rightarrow> member_stats \<Rightarrow> jsstr \<times> jsstr \<times> bool" where
  "seat_card seat_limit st =
     (if seat_limit > 0 then ''Seats Used '' @ [CHR 0xB7] @ '' '' @ int_str seat_limit @ '' limit'' else ''Seats Used'',
      if seat_limit > 0 then nat_str (ms_total st) @ '' / '' @ int_str seat_limit else nat_str (ms_total st),
      seat_limit > 0 \<and> int (ms_total st) > seat_limit)"

section \<open>The table\<close>

record member_row =
  mr_subject :: jsstr
  mr_short_id :: jsstr
  mr_badge :: jsstr
  mr_crown :: bool
  mr_team :: jsstr
  mr_added :: jsstr
  mr_actions :: bool

datatype members_view =
    MembersLoading
  | MembersEmpty jsstr bool
  | MembersNoMatch jsstr
  | MembersTable "jsstr list" "member_row list"

definition member_row_of :: "bool \<Rightarrow> (jsstr \<Rightarrow> jsstr option) \<Rightarrow> OrgMemberView \<Rightarrow> member_row" where
  "member_row_of canManage teamName m =
     \<lparr>mr_subject = om_user_subject m, mr_short_id = take 8 (om_id m) @ [ellipsis],
      mr_badge = rm_label (ROLE_META (om_admin_role m)), mr_crown = (om_admin_role m = org_owner),
      mr_team = (if truthy (om_team_id m) then nullish (teamName (the (om_team_id m))) ''Unknown team'' else ''Org-wide''),
      mr_added = om_created_at m, mr_actions = canManage\<rparr>"

definition members_table ::
  "bool \<Rightarrow> bool \<Rightarrow> OrgMemberView list option \<Rightarrow> TeamView list \<Rightarrow> jsstr \<Rightarrow> members_view" where
  "members_table loading canManage members teams query =
     (if loading then MembersLoading
      else if members = None \<or> members = Some [] then
        MembersEmpty (if canManage then ''Add a dashboard user with an administrative role to get started''
                      else ''Members are managed by your organization owner'') canManage
      else let found = filtered_members members teams query in
        if found = [] then MembersNoMatch query
        else MembersTable
               (if canManage then [''Subject'', ''Role'', ''Team'', ''Added'', ''Actions'']
                else [''Subject'', ''Role'', ''Team'', ''Added''])
               (map (member_row_of canManage (team_name_by_id teams)) found))"

text \<open>The toolbar's button to add a member is there only for a manager.\<close>

definition shows_management :: "bool \<Rightarrow> members_view \<Rightarrow> bool" where
  "shows_management canManage v \<longleftrightarrow>
     canManage \<or>
     (case v of
        MembersEmpty _ b \<Rightarrow> b
      | MembersTable hs rows \<Rightarrow> ''Actions'' \<in> set hs \<or> list_ex mr_actions rows
      | _ \<Rightarrow> False)"

section \<open>The handlers are guarded\<close>

text \<open>What a member call must look like: a subject without surrounding space.\<close>

definition good_member_call :: "rbac_body axios_config \<Rightarrow> bool" where
  "good_member_call c \<longleftrightarrow>
     (case cf_data c of
        Some (OrgMemberCreate s r t) \<Rightarrow> s \<noteq> [] \<and> trim s = s \<and> t \<noteq> Some []
      | Some (OrgMemberUpdate r t) \<Rightarrow> t \<noteq> Some (Some [])
      | Some (TeamCreate _) \<Rightarrow> False
      | None \<Rightarrow> cf_method c = ''DELETE'')"

lemma or_absent_nonempty [simp]: "or_absent s \<noteq> Some []"
  by (simp add: or_absent_def)

interpretation invite: guarded_form "invite_start e" invite_finish invite_change iv_busy good_member_call for e
proof unfold_locales
  show "iv_busy (invite_change x s) = iv_busy s" for x s by (cases x) simp_all
qed (auto simp: invite_start_def invite_finish_def good_member_call_def createMember_def axios_client_def
    split: if_splits sum.split)

interpretation member_edit: guarded_form "edit_start e m" edit_finish edit_change ed_busy good_member_call for e m
proof unfold_locales
  show "ed_busy (edit_change x s) = ed_busy s" for x s by (cases x) simp_all
qed (auto simp: edit_start_def edit_finish_def good_member_call_def updateMember_def axios_client_def
    split: if_splits)

interpretation member_removal: guarded_form "member_delete_start e" member_delete_finish
  "\<lambda>t s. s\<lparr>dl_target := t\<rparr>" dl_deleting good_member_call for e
  by unfold_locales
    (auto simp: member_delete_start_def member_delete_finish_def good_member_call_def deleteMember_def
      axios_client_def split: if_splits sum.split option.splits)

section \<open>Properties\<close>

text \<open>
  Inviting is single-flight and sends only valid invitations: however the form is edited and
  submitted and however calls settle, at most one invitation is running at any moment, and each one
  sent has a non-empty trimmed subject and either a team or none, never the empty team.
\<close>

lemma invite_single_flight:
  "length (fr_pending (fold (form_step (invite_start e) invite_finish invite_change) evs (form_init invite_init))) \<le> 1 \<and>
   list_all good_member_call
     (fr_issued (fold (form_step (invite_start e) invite_finish invite_change) evs (form_init invite_init)))"
  by (rule invite.single_flight) (simp add: invite_init_def)

text \<open>
  Saving an edit dialog nobody touched writes back what the member had: the request sets the
  member's own role and team, so opening and saving changes nothing.
\<close>

lemma edit_untouched_keeps_member:
  assumes "om_team_id m \<noteq> Some []"
  shows "edit_start e m (edit_init (Some m)) =
    Some (updateMember e (om_id m) (Some (om_admin_role m)) (Some (om_team_id m)),
          (edit_init (Some m))\<lparr>ed_busy := True\<rparr>)"
  using assms by (cases "om_team_id m") (auto simp: edit_start_def edit_init_def or_absent_def)

definition demo_member :: OrgMemberView where
  "demo_member = \<lparr>om_id = ''m-1'', om_tenant_id = ''t'', om_user_subject = ''Ada L'', om_admin_role = viewer,
     om_team_id = Some ''team-9'', om_created_at = ''2025-01-01'', om_updated_at = ''2025-01-01''\<rparr>"

lemma filtered_subset: "set (filtered_members (Some ms) teams q) \<subseteq> set ms"
  by (auto simp: filtered_members_def)

text \<open>
  Only managers see management: without the platform-admin flag and without the owner or admin
  role from a successful \<open>/auth/me\<close>, no add button, action column or row action is rendered, whatever
  the state of the member list.
\<close>

lemma members_read_only:
  assumes "my_role answer \<notin> {Some ''org_owner'', Some ''org_admin''}"
  shows "\<not> shows_management (can_manage False (my_role answer))
           (members_table loading (can_manage False (my_role answer)) members teams query)"
  using assms
  by (auto simp: shows_management_def can_manage_def members_table_def Let_def member_row_of_def list_ex_iff)

end
