(* ===== verification/Teams_Tab.thy ===== *)
theory Teams_Tab
  imports Members_Tab
begin

text \<open>
  The teams tab, \<open>web/src/app/dashboard/access-control/teams-tab.tsx\<close>: the colour and initials of a
  team, creating and deleting a team, the dialog that assigns servers to a team, the team card and the
  counts. The assignment dialog may have several calls running, one per server, so it is a state
  machine with its own reachability invariant.
\<close>

unbundle bit_operations_syntax

section \<open>Colour and initials\<close>

definition TEAM_COLORS :: "jsstr list" where
  "TEAM_COLORS = [''var(--pc-primary)'', ''var(--pc-secondary)'', ''var(--pc-warning)'', ''#A78BFA'', ''#FB7185'', ''#34D399'']"

text \<open>
  The operand of \<open><<\<close> is cut to a signed 32-bit integer, the subtraction and the addition are on
  numbers.
\<close>

definition shl5 :: "int \<Rightarrow> int" where
  "shl5 h = sint (push_bit 5 (word_of_int h :: 32 word))"

definition team_hash :: "jsstr \<Rightarrow> int" where
  "team_hash name = foldl (\<lambda>hash c. of_char c + (shl5 hash - hash)) 0 name"

definition teamColor :: "jsstr \<Rightarrow> jsstr" where
  "teamColor name = TEAM_COLORS ! nat (\<bar>team_hash name\<bar> mod int (length TEAM_COLORS))"

definition teamInitials :: "jsstr \<Rightarrow> jsstr" where
  "teamInitials name =
     concat (map (\<lambda>w. case w of [] \<Rightarrow> [] | c # _ \<Rightarrow> to_upper [c]) (take 2 (split_ws name)))"

section \<open>Creating and deleting a team\<close>

record team_form =
  tf_name :: jsstr
  tf_busy :: bool

definition team_create_start :: "env \<Rightarrow> team_form \<Rightarrow> (rbac_body axios_config \<times> team_form) option" where
  "team_create_start e s =
     (if trim (tf_name s) = [] \<or> tf_busy s then None
      else Some (createTeam e (trim (tf_name s)), s\<lparr>tf_busy := True\<rparr>))"

definition team_create_finish ::
  "team_form \<Rightarrow> rbac_body axios_config \<Rightarrow> (api_error + 'd) \<Rightarrow> team_form \<Rightarrow> team_form \<times> effect list" where
  "team_create_finish s0 c out s =
     (case out of
        Inr _ \<Rightarrow>
          (s\<lparr>tf_name := [], tf_busy := False\<rparr>,
           [ToastSuccess (''Team '' @ [quote_c] @ trim (tf_name s0) @ [quote_c] @ '' created''),
            Refetch ''teams'', Refetch ''/v1/servers'', CloseDialog])
      | Inl err \<Rightarrow> (s\<lparr>tf_busy := False\<rparr>, [ToastError (error_text err ''Failed to create team'')]))"

definition team_create_button :: "team_form \<Rightarrow> jsstr \<times> bool" where
  "team_create_button s =
     (if tf_busy s then ''Creating'' @ [ellipsis] else ''Create Team'', trim (tf_name s) = [] \<or> tf_busy s)"

record team_removal =
  td_target :: "TeamView option"
  td_deleting :: bool

definition team_delete_start :: "env \<Rightarrow> team_removal \<Rightarrow> (rbac_body axios_config \<times> team_removal) option" where
  "team_delete_start e s =
     (case td_target s of
        None \<Rightarrow> None
      | Some t \<Rightarrow> if td_deleting s then None else Some (deleteTeam e (tv_id t), s\<lparr>td_deleting := True\<rparr>))"

definition team_delete_finish ::
  "team_removal \<Rightarrow> rbac_body axios_config \<Rightarrow> (api_error + 'd) \<Rightarrow> team_removal \<Rightarrow> team_removal \<times> effect list" where
  "team_delete_finish s0 c out s =
     (case out of
        Inr _ \<Rightarrow>
          (s\<lparr>td_target := None, td_deleting := False\<rparr>,
           [ToastSuccess (''Team '' @ [quote_c] @ (case td_target s0 of None \<Rightarrow> [] | Some t \<Rightarrow> tv_name t) @ [quote_c] @ '' deleted''),
            Refetch ''teams''])
      | Inl err \<Rightarrow> (s\<lparr>td_deleting := False\<rparr>, [ToastError (error_text err ''Failed to delete team'')]))"

definition team_delete_dialog :: "TeamView option \<Rightarrow> confirm_props" where
  "team_delete_dialog target =
     \<lparr>cp_title = ''Delete '' @ nullish (map_option tv_name target) ''team'',
      cp_description = ''This team will be permanently removed.'',
      cp_consequences =
        [''Members stay in the organization but lose their team scope'',
         ''Server-to-team assignments are removed''],
      cp_confirmLabel = Some ''Delete team'', cp_cancelLabel = ''Cancel'', cp_variant = Danger,
      cp_typedConfirmation = map_option (\<lambda>t. hyphenate (to_lower (tv_name t))) target\<rparr>"

section \<open>Assigning servers to a team\<close>

record server_view =
  sv_id :: jsstr
  sv_name :: jsstr
  sv_slug :: jsstr

record manage_state =
  mg_pending :: "jsstr \<Rightarrow> bool"
  mg_serverIds :: "jsstr list"

definition manage_init :: "TeamView option \<Rightarrow> manage_state" where
  "manage_init team = \<lparr>mg_pending = (\<lambda>_. False), mg_serverIds = nullish (map_option tv_server_ids team) []\<rparr>"

text \<open>The call a click makes, before the wait; \<open>currentlyAssigned\<close> is captured by the row.\<close>

definition toggle_start ::
  "env \<Rightarrow> TeamView \<Rightarrow> jsstr \<Rightarrow> bool \<Rightarrow> manage_state \<Rightarrow> rbac_body axios_config \<times> manage_state" where
  "toggle_start e team serverId currentlyAssigned s =
     (if currentlyAssigned then removeServerFromTeam e (tv_id team) serverId
      else assignServerToTeam e (tv_id team) serverId,
      s\<lparr>mg_pending := (mg_pending s)(serverId := True)\<rparr>)"

definition toggle_finish ::
  "jsstr \<Rightarrow> bool \<Rightarrow> (api_error + 'd) \<Rightarrow> manage_state \<Rightarrow> manage_state \<times> effect list" where
  "toggle_finish serverId currentlyAssigned out s =
     (case out of
        Inr _ \<Rightarrow>
          (s\<lparr>mg_serverIds := (if currentlyAssigned then filter (\<lambda>i. i \<noteq> serverId) (mg_serverIds s)
                             else mg_serverIds s @ [serverId]),
             mg_pending := (mg_pending s)(serverId := False)\<rparr>,
           [Refetch ''teams'', Refetch ''/v1/servers''])
      | Inl err \<Rightarrow>
          (s\<lparr>mg_pending := (mg_pending s)(serverId := False)\<rparr>,
           [ToastError (error_text err ''Failed to update server assignment'')]))"

text \<open>A row: the server, whether it is drawn as assigned, and whether its button is disabled.\<close>

definition manage_rows :: "server_view list \<Rightarrow> manage_state \<Rightarrow> (server_view \<times> bool \<times> bool) list" where
  "manage_rows servers s = map (\<lambda>v. (v, sv_id v \<in> set (mg_serverIds s), mg_pending s (sv_id v))) servers"

section \<open>The team card\<close>

record team_card =
  tc_initials :: jsstr
  tc_color :: jsstr
  tc_name :: jsstr
  tc_created :: jsstr
  tc_members :: nat
  tc_servers :: nat
  tc_orgWide :: jsstr
  tc_assigned :: "jsstr list option"
  tc_hint :: "jsstr option"

definition TeamCard :: "TeamView \<Rightarrow> nat \<Rightarrow> server_view list \<Rightarrow> bool \<Rightarrow> team_card" where
  "TeamCard team memberCount servers expanded =
     (let assignedServers = filter (\<lambda>s. sv_id s \<in> set (tv_server_ids team)) servers in
      \<lparr>tc_initials = teamInitials (tv_name team), tc_color = teamColor (tv_name team),
       tc_name = tv_name team, tc_created = tv_created_at team, tc_members = memberCount,
       tc_servers = length (tv_server_ids team),
       tc_orgWide = (if length (tv_server_ids team) = 0 then ''Yes'' else ''No''),
       tc_assigned = (if expanded then Some (map sv_slug assignedServers) else None),
       tc_hint = (if expanded \<and> assignedServers = []
                  then Some (''No servers assigned '' @ [em_dash] @ '' members have org-wide server access.'') else None)\<rparr>)"

section \<open>Counts\<close>

definition memberCountByTeam :: "OrgMemberView list \<Rightarrow> jsstr \<Rightarrow> nat option" where
  "memberCountByTeam members =
     fold (\<lambda>m counts. if truthy (om_team_id m)
                      then counts(the (om_team_id m) \<mapsto> nullish (counts (the (om_team_id m))) 0 + 1) else counts)
       members Map.empty"

definition unassignedMembers :: "OrgMemberView list \<Rightarrow> nat" where
  "unassignedMembers members = length (filter (\<lambda>m. \<not> truthy (om_team_id m)) members)"

definition assignedServerCount :: "TeamView list option \<Rightarrow> nat" where
  "assignedServerCount teams =
     nullish (map_option (\<lambda>ts. foldl (\<lambda>sum t. sum + length (tv_server_ids t)) 0 ts) teams) 0"

text \<open>The four statistics: teams, members with the org-wide ones, assignments, teams with servers.\<close>

definition team_stats :: "TeamView list option \<Rightarrow> OrgMemberView list \<Rightarrow> nat \<times> (nat \<times> jsstr) \<times> nat \<times> nat" where
  "team_stats teams members =
     (nullish (map_option length teams) 0,
      (length members, nat_str (unassignedMembers members) @ '' org-wide''),
      assignedServerCount teams,
      nullish (map_option (\<lambda>ts. length (filter (\<lambda>t. length (tv_server_ids t) > 0) ts)) teams) 0)"

section \<open>The handlers are guarded\<close>

definition good_team_call :: "rbac_body axios_config \<Rightarrow> bool" where
  "good_team_call c \<longleftrightarrow>
     (case cf_data c of
        Some (TeamCreate n) \<Rightarrow> n \<noteq> [] \<and> trim n = n
      | Some _ \<Rightarrow> False
      | None \<Rightarrow> cf_method c = ''DELETE'')"

interpretation team_create: guarded_form "team_create_start e" team_create_finish
  "\<lambda>n s. s\<lparr>tf_name := n\<rparr>" tf_busy good_team_call for e
  by unfold_locales
    (auto simp: team_create_start_def team_create_finish_def good_team_call_def createTeam_def
      axios_client_def split: if_splits sum.split)

interpretation team_removal: guarded_form "team_delete_start e" team_delete_finish
  "\<lambda>t s. s\<lparr>td_target := t\<rparr>" td_deleting good_team_call for e
  by unfold_locales
    (auto simp: team_delete_start_def team_delete_finish_def good_team_call_def deleteTeam_def
      axios_client_def split: if_splits sum.split option.splits)

section \<open>The assignment dialog and the backend\<close>

text \<open>
  The dialog together with what the backend holds for the team and the calls on their way. A call
  that resolves has been carried out and one that is rejected has not. Calls of different servers may
  settle in any order, and rows of other servers may be clicked in between.
\<close>

record manage_sys =
  my_dialog :: manage_state
  my_calls :: "(jsstr \<times> bool) list"
  my_backend :: "jsstr set"

inductive manage_step :: "env \<Rightarrow> TeamView \<Rightarrow> server_view list \<Rightarrow> manage_sys \<Rightarrow> manage_sys \<Rightarrow> bool"
  for e team servers where
    click: "(v, assigned, False) \<in> set (manage_rows servers (my_dialog y)) \<Longrightarrow>
      manage_step e team servers y
        (y\<lparr>my_dialog := snd (toggle_start e team (sv_id v) assigned (my_dialog y)),
           my_calls := (sv_id v, assigned) # my_calls y\<rparr>)"
  | resolved: "my_calls y = pre @ (i, assigned) # post \<Longrightarrow>
      manage_step e team servers y
        (y\<lparr>my_dialog := fst (toggle_finish i assigned (Inr () :: api_error + unit) (my_dialog y)),
           my_calls := pre @ post,
           my_backend := (if assigned then my_backend y - {i} else insert i (my_backend y))\<rparr>)"
  | rejected: "my_calls y = pre @ (i, assigned) # post \<Longrightarrow>
      manage_step e team servers y
        (y\<lparr>my_dialog := fst (toggle_finish i assigned (Inl err :: api_error + unit) (my_dialog y)), my_calls := pre @ post\<rparr>)"

inductive manage_reach :: "env \<Rightarrow> TeamView \<Rightarrow> server_view list \<Rightarrow> manage_sys \<Rightarrow> bool" for e team servers where
    opened: "distinct (tv_server_ids team) \<Longrightarrow>
      manage_reach e team servers
        \<lparr>my_dialog = manage_init (Some team), my_calls = [], my_backend = set (tv_server_ids team)\<rparr>"
  | step: "manage_reach e team servers y \<Longrightarrow> manage_step e team servers y y' \<Longrightarrow> manage_reach e team servers y'"

definition manage_inv :: "manage_sys \<Rightarrow> bool" where
  "manage_inv y \<longleftrightarrow>
     set (mg_serverIds (my_dialog y)) = my_backend y \<and> distinct (mg_serverIds (my_dialog y)) \<and>
     distinct (map fst (my_calls y)) \<and>
     (\<forall>(i, assigned) \<in> set (my_calls y). assigned = (i \<in> my_backend y)) \<and>
     (\<forall>i. mg_pending (my_dialog y) i = (i \<in> fst ` set (my_calls y)))"

lemma manage_inv_step:
  assumes "manage_step e team servers y y'" "manage_inv y"
  shows "manage_inv y'"
  using assms
proof cases
  case (click v assigned)
  then show ?thesis
    using assms(2) by (auto simp: manage_inv_def manage_rows_def toggle_start_def)
next
  case (resolved pre i assigned post)
  then show ?thesis
    using assms(2) by (auto simp: manage_inv_def toggle_finish_def image_iff split: if_splits)
next
  case (rejected pre i assigned post err)
  then show ?thesis
    using assms(2) by (auto simp: manage_inv_def toggle_finish_def image_iff)
qed

section \<open>Lemmas on the hash\<close>

lemma shl5_bound: "\<bar>shl5 h\<bar> \<le> 2 ^ 31"
  using sint_greater_eq [of "push_bit 5 (word_of_int h :: 32 word)"]
    sint_less [of "push_bit 5 (word_of_int h :: 32 word)"] by (simp add: shl5_def abs_le_iff)

lemma of_char_bound: "0 \<le> (of_char c :: int) \<and> (of_char c :: int) \<le> 255"
proof -
  have "(of_char c :: nat) < 256" by (rule nat_of_char_less_256)
  moreover have "(of_char c :: int) = int (of_char c)" by (simp only: of_nat_of_char)
  ultimately show ?thesis by linarith
qed

lemma team_hash_bound: "\<bar>team_hash name\<bar> \<le> int (length name) * (2 ^ 31 + 255)"
proof (induction name rule: rev_induct)
  case (snoc c name)
  have "team_hash (name @ [c]) = of_char c + (shl5 (team_hash name) - team_hash name)"
    by (simp add: team_hash_def)
  then have "\<bar>team_hash (name @ [c])\<bar> \<le> 255 + 2 ^ 31 + \<bar>team_hash name\<bar>"
    using shl5_bound [of "team_hash name"] of_char_bound [of c] by linarith
  then show ?case using snoc by (simp add: algebra_simps)
qed (simp add: team_hash_def)

section \<open>Lemmas on the counts\<close>

lemma memberCount_step:
  "nullish (memberCountByTeam (ms @ [m]) t) 0 =
     nullish (memberCountByTeam ms t) 0 + (if om_team_id m = Some t \<and> t \<noteq> [] then 1 else 0)"
  by (cases "om_team_id m") (auto simp: memberCountByTeam_def)

lemma memberCount_eq:
  "t \<noteq> [] \<Longrightarrow> nullish (memberCountByTeam ms t) 0 = length (filter (\<lambda>m. om_team_id m = Some t) ms)"
proof (induction ms rule: rev_induct)
  case (snoc m ms)
  then show ?case by (simp add: memberCount_step)
qed (simp add: memberCountByTeam_def)

section \<open>Properties\<close>


definition demo_team :: TeamView where
  "demo_team = \<lparr>tv_id = ''t1'', tv_tenant_id = ''o'', tv_name = ''Data  Science'', tv_created_at = ''2025-01-01'',
     tv_updated_at = ''2025-01-01'', tv_server_ids = [''s1'']\<rparr>"


text \<open>
  The colour of a team is always one of the palette, and the hash behind it is exact: although
  only the shift is cut to 32 bits, so that the running value grows, it stays within the integers a
  JavaScript number represents for names up to two million characters.
\<close>

lemma team_color_in_palette:
  "teamColor name \<in> set TEAM_COLORS \<and> (length name \<le> 2 ^ 21 \<longrightarrow> \<bar>team_hash name\<bar> < 2 ^ 53)"
proof
  have "0 \<le> \<bar>team_hash name\<bar> mod 6" "\<bar>team_hash name\<bar> mod 6 < 6"
    by (rule pos_mod_sign, simp) (rule pos_mod_bound, simp)
  then have "nat (\<bar>team_hash name\<bar> mod int (length TEAM_COLORS)) < length TEAM_COLORS"
    by (simp add: TEAM_COLORS_def nat_less_iff)
  then show "teamColor name \<in> set TEAM_COLORS" by (simp add: teamColor_def)
  have "int (length name) * (2 ^ 31 + 255) \<le> 2 ^ 21 * (2 ^ 31 + 255)" if "length name \<le> 2 ^ 21"
    using that by (intro mult_right_mono) auto
  then show "length name \<le> 2 ^ 21 \<longrightarrow> \<bar>team_hash name\<bar> < 2 ^ 53"
    using team_hash_bound [of name] by fastforce
qed

text \<open>
  The counts on the cards are right and account for everybody: a team's count is the number of
  members with that team, and over a list of distinct teams that covers all members' teams the counts
  and the unassigned members add up to the members.
\<close>

lemma member_counts_partition:
  assumes "distinct ts" and "[] \<notin> set ts"
    and "\<forall>m\<in>set ms. truthy (om_team_id m) \<longrightarrow> the (om_team_id m) \<in> set ts"
  shows "(\<forall>t\<in>set ts. nullish (memberCountByTeam ms t) 0 = length (filter (\<lambda>m. om_team_id m = Some t) ms)) \<and>
    sum_list (map (\<lambda>t. nullish (memberCountByTeam ms t) 0) ts) + unassignedMembers ms = length ms"
proof
  show 1: "\<forall>t\<in>set ts. nullish (memberCountByTeam ms t) 0 = length (filter (\<lambda>m. om_team_id m = Some t) ms)"
    using assms(2) by (metis memberCount_eq)
  show "sum_list (map (\<lambda>t. nullish (memberCountByTeam ms t) 0) ts) + unassignedMembers ms = length ms"
    using assms(3)
  proof (induction ms rule: rev_induct)
    case Nil
    then show ?case by (simp add: memberCountByTeam_def unassignedMembers_def)
  next
    case (snoc m ms)
    have one: "sum_list (map (\<lambda>t. if om_team_id m = Some t \<and> t \<noteq> [] then 1 else 0 :: nat) ts) =
        (if truthy (om_team_id m) then 1 else 0)"
    proof (cases "om_team_id m")
      case (Some a)
      then have "set ts \<inter> {t. a = t \<and> t \<noteq> []} = (if a \<noteq> [] then {a} else {})"
        using assms(2) snoc.prems by auto
      then show ?thesis
        using Some assms(1) by (simp add: sum_list_distinct_conv_sum_set sum.If_cases)
    qed simp
    show ?case
      using snoc one by (auto simp: memberCount_step unassignedMembers_def sum_list_addf)
  qed
qed

text \<open>
  The card can contradict itself: when the servers a team is restricted to are not in the loaded
  server list (it is still loading, or they were deleted), the expanded card says that the members
  have org-wide access while the same card says that the team is not org-wide.
\<close>

lemma team_card_contradiction:
  assumes "tv_server_ids team \<noteq> []" and "\<forall>s\<in>set servers. sv_id s \<notin> set (tv_server_ids team)"
  shows "tc_orgWide (TeamCard team n servers True) = ''No'' \<and>
    tc_hint (TeamCard team n servers True) =
      Some (''No servers assigned '' @ [em_dash] @ '' members have org-wide server access.'')"
  using assms by (simp add: TeamCard_def Let_def)

end
