(* ===== verification/Middleware.thy ===== *)
theory Middleware
  imports Browser
begin

text \<open>
  The server-side route middleware, \<open>web/middleware.ts\<close>: which paths are protected, the security
  headers with the content security policy, the check of the guard and session cookies, the call to
  the backend that verifies a session cookie, and the composition with the Clerk middleware.

  Not under the sources and therefore arguments: the URL parser of the runtime (\<open>url_origin\<close>, with
  \<^const>\<open>None\<close> where it throws), the backend (\<open>verify\<close>), and Clerk's route matcher and session.
\<close>

section \<open>Requests and responses\<close>

record next_request =
  nr_pathname :: jsstr
  nr_cookies :: "(jsstr \<times> jsstr) list"
  nr_cookie_header :: "jsstr option"

text \<open>A redirect is the path of its target with the query parameters set on it.\<close>

datatype next_kind = NextPage | RedirectTo jsstr "(jsstr \<times> jsstr) list" | ClerkProtect

record next_response =
  ns_kind :: next_kind
  ns_headers :: "(jsstr \<times> jsstr) list"
  ns_set_cookies :: "(jsstr \<times> jsstr \<times> nat) list"

section \<open>Routes\<close>

definition TOKEN_COOKIE :: jsstr where "TOKEN_COOKIE = ''portcullis_token''"

definition PROTECTED_PREFIXES :: "jsstr list" where
  "PROTECTED_PREFIXES = [''/admin'', ''/dashboard'', ''/developer'']"

definition PUBLIC_EXACT :: "jsstr set" where
  "PUBLIC_EXACT = {''/login'', ''/register'', ''/privacy'', ''/terms'', ''/sso-callback''}"

definition is_protected :: "jsstr \<Rightarrow> bool" where
  "is_protected path \<longleftrightarrow> list_ex (\<lambda>p. path = p \<or> prefix (p @ ''/'') path) PROTECTED_PREFIXES"

definition is_public :: "jsstr \<Rightarrow> bool" where
  "is_public path \<longleftrightarrow> path \<in> PUBLIC_EXACT \<or> path = ''/''"

section \<open>Security headers\<close>

definition base_headers :: "(jsstr \<times> jsstr) list" where
  "base_headers =
     [(''X-Content-Type-Options'', ''nosniff''),
      (''X-Frame-Options'', ''DENY''),
      (''Referrer-Policy'', ''strict-origin-when-cross-origin''),
      (''Permissions-Policy'', ''geolocation=(), microphone=(), camera=()'')]"

definition quoted :: "jsstr \<Rightarrow> jsstr" where
  "quoted s = [CHR 0x27] @ s @ [CHR 0x27]"

definition csp_directives :: "env \<Rightarrow> jsstr \<Rightarrow> jsstr list" where
  "csp_directives e apiHost =
     (let clerk = truthy (CLERK_KEY e);
          connectSrc = [quoted ''self'', apiHost] @
            (if clerk then [''https://*.clerk.accounts.dev'', ''https://*.clerk.com''] else []);
          scriptSrc = [quoted ''self'', quoted ''unsafe-eval'', quoted ''unsafe-inline''] @
            (if clerk then [''https://*.clerk.accounts.dev'', ''https://*.clerk.com'', ''https://challenges.cloudflare.com''] else []);
          imgSrc = [quoted ''self'', ''data:'', ''blob:''] @
            (if clerk then [''https://*.clerk.com'', ''https://img.clerk.com''] else []);
          frameSrc = (if clerk then [''https://challenges.cloudflare.com''] else []);
          workerSrc = (if clerk then [quoted ''self'', ''blob:''] else [])
      in [''default-src '' @ quoted ''self'',
          ''connect-src '' @ join '' '' connectSrc,
          ''script-src '' @ join '' '' scriptSrc,
          ''style-src '' @ quoted ''self'' @ '' '' @ quoted ''unsafe-inline'',
          ''img-src '' @ join '' '' imgSrc,
          ''font-src '' @ quoted ''self'' @ '' data:''] @
         (if frameSrc \<noteq> [] then [''frame-src '' @ join '' '' frameSrc] else []) @
         (if workerSrc \<noteq> [] then [''worker-src '' @ join '' '' workerSrc] else []))"

definition security_headers :: "env \<Rightarrow> (jsstr \<Rightarrow> jsstr option) \<Rightarrow> (jsstr \<times> jsstr) list" where
  "security_headers e url_origin =
     (case url_origin (api_base e) of
        None \<Rightarrow> base_headers
      | Some apiHost \<Rightarrow>
          base_headers @ [(''Content-Security-Policy'', join ''; '' (csp_directives e apiHost))])"

section \<open>The handler\<close>

definition login_redirect :: "(jsstr \<times> jsstr) list \<Rightarrow> next_response" where
  "login_redirect params = \<lparr>ns_kind = RedirectTo ''/login'' params, ns_headers = [], ns_set_cookies = []\<rparr>"

definition expired_redirect :: "jsstr \<Rightarrow> next_response" where
  "expired_redirect path =
     (login_redirect [(''next'', path), (''reason'', ''expired'')])\<lparr>ns_set_cookies := [(TOKEN_COOKIE, [], 0)]\<rparr>"

definition verify_base :: "env \<Rightarrow> jsstr" where
  "verify_base e = nullish (API_URL e) (nullish (API_INTERNAL_URL e) ''http://localhost:8000'')"

text \<open>\<open>verify\<close> is what the backend answers for an address and the forwarded cookies.\<close>

definition portcullis_handler ::
  "env \<Rightarrow> (jsstr \<Rightarrow> jsstr option) \<Rightarrow> (jsstr \<Rightarrow> jsstr \<Rightarrow> 'd response) \<Rightarrow> next_request \<Rightarrow> bool \<Rightarrow> next_response" where
  "portcullis_handler e url_origin verify request skipBounce =
     (let path = nr_pathname request;
          response = \<lparr>ns_kind = NextPage, ns_headers = security_headers e url_origin, ns_set_cookies = []\<rparr>
      in if \<not> is_protected path then response
         else let guard = map_of (nr_cookies request) TOKEN_COOKIE;
                  sessionCookie = map_of (nr_cookies request) ''portcullis_auth''
              in if \<not> truthy guard \<and> \<not> truthy sessionCookie then
                   (if skipBounce then response else login_redirect [(''next'', path)])
                 else if truthy sessionCookie then
                   (case verify (verify_base e @ ''/auth/me'') (nullish (nr_cookie_header request) []) of
                      NoResponse \<Rightarrow> response
                    | r \<Rightarrow> if \<not> resp_ok r then expired_redirect path else response)
                 else response)"

section \<open>Composition with Clerk\<close>

text \<open>
  With a Clerk key the handler runs inside Clerk's middleware: \<open>clerkAuthed\<close> is whether there is a
  Clerk session and \<open>clerk_route\<close> the route matcher. \<open>auth.protect()\<close> does not return without a
  session; what it answers is \<^const>\<open>ClerkProtect\<close>.
\<close>

definition middleware ::
  "env \<Rightarrow> (jsstr \<Rightarrow> jsstr option) \<Rightarrow> (jsstr \<Rightarrow> jsstr \<Rightarrow> 'd response) \<Rightarrow> (jsstr \<Rightarrow> bool) \<Rightarrow> bool \<Rightarrow>
     next_request \<Rightarrow> next_response" where
  "middleware e url_origin verify clerk_route clerkAuthed request =
     (if truthy (CLERK_KEY e) then
        (if clerk_route (nr_pathname request) \<and> \<not> clerkAuthed
         then \<lparr>ns_kind = ClerkProtect, ns_headers = [], ns_set_cookies = []\<rparr>
         else portcullis_handler e url_origin verify request clerkAuthed)
      else portcullis_handler e url_origin verify request False)"

section \<open>Lemmas\<close>

lemma protected_not_public: "is_protected path \<Longrightarrow> \<not> is_public path"
  by (auto simp: is_protected_def is_public_def PROTECTED_PREFIXES_def PUBLIC_EXACT_def)

lemma handler_next_headers:
  "ns_kind (portcullis_handler e uo v r sb) = NextPage \<Longrightarrow>
     ns_headers (portcullis_handler e uo v r sb) = security_headers e uo"
  by (auto simp: portcullis_handler_def login_redirect_def expired_redirect_def Let_def
      split: if_splits response.splits)

lemma base_headers_kept: "set base_headers \<subseteq> set (security_headers e uo)"
  by (cases "uo (api_base e)") (auto simp: security_headers_def)

section \<open>Properties\<close>



text \<open>
  Headers of the responses: every page the middleware serves has the four fixed headers, and a
  content security policy whenever the API address can be parsed; a redirect to the login page has
  none of them, although the comment in the code promises them on every response.
\<close>

lemma middleware_headers:
  "case portcullis_handler e uo verify r sb of resp \<Rightarrow>
     (ns_kind resp = NextPage \<longrightarrow>
        set base_headers \<subseteq> set (ns_headers resp) \<and>
        (uo (api_base e) \<noteq> None \<longrightarrow> ''Content-Security-Policy'' \<in> fst ` set (ns_headers resp))) \<and>
     (ns_kind resp \<noteq> NextPage \<longrightarrow> ns_headers resp = [])"
proof (cases "ns_kind (portcullis_handler e uo verify r sb) = NextPage")
  case True
  then show ?thesis
    using handler_next_headers [OF True] base_headers_kept [of e uo]
    by (cases "uo (api_base e)") (auto simp: security_headers_def)
next
  case False
  then have "ns_headers (portcullis_handler e uo verify r sb) = []"
    by (auto simp: portcullis_handler_def login_redirect_def expired_redirect_def Let_def
        split: if_splits response.splits)
  then show ?thesis using False by simp
qed

end
