(* ===== verification/Session_Gates.thy ===== *)
theory Session_Gates
  imports Http_Client
begin

text \<open>
  The gates in front of the signed-in areas: \<open>web/src/components/clerk-sync-gate.tsx\<close>, the layouts of
  \<open>/dashboard\<close>, \<open>/developer\<close> and \<open>/admin\<close>, and the callback page of single sign-on. Each gate is one
  definition that runs its effect over the browser state and says what is rendered and where the page
  goes.

  The backend is the argument \<open>backend\<close>: the answer to the n-th request of a run, which may change
  between calls. Clerk's session is given by what its hooks return.
\<close>

section \<open>Gates\<close>

datatype gate_state = Working | Ready | GateFailed jsstr

record gate_run =
  gr_browser :: browser
  gr_state :: gate_state
  gr_nav :: "jsstr option"

text \<open>The message of an error that is thrown.\<close>

fun error_message :: "js_error \<Rightarrow> jsstr" where
  "error_message URIError = ''URI malformed''"
| "error_message StorageError = ''The operation is insecure.''"
| "error_message (JsError m) = m"

definition legacy_gate :: "env \<Rightarrow> (nat \<Rightarrow> http_request \<Rightarrow> 'd response) \<Rightarrow> bool \<Rightarrow> browser \<Rightarrow> gate_run" where
  "legacy_gate e backend cancelled b =
     (case verify_session e (backend 0) b of
        (b1, ok) \<Rightarrow>
          if ok then \<lparr>gr_browser = b1, gr_state = (if cancelled then Working else Ready), gr_nav = None\<rparr>
          else \<lparr>gr_browser = b1, gr_state = Working, gr_nav = Some ''/login''\<rparr>)"

definition clerk_sync_request :: "env \<Rightarrow> jsstr \<Rightarrow> http_request" where
  "clerk_sync_request e token =
     \<lparr>rq_url = api_base e @ ''/auth/clerk/sync'', rq_method = ''POST'',
      rq_headers = [(''Authorization'', ''Bearer '' @ token), (''Accept'', ''application/json'')],
      rq_body = None, rq_credentials = True\<rparr>"

text \<open>
  The part of the effect inside \<open>try\<close>: \<open>clerk_token\<close> is what Clerk's \<open>getToken\<close> gives (the message of its
  rejection, or a token or null), \<open>fetch_message\<close> the message of a fetch that fails. The result is the
  message of the error that is caught, or \<^const>\<open>None\<close>.
\<close>

definition clerk_sync ::
  "env \<Rightarrow> (nat \<Rightarrow> http_request \<Rightarrow> jsstr option response) \<Rightarrow> jsstr + jsstr option \<Rightarrow> jsstr \<Rightarrow> 8 word list \<Rightarrow>
     browser \<Rightarrow> browser \<times> jsstr option" where
  "clerk_sync e backend clerk_token fetch_message rnd b =
     (case clerk_token of
        Inl msg \<Rightarrow> (b, Some msg)
      | Inr None \<Rightarrow> (b, Some ''no_clerk_token'')
      | Inr (Some token) \<Rightarrow>
          if token = [] then (b, Some ''no_clerk_token'')
          else let req = clerk_sync_request e token; b1 = send req b in
            (case backend 1 req of
               NoResponse \<Rightarrow> (b1, Some fetch_message)
             | Response st detail \<Rightarrow>
                 if \<not> resp_ok (Response st detail) then (b1, Some (nullish detail (''sync_failed_'' @ nat_str st)))
                 else (case mark_cookie_session False rnd b1 of
                         (b2, Some err) \<Rightarrow> (b2, Some (error_message err))
                       | (b2, None) \<Rightarrow>
                           (case verify_session e (backend 2) b2 of
                              (b3, True) \<Rightarrow> (b3, None)
                            | (b3, False) \<Rightarrow> (b3, Some ''verify_failed'')))))"

definition clerk_gate ::
  "env \<Rightarrow> (nat \<Rightarrow> http_request \<Rightarrow> jsstr option response) \<Rightarrow> bool \<Rightarrow> bool \<Rightarrow> jsstr + jsstr option \<Rightarrow> jsstr \<Rightarrow>
     8 word list \<Rightarrow> bool \<Rightarrow> browser \<Rightarrow> gate_run" where
  "clerk_gate e backend isLoaded isSignedIn clerk_token fetch_message rnd cancelled b =
     (if \<not> isLoaded then \<lparr>gr_browser = b, gr_state = Working, gr_nav = None\<rparr>
      else (case verify_session e (backend 0) b of
              (b1, True) \<Rightarrow> \<lparr>gr_browser = b1, gr_state = (if cancelled then Working else Ready), gr_nav = None\<rparr>
            | (b1, False) \<Rightarrow>
                if isSignedIn then
                  (case clerk_sync e backend clerk_token fetch_message rnd b1 of
                     (b2, None) \<Rightarrow> \<lparr>gr_browser = b2, gr_state = (if cancelled then Working else Ready), gr_nav = None\<rparr>
                   | (b2, Some msg) \<Rightarrow>
                       \<lparr>gr_browser = b2, gr_state = (if cancelled then Working else GateFailed msg), gr_nav = None\<rparr>)
                else \<lparr>gr_browser = b1, gr_state = Working, gr_nav = Some ''/login''\<rparr>))"

text \<open>What a gate renders: the page, the failure card with the message, or a loader.\<close>

datatype 'v gate_view = Children 'v | SyncFailed jsstr | Loader jsstr

definition gate_label :: "env \<Rightarrow> jsstr" where
  "gate_label e = (if truthy (CLERK_KEY e) then ''Syncing your session'' @ [ellipsis] else ''Verifying session'' @ [ellipsis])"

definition gate_render :: "env \<Rightarrow> gate_state \<Rightarrow> 'v \<Rightarrow> 'v gate_view" where
  "gate_render e st children =
     (case st of Ready \<Rightarrow> Children children | GateFailed msg \<Rightarrow> SyncFailed msg | Working \<Rightarrow> Loader (gate_label e))"

definition clerk_sync_gate ::
  "env \<Rightarrow> (nat \<Rightarrow> http_request \<Rightarrow> jsstr option response) \<Rightarrow> bool \<Rightarrow> bool \<Rightarrow> jsstr + jsstr option \<Rightarrow> jsstr \<Rightarrow>
     8 word list \<Rightarrow> bool \<Rightarrow> browser \<Rightarrow> gate_run" where
  "clerk_sync_gate e backend isLoaded isSignedIn clerk_token fetch_message rnd cancelled b =
     (if \<not> truthy (CLERK_KEY e) then legacy_gate e backend cancelled b
      else clerk_gate e backend isLoaded isSignedIn clerk_token fetch_message rnd cancelled b)"

section \<open>Navigation of the three areas\<close>

record nav_section =
  nv_label :: jsstr
  nv_items :: "(jsstr \<times> jsstr) list"

definition DASHBOARD_SECTIONS :: "nav_section list" where
  "DASHBOARD_SECTIONS =
     [\<lparr>nv_label = ''Gateway'', nv_items =
         [(''/dashboard'', ''Overview''), (''/dashboard/search'', ''Search''), (''/dashboard/servers'', ''Servers''),
          (''/dashboard/tools'', ''Tools''), (''/dashboard/playground'', ''Playground'')]\<rparr>,
      \<lparr>nv_label = ''Security'', nv_items =
         [(''/dashboard/policies'', ''Policies''), (''/dashboard/api-keys'', ''API Keys''),
          (''/dashboard/rate-limits'', ''Rate Limits'')]\<rparr>,
      \<lparr>nv_label = ''Observability'', nv_items =
         [(''/dashboard/traffic'', ''Traffic''), (''/dashboard/analytics'', ''Analytics''),
          (''/dashboard/audit'', ''Audit Log'')]\<rparr>,
      \<lparr>nv_label = ''Organization'', nv_items =
         [(''/dashboard/access-control'', ''Access Control''), (''/dashboard/alerts'', ''Alerts''),
          (''/dashboard/notifications'', ''Notifications''), (''/dashboard/integrations'', ''Integrations''),
          (''/dashboard/billing'', ''Usage''), (''/dashboard/settings'', ''Settings'')]\<rparr>]"

definition DEVELOPER_SECTIONS :: "nav_section list" where
  "DEVELOPER_SECTIONS =
     [\<lparr>nv_label = ''Workspace'', nv_items =
         [(''/developer'', ''Home''), (''/developer/search'', ''Search''), (''/developer/servers'', ''Available Servers''),
          (''/developer/tools'', ''Tool Explorer''), (''/developer/playground'', ''Playground'')]\<rparr>,
      \<lparr>nv_label = ''My Access'', nv_items =
         [(''/developer/api-keys'', ''My API Keys''), (''/developer/usage'', ''My Usage''),
          (''/developer/logs'', ''Request Logs'')]\<rparr>,
      \<lparr>nv_label = ''Resources'', nv_items =
         [(''/developer/docs'', ''Documentation''), (''/developer/profile'', ''Profile'')]\<rparr>]"

definition ADMIN_SECTIONS :: "nav_section list" where
  "ADMIN_SECTIONS =
     [\<lparr>nv_label = ''Platform'', nv_items =
         [(''/admin'', ''Overview''), (''/admin/organizations'', ''Organizations''), (''/admin/users'', ''Users'')]\<rparr>,
      \<lparr>nv_label = ''Infrastructure'', nv_items =
         [(''/admin/servers'', ''MCP Servers''), (''/admin/tools'', ''Tool Registry''), (''/admin/policies'', ''Policies'')]\<rparr>,
      \<lparr>nv_label = ''Monitoring'', nv_items =
         [(''/admin/traffic'', ''Traffic''), (''/admin/audit'', ''Audit Logs''), (''/admin/security'', ''Security''),
          (''/admin/infrastructure'', ''Infrastructure''), (''/admin/telemetry'', ''Telemetry'')]\<rparr>,
      \<lparr>nv_label = ''Administration'', nv_items =
         [(''/admin/billing'', ''Usage''), (''/admin/settings'', ''System Settings'')]\<rparr>]"

section \<open>The layouts\<close>

text \<open>A page inside the navigation shell of an area, or a full-page loader.\<close>

datatype 'v layout_view = Shell jsstr "nav_section list" "'v gate_view" | FullLoader jsstr

definition DashboardLayout :: "env \<Rightarrow> gate_state \<Rightarrow> 'v \<Rightarrow> 'v layout_view" where
  "DashboardLayout e gate children = Shell ''org-admin'' DASHBOARD_SECTIONS (gate_render e gate children)"

definition DeveloperLayout :: "env \<Rightarrow> gate_state \<Rightarrow> 'v \<Rightarrow> 'v layout_view" where
  "DeveloperLayout e gate children = Shell ''developer'' DEVELOPER_SECTIONS (gate_render e gate children)"

text \<open>
  The query for the platform-admin endpoint: not enabled, on its way, answered with a status, or
  failed. Through the shared client a status outside the two hundreds is a failure.
\<close>

datatype admin_query = QueryIdle | QueryLoading | QuerySuccess nat | QueryError

definition admin_query_of :: "'d axios_outcome \<Rightarrow> admin_query" where
  "admin_query_of out = (case out of Resolved st _ \<Rightarrow> QuerySuccess st | Rejected _ _ \<Rightarrow> QueryError)"

definition is_platform_admin :: "admin_query \<Rightarrow> bool" where
  "is_platform_admin q \<longleftrightarrow> q = QuerySuccess 200"

text \<open>The two effects: where the page is sent, in the order the code has them.\<close>

definition admin_bounce :: "admin_query \<Rightarrow> jsstr option" where
  "admin_bounce q = (if (\<exists>st. q = QuerySuccess st) \<and> \<not> is_platform_admin q then Some ''/dashboard'' else None)"

definition admin_verify :: "env \<Rightarrow> (http_request \<Rightarrow> 'd response) \<Rightarrow> bool \<Rightarrow> browser \<Rightarrow> browser \<times> jsstr option" where
  "admin_verify e net cancelled b =
     (if \<not> has_window b then (b, None)
      else (case is_authenticated b of
              (b1, False) \<Rightarrow> (b1, Some ''/login'')
            | (b1, True) \<Rightarrow>
                (case verify_session e net b1 of
                   (b2, ok) \<Rightarrow> (b2, if \<not> ok \<and> \<not> cancelled then Some ''/login?reason=expired'' else None))))"

definition AdminLayout :: "env \<Rightarrow> admin_query \<Rightarrow> browser \<Rightarrow> gate_state \<Rightarrow> 'v \<Rightarrow> 'v layout_view" where
  "AdminLayout e q b gate children =
     (if \<not> snd (is_authenticated b) \<or> q = QueryLoading then FullLoader (''Verifying admin access'' @ [ellipsis])
      else if q = QueryError \<or> \<not> is_platform_admin q then FullLoader (''Redirecting'' @ [ellipsis])
      else Shell ''platform-admin'' ADMIN_SECTIONS (gate_render e gate children))"

section \<open>Single sign-on callback\<close>

record sso_params =
  sp_token :: "jsstr option"
  sp_error :: "jsstr option"
  sp_size :: nat

definition sso_status :: "sso_params \<Rightarrow> jsstr" where
  "sso_status p = (if truthy (sp_error p) then ''error'' else if truthy (sp_token p) then ''done'' else ''processing'')"

definition sso_verify_request :: "env \<Rightarrow> http_request" where
  "sso_verify_request e =
     \<lparr>rq_url = api_base e @ ''/auth/me'', rq_method = ''GET'', rq_headers = [(''Accept'', ''application/json'')],
      rq_body = None, rq_credentials = True\<rparr>"

text \<open>
  The effect: the browser it leaves, the address the history entry is replaced by, and where the page
  goes. An error of the cookie code is thrown out of the effect.
\<close>

definition sso_callback ::
  "env \<Rightarrow> (http_request \<Rightarrow> 'd response) \<Rightarrow> sso_params \<Rightarrow> 8 word list \<Rightarrow> bool \<Rightarrow> browser \<Rightarrow>
     browser \<times> jsstr option \<times> jsstr option \<times> js_error option" where
  "sso_callback e net p rnd cancelled b =
     (if truthy (sp_error p) then (b, None, None, None)
      else if truthy (sp_token p) then
        (case set_token (the (sp_token p)) False rnd b of
           (b1, Some err) \<Rightarrow> (b1, None, None, Some err)
         | (b1, None) \<Rightarrow> (b1, Some ''/sso-callback'', Some ''/dashboard'', None))
      else (case ensure_csrf_cookie rnd b of
              (b1, Some err) \<Rightarrow> (b1, None, None, Some err)
            | (b1, None) \<Rightarrow>
                let req = sso_verify_request e; b2 = send req b1 in
                (b2, None,
                 (if \<not> cancelled \<and> resp_ok (net req) then Some ''/dashboard''
                  else if \<not> cancelled \<and> sp_size p > 0 then Some ''/login?error=sso_failed''
                  else None), None)))"

section \<open>Lemmas\<close>

text \<open>An accepted verification left its request in the log of the browser.\<close>

definition accepted :: "env \<Rightarrow> (http_request \<Rightarrow> 'd response) \<Rightarrow> browser \<Rightarrow> bool" where
  "accepted e net b \<longleftrightarrow>
     (\<exists>r\<in>set (sent b). rq_url r = api_base e @ ''/auth/me'' \<and> rq_credentials r \<and> resp_ok (net r))"

lemma verify_session_accepted: "verify_session e net b = (b', True) \<Longrightarrow> accepted e net b'"
  by (cases "get_token b") (auto simp: verify_session_def accepted_def verify_request_def send_def Let_def)

lemma legacy_gate_accepted:
  "gr_state (legacy_gate e backend cancelled b) = Ready \<Longrightarrow>
     accepted e (backend 0) (gr_browser (legacy_gate e backend cancelled b))"
  by (auto simp: legacy_gate_def verify_session_accepted split: prod.splits if_splits)

lemma clerk_sync_accepted:
  assumes "clerk_sync e backend tok msg rnd b = (b', None)"
  shows "accepted e (backend 2) b'"
  using assms
  by (auto simp: clerk_sync_def Let_def verify_session_accepted
      split: sum.splits option.splits if_splits response.splits prod.splits bool.splits)

lemma clerk_gate_accepted:
  assumes "gr_state (clerk_gate e backend l si tok msg rnd cancelled b) = Ready"
  shows "\<exists>i. accepted e (backend i) (gr_browser (clerk_gate e backend l si tok msg rnd cancelled b))"
  using assms clerk_sync_accepted verify_session_accepted
  by (fastforce simp: clerk_gate_def split: if_splits prod.splits bool.splits option.splits)

lemma gate_render_children: "gate_render e st c = Children v \<longleftrightarrow> st = Ready \<and> v = c"
  by (auto simp: gate_render_def split: gate_state.splits)

section \<open>Properties\<close>

text \<open>
  C7. A gate opens only on the backend's word: whenever the gate renders the page, a request to
  \<open>/auth/me\<close> with the browser's cookies was sent in that run and the backend accepted it. A guard
  cookie, a stored key or a Clerk session alone never opens it.
\<close>

theorem gate_opens_only_verified:
  assumes "gate_render e (gr_state (clerk_sync_gate e backend l si tok msg rnd cancelled b)) page = Children v"
  shows "\<exists>i. accepted e (backend i) (gr_browser (clerk_sync_gate e backend l si tok msg rnd cancelled b))"
proof -
  have "gr_state (clerk_sync_gate e backend l si tok msg rnd cancelled b) = Ready"
    using assms by (simp add: gate_render_children)
  then show ?thesis
    using legacy_gate_accepted [of e backend cancelled b] clerk_gate_accepted [of e backend l si tok msg rnd cancelled b]
    by (auto simp: clerk_sync_gate_def split: if_splits)
qed

theorem gate_opens_only_verified_witness:
  "accepted demo_env (\<lambda>r. Response 200 (None :: jsstr option))
     (gr_browser (clerk_sync_gate demo_env (\<lambda>i r. Response 200 None) True False (Inr None) [] demo_rnd False new_tab))"
proof -
  let ?g = "clerk_sync_gate demo_env (\<lambda>i r. Response 200 None) True False (Inr None) [] demo_rnd False new_tab"
  have "gr_state ?g = Ready"
    by (simp add: clerk_sync_gate_def legacy_gate_def demo_env_def verify_session_def Let_def split: prod.split)
  then have "gate_render demo_env (gr_state ?g) () = Children ()" by (simp add: gate_render_children)
  from gate_opens_only_verified [OF this] show ?thesis by simp
qed

text \<open>
  C31. A gate always settles: once Clerk has loaded and while the page is still mounted, the effect
  ends in the page, the failure card with a message, or on the way to the login page. The loader is
  never the last word.
\<close>

theorem gate_settles:
  assumes "truthy (CLERK_KEY e) \<longrightarrow> isLoaded"
  shows "case clerk_sync_gate e backend isLoaded si tok msg rnd False b of g \<Rightarrow>
    gr_state g = Ready \<or> (\<exists>m. gr_state g = GateFailed m) \<or> gr_nav g = Some ''/login''"
  using assms
  by (auto simp: clerk_sync_gate_def legacy_gate_def clerk_gate_def split: prod.split bool.split option.split)

theorem gate_settles_witness:
  "gr_nav (clerk_sync_gate demo_env (\<lambda>i r. NoResponse) False False (Inr None) [] demo_rnd False new_tab) = Some ''/login''"
proof -
  let ?g = "clerk_sync_gate demo_env (\<lambda>i r. NoResponse) False False (Inr None) [] demo_rnd False new_tab"
  have "gr_state ?g = Working"
    by (simp add: clerk_sync_gate_def legacy_gate_def demo_env_def verify_session_def Let_def split: prod.split)
  then show ?thesis
    using gate_settles [of demo_env False "\<lambda>i r. NoResponse" False "Inr None" "[]" demo_rnd new_tab]
    by (simp add: demo_env_def)
qed

text \<open>
  A signed-in caller who is not a platform admin is stuck on the loader of the admin area: the
  backend answers 403, which the shared client turns into a failed query, so the layout shows
  \<open>Redirecting\<close> while the effect that would redirect waits for a successful query. Neither effect
  sends the page anywhere.
\<close>

lemma admin_forbidden_stuck:
  assumes "has_window b" and "snd (is_authenticated b)" and "\<forall>r. resp_ok (net r)"
  shows "AdminLayout e (admin_query_of (Rejected (Some 403) d :: unit axios_outcome)) b gate page = FullLoader (''Redirecting'' @ [ellipsis]) \<and>
    admin_bounce (admin_query_of (Rejected (Some 403) d :: unit axios_outcome)) = None \<and> snd (admin_verify e net cancelled b) = None"
  using assms
  by (auto simp: AdminLayout_def admin_query_of_def admin_bounce_def admin_verify_def verify_session_def Let_def
      split: prod.split bool.split)

lemma ensure_csrf_refines:
  assumes "auth_ok b"
  shows "snd (ensure_csrf_cookie rnd b) = None" and "auth_ok (fst (ensure_csrf_cookie rnd b))"
    and "view (fst (ensure_csrf_cookie rnd b)) =
      (view b)\<lparr>v_csrf := fresh_csrf (v_csrf (view b)) (generate_csrf_token rnd)\<rparr>"
  using csrf_refines [OF assms, of rnd] by (simp_all add: ensure_csrf_cookie_def)

text \<open>
  A cookie-only sign-on is not marked: in a tab without any session state, the callback verifies
  the HttpOnly cookie and goes on to the dashboard, but sets no guard, so \<open>isAuthenticated\<close> stays false
  and the admin area sends the same, signed-in, user back to the login page.
\<close>

lemma sso_session_unmarked:
  assumes "auth_ok b" and "view b = anonymous" and "resp_ok (net (sso_verify_request e))"
    and "sp_token p = None" and "sp_error p = None"
  shows "case sso_callback e net p rnd False b of (b', _, nav, err) \<Rightarrow>
    nav = Some ''/dashboard'' \<and> err = None \<and> \<not> snd (is_authenticated b') \<and>
    snd (admin_verify e net' cancelled b') = Some ''/login''"
proof -
  note c = ensure_csrf_refines [OF assms(1), of rnd]
  obtain b1 where b1: "ensure_csrf_cookie rnd b = (b1, None)"
    using c(1) by (metis prod.collapse)
  have v: "auth_ok b1" "effective_token (view b1) = None" "\<not> v_guard (view b1)"
    using c(2,3) b1 assms(2) by (simp_all add: anonymous_def effective_token_def)
  have n: "\<not> snd (is_authenticated (send (sso_verify_request e) b1))"
    using v by (simp add: is_authenticated_refines)
  obtain b2 where a: "is_authenticated (send (sso_verify_request e) b1) = (b2, False)"
    using n by (cases "is_authenticated (send (sso_verify_request e) b1)") simp
  have w: "has_window b1" using v(1) by (simp add: auth_ok_def)
  show ?thesis
    using assms(3-5) b1 a w by (simp add: sso_callback_def admin_verify_def Let_def)
qed

end
