(* ===== verification/Account_Pages.thy ===== *)
theory Account_Pages
  imports Http_Client
begin

text \<open>
  The pages a visitor meets before there is a session: the e-mail sign-in of
  \<open>web/src/app/login/page.tsx\<close> with its attempt counter, the registration form of
  \<open>web/src/app/register/legacy-form.tsx\<close>, the set-up of multi-factor authentication of
  \<open>web/src/app/auth/mfa/page.tsx\<close> and the password reset of \<open>web/src/app/auth/forgot-password/page.tsx\<close>.
\<close>

section \<open>Sign-in errors\<close>

datatype AuthError =
    invalid_credentials | too_many_attempts | pending_approval | rejected | service_unavailable | session_expired

fun ERROR_MESSAGES :: "AuthError \<Rightarrow> jsstr \<times> jsstr" where
  "ERROR_MESSAGES invalid_credentials =
     (''Invalid credentials'', ''The email or password you entered was not recognised. Check them and try again.'')"
| "ERROR_MESSAGES too_many_attempts =
     (''Too many attempts'', ''Your access has been temporarily locked. Try again in a few minutes.'')"
| "ERROR_MESSAGES pending_approval =
     (''Account pending approval'', ''Your request to join an organization is still being reviewed. Please check back later.'')"
| "ERROR_MESSAGES rejected =
     (''Access denied'', ''Your account has not been approved. Contact an organization admin for help.'')"
| "ERROR_MESSAGES service_unavailable =
     (''Service unavailable'', ''Portcullis cannot be reached right now. Check your network or server status.'')"
| "ERROR_MESSAGES session_expired =
     (''Session expired'', ''Your session has timed out. Please sign in again.'')"

definition ErrorBanner :: "AuthError option \<Rightarrow> (jsstr \<times> jsstr) option" where
  "ErrorBanner err = map_option ERROR_MESSAGES err"

definition google_login_href :: "env \<Rightarrow> jsstr" where
  "google_login_href e = api_base e @ ''/auth/sso/'' @ nullish (SSO_SLUG e) ''google'' @ ''/login''"

section \<open>E-mail sign-in\<close>

record login_state =
  lg_email :: jsstr
  lg_password :: jsstr
  lg_remember :: bool
  lg_loading :: bool
  lg_error :: "AuthError option"
  lg_attempts :: nat

definition login_init :: "jsstr option \<Rightarrow> login_state" where
  "login_init reason =
     \<lparr>lg_email = [], lg_password = [], lg_remember = False, lg_loading = False,
      lg_error = (if reason = Some ''expired'' then Some session_expired else None), lg_attempts = 0\<rparr>"

datatype login_edit = LgEmail jsstr | LgPassword jsstr | LgRemember

fun login_change :: "login_edit \<Rightarrow> login_state \<Rightarrow> login_state" where
  "login_change (LgEmail v) s = s\<lparr>lg_email := v, lg_error := None\<rparr>"
| "login_change (LgPassword v) s = s\<lparr>lg_password := v, lg_error := None\<rparr>"
| "login_change LgRemember s = s\<lparr>lg_remember := \<not> lg_remember s\<rparr>"

text \<open>The button: its text and whether it is disabled.\<close>

definition login_button :: "login_state \<Rightarrow> jsstr \<times> bool" where
  "login_button s =
     (if lg_loading s then ''Verifying'' @ [ellipsis] else ''Sign in to Portcullis'',
      lg_loading s \<or> lg_attempts s \<ge> 5 \<or> trim (lg_email s) = [] \<or> lg_password s = [])"

text \<open>
  \<open>Number(s)\<close> on what the counter can hold: an optional sign and decimal digits, with white space
  around; \<^const>\<open>None\<close> is NaN.
\<close>

definition js_number :: "jsstr \<Rightarrow> int option" where
  "js_number s =
     (let digits = (\<lambda>ds. if ds \<noteq> [] \<and> list_all is_digit ds then Some (int (nat_val 0 ds)) else None) in
      case trim s of
        [] \<Rightarrow> Some 0
      | c # cs \<Rightarrow>
          if c = CHR ''-'' then map_option uminus (digits cs)
          else if c = CHR ''+'' then digits cs
          else digits (c # cs))"

datatype login_body = LoginBody jsstr jsstr

record login_reply =
  lr_access_token :: "jsstr option"
  lr_token :: "jsstr option"

text \<open>The handler up to its wait; reading the counter is outside the \<open>try\<close> and may throw.\<close>

definition login_start :: "browser \<Rightarrow> login_state \<Rightarrow> js_error + (login_state \<times> login_body option)" where
  "login_start b s =
     (case session_get ''pc_login_attempts'' b of
        Inl err \<Rightarrow> Inl err
      | Inr v \<Rightarrow>
          let stored = (case v of None \<Rightarrow> Some (int (lg_attempts s)) | Some t \<Rightarrow> js_number t) in
          if (case stored of None \<Rightarrow> False | Some n \<Rightarrow> n \<ge> 5) then Inr (s\<lparr>lg_error := Some too_many_attempts\<rparr>, None)
          else Inr (s\<lparr>lg_error := None, lg_loading := True\<rparr>, Some (LoginBody (trim (lg_email s)) (lg_password s))))"

definition login_error :: "nat option \<Rightarrow> jsstr option \<Rightarrow> AuthError" where
  "login_error status detail =
     (if status = None \<or> status = Some 0 then service_unavailable
      else if status = Some 403 \<and> (case detail of None \<Rightarrow> False | Some d \<Rightarrow> sublist ''pending approval'' d) then pending_approval
      else if status = Some 403 \<and> (case detail of None \<Rightarrow> False | Some d \<Rightarrow> sublist ''denied'' d) then rejected
      else invalid_credentials)"

text \<open>The \<open>catch\<close> block; \<open>s0\<close> is the state the handler was called in.\<close>

definition login_failed ::
  "login_state \<Rightarrow> nat option \<Rightarrow> jsstr option \<Rightarrow> login_state \<Rightarrow> browser \<Rightarrow> login_state \<times> browser" where
  "login_failed s0 status detail s b =
     (let n = lg_attempts s0 + 1 in
      (s\<lparr>lg_attempts := n, lg_error := Some (login_error status detail), lg_loading := False\<rparr>,
       try_op (session_set ''pc_login_attempts'' (nat_str n)) b))"

definition login_finish ::
  "8 word list \<Rightarrow> login_state \<Rightarrow> (api_error + nat \<times> login_reply) \<Rightarrow> login_state \<Rightarrow> browser \<Rightarrow>
     login_state \<times> browser \<times> jsstr option" where
  "login_finish rnd s0 out s b =
     (let failed = (\<lambda>st d b. case login_failed s0 st d s b of (s', b') \<Rightarrow> (s', b', None)) in
      case out of
        Inl (NotSent err) \<Rightarrow> failed None None b
      | Inl (Failed st d) \<Rightarrow> failed st d b
      | Inr (st, r) \<Rightarrow>
          if \<not> truthy (case lr_access_token r of None \<Rightarrow> lr_token r | Some t \<Rightarrow> Some t) then failed None None b
          else (case mark_cookie_session (lg_remember s0) rnd b of
                  (b', Some err) \<Rightarrow> failed None None b'
                | (b', None) \<Rightarrow> (s\<lparr>lg_loading := False\<rparr>, b', Some ''/dashboard'')))"

text \<open>One submit through the shared client; the last component says whether a request was made.\<close>

definition login_attempt ::
  "env \<Rightarrow> (login_body axios_config \<Rightarrow> login_reply axios_outcome) \<Rightarrow> 8 word list \<Rightarrow> login_state \<Rightarrow> browser \<Rightarrow>
     login_state \<times> browser \<times> jsstr option \<times> bool" where
  "login_attempt e transport rnd s b =
     (case login_start b s of
        Inl err \<Rightarrow> (s, b, None, False)
      | Inr (s1, None) \<Rightarrow> (s1, b, None, False)
      | Inr (s1, Some body) \<Rightarrow>
          (case client_request \<lparr>pathname = ''/login'', search = []\<rparr> transport
                  (axios_client e ''POST'' ''/auth/login'' [] (Some body)) b of
             (b1, _, out) \<Rightarrow>
               (case login_finish rnd s out s1 b1 of (s2, b2, nav) \<Rightarrow> (s2, b2, nav, True))))"

section \<open>Password strength\<close>

definition is_upper :: "char \<Rightarrow> bool" where
  "is_upper c \<longleftrightarrow> 65 \<le> (of_char c :: nat) \<and> (of_char c :: nat) \<le> 90"

definition is_lower :: "char \<Rightarrow> bool" where
  "is_lower c \<longleftrightarrow> 97 \<le> (of_char c :: nat) \<and> (of_char c :: nat) \<le> 122"

definition is_special :: "char \<Rightarrow> bool" where
  "is_special c \<longleftrightarrow> \<not> is_upper c \<and> \<not> is_lower c \<and> \<not> is_digit c"

text \<open>The meter of the registration form: score, label and colour.\<close>

definition passwordStrength :: "jsstr \<Rightarrow> nat \<times> jsstr \<times> jsstr" where
  "passwordStrength pw =
     (let score = (if length pw \<ge> 8 then 1 else 0) + (if length pw \<ge> 12 then 1 else 0) +
                  (if list_ex is_upper pw then 1 else 0) + (if list_ex is_digit pw then 1 else 0) +
                  (if list_ex is_special pw then 1 else 0)
      in if score \<le> 1 then (score, ''Weak'', ''#F05D5E'')
         else if score \<le> 2 then (score, ''Fair'', ''#F4B942'')
         else if score \<le> 3 then (score, ''Good'', ''#48B8E8'')
         else (score, ''Strong'', ''#35C88A''))"

text \<open>The meter of the password reset.\<close>

definition STRENGTH_RULES :: "(jsstr \<times> (jsstr \<Rightarrow> bool)) list" where
  "STRENGTH_RULES =
     [(''At least 8 characters'', \<lambda>pw. length pw \<ge> 8),
      (''At least one uppercase letter'', list_ex is_upper),
      (''At least one number'', list_ex is_digit),
      (''At least one special character'', list_ex is_special)]"

definition strengthScore :: "jsstr \<Rightarrow> nat" where
  "strengthScore pw = length (filter (\<lambda>r. snd r pw) STRENGTH_RULES)"

definition strengthMeta :: "nat \<Rightarrow> jsstr \<times> jsstr" where
  "strengthMeta score =
     (if score \<le> 1 then (''Weak'', ''#F05D5E'')
      else if score \<le> 2 then (''Fair'', ''#F4B942'')
      else if score = 3 then (''Good'', ''#48B8E8'')
      else (''Strong'', ''#35C88A''))"

section \<open>Registration\<close>

datatype Flow = CreateFlow | JoinFlow | InvitationFlow

definition FLOWS :: "(Flow \<times> jsstr \<times> jsstr) list" where
  "FLOWS =
     [(CreateFlow, ''Create organization'', ''Start a new Portcullis workspace''),
      (JoinFlow, ''Join existing org'', ''Request access to an organization''),
      (InvitationFlow, ''Accept invitation'', ''You received an invite link'')]"

record register_form =
  rg_flow :: Flow
  rg_fullName :: jsstr
  rg_email :: jsstr
  rg_password :: jsstr
  rg_orgName :: jsstr
  rg_inviteCode :: jsstr
  rg_intendedUse :: jsstr
  rg_terms :: bool
  rg_submitted :: bool
  rg_pending :: bool
  rg_loading :: bool
  rg_error :: "jsstr option"

record register_body =
  rb_full_name :: jsstr
  rb_email :: jsstr
  rb_password :: jsstr
  rb_flow :: Flow
  rb_org_name :: "jsstr option"
  rb_intended_use :: "jsstr option"
  rb_invite_code :: "jsstr option"

definition register_body_of :: "register_form \<Rightarrow> register_body" where
  "register_body_of s =
     \<lparr>rb_full_name = trim (rg_fullName s), rb_email = trim (rg_email s), rb_password = rg_password s,
      rb_flow = rg_flow s,
      rb_org_name = (if trim (rg_orgName s) \<noteq> [] \<and> (rg_flow s = CreateFlow \<or> rg_flow s = JoinFlow)
                     then Some (trim (rg_orgName s)) else None),
      rb_intended_use = or_absent (rg_intendedUse s),
      rb_invite_code = (if rg_flow s = InvitationFlow then or_absent (trim (rg_inviteCode s)) else None)\<rparr>"

definition register_start :: "register_form \<Rightarrow> (register_body \<times> register_form) option" where
  "register_start s =
     (if \<not> rg_terms s then None
      else Some (register_body_of s, s\<lparr>rg_loading := True, rg_error := None\<rparr>))"

definition register_error :: "api_error \<Rightarrow> jsstr" where
  "register_error err =
     (case err of
        Failed (Some st) d \<Rightarrow>
          if st = 409 then nullish d ''An account with this email already exists.''
          else if st = 422 then ''Please check the form '' @ [em_dash] @ '' some fields are missing or invalid.''
          else if st = 401 then nullish d ''Registration failed. Try again.''
          else ''Portcullis cannot be reached right now. Check your network or server status.''
      | _ \<Rightarrow> ''Portcullis cannot be reached right now. Check your network or server status.'')"

text \<open>
  The reply is the token and the approval status. An error of the cookie code lands in the \<open>catch\<close>
  block with no status.
\<close>

definition register_finish ::
  "8 word list \<Rightarrow> (api_error + jsstr option \<times> jsstr option) \<Rightarrow> register_form \<Rightarrow> browser \<Rightarrow> register_form \<times> browser" where
  "register_finish rnd out s b =
     (case out of
        Inl err \<Rightarrow> (s\<lparr>rg_error := Some (register_error err), rg_loading := False\<rparr>, b)
      | Inr (token, approval) \<Rightarrow>
          (case (if truthy token then set_token (the token) False rnd b else (b, None)) of
             (b1, Some err) \<Rightarrow> (s\<lparr>rg_error := Some (register_error (NotSent err)), rg_loading := False\<rparr>, b1)
           | (b1, None) \<Rightarrow>
               (s\<lparr>rg_pending := (approval = Some ''pending''), rg_submitted := True, rg_loading := False\<rparr>, b1)))"

text \<open>After submission: the heading, the text of the button and where it leads.\<close>

definition register_done :: "register_form \<Rightarrow> (jsstr \<times> jsstr \<times> jsstr) option" where
  "register_done s =
     (if \<not> rg_submitted s then None
      else if rg_pending s then Some (''Request submitted'', ''Go to sign in'', ''/login'')
      else Some (''Account created'', ''Continue to dashboard'', ''/dashboard''))"

definition register_button :: "register_form \<Rightarrow> jsstr \<times> bool" where
  "register_button s =
     (if rg_loading s then ''Creating your account'' @ [ellipsis]
      else (case rg_flow s of
              CreateFlow \<Rightarrow> ''Create account & organization''
            | JoinFlow \<Rightarrow> ''Request access''
            | InvitationFlow \<Rightarrow> ''Accept invitation''),
      \<not> rg_terms s \<or> rg_loading s)"

section \<open>Multi-factor set-up\<close>

definition SETUP_KEY :: jsstr where "SETUP_KEY = ''JBSW Y3DP EHPK 3PXP''"

definition TOTP_URI :: jsstr where
  "TOTP_URI = ''otpauth://totp/Portcullis:user@example.com?secret=JBSWC3DPEHPK3PXP&issuer=Portcullis&algorithm=SHA1&digits=6&period=30''"

datatype mfa_step = MfaSetup | MfaVerify | MfaRecovery | MfaDone

record mfa_state =
  mf_step :: mfa_step
  mf_code :: jsstr
  mf_codeError :: bool

definition mfa_init :: mfa_state where
  "mfa_init = \<lparr>mf_step = MfaSetup, mf_code = [], mf_codeError = False\<rparr>"

datatype mfa_event = Scanned | TypesCode jsstr | VerifyCode | BackToSetup | SavedCodes

text \<open>A control acts only in the step that shows it; the verify button needs six characters.\<close>

fun mfa_next :: "mfa_event \<Rightarrow> mfa_state \<Rightarrow> mfa_state" where
  "mfa_next Scanned s = (if mf_step s = MfaSetup then s\<lparr>mf_step := MfaVerify\<rparr> else s)"
| "mfa_next (TypesCode v) s =
     (if mf_step s = MfaVerify then s\<lparr>mf_code := filter is_digit (take 6 v), mf_codeError := False\<rparr> else s)"
| "mfa_next VerifyCode s =
     (if mf_step s = MfaVerify \<and> length (mf_code s) = 6
      then (if length (mf_code s) = 6 \<and> list_all is_digit (mf_code s) then s\<lparr>mf_step := MfaRecovery\<rparr>
            else s\<lparr>mf_codeError := True\<rparr>)
      else s)"
| "mfa_next BackToSetup s =
     (if mf_step s = MfaVerify then \<lparr>mf_step = MfaSetup, mf_code = [], mf_codeError = False\<rparr> else s)"
| "mfa_next SavedCodes s = (if mf_step s = MfaRecovery then s\<lparr>mf_step := MfaDone\<rparr> else s)"

section \<open>Password reset\<close>

datatype reset_step = RequestStep | SentStep | ResetStep | SuccessStep

record reset_state =
  rs_step :: reset_step
  rs_newPw :: jsstr
  rs_confirmPw :: jsstr
  rs_mismatch :: bool

datatype reset_event = RequestReset | FollowLink | OtherEmail | NewPw jsstr | ConfirmPw jsstr | SubmitReset

fun reset_next :: "reset_event \<Rightarrow> reset_state \<Rightarrow> reset_state" where
  "reset_next RequestReset s = (if rs_step s = RequestStep then s\<lparr>rs_step := SentStep\<rparr> else s)"
| "reset_next FollowLink s = (if rs_step s = SentStep then s\<lparr>rs_step := ResetStep\<rparr> else s)"
| "reset_next OtherEmail s = (if rs_step s = SentStep then s\<lparr>rs_step := RequestStep\<rparr> else s)"
| "reset_next (NewPw v) s = (if rs_step s = ResetStep then s\<lparr>rs_newPw := v\<rparr> else s)"
| "reset_next (ConfirmPw v) s = (if rs_step s = ResetStep then s\<lparr>rs_confirmPw := v, rs_mismatch := False\<rparr> else s)"
| "reset_next SubmitReset s =
     (if rs_step s = ResetStep \<and> \<not> (strengthScore (rs_newPw s) < 2 \<or> rs_confirmPw s = []) then
        (if rs_newPw s \<noteq> rs_confirmPw s then s\<lparr>rs_mismatch := True\<rparr>
         else s\<lparr>rs_mismatch := False, rs_step := SuccessStep\<rparr>)
      else s)"

definition reset_init :: reset_state where
  "reset_init = \<lparr>rs_step = RequestStep, rs_newPw = [], rs_confirmPw = [], rs_mismatch = False\<rparr>"

section \<open>Lemmas\<close>

text \<open>A tab in which the session storage can be read and written.\<close>

definition storage_works :: "browser \<Rightarrow> bool" where
  "storage_works b \<longleftrightarrow> has_window b \<and> session_ok b \<and> session_write_ok b"

lemma js_number_nat_str: "js_number (nat_str n) = Some (int n)"
proof (cases "nat_str n")
  case (Cons c cs)
  have d: "list_all is_digit (nat_str n)" by (simp add: list_all_iff nat_str_digits)
  then have "c \<noteq> CHR ''-''" "c \<noteq> CHR ''+''" using Cons by (auto simp: is_digit_def)
  then show ?thesis
    using d Cons nat_val_nat_str [of n] nat_str_trim [of n] by (simp add: js_number_def Let_def)
qed simp

lemma on_response_error_storage:
  assumes "on_response_error loc st b = (b', nav)"
  shows "storage_works b' = storage_works b"
    and "storage_works b \<Longrightarrow> session_store b' ''pc_login_attempts'' = session_store b ''pc_login_attempts''"
  using assms
  by (auto simp: on_response_error_def storage_works_def try_op_def session_remove_def Let_def split: if_splits)

text \<open>What one failing submit does, whichever way it fails.\<close>

lemma login_attempt_fails:
  assumes "storage_works b" and "login_start b s = Inr (s1, Some body)"
    and "\<forall>c. \<exists>st d. transport c = Rejected st d"
  obtains s2 b2 where "login_attempt e transport rnd s b = (s2, b2, None, True)" "storage_works b2"
    "session_store b2 ''pc_login_attempts'' = Some (nat_str (lg_attempts s + 1))" "lg_attempts s2 = lg_attempts s + 1"
proof -
  obtain b1 nav err where c: "client_request \<lparr>pathname = ''/login'', search = []\<rparr> transport
      (axios_client e ''POST'' ''/auth/login'' [] (Some body)) b = (b1, nav, Inl err)" and w: "storage_works b1"
  proof (cases "request_interceptor b (axios_client e ''POST'' ''/auth/login'' [] (Some body))")
    case (Inl x)
    then show ?thesis using that assms(1) by (simp add: client_request_def)
  next
    case (Inr y)
    obtain st d where t: "transport y = Rejected st d" using assms(3) by blast
    obtain b' nav where o: "on_response_error \<lparr>pathname = ''/login'', search = []\<rparr> st b = (b', nav)" by fastforce
    show ?thesis
      using that [of b' nav] Inr t o on_response_error_storage(1) [OF o] assms(1) by (simp add: client_request_def)
  qed
  obtain s2 b2 where f: "login_finish rnd s (Inl err) s1 b1 = (s2, b2, None)"
      and b2: "b2 = try_op (session_set ''pc_login_attempts'' (nat_str (lg_attempts s + 1))) b1"
      and s2: "lg_attempts s2 = lg_attempts s + 1"
    by (cases err) (auto simp: login_finish_def login_failed_def Let_def)
  show ?thesis
  proof (rule that)
    show "login_attempt e transport rnd s b = (s2, b2, None, True)"
      by (simp add: login_attempt_def assms(2) c f)
    show "storage_works b2" "session_store b2 ''pc_login_attempts'' = Some (nat_str (lg_attempts s + 1))"
      using w by (simp_all add: b2 try_op_def session_set_def storage_works_def)
    show "lg_attempts s2 = lg_attempts s + 1" by (rule s2)
  qed
qed

lemma login_start_open:
  assumes "storage_works b"
    and "case session_store b ''pc_login_attempts'' of None \<Rightarrow> lg_attempts s < 5 | Some t \<Rightarrow> \<exists>n<5. t = nat_str n"
  shows "\<exists>s1 body. login_start b s = Inr (s1, Some body)"
  using assms
  by (auto simp: login_start_def session_get_def storage_works_def js_number_nat_str Let_def split: option.splits)

lemma login_start_locked:
  assumes "storage_works b" and "session_store b ''pc_login_attempts'' = Some (nat_str n)" and "5 \<le> n"
  shows "login_start b s = Inr (s\<lparr>lg_error := Some too_many_attempts\<rparr>, None)"
  using assms by (simp add: login_start_def session_get_def storage_works_def js_number_nat_str Let_def)

text \<open>Submitting again and again on one page; the flag of the last submit is kept.\<close>

fun login_again ::
  "env \<Rightarrow> (login_body axios_config \<Rightarrow> login_reply axios_outcome) \<Rightarrow> 8 word list \<Rightarrow> nat \<Rightarrow> login_state \<Rightarrow> browser \<Rightarrow>
     login_state \<times> browser \<times> bool" where
  "login_again e transport rnd 0 s b = (s, b, True)"
| "login_again e transport rnd (Suc n) s b =
     (case login_again e transport rnd n s b of
        (s1, b1, _) \<Rightarrow>
          (case login_attempt e transport rnd s1 b1 of (s2, b2, _, made) \<Rightarrow> (s2, b2, made)))"

text \<open>Submitting on a page that is reloaded before every submit: the form starts anew, the tab stays.\<close>

fun login_reloading ::
  "env \<Rightarrow> (login_body axios_config \<Rightarrow> login_reply axios_outcome) \<Rightarrow> 8 word list \<Rightarrow> nat \<Rightarrow> login_state \<Rightarrow> browser \<Rightarrow>
     browser \<times> bool" where
  "login_reloading e transport rnd 0 s b = (b, True)"
| "login_reloading e transport rnd (Suc n) s b =
     (case login_reloading e transport rnd n s b of
        (b1, _) \<Rightarrow> (case login_attempt e transport rnd s b1 of (_, b2, _, made) \<Rightarrow> (b2, made)))"

lemma login_again_count:
  assumes "storage_works b" "lg_attempts s = 0" "session_store b ''pc_login_attempts'' = None"
    and "\<forall>c. \<exists>st d. transport c = Rejected st d"
  shows "\<exists>s' b' made. login_again e transport rnd n s b = (s', b', made) \<and> storage_works b' \<and>
    (0 < n \<longrightarrow> session_store b' ''pc_login_attempts'' = Some (nat_str (min n 5))) \<and>
    (n = 0 \<longrightarrow> session_store b' ''pc_login_attempts'' = None) \<and> lg_attempts s' = min n 5 \<and> (made \<longleftrightarrow> n \<le> 5)"
proof (induction n)
  case 0
  then show ?case using assms by auto
next
  case (Suc n)
  then obtain s' b' made where IH: "login_again e transport rnd n s b = (s', b', made)" "storage_works b'"
      "0 < n \<longrightarrow> session_store b' ''pc_login_attempts'' = Some (nat_str (min n 5))"
      "n = 0 \<longrightarrow> session_store b' ''pc_login_attempts'' = None" "lg_attempts s' = min n 5" by blast
  show ?case
  proof (cases "n < 5")
    case True
    have "case session_store b' ''pc_login_attempts'' of None \<Rightarrow> lg_attempts s' < 5 | Some t \<Rightarrow> \<exists>n<5. t = nat_str n"
      using IH(3-5) True by (cases "n = 0") auto
    then obtain s1 body where st: "login_start b' s' = Inr (s1, Some body)"
      using login_start_open [OF IH(2)] by blast
    from login_attempt_fails [OF IH(2) st assms(4), of e rnd] obtain s2 b2 where
      "login_attempt e transport rnd s' b' = (s2, b2, None, True)" "storage_works b2"
      "session_store b2 ''pc_login_attempts'' = Some (nat_str (lg_attempts s' + 1))" "lg_attempts s2 = lg_attempts s' + 1"
      by blast
    moreover have "min (Suc n) 5 = lg_attempts s' + 1" using IH(5) True by simp
    ultimately show ?thesis using IH(1) True by auto
  next
    case False
    then have "login_start b' s' = Inr (s'\<lparr>lg_error := Some too_many_attempts\<rparr>, None)"
      using IH(2,3) by (intro login_start_locked [where n = 5]) auto
    then show ?thesis using IH False by (auto simp: login_attempt_def)
  qed
qed

text \<open>The invariant of the password reset.\<close>

definition reset_inv :: "reset_state \<Rightarrow> bool" where
  "reset_inv s \<longleftrightarrow>
     (rs_step s = SuccessStep \<longrightarrow> rs_newPw s = rs_confirmPw s \<and> 2 \<le> strengthScore (rs_newPw s))"

interpretation reset: step_invariant reset_inv reset_next
proof unfold_locales
  show "reset_inv (reset_next ev s)" if "reset_inv s" for s ev
    using that by (cases ev) (auto simp: reset_inv_def split: if_splits)
qed

section \<open>Properties\<close>

text \<open>
  C26. On one page the sign-in locks after five failures: when every call fails, the n-th submit makes
  a request exactly for n up to five, and after that the button is disabled as well.
\<close>

theorem login_locks_after_five:
  assumes "storage_works b" and "lg_attempts s = 0" and "session_store b ''pc_login_attempts'' = None"
    and "\<forall>c. \<exists>st d. transport c = Rejected st d"
  shows "(snd (snd (login_again e transport rnd n s b)) \<longleftrightarrow> n \<le> 5) \<and>
    (5 \<le> n \<longrightarrow> snd (login_button (fst (login_again e transport rnd n s b))))"
  using login_again_count [OF assms, of e rnd n] by (auto simp: login_button_def)

definition typed_login :: login_state where
  "typed_login = (login_init None)\<lparr>lg_email := ''a@b.c'', lg_password := ''pw''\<rparr>"

theorem login_locks_after_five_witness:
  "\<not> snd (snd (login_again demo_env (\<lambda>c. Rejected (Some 401) None) demo_rnd 6 typed_login new_tab))"
  using login_locks_after_five [of new_tab typed_login "\<lambda>c. Rejected (Some 401) None" demo_env demo_rnd 6]
  by (simp add: storage_works_def new_tab_def typed_login_def login_init_def)

text \<open>
  The lock does not survive a reload: with the page reloaded before each submit, every submit makes
  a request, without end, because the failure writes the page's own counter over the stored one. The
  stored count never gets past one.
\<close>

lemma login_lock_lost_on_reload:
  assumes "storage_works b" and "lg_attempts s = 0" and "session_store b ''pc_login_attempts'' = None"
    and "\<forall>c. \<exists>st d. transport c = Rejected st d"
  shows "snd (login_reloading e transport rnd n s b) \<and>
    session_store (fst (login_reloading e transport rnd (Suc n) s b)) ''pc_login_attempts'' = Some (nat_str 1)"
proof -
  have inv: "\<exists>b'. login_reloading e transport rnd n s b = (b', True) \<and> storage_works b' \<and>
      session_store b' ''pc_login_attempts'' \<in> {None, Some (nat_str 1)} \<and>
      (0 < n \<longrightarrow> session_store b' ''pc_login_attempts'' = Some (nat_str 1))" for n
  proof (induction n)
    case 0
    then show ?case using assms by simp
  next
    case (Suc n)
    then obtain b' where IH: "login_reloading e transport rnd n s b = (b', True)" "storage_works b'"
      "session_store b' ''pc_login_attempts'' \<in> {None, Some (nat_str 1)}" by blast
    have "case session_store b' ''pc_login_attempts'' of None \<Rightarrow> lg_attempts s < 5 | Some t \<Rightarrow> \<exists>n<5. t = nat_str n"
      using IH(3) assms(2) by (auto intro!: exI [of _ "Suc 0"])
    then obtain s1 body where st: "login_start b' s = Inr (s1, Some body)"
      using login_start_open [OF IH(2)] by blast
    from login_attempt_fails [OF IH(2) st assms(4), of e rnd] obtain s2 b2 where
      "login_attempt e transport rnd s b' = (s2, b2, None, True)" "storage_works b2"
      "session_store b2 ''pc_login_attempts'' = Some (nat_str (lg_attempts s + 1))" by blast
    then show ?case using IH(1) assms(2) by simp
  qed
  show ?thesis using inv [of n] inv [of "Suc n"] by auto
qed

text \<open>
  Signing in by e-mail keeps no credential in the page: after a successful reply with a token, the
  tab stays well-formed, holds no key in either storage, has the guard cookie, and goes to the
  dashboard.
\<close>

lemma login_keeps_no_credential:
  assumes "auth_ok b" and "lr_access_token r = Some t" and "t \<noteq> []"
  shows "case login_finish rnd s0 (Inr (st, r)) s b of (s', b', nav) \<Rightarrow>
    nav = Some ''/dashboard'' \<and> \<not> lg_loading s' \<and> auth_ok b' \<and>
    v_token (view b') = None \<and> v_legacy (view b') = None \<and> v_guard (view b')"
proof -
  note m = mark_cookie_session_refines [OF assms(1), of "lg_remember s0" rnd]
  obtain b' where "mark_cookie_session (lg_remember s0) rnd b = (b', None)" using m(1) by (metis prod.collapse)
  then show ?thesis using m assms(2,3) by (simp add: login_finish_def Let_def)
qed

text \<open>
  The two strength meters measure the same rules up to length: the score of the registration form
  is that of the password reset plus one for twelve characters, so the reset never shows more than the
  registration and both scores stay in range.
\<close>

lemma strength_meters_agree:
  "fst (passwordStrength pw) = strengthScore pw + (if length pw \<ge> 12 then 1 else 0) \<and>
   strengthScore pw \<le> 4 \<and> fst (passwordStrength pw) \<le> 5"
  by (auto simp: passwordStrength_def strengthScore_def STRENGTH_RULES_def Let_def)

text \<open>
  A reset that reports success had two equal passwords of at least two strength points, whatever
  the order of events before it.
\<close>

lemma reset_success_checked:
  assumes "rs_step (fold reset_next evs reset_init) = SuccessStep"
  shows "rs_newPw (fold reset_next evs reset_init) = rs_confirmPw (fold reset_next evs reset_init) \<and>
    2 \<le> strengthScore (rs_newPw (fold reset_next evs reset_init))"
proof -
  have "reset_inv reset_init" by (simp add: reset_inv_def reset_init_def)
  from reset.inv_run [OF this, of evs] show ?thesis using assms unfolding reset_inv_def by blast
qed

text \<open>
  The key shown for manual set-up is not the key in the QR code: without its spaces it does not
  occur in the address the code encodes, so an authenticator set up by hand produces other codes.
\<close>

lemma setup_key_not_in_uri: "\<not> sublist (replace_all (CHR '' '') [] SETUP_KEY) TOTP_URI"
  by code_simp

end
