(* ===== verification/Js_Json.thy ===== *)
theory Js_Json
  imports Js_Prelude
begin

text \<open>
  JSON values and their printing. Objects keep the order of their keys; numbers are whole.
\<close>

datatype json = JNull | JBool bool | JNum int | JStr jsstr | JArr "json list" | JObj "(jsstr \<times> json) list"

text \<open>Truthiness of a value.\<close>

fun json_truthy :: "json \<Rightarrow> bool" where
  "json_truthy JNull = False"
| "json_truthy (JBool b) = b"
| "json_truthy (JNum n) = (n \<noteq> 0)"
| "json_truthy (JStr s) = (s \<noteq> [])"
| "json_truthy (JArr _) = True"
| "json_truthy (JObj _) = True"

section \<open>Printing\<close>

definition hex_digit :: "nat \<Rightarrow> char" where
  "hex_digit n = ''0123456789abcdef'' ! n"

text \<open>One character of a string literal of \<open>JSON.stringify\<close>.\<close>

definition json_esc :: "char \<Rightarrow> jsstr" where
  "json_esc c =
     (if c = quote_c then [CHR 0x5C, quote_c]
      else if c = CHR 0x5C then [CHR 0x5C, CHR 0x5C]
      else if c = CHR 0x08 then [CHR 0x5C, CHR ''b'']
      else if c = CHR 0x0C then [CHR 0x5C, CHR ''f'']
      else if c = newline then [CHR 0x5C, CHR ''n'']
      else if c = CHR 0x0D then [CHR 0x5C, CHR ''r'']
      else if c = CHR 0x09 then [CHR 0x5C, CHR ''t'']
      else if of_char c < (32 :: nat) then [CHR 0x5C, CHR ''u'', CHR ''0'', CHR ''0'', hex_digit (of_char c div 16), hex_digit (of_char c mod 16)]
      else [c])"

definition json_quote :: "jsstr \<Rightarrow> jsstr" where
  "json_quote s = [quote_c] @ concat (map json_esc s) @ [quote_c]"

text \<open>\<open>JSON.stringify(v)\<close>, without indentation.\<close>

fun stringify :: "json \<Rightarrow> jsstr" where
  "stringify JNull = ''null''"
| "stringify (JBool b) = (if b then ''true'' else ''false'')"
| "stringify (JNum n) = int_str n"
| "stringify (JStr s) = json_quote s"
| "stringify (JArr xs) = ''['' @ join '','' (map stringify xs) @ '']''"
| "stringify (JObj kvs) = ''{'' @ join '','' (map (\<lambda>(k, v). json_quote k @ '':'' @ stringify v) kvs) @ ''}''"

lemma json_quote_has_quote: "quote_c \<in> set (json_quote s)"
  by (simp add: json_quote_def)

text \<open>An object with at least one key prints with quotation marks.\<close>

lemma stringify_object_quotes: "kvs \<noteq> [] \<Longrightarrow> quote_c \<in> set (stringify (JObj kvs))"
proof (cases kvs)
  case (Cons kv rest)
  then show ?thesis by (cases rest; cases kv) (auto simp: json_quote_has_quote)
qed simp

section \<open>Printing with indentation\<close>

text \<open>\<open>JSON.stringify(v, null, 2)\<close>; the number is the current indentation.\<close>

fun pretty :: "nat \<Rightarrow> json \<Rightarrow> jsstr" where
  "pretty ind (JArr xs) =
     (if xs = [] then ''[]''
      else ''['' @ [newline] @ join [CHR '','', newline] (map (\<lambda>v. replicate (ind + 2) CHR '' '' @ pretty (ind + 2) v) xs) @
           [newline] @ replicate ind CHR '' '' @ '']'')"
| "pretty ind (JObj kvs) =
     (if kvs = [] then ''{}''
      else ''{'' @ [newline] @
           join [CHR '','', newline] (map (\<lambda>(k, v). replicate (ind + 2) CHR '' '' @ json_quote k @ '': '' @ pretty (ind + 2) v) kvs) @
           [newline] @ replicate ind CHR '' '' @ ''}'')"
| "pretty ind v = stringify v"

lemma sublist_join: "x \<in> set xs \<Longrightarrow> sublist x (join sep xs)"
proof (induction sep xs rule: join.induct)
  case (3 sep a b ys)
  have t: "sublist x (join sep (b # ys)) \<Longrightarrow> sublist x (a @ sep @ join sep (b # ys))"
    using sublist_order.order_trans sublist_append_leftI by (metis append.assoc)
  from 3 show ?case
  proof (cases "x = a")
    case False
    then show ?thesis using 3 t by simp
  qed (simp only: join.simps sublist_append_rightI)
qed auto

lemma pretty_object_shows:
  assumes "(k, v) \<in> set kvs"
  shows "sublist (pretty (ind + 2) v) (pretty ind (JObj kvs))"
proof -
  let ?line = "\<lambda>(k, v). replicate (ind + 2) CHR '' '' @ json_quote k @ '': '' @ pretty (ind + 2) v"
  have "sublist (?line (k, v)) (join [CHR '','', newline] (map ?line kvs))"
    using assms by (intro sublist_join) force
  moreover have "sublist (pretty (ind + 2) v) (?line (k, v))"
    unfolding prod.case append.assoc [symmetric] by (rule sublist_append_leftI)
  moreover have "sublist (join [CHR '','', newline] (map ?line kvs)) (pretty ind (JObj kvs))"
  proof -
    have "kvs \<noteq> []" using assms by auto
    then show ?thesis
      using sublist_appendI [of "join [CHR '','', newline] (map ?line kvs)" "''{'' @ [newline]" "[newline] @ replicate ind CHR '' '' @ ''}''"]
      by (simp only: pretty.simps append.assoc if_False)
  qed
  ultimately show ?thesis using sublist_order.order_trans by blast
qed

end
