(* ===== verification/Gateway_Rules.thy ===== *)
theory Gateway_Rules
  imports Js_Json
begin

text \<open>
  The decisions of the gateway itself, which the web client administers: the evaluation of tool
  permissions in \<open>api/app/auth/rbac.py\<close>, the filter of list responses in \<open>api/app/auth/tool_filter.py\<close>,
  and the resolution of the rate-limit policy in \<open>api/app/limits/policies.py\<close>. Python strings are lists
  of characters as the client's are. The standard library's \<open>fnmatch.fnmatchcase\<close> is defined here.
\<close>

section \<open>Shell-style patterns\<close>

datatype glob_item = Star | AnyOne | Literal char | CharClass bool "(char \<times> char) list"

text \<open>The members of a bracket expression: ranges and single characters; a reversed range is empty.\<close>

fun class_ranges :: "jsstr \<Rightarrow> (char \<times> char) list" where
  "class_ranges (a # d # b # cs) =
     (if d = CHR ''-'' then (a, b) # class_ranges cs else (a, a) # class_ranges (d # b # cs))"
| "class_ranges (a # cs) = (a, a) # class_ranges cs"
| "class_ranges [] = []"

text \<open>
  The text up to the closing bracket and what follows it. A bracket right after the opening one (or
  after the exclamation mark) is a member; without a closing bracket there is no class.
\<close>

definition split_class :: "jsstr \<Rightarrow> (jsstr \<times> jsstr) option" where
  "split_class s =
     (let lead = (case s of
                    [] \<Rightarrow> 0
                  | c # cs \<Rightarrow>
                      if c = CHR ''!'' then (case cs of c' # _ \<Rightarrow> if c' = CHR '']'' then 2 else 1 | [] \<Rightarrow> 1)
                      else if c = CHR '']'' then 1 else 0);
          body = takeWhile (\<lambda>c. c \<noteq> CHR '']'') (drop lead s);
          rest = dropWhile (\<lambda>c. c \<noteq> CHR '']'') (drop lead s)
      in case rest of [] \<Rightarrow> None | _ # rest' \<Rightarrow> Some (take lead s @ body, rest'))"

lemma split_class_shorter:
  assumes "split_class s = Some (b, r)"
  shows "length r < length s"
proof -
  obtain n c where d: "dropWhile (\<lambda>c. c \<noteq> CHR '']'') (drop n s) = c # r"
    using assms unfolding split_class_def Let_def by (auto split: list.split_asm)
  have "length (c # r) \<le> length (drop n s)" unfolding d [symmetric] by (rule length_dropWhile_le)
  then show ?thesis by simp
qed

function glob_items :: "jsstr \<Rightarrow> glob_item list" where
  "glob_items [] = []"
| "glob_items (c # cs) =
     (if c = CHR ''*'' then Star # glob_items cs
      else if c = CHR ''?'' then AnyOne # glob_items cs
      else if c = CHR ''['' then
        (case split_class cs of
           None \<Rightarrow> Literal c # glob_items cs
         | Some (body, rest) \<Rightarrow>
             (case body of
                b # bs \<Rightarrow> if b = CHR ''!'' then CharClass True (class_ranges bs) # glob_items rest
                          else CharClass False (class_ranges body) # glob_items rest
              | [] \<Rightarrow> CharClass False [] # glob_items rest))
      else Literal c # glob_items cs)"
  by pat_completeness auto
termination
  by (relation "measure length") (auto dest: split_class_shorter)

fun item_match :: "glob_item \<Rightarrow> char \<Rightarrow> bool" where
  "item_match Star x = True"
| "item_match AnyOne x = True"
| "item_match (Literal c) x = (x = c)"
| "item_match (CharClass neg rs) x =
     (neg \<noteq> list_ex (\<lambda>(a, b). (of_char a :: nat) \<le> of_char x \<and> (of_char x :: nat) \<le> of_char b) rs)"

fun glob_match :: "glob_item list \<Rightarrow> jsstr \<Rightarrow> bool" where
  "glob_match [] s = (s = [])"
| "glob_match (Star # is) [] = glob_match is []"
| "glob_match (Star # is) (x # xs) = (glob_match is (x # xs) \<or> glob_match (Star # is) xs)"
| "glob_match (i # is) [] = False"
| "glob_match (i # is) (x # xs) = (item_match i x \<and> glob_match is xs)"

definition fnmatchcase :: "jsstr \<Rightarrow> jsstr \<Rightarrow> bool" where
  "fnmatchcase name pat = glob_match (glob_items pat) name"

definition pattern_specificity :: "jsstr \<Rightarrow> nat" where
  "pattern_specificity pattern = length (filter (\<lambda>ch. ch \<notin> {CHR ''*'', CHR ''?'', CHR ''['', CHR '']''}) pattern)"

section \<open>Tool permissions\<close>

datatype PermissionEffect = AllowEffect | DenyEffect

record ToolPermission =
  tp_id :: jsstr
  tp_server_pattern :: jsstr
  tp_tool_pattern :: jsstr
  tp_effect :: PermissionEffect
  tp_priority :: int

record PermissionDecision =
  pd_allowed :: bool
  pd_rule_id :: "jsstr option"
  pd_reason :: jsstr

definition rule_matches :: "jsstr \<Rightarrow> jsstr \<Rightarrow> ToolPermission \<Rightarrow> bool" where
  "rule_matches server_slug tool_name rule \<longleftrightarrow>
     fnmatchcase server_slug (tp_server_pattern rule) \<and> fnmatchcase tool_name (tp_tool_pattern rule)"

definition rule_specificity :: "ToolPermission \<Rightarrow> nat" where
  "rule_specificity rule = pattern_specificity (tp_server_pattern rule) + pattern_specificity (tp_tool_pattern rule)"

definition rank_key :: "ToolPermission \<Rightarrow> int \<times> int" where
  "rank_key rule = (- int (rule_specificity rule), - tp_priority rule)"

text \<open>Python's order of pairs, as the test that the first goes strictly after the second.\<close>

definition pair_after :: "int \<times> int \<Rightarrow> int \<times> int \<Rightarrow> bool" where
  "pair_after a b \<longleftrightarrow> fst a > fst b \<or> fst a = fst b \<and> snd a > snd b"

definition rule_after :: "ToolPermission \<Rightarrow> ToolPermission \<Rightarrow> bool" where
  "rule_after a b = pair_after (rank_key a) (rank_key b)"

definition evaluate_permission :: "jsstr \<Rightarrow> jsstr \<Rightarrow> ToolPermission list \<Rightarrow> PermissionDecision" where
  "evaluate_permission server_slug tool_name permissions =
     (case sort_by rule_after (filter (rule_matches server_slug tool_name) permissions) of
        [] \<Rightarrow> \<lparr>pd_allowed = False, pd_rule_id = None, pd_reason = ''default deny''\<rparr>
      | best # others \<Rightarrow>
          let top_set = filter (\<lambda>rule. rank_key rule = rank_key best) (best # others) in
          (case filter (\<lambda>rule. tp_effect rule = DenyEffect) top_set of
             d # _ \<Rightarrow> \<lparr>pd_allowed = False, pd_rule_id = Some (tp_id d), pd_reason = ''denied by rule''\<rparr>
           | [] \<Rightarrow> \<lparr>pd_allowed = True, pd_rule_id = Some (tp_id (hd top_set)), pd_reason = ''allowed by rule''\<rparr>))"

section \<open>Filtering list responses\<close>

text \<open>\<open>key in item\<close>, iteration over a value; \<^const>\<open>None\<close> where Python raises a \<open>TypeError\<close>.\<close>

fun py_in :: "jsstr \<Rightarrow> json \<Rightarrow> bool option" where
  "py_in k (JObj kvs) = Some (k \<in> fst ` set kvs)"
| "py_in k (JStr s) = Some (sublist k s)"
| "py_in k (JArr xs) = Some (JStr k \<in> set xs)"
| "py_in k _ = None"

fun py_iter :: "json \<Rightarrow> json list option" where
  "py_iter (JArr xs) = Some xs"
| "py_iter (JObj kvs) = Some (map (\<lambda>p. JStr (fst p)) kvs)"
| "py_iter (JStr s) = Some (map (\<lambda>c. JStr [c]) s)"
| "py_iter _ = None"

text \<open>Whether an item is kept; matching a name that is not a string raises once a server pattern matches.\<close>

definition item_kept :: "jsstr \<Rightarrow> ToolPermission list \<Rightarrow> jsstr \<Rightarrow> json \<Rightarrow> bool option" where
  "item_kept server_slug permissions name_key item =
     (case py_in name_key item of
        None \<Rightarrow> None
      | Some False \<Rightarrow> Some False
      | Some True \<Rightarrow>
          (case item of
             JObj kvs \<Rightarrow>
               (case map_of kvs name_key of
                  Some (JStr name) \<Rightarrow> Some (pd_allowed (evaluate_permission server_slug name permissions))
                | _ \<Rightarrow>
                    if list_ex (\<lambda>rule. fnmatchcase server_slug (tp_server_pattern rule)) permissions then None
                    else Some False)
           | _ \<Rightarrow> None))"

fun filter_list_by_permission ::
  "jsstr \<Rightarrow> ToolPermission list \<Rightarrow> jsstr \<Rightarrow> json list \<Rightarrow> json list option" where
  "filter_list_by_permission server_slug permissions name_key [] = Some []"
| "filter_list_by_permission server_slug permissions name_key (item # items) =
     (case item_kept server_slug permissions name_key item of
        None \<Rightarrow> None
      | Some keep \<Rightarrow>
          map_option (\<lambda>r. if keep then item # r else r)
            (filter_list_by_permission server_slug permissions name_key items))"

text \<open>The response is a JSON object; the permissions are those of the caller.\<close>

definition filter_generic_list ::
  "jsstr \<Rightarrow> ToolPermission list \<Rightarrow> jsstr \<Rightarrow> jsstr \<Rightarrow> (jsstr \<times> json) list \<Rightarrow> (jsstr \<times> json) list option" where
  "filter_generic_list server_slug permissions list_key name_key response_body =
     (case map_of response_body ''result'' of
        Some (JObj result) \<Rightarrow>
          (case map_of result list_key of
             None \<Rightarrow> Some (assoc_set ''result'' (JObj (assoc_set list_key (JArr []) result)) response_body)
           | Some items \<Rightarrow>
               (case py_iter items of
                  None \<Rightarrow> None
                | Some its \<Rightarrow>
                    map_option (\<lambda>allowed. assoc_set ''result'' (JObj (assoc_set list_key (JArr allowed) result)) response_body)
                      (filter_list_by_permission server_slug permissions name_key its)))
      | _ \<Rightarrow> Some response_body)"

definition filter_tools_list ::
  "jsstr \<Rightarrow> ToolPermission list \<Rightarrow> (jsstr \<times> json) list \<Rightarrow> (jsstr \<times> json) list option" where
  "filter_tools_list server_slug permissions = filter_generic_list server_slug permissions ''tools'' ''name''"

definition filter_resources_list ::
  "jsstr \<Rightarrow> ToolPermission list \<Rightarrow> (jsstr \<times> json) list \<Rightarrow> (jsstr \<times> json) list option" where
  "filter_resources_list server_slug permissions = filter_generic_list server_slug permissions ''resources'' ''uri''"

definition filter_prompts_list ::
  "jsstr \<Rightarrow> ToolPermission list \<Rightarrow> (jsstr \<times> json) list \<Rightarrow> (jsstr \<times> json) list option" where
  "filter_prompts_list server_slug permissions = filter_generic_list server_slug permissions ''prompts'' ''name''"

definition filter_roots_list ::
  "jsstr \<Rightarrow> ToolPermission list \<Rightarrow> (jsstr \<times> json) list \<Rightarrow> (jsstr \<times> json) list option" where
  "filter_roots_list server_slug permissions = filter_generic_list server_slug permissions ''roots'' ''uri''"

section \<open>Rate-limit policies\<close>

datatype RateLimitAlgorithm = TOKEN_BUCKET | SLIDING_WINDOW

record RateLimitPolicy =
  rp_subject_id :: "jsstr option"
  rp_subject_type :: "jsstr option"
  rp_server_pattern :: "jsstr option"
  rp_tool_pattern :: "jsstr option"
  rp_algorithm :: RateLimitAlgorithm
  rp_request_limit :: int
  rp_window_seconds :: int
  rp_burst_capacity :: "int option"
  rp_priority :: int

record EffectivePolicy =
  ep_algorithm :: RateLimitAlgorithm
  ep_request_limit :: int
  ep_window_seconds :: int
  ep_burst_capacity :: "int option"
  ep_scope :: jsstr

definition UNIT_SECONDS :: "jsstr \<Rightarrow> int option" where
  "UNIT_SECONDS =
     [''second'' \<mapsto> 1, ''minute'' \<mapsto> 60, ''hour'' \<mapsto> 3600, ''day'' \<mapsto> 86400]"

text \<open>
  \<open>int(s)\<close>: white space around, an optional sign, digits with single underscores between them;
  \<^const>\<open>None\<close> where it raises.
\<close>

definition py_int :: "jsstr \<Rightarrow> int option" where
  "py_int s =
     (let t = trim s;
          neg = (case t of c # _ \<Rightarrow> c = CHR ''-'' | [] \<Rightarrow> False);
          ds = (case t of c # cs \<Rightarrow> if c = CHR ''-'' \<or> c = CHR ''+'' then cs else t | [] \<Rightarrow> t);
          groups = split_on (CHR ''_'') ds
      in if list_all (\<lambda>g. g \<noteq> [] \<and> list_all is_digit g) groups
         then Some ((if neg then -1 else 1) * int (nat_val 0 (concat groups))) else None)"

text \<open>\<^const>\<open>None\<close> where Python raises: no slash, a count that is not a number, an unknown unit.\<close>

definition parse_default :: "jsstr \<Rightarrow> (int \<times> int) option" where
  "parse_default s =
     (case index_of (CHR ''/'') s of
        None \<Rightarrow> None
      | Some i \<Rightarrow>
          (case (py_int (take i s), UNIT_SECONDS (drop (Suc i) s)) of
             (Some n, Some u) \<Rightarrow> Some (n, u)
           | _ \<Rightarrow> None))"

definition selector_level :: "RateLimitPolicy \<Rightarrow> nat" where
  "selector_level p =
     (let has_subject = rp_subject_id p \<noteq> None; has_server = rp_server_pattern p \<noteq> None;
          has_tool = rp_tool_pattern p \<noteq> None
      in if has_subject \<and> has_server \<and> has_tool then 0
         else if has_subject \<and> has_server \<and> \<not> has_tool then 1
         else if has_subject \<and> \<not> has_server \<and> \<not> has_tool then 2
         else 3)"

definition pattern_ok :: "jsstr option \<Rightarrow> jsstr option \<Rightarrow> bool" where
  "pattern_ok pat name =
     (case pat of None \<Rightarrow> True | Some p \<Rightarrow> (case name of None \<Rightarrow> False | Some n \<Rightarrow> fnmatchcase n p))"

definition policy_matches ::
  "jsstr option \<Rightarrow> jsstr option \<Rightarrow> jsstr option \<Rightarrow> jsstr option \<Rightarrow> RateLimitPolicy \<Rightarrow> bool" where
  "policy_matches subject_id subject_type server_slug tool_name p \<longleftrightarrow>
     (case rp_subject_id p of
        None \<Rightarrow> True
      | Some s \<Rightarrow>
          subject_id = Some s \<and>
          \<not> (rp_subject_type p \<noteq> None \<and> subject_type \<noteq> None \<and> rp_subject_type p \<noteq> subject_type)) \<and>
     pattern_ok (rp_server_pattern p) server_slug \<and> pattern_ok (rp_tool_pattern p) tool_name"

definition policy_specificity :: "RateLimitPolicy \<Rightarrow> nat" where
  "policy_specificity p =
     pattern_specificity (nullish (rp_server_pattern p) []) + pattern_specificity (nullish (rp_tool_pattern p) [])"

definition policy_after :: "RateLimitPolicy \<Rightarrow> RateLimitPolicy \<Rightarrow> bool" where
  "policy_after a b \<longleftrightarrow>
     selector_level a > selector_level b \<or>
     selector_level a = selector_level b \<and>
       pair_after (- rp_priority a, - int (policy_specificity a)) (- rp_priority b, - int (policy_specificity b))"

definition scope_for_level :: "nat \<Rightarrow> jsstr" where
  "scope_for_level level =
     (if level = 0 then ''tool'' else if level = 1 then ''server'' else if level = 2 then ''subject'' else ''global'')"

definition effective_of :: "RateLimitPolicy \<Rightarrow> EffectivePolicy" where
  "effective_of best =
     \<lparr>ep_algorithm = rp_algorithm best, ep_request_limit = rp_request_limit best,
      ep_window_seconds = rp_window_seconds best, ep_burst_capacity = rp_burst_capacity best,
      ep_scope = scope_for_level (selector_level best)\<rparr>"

definition resolve_policy ::
  "jsstr option \<Rightarrow> jsstr option \<Rightarrow> jsstr option \<Rightarrow> jsstr option \<Rightarrow> RateLimitPolicy list \<Rightarrow> jsstr \<Rightarrow>
     EffectivePolicy option" where
  "resolve_policy subject_id subject_type server_slug tool_name policies default_str =
     (case sort_by policy_after (filter (policy_matches subject_id subject_type server_slug tool_name) policies) of
        [] \<Rightarrow>
          map_option (\<lambda>(n, u). \<lparr>ep_algorithm = TOKEN_BUCKET, ep_request_limit = n, ep_window_seconds = u,
                                ep_burst_capacity = Some n, ep_scope = ''tool''\<rparr>) (parse_default default_str)
      | best # _ \<Rightarrow> Some (effective_of best))"

section \<open>The two rankings\<close>

interpretation rule_order: js_comparator rule_after
  by unfold_locales (auto simp: rule_after_def pair_after_def)

interpretation policy_order: js_comparator policy_after
  by unfold_locales (auto simp: policy_after_def pair_after_def)

lemma rule_after_key: "rank_key a = rank_key b \<longleftrightarrow> \<not> rule_after a b \<and> \<not> rule_after b a"
  by (auto simp: rule_after_def pair_after_def prod_eq_iff)

section \<open>The specification of a decision\<close>

text \<open>The rules that decide: the matching ones that no matching rule is ranked before.\<close>

definition deciding :: "jsstr \<Rightarrow> jsstr \<Rightarrow> ToolPermission list \<Rightarrow> ToolPermission set" where
  "deciding sv tn ps =
     {r \<in> set ps. rule_matches sv tn r \<and> (\<forall>r'\<in>set ps. rule_matches sv tn r' \<longrightarrow> \<not> rule_after r r')}"

lemma deciding_top:
  assumes "sort_by rule_after (filter (rule_matches sv tn) ps) = best # others"
  shows "set (filter (\<lambda>r. rank_key r = rank_key best) (best # others)) = deciding sv tn ps"
    and "best \<in> deciding sv tn ps"
proof -
  let ?m = "filter (rule_matches sv tn) ps"
  note h = rule_order.sort_by_head [OF assms]
  have s: "set (best # others) = set ?m" using set_sort_by [of rule_after ?m] assms by simp
  show b: "best \<in> deciding sv tn ps" using h by (simp add: deciding_def)
  have "rank_key r = rank_key best \<longleftrightarrow> r \<in> deciding sv tn ps" if "r \<in> set ?m" for r
  proof
    assume "rank_key r = rank_key best"
    then have "\<not> rule_after r best" by (simp add: rule_after_key)
    then have "\<not> rule_after r r'" if "r' \<in> set ?m" for r'
      using h(2) that rule_order.not_after_trans by blast
    then show "r \<in> deciding sv tn ps" using that by (simp add: deciding_def)
  next
    assume "r \<in> deciding sv tn ps"
    then have "\<not> rule_after r best" using h(1) by (simp add: deciding_def)
    moreover have "\<not> rule_after best r" using h(2) that by blast
    ultimately show "rank_key r = rank_key best" by (simp add: rule_after_key)
  qed
  moreover have "deciding sv tn ps \<subseteq> set ?m" by (auto simp: deciding_def)
  ultimately show "set (filter (\<lambda>r. rank_key r = rank_key best) (best # others)) = deciding sv tn ps"
    using s by auto
qed

lemma deciding_empty: "deciding sv tn ps = {} \<longleftrightarrow> filter (rule_matches sv tn) ps = []"
proof
  assume e: "deciding sv tn ps = {}"
  show "filter (rule_matches sv tn) ps = []"
  proof (cases "sort_by rule_after (filter (rule_matches sv tn) ps)")
    case Nil
    then show ?thesis using length_sort_by [of rule_after "filter (rule_matches sv tn) ps"] by simp
  next
    case (Cons best others)
    from deciding_top(2) [OF this] e show ?thesis by simp
  qed
qed (auto simp: deciding_def filter_empty_conv)

lemma evaluate_cases:
  assumes "sort_by rule_after (filter (rule_matches sv tn) ps) = best # others"
  obtains (denied) d where "d \<in> deciding sv tn ps" "tp_effect d = DenyEffect"
      "evaluate_permission sv tn ps = \<lparr>pd_allowed = False, pd_rule_id = Some (tp_id d), pd_reason = ''denied by rule''\<rparr>"
    | (allowed) a where "a \<in> deciding sv tn ps" "\<forall>r\<in>deciding sv tn ps. tp_effect r = AllowEffect"
      "evaluate_permission sv tn ps = \<lparr>pd_allowed = True, pd_rule_id = Some (tp_id a), pd_reason = ''allowed by rule''\<rparr>"
proof -
  let ?top = "filter (\<lambda>r. rank_key r = rank_key best) (best # others)"
  note t = deciding_top [OF assms]
  show ?thesis
  proof (cases "filter (\<lambda>r. tp_effect r = DenyEffect) ?top")
    case Nil
    then have "\<forall>r\<in>set ?top. tp_effect r \<noteq> DenyEffect" by (simp only: filter_empty_conv)
    then have "\<forall>r\<in>deciding sv tn ps. tp_effect r = AllowEffect"
      unfolding t(1) [symmetric] by (metis PermissionEffect.exhaust)
    moreover have "hd ?top = best" by simp
    ultimately show ?thesis using allowed [of best] t(2) Nil assms by (simp add: evaluate_permission_def Let_def)
  next
    case (Cons d ds)
    have "d \<in> set (filter (\<lambda>r. tp_effect r = DenyEffect) ?top)" unfolding Cons by simp
    then have "d \<in> set ?top \<and> tp_effect d = DenyEffect" unfolding set_filter [of _ ?top] by blast
    then have "d \<in> deciding sv tn ps" "tp_effect d = DenyEffect" unfolding t(1) by blast+
    then show ?thesis using denied [of d] Cons assms by (simp add: evaluate_permission_def Let_def)
  qed
qed

lemma evaluate_none:
  assumes "sort_by rule_after (filter (rule_matches sv tn) ps) = []"
  shows "deciding sv tn ps = {}"
    and "evaluate_permission sv tn ps = \<lparr>pd_allowed = False, pd_rule_id = None, pd_reason = ''default deny''\<rparr>"
proof -
  have "filter (rule_matches sv tn) ps = []"
    using assms length_sort_by [of rule_after "filter (rule_matches sv tn) ps"] by simp
  then show "deciding sv tn ps = {}" by (simp add: deciding_empty)
  show "evaluate_permission sv tn ps = \<lparr>pd_allowed = False, pd_rule_id = None, pd_reason = ''default deny''\<rparr>"
    using assms by (simp add: evaluate_permission_def)
qed

lemma evaluate_allowed: "pd_allowed (evaluate_permission sv tn ps) \<longleftrightarrow>
    deciding sv tn ps \<noteq> {} \<and> (\<forall>r\<in>deciding sv tn ps. tp_effect r = AllowEffect)"
proof (cases "sort_by rule_after (filter (rule_matches sv tn) ps)")
  case Nil
  then show ?thesis using evaluate_none [OF Nil] by simp
next
  case (Cons best others)
  then show ?thesis
  proof (cases rule: evaluate_cases)
    case (denied d)
    then show ?thesis by auto
  next
    case (allowed a)
    then show ?thesis by auto
  qed
qed

section \<open>Lemmas on the list filter\<close>

definition permitted_item :: "jsstr \<Rightarrow> ToolPermission list \<Rightarrow> jsstr \<Rightarrow> json \<Rightarrow> bool" where
  "permitted_item sv ps name_key item \<longleftrightarrow>
     (\<exists>kvs name. item = JObj kvs \<and> map_of kvs name_key = Some (JStr name) \<and>
        pd_allowed (evaluate_permission sv name ps))"

lemma item_kept_permitted: "item_kept sv ps k item = Some True \<Longrightarrow> permitted_item sv ps k item"
  by (auto simp: item_kept_def permitted_item_def split: option.splits bool.splits json.splits if_splits)

lemma permitted_item_kept:
  assumes "permitted_item sv ps k item"
  shows "item_kept sv ps k item = Some True"
proof -
  obtain kvs name where i: "item = JObj kvs" "map_of kvs k = Some (JStr name)"
      "pd_allowed (evaluate_permission sv name ps)"
    using assms by (auto simp: permitted_item_def)
  have "k \<in> fst ` set kvs" using map_of_SomeD [OF i(2)] by force
  then show ?thesis using i by (simp add: item_kept_def)
qed

lemma filter_list_eq:
  "filter_list_by_permission sv ps k items = Some out \<Longrightarrow> out = filter (permitted_item sv ps k) items"
proof (induction items arbitrary: out)
  case (Cons item items)
  from Cons.prems obtain keep r where k: "item_kept sv ps k item = Some keep"
      "filter_list_by_permission sv ps k items = Some r" "out = (if keep then item # r else r)"
    by (auto split: option.splits)
  have "keep \<longleftrightarrow> permitted_item sv ps k item"
    using k(1) item_kept_permitted permitted_item_kept by (cases keep) fastforce+
  then show ?case using k Cons.IH by simp
qed simp

lemma filter_generic_object:
  assumes "map_of body ''result'' = Some (JObj result)" "map_of result lk = Some (JArr items)"
    and "filter_generic_list sv ps lk nk body = Some out"
  shows "map_of out ''result'' = Some (JObj (assoc_set lk (JArr (filter (permitted_item sv ps nk) items)) result))"
proof -
  obtain allowed where a: "filter_list_by_permission sv ps nk items = Some allowed"
      "out = assoc_set ''result'' (JObj (assoc_set lk (JArr allowed) result)) body"
    using assms by (auto simp: filter_generic_list_def)
  then show ?thesis using filter_list_eq [OF a(1)] by (simp add: map_of_assoc_set)
qed

section \<open>Properties\<close>


definition read_rule :: ToolPermission where
  "read_rule = \<lparr>tp_id = ''r1'', tp_server_pattern = ''*'', tp_tool_pattern = ''read_*'', tp_effect = AllowEffect, tp_priority = 0\<rparr>"

lemma read_rule_matches: "rule_matches ''github'' ''read_file'' read_rule"
  by code_simp


text \<open>
  The decision does not depend on the order in which the repository returns the rules, or on
  duplicates: the same set of rules gives the same answer.
\<close>

lemma evaluate_permission_order_free:
  assumes "set ps = set qs"
  shows "pd_allowed (evaluate_permission sv tn ps) = pd_allowed (evaluate_permission sv tn qs)"
  using assms by (simp add: evaluate_allowed deciding_def)

text \<open>
  A list response is cut down to what the caller may use: if the filter returns and the response has
  the expected shape, the tools in the result are exactly the permitted ones of the upstream list, in
  their order; everything nameless or not permitted is gone.
\<close>

lemma tools_list_filtered:
  assumes "map_of body ''result'' = Some (JObj result)" and "map_of result ''tools'' = Some (JArr items)"
    and "filter_tools_list sv ps body = Some out"
  shows "map_of out ''result'' = Some (JObj (assoc_set ''tools'' (JArr (filter (permitted_item sv ps ''name'') items)) result))"
  using filter_generic_object assms unfolding filter_tools_list_def by blast

text \<open>
  A result of an unexpected kind is not filtered: when the upstream answers with something other
  than an object under \<open>result\<close>, for example a bare list of tools, the response is passed on as it
  came, although the code means to deny unknown shapes.
\<close>

lemma unknown_result_leaks:
  assumes "map_of body ''result'' = Some (JArr items)"
  shows "filter_tools_list sv ps body = Some body"
  using assms by (simp add: filter_tools_list_def filter_generic_list_def)


definition global_policy :: RateLimitPolicy where
  "global_policy = \<lparr>rp_subject_id = None, rp_subject_type = None, rp_server_pattern = None, rp_tool_pattern = None,
     rp_algorithm = SLIDING_WINDOW, rp_request_limit = 10, rp_window_seconds = 60, rp_burst_capacity = None, rp_priority = 1\<rparr>"


text \<open>
  A policy for one subject and a tool pattern but no server counts as global: it is ranked with the
  global policies and its bucket has the global scope, although it names a subject; the documentation of
  the levels gives that level only to policies without a subject.
\<close>

lemma subject_tool_policy_is_global:
  assumes "rp_subject_id p = Some u" and "rp_server_pattern p = None" and "rp_tool_pattern p = Some t"
  shows "selector_level p = 3 \<and> ep_scope (effective_of p) = ''global'' \<and>
    (rp_priority p < rp_priority q \<and> rp_subject_id q = None \<longrightarrow> policy_after p q)"
  using assms by (auto simp: selector_level_def effective_of_def scope_for_level_def policy_after_def pair_after_def Let_def)

end
