(* ===== verification/Policy_Wizard.thy ===== *)
theory Policy_Wizard
  imports Form_Action Roles_Tab Gateway_Rules
begin

text \<open>
  The policy builder, \<open>web/src/app/dashboard/policies/new/page.tsx\<close>: the eight steps with the fields each of them shows, the
  explanation, the simulated decision, the review with its warnings, and what publishing sends. The number fields
  are whole numbers.
\<close>

section \<open>State\<close>

datatype PolicyAction = ActAllow | ActDeny | ActRateLimit | ActLogOnly
datatype SubjectMode = SubjAll | SubjRole | SubjApiKey | SubjOauth
datatype Algorithm = TokenBucket | SlidingWindow

record WizardState =
  wz_name :: jsstr
  wz_description :: jsstr
  wz_owner :: jsstr
  wz_environment :: jsstr
  wz_tags :: jsstr
  wz_subjectMode :: SubjectMode
  wz_roleId :: jsstr
  wz_subjectId :: jsstr
  wz_serverPattern :: jsstr
  wz_toolPattern :: jsstr
  wz_action :: PolicyAction
  wz_timeWindowStart :: jsstr
  wz_timeWindowEnd :: jsstr
  wz_ipRange :: jsstr
  wz_requestLimit :: int
  wz_windowSeconds :: int
  wz_algorithm :: Algorithm
  wz_burstCapacity :: int
  wz_priority :: int
  wz_testSubjectId :: jsstr
  wz_testToolName :: jsstr
  wz_testResult :: "(jsstr \<times> jsstr) option"

definition INIT :: WizardState where
  "INIT =
     \<lparr>wz_name = [], wz_description = [], wz_owner = [], wz_environment = ''development'', wz_tags = [],
      wz_subjectMode = SubjAll, wz_roleId = [], wz_subjectId = [],
      wz_serverPattern = ''*'', wz_toolPattern = ''*'', wz_action = ActRateLimit,
      wz_timeWindowStart = [], wz_timeWindowEnd = [], wz_ipRange = [],
      wz_requestLimit = 100, wz_windowSeconds = 60, wz_algorithm = SlidingWindow, wz_burstCapacity = 0,
      wz_priority = 100, wz_testSubjectId = [], wz_testToolName = [], wz_testResult = None\<rparr>"

section \<open>Explanation\<close>

definition role_name_of :: "role_view list \<Rightarrow> jsstr \<Rightarrow> jsstr option" where
  "role_name_of roles i = map_option rv_name (find (\<lambda>r. rv_id r = i) roles)"

definition in_quotes :: "jsstr \<Rightarrow> jsstr" where
  "in_quotes s = [quote_c] @ s @ [quote_c]"

definition subject_text :: "WizardState \<Rightarrow> role_view list \<Rightarrow> jsstr" where
  "subject_text s roles =
     (case wz_subjectMode s of
        SubjAll \<Rightarrow> ''All subjects''
      | SubjRole \<Rightarrow> ''Members of role '' @ in_quotes (nullish (role_name_of roles (wz_roleId s)) (wz_roleId s))
      | SubjApiKey \<Rightarrow> ''API key '' @ in_quotes (str_or (wz_subjectId s) ''<unset>'')
      | SubjOauth \<Rightarrow> ''OAuth subject '' @ in_quotes (str_or (wz_subjectId s) ''<unset>''))"

definition buildExplanation :: "WizardState \<Rightarrow> role_view list \<Rightarrow> jsstr" where
  "buildExplanation s roles =
     (let subjStr = subject_text s roles;
          toolStr = (if wz_toolPattern s = [] \<or> wz_toolPattern s = ''*'' then ''all tools''
                     else ''tools matching '' @ in_quotes (wz_toolPattern s));
          serverStr = (if wz_serverPattern s = [] \<or> wz_serverPattern s = ''*'' then ''all servers''
                       else ''server '' @ in_quotes (wz_serverPattern s))
      in case wz_action s of
           ActRateLimit \<Rightarrow>
             let algo = (if wz_algorithm s = SlidingWindow then ''sliding window'' else ''token bucket'');
                 time = (if wz_timeWindowStart s \<noteq> [] \<and> wz_timeWindowEnd s \<noteq> []
                         then '' between '' @ wz_timeWindowStart s @ '' and '' @ wz_timeWindowEnd s @ '' UTC'' else [])
             in subjStr @ '' may make at most '' @ int_str (wz_requestLimit s) @ '' requests per '' @
                int_str (wz_windowSeconds s) @ ''s to '' @ toolStr @ '' on '' @ serverStr @ time @
                '', enforced using a '' @ algo @ '' algorithm with priority '' @ int_str (wz_priority s) @ ''.''
         | ActAllow \<Rightarrow> subjStr @ '' are permitted to invoke '' @ toolStr @ '' on '' @ serverStr @ ''.''
         | ActDeny \<Rightarrow> subjStr @ '' are denied access to '' @ toolStr @ '' on '' @ serverStr @ ''.''
         | ActLogOnly \<Rightarrow> subjStr @ '' requests to '' @ toolStr @ '' on '' @ serverStr @ '' will be logged without enforcement.'')"

section \<open>The simulated decision\<close>

definition tool_matches :: "WizardState \<Rightarrow> bool" where
  "tool_matches s \<longleftrightarrow>
     wz_toolPattern s = [] \<or> wz_toolPattern s = ''*'' \<or>
     prefix (replace_first (CHR ''*'') [] (wz_toolPattern s)) (wz_testToolName s) \<or>
     wz_testToolName s = wz_toolPattern s"

definition subject_matches :: "WizardState \<Rightarrow> bool" where
  "subject_matches s \<longleftrightarrow>
     wz_subjectMode s = SubjAll \<or>
     (wz_subjectMode s = SubjApiKey \<and> wz_testSubjectId s = wz_subjectId s) \<or>
     wz_subjectMode s = SubjRole"

definition simulateDecision :: "WizardState \<Rightarrow> WizardState" where
  "simulateDecision s =
     (let would = tool_matches s \<and> subject_matches s;
          outcome = (if wz_action s = ActDeny then (if would then ''denied'' else ''allowed'') else ''allowed'');
          why = (if would
                 then ''The test subject '' @ in_quotes (str_or (wz_testSubjectId s) ''(any)'') @ '' and tool '' @
                      in_quotes (str_or (wz_testToolName s) ''(any)'') @ '' match this policy'' @ [CHR 0x27] @ ''s patterns.''
                 else ''The test inputs do not match this policy'' @ [CHR 0x27] @ ''s patterns, so the policy would not apply.'')
      in s\<lparr>wz_testResult := Some (outcome, why)\<rparr>)"

section \<open>Publishing\<close>

record rate_limit_create =
  rl_subject_id :: "jsstr option"
  rl_server_pattern :: "jsstr option"
  rl_tool_pattern :: "jsstr option"
  rl_algorithm :: Algorithm
  rl_request_limit :: int
  rl_window_seconds :: int
  rl_burst_capacity :: "int option"
  rl_priority :: int

record permission_create =
  pm_server_pattern :: jsstr
  pm_tool_pattern :: jsstr
  pm_allow :: bool
  pm_priority :: int

datatype publish_call =
    CreateRateLimit rate_limit_create
  | CreateRole jsstr
  | CreatePermission jsstr permission_create

definition rate_limit_body :: "WizardState \<Rightarrow> rate_limit_create" where
  "rate_limit_body s =
     \<lparr>rl_subject_id = (if wz_subjectMode s = SubjAll then None else or_absent (wz_subjectId s)),
      rl_server_pattern = or_absent (wz_serverPattern s), rl_tool_pattern = or_absent (wz_toolPattern s),
      rl_algorithm = wz_algorithm s, rl_request_limit = wz_requestLimit s, rl_window_seconds = wz_windowSeconds s,
      rl_burst_capacity = (if wz_burstCapacity s = 0 then None else Some (wz_burstCapacity s)),
      rl_priority = wz_priority s\<rparr>"

definition permission_body :: "WizardState \<Rightarrow> permission_create" where
  "permission_body s =
     \<lparr>pm_server_pattern = str_or (wz_serverPattern s) ''*'', pm_tool_pattern = str_or (wz_toolPattern s) ''*'',
      pm_allow = (wz_action s = ActAllow), pm_priority = wz_priority s\<rparr>"

text \<open>
  \<open>api\<close> is the backend: for a call, an error or the id of what was created. The result is the calls
  made, in order, and the effects; each call is made only if the one before it succeeded.
\<close>

definition publish :: "(publish_call \<Rightarrow> api_error + jsstr) \<Rightarrow> WizardState \<Rightarrow> publish_call list \<times> effect list" where
  "publish api s =
     (let failed = (\<lambda>err. [ToastError (error_text err ''Failed to create policy'')]);
          finish = (\<lambda>effs. effs @ [Navigate ''/dashboard/policies'']);
          permit = (\<lambda>roleId calls effs.
             let c = CreatePermission roleId (permission_body s) in
             case api c of
               Inl err \<Rightarrow> (calls @ [c], effs @ failed err)
             | Inr _ \<Rightarrow> (calls @ [c], finish (effs @ [Refetch ''/v1/roles'', ToastSuccess ''Access policy created''])))
      in case wz_action s of
           ActRateLimit \<Rightarrow>
             let c = CreateRateLimit (rate_limit_body s) in
             (case api c of
                Inl err \<Rightarrow> ([c], failed err)
              | Inr _ \<Rightarrow> ([c], finish [Refetch ''/v1/rate-limit-policies'', ToastSuccess ''Rate limit policy created'']))
         | ActLogOnly \<Rightarrow>
             ([], finish [ToastSuccess (''Policy saved (log-only '' @ [em_dash] @ '' no enforcement action created)'')])
         | _ \<Rightarrow>
             if wz_roleId s \<noteq> [] then permit (wz_roleId s) [] []
             else let c = CreateRole (str_or (wz_name s) ''New Policy Role'') in
               (case api c of
                  Inl err \<Rightarrow> ([c], failed err)
                | Inr roleId \<Rightarrow> permit roleId [c] [Refetch ''/v1/roles'']))"

section \<open>The steps\<close>

definition STEPS :: "(nat \<times> jsstr) list" where
  "STEPS =
     [(1, ''Name & Purpose''), (2, ''Subjects''), (3, ''Resources''), (4, ''Action''), (5, ''Conditions''),
      (6, ''Controls''), (7, ''Test''), (8, ''Review'')]"

definition can_proceed :: "nat \<Rightarrow> WizardState \<Rightarrow> bool" where
  "can_proceed step s =
     (if step = 1 \<and> trim (wz_name s) = [] then False
      else if step = 2 \<and> wz_subjectMode s = SubjRole \<and> wz_roleId s = [] then False
      else True)"

datatype wizard_edit =
    WName jsstr | WDescription jsstr | WOwner jsstr | WEnvironment jsstr | WTags jsstr
  | WSubjectMode SubjectMode | WRoleId jsstr | WSubjectId jsstr
  | WServerPattern jsstr | WToolPattern jsstr | WAction PolicyAction
  | WTimeStart jsstr | WTimeEnd jsstr | WIpRange jsstr
  | WRequestLimit int | WWindowSeconds int | WAlgorithm Algorithm | WBurst int | WPriority int
  | WTestSubject jsstr | WTestTool jsstr | WSimulate

text \<open>The step whose form shows the control of an edit, given the state (some are conditional).\<close>

fun edit_step :: "wizard_edit \<Rightarrow> nat" where
  "edit_step (WName _) = 1" | "edit_step (WDescription _) = 1" | "edit_step (WOwner _) = 1"
| "edit_step (WEnvironment _) = 1" | "edit_step (WTags _) = 1"
| "edit_step (WSubjectMode _) = 2" | "edit_step (WRoleId _) = 2" | "edit_step (WSubjectId _) = 2"
| "edit_step (WServerPattern _) = 3" | "edit_step (WToolPattern _) = 3" | "edit_step (WAction _) = 4"
| "edit_step (WTimeStart _) = 5" | "edit_step (WTimeEnd _) = 5" | "edit_step (WIpRange _) = 5"
| "edit_step (WRequestLimit _) = 6" | "edit_step (WWindowSeconds _) = 6" | "edit_step (WAlgorithm _) = 6"
| "edit_step (WBurst _) = 6" | "edit_step (WPriority _) = 6"
| "edit_step (WTestSubject _) = 7" | "edit_step (WTestTool _) = 7" | "edit_step WSimulate = 7"

fun edit_shown :: "wizard_edit \<Rightarrow> WizardState \<Rightarrow> bool" where
  "edit_shown (WRoleId _) s = (wz_subjectMode s = SubjRole)"
| "edit_shown (WSubjectId _) s = (wz_subjectMode s = SubjApiKey \<or> wz_subjectMode s = SubjOauth)"
| "edit_shown (WRequestLimit _) s = (wz_action s = ActRateLimit)"
| "edit_shown (WWindowSeconds _) s = (wz_action s = ActRateLimit)"
| "edit_shown (WAlgorithm _) s = (wz_action s = ActRateLimit)"
| "edit_shown (WBurst _) s = (wz_action s = ActRateLimit)"
| "edit_shown _ s = True"

fun wizard_set :: "wizard_edit \<Rightarrow> WizardState \<Rightarrow> WizardState" where
  "wizard_set (WName v) s = s\<lparr>wz_name := v\<rparr>"
| "wizard_set (WDescription v) s = s\<lparr>wz_description := v\<rparr>"
| "wizard_set (WOwner v) s = s\<lparr>wz_owner := v\<rparr>"
| "wizard_set (WEnvironment v) s = s\<lparr>wz_environment := v\<rparr>"
| "wizard_set (WTags v) s = s\<lparr>wz_tags := v\<rparr>"
| "wizard_set (WSubjectMode v) s = s\<lparr>wz_subjectMode := v\<rparr>"
| "wizard_set (WRoleId v) s = s\<lparr>wz_roleId := v\<rparr>"
| "wizard_set (WSubjectId v) s = s\<lparr>wz_subjectId := v\<rparr>"
| "wizard_set (WServerPattern v) s = s\<lparr>wz_serverPattern := v\<rparr>"
| "wizard_set (WToolPattern v) s = s\<lparr>wz_toolPattern := v\<rparr>"
| "wizard_set (WAction v) s = s\<lparr>wz_action := v\<rparr>"
| "wizard_set (WTimeStart v) s = s\<lparr>wz_timeWindowStart := v\<rparr>"
| "wizard_set (WTimeEnd v) s = s\<lparr>wz_timeWindowEnd := v\<rparr>"
| "wizard_set (WIpRange v) s = s\<lparr>wz_ipRange := v\<rparr>"
| "wizard_set (WRequestLimit v) s = s\<lparr>wz_requestLimit := v\<rparr>"
| "wizard_set (WWindowSeconds v) s = s\<lparr>wz_windowSeconds := v\<rparr>"
| "wizard_set (WAlgorithm v) s = s\<lparr>wz_algorithm := v\<rparr>"
| "wizard_set (WBurst v) s = s\<lparr>wz_burstCapacity := v\<rparr>"
| "wizard_set (WPriority v) s = s\<lparr>wz_priority := v\<rparr>"
| "wizard_set (WTestSubject v) s = s\<lparr>wz_testSubjectId := v\<rparr>"
| "wizard_set (WTestTool v) s = s\<lparr>wz_testToolName := v\<rparr>"
| "wizard_set WSimulate s = simulateDecision s"

datatype wizard_event = WEdit wizard_edit | WContinue | WPrevious | WJump nat

text \<open>One event on the page: the step and the state.\<close>

fun wizard_next :: "wizard_event \<Rightarrow> nat \<times> WizardState \<Rightarrow> nat \<times> WizardState" where
  "wizard_next (WEdit ed) (step, s) =
     (step, if edit_step ed = step \<and> edit_shown ed s then wizard_set ed s else s)"
| "wizard_next WContinue (step, s) = (if step < 8 \<and> can_proceed step s then step + 1 else step, s)"
| "wizard_next WPrevious (step, s) = (max 1 (step - 1), s)"
| "wizard_next (WJump n) (step, s) = (if n \<in> fst ` set STEPS \<and> step > n then n else step, s)"

section \<open>The review\<close>

fun action_str :: "PolicyAction \<Rightarrow> jsstr" where
  "action_str ActAllow = ''allow''"
| "action_str ActDeny = ''deny''"
| "action_str ActRateLimit = ''rate_limit''"
| "action_str ActLogOnly = ''log_only''"

fun algorithm_str :: "Algorithm \<Rightarrow> jsstr" where
  "algorithm_str TokenBucket = ''token_bucket''"
| "algorithm_str SlidingWindow = ''sliding_window''"

definition review_rows :: "WizardState \<Rightarrow> role_view list \<Rightarrow> (jsstr \<times> jsstr) list" where
  "review_rows s roles =
     [(''Name'', str_or (wz_name s) ''(unnamed)''),
      (''Action'', replace_first (CHR ''_'') '' '' (action_str (wz_action s))),
      (''Subjects'',
        case wz_subjectMode s of
          SubjRole \<Rightarrow> ''Role: '' @ nullish (role_name_of roles (wz_roleId s)) (wz_roleId s)
        | SubjAll \<Rightarrow> ''All subjects''
        | _ \<Rightarrow> str_or (wz_subjectId s) ''(not set)''),
      (''Server Pattern'', str_or (wz_serverPattern s) ''*''),
      (''Tool Pattern'', str_or (wz_toolPattern s) ''*'')] @
     (if wz_action s = ActRateLimit then
        [(''Request Limit'', int_str (wz_requestLimit s) @ '' / '' @ int_str (wz_windowSeconds s) @ ''s''),
         (''Algorithm'', replace_first (CHR ''_'') '' '' (algorithm_str (wz_algorithm s))),
         (''Burst'', if wz_burstCapacity s > 0 then int_str (wz_burstCapacity s) else ''None'')]
      else []) @
     [(''Priority'', int_str (wz_priority s)), (''Environment'', wz_environment s)]"

definition review_warnings :: "WizardState \<Rightarrow> jsstr list" where
  "review_warnings s =
     (if wz_serverPattern s = ''*'' \<and> wz_toolPattern s = ''*''
      then [''Overly broad: both server and tool patterns are wildcards.''] else []) @
     (if wz_action s = ActDeny \<and> wz_subjectMode s = SubjAll
      then [''Denying all subjects may break legitimate access.''] else []) @
     (if (wz_action s = ActAllow \<or> wz_action s = ActDeny) \<and> wz_roleId s = [] \<and> wz_subjectMode s = SubjRole
      then [''No role selected '' @ [em_dash] @ '' this permission will not be created.''] else [])"

section \<open>Lemmas on the steps\<close>

text \<open>What the steps passed so far guarantee.\<close>

definition wizard_inv :: "nat \<times> WizardState \<Rightarrow> bool" where
  "wizard_inv p \<longleftrightarrow>
     1 \<le> fst p \<and> fst p \<le> 8 \<and>
     (1 < fst p \<longrightarrow> trim (wz_name (snd p)) \<noteq> []) \<and>
     (2 < fst p \<longrightarrow> wz_subjectMode (snd p) = SubjRole \<longrightarrow> wz_roleId (snd p) \<noteq> [])"

lemma wizard_set_name: "edit_step ed \<noteq> 1 \<Longrightarrow> wz_name (wizard_set ed s) = wz_name s"
  by (cases ed) (simp_all add: simulateDecision_def Let_def)

lemma wizard_set_subject:
  "edit_step ed \<noteq> 2 \<Longrightarrow> wz_subjectMode (wizard_set ed s) = wz_subjectMode s"
  "edit_step ed \<noteq> 2 \<Longrightarrow> wz_roleId (wizard_set ed s) = wz_roleId s"
  by (cases ed; simp add: simulateDecision_def Let_def)+

lemma wizard_inv_edit: "wizard_inv (step, s) \<Longrightarrow> wizard_inv (wizard_next (WEdit ed) (step, s))"
  by (auto simp: wizard_inv_def wizard_set_name wizard_set_subject)

lemma wizard_inv_continue: "wizard_inv (step, s) \<Longrightarrow> wizard_inv (wizard_next WContinue (step, s))"
  by (auto simp: wizard_inv_def can_proceed_def split: if_splits)

lemma wizard_inv_back:
  "wizard_inv (step, s) \<Longrightarrow> wizard_inv (wizard_next WPrevious (step, s))"
  "wizard_inv (step, s) \<Longrightarrow> wizard_inv (wizard_next (WJump n) (step, s))"
  by (auto simp: wizard_inv_def STEPS_def)

interpretation wizard: step_invariant wizard_inv wizard_next
proof unfold_locales
  show "wizard_inv (wizard_next ev p)" if "wizard_inv p" for p ev
    using that wizard_inv_edit wizard_inv_continue wizard_inv_back by (cases p; cases ev) simp_all
qed

lemma wizard_inv_init: "wizard_inv (1, INIT)"
  by (simp add: wizard_inv_def)

section \<open>Lemmas on patterns\<close>

definition plain_char :: "char \<Rightarrow> bool" where
  "plain_char c \<longleftrightarrow> c \<notin> {CHR ''*'', CHR ''?'', CHR ''[''}"

lemma glob_items_plain: "list_all plain_char p \<Longrightarrow> glob_items (p @ ''*'') = map Literal p @ [Star]"
  by (induction p) (auto simp: plain_char_def)

lemma glob_match_star: "glob_match [Star] s"
  by (induction s) auto

lemma glob_match_literals: "glob_match (map Literal p @ [Star]) s \<longleftrightarrow> prefix p s"
proof (induction p arbitrary: s)
  case Nil
  then show ?case by (simp add: glob_match_star)
next
  case (Cons c p)
  then show ?case by (cases s) auto
qed

lemma replace_first_trailing: "list_all plain_char p \<Longrightarrow> replace_first (CHR ''*'') [] (p @ ''*'') = p"
  by (induction p) (auto simp: plain_char_def)

text \<open>The rule the gateway evaluates for a published permission.\<close>

definition gateway_rule :: "jsstr \<Rightarrow> permission_create \<Rightarrow> ToolPermission" where
  "gateway_rule i p =
     \<lparr>tp_id = i, tp_server_pattern = pm_server_pattern p, tp_tool_pattern = pm_tool_pattern p,
      tp_effect = (if pm_allow p then AllowEffect else DenyEffect), tp_priority = pm_priority p\<rparr>"

section \<open>Properties\<close>

text \<open>
  The wizard reaches its review only with a complete policy: whatever the order of edits, forward
  and backward moves and jumps, the step stays between one and eight, beyond the first step the policy
  has a name, and beyond the second a policy for a role has a role. The third warning of the review is
  therefore never shown.
\<close>

lemma wizard_complete_at_review:
  "case fold wizard_next evs (1, INIT) of (step, s) \<Rightarrow>
     1 \<le> step \<and> step \<le> 8 \<and> (1 < step \<longrightarrow> trim (wz_name s) \<noteq> []) \<and>
     (2 < step \<longrightarrow> \<not> (wz_subjectMode s = SubjRole \<and> wz_roleId s = []))"
  using wizard.inv_run [OF wizard_inv_init, of evs] by (auto simp: wizard_inv_def split: prod.split)

text \<open>
  Publishing reports what happened: it leaves the page exactly when every call it made succeeded,
  shows an error exactly when one failed, and makes at most two calls, the second only after the first
  succeeded.
\<close>

lemma publish_reports_faithfully:
  "case publish api s of (calls, effs) \<Rightarrow>
     (Navigate ''/dashboard/policies'' \<in> set effs \<longleftrightarrow> (\<forall>c. c \<notin> set calls \<or> (\<exists>x. api c = Inr x))) \<and>
     ((\<exists>t. ToastError t \<in> set effs) \<longleftrightarrow> (\<exists>c err. c \<in> set calls \<and> api c = Inl err)) \<and> length calls \<le> 2"
  by (auto simp: publish_def Let_def split: PolicyAction.split sum.split)

text \<open>
  A role chosen earlier is used although the review says otherwise: there is a run of the wizard to
  its review in which the review and the explanation speak of all subjects while publishing attaches
  the permission to the role that was selected before the subjects were changed.
\<close>

lemma stale_role_published:
  assumes "r \<noteq> []"
  shows "\<exists>evs s. fold wizard_next evs (1, INIT) = (8, s) \<and>
    (''Subjects'', ''All subjects'') \<in> set (review_rows s roles) \<and> prefix ''All subjects'' (buildExplanation s roles) \<and>
    fst (publish api s) = [CreatePermission r (permission_body s)]"
proof -
  let ?evs = "[WEdit (WName ''p''), WContinue, WEdit (WSubjectMode SubjRole), WEdit (WRoleId r),
    WEdit (WSubjectMode SubjAll), WContinue, WContinue, WEdit (WAction ActAllow), WContinue, WContinue, WContinue, WContinue]"
  let ?s = "INIT\<lparr>wz_name := ''p'', wz_subjectMode := SubjAll, wz_roleId := r, wz_action := ActAllow\<rparr>"
  have f: "fold wizard_next ?evs (1, INIT) = (8, ?s)"
    by (simp add: can_proceed_def INIT_def js_str_simps)
  have r: "(''Subjects'', ''All subjects'') \<in> set (review_rows ?s roles)"
    by (simp add: review_rows_def INIT_def)
  have x: "prefix ''All subjects'' (buildExplanation ?s roles)"
    by (simp add: buildExplanation_def subject_text_def INIT_def Let_def)
  have c: "fst (publish api ?s) = [CreatePermission r (permission_body ?s)]"
    using assms by (simp add: publish_def Let_def split: sum.split)
  from f r x c show ?thesis by blast
qed

text \<open>
  A rate limit for a role limits everybody: with the role mode and no subject id, the request that is
  sent is the one for all subjects, while the explanation speaks of the members of the role.
\<close>

lemma role_rate_limit_body:
  assumes "wz_subjectMode s = SubjRole" and "wz_subjectId s = []"
  shows "rate_limit_body s = rate_limit_body (s\<lparr>wz_subjectMode := SubjAll\<rparr>)" and "rl_subject_id (rate_limit_body s) = None"
    and "prefix ''Members of role'' (subject_text s roles)"
  using assms by (simp_all add: rate_limit_body_def subject_text_def)

text \<open>
  The conditions of a policy are never published: whatever time window and address range were
  entered, publishing makes the same calls with the same effects as without them, although the
  explanation of a rate limit names the window. A rate limit for a role without a subject id is
  published as the one for all subjects.
\<close>

lemma conditions_not_published:
  "publish api (s\<lparr>wz_timeWindowStart := a, wz_timeWindowEnd := b, wz_ipRange := r\<rparr>) = publish api s \<and>
   buildExplanation (INIT\<lparr>wz_timeWindowStart := ''09:00'', wz_timeWindowEnd := ''17:00''\<rparr>) roles \<noteq> buildExplanation INIT roles \<and>
   publish api (INIT\<lparr>wz_subjectMode := SubjRole, wz_roleId := i\<rparr>) = publish api INIT"
proof -
  have "publish api (s\<lparr>wz_timeWindowStart := a, wz_timeWindowEnd := b, wz_ipRange := r\<rparr>) = publish api s"
    by (cases "wz_action s"; simp add: publish_def rate_limit_body_def permission_body_def Let_def split: sum.split)
  moreover have "buildExplanation (INIT\<lparr>wz_timeWindowStart := ''09:00'', wz_timeWindowEnd := ''17:00''\<rparr>) roles \<noteq> buildExplanation INIT roles"
    by (simp add: buildExplanation_def subject_text_def INIT_def Let_def)
  moreover have "publish api (INIT\<lparr>wz_subjectMode := SubjRole, wz_roleId := i\<rparr>) = publish api INIT"
    by (simp add: publish_def rate_limit_body_def INIT_def)
  ultimately show ?thesis by blast
qed

text \<open>
  The simulation agrees with the gateway on the patterns the wizard suggests: for a tool pattern that
  is plain text followed by one star, the simulated match is the gateway's \<open>fnmatch\<close>.
\<close>

lemma simulated_match_is_gateway_match:
  assumes "wz_toolPattern s = p @ ''*''" and "list_all plain_char p"
  shows "tool_matches s \<longleftrightarrow> fnmatchcase (wz_testToolName s) (wz_toolPattern s)"
proof -
  have "fnmatchcase (wz_testToolName s) (p @ ''*'') \<longleftrightarrow> prefix p (wz_testToolName s)"
    by (simp only: fnmatchcase_def glob_items_plain [OF assms(2)] glob_match_literals)
  moreover have "tool_matches s \<longleftrightarrow> prefix p (wz_testToolName s)"
    unfolding tool_matches_def assms(1) replace_first_trailing [OF assms(2)] by (cases p) auto
  ultimately show ?thesis unfolding assms(1) by blast
qed

text \<open>
  The priority field works the other way round than its hint says: of two published permissions with
  the same patterns that both match a call, the one with the higher number decides, whatever the other
  one says, while the form tells the user that lower numbers have higher priority.
\<close>

lemma higher_number_decides:
  assumes "wz_serverPattern s1 = wz_serverPattern s2" and "wz_toolPattern s1 = wz_toolPattern s2"
    and "wz_priority s1 < wz_priority s2" and "rule_matches sv tn (gateway_rule i1 (permission_body s1))"
  shows "pd_allowed (evaluate_permission sv tn
      [gateway_rule i1 (permission_body s1), gateway_rule i2 (permission_body s2)]) \<longleftrightarrow> wz_action s2 = ActAllow"
proof -
  let ?r1 = "gateway_rule i1 (permission_body s1)" and ?r2 = "gateway_rule i2 (permission_body s2)"
  have m: "rule_matches sv tn ?r2" using assms by (simp add: rule_matches_def gateway_rule_def permission_body_def)
  have a: "rule_after ?r1 ?r2" "\<not> rule_after ?r2 ?r1" "\<not> rule_after ?r2 ?r2"
    using assms(1-3)
    by (simp_all add: rule_after_def pair_after_def rank_key_def rule_specificity_def gateway_rule_def permission_body_def)
  have "deciding sv tn [?r1, ?r2] = {?r2}" using assms(4) m a by (auto simp: deciding_def)
  then show ?thesis by (simp add: evaluate_allowed gateway_rule_def permission_body_def)
qed

end
