(* ===== verification/Policy_List.thy ===== *)
theory Policy_List
  imports Policy_Wizard
begin

text \<open>
  The policy list, \<open>web/src/app/dashboard/policies/page.tsx\<close>: rate limit policies and roles brought
  into one list, the explanation of a row, the health cards, the filters and the deletion.
\<close>

section \<open>Data\<close>

record RateLimitPolicyView =
  rlp_id :: jsstr
  rlp_subject_id :: "jsstr option"
  rlp_subject_type :: "SubjectType option"
  rlp_server_pattern :: "jsstr option"
  rlp_tool_pattern :: "jsstr option"
  rlp_algorithm :: Algorithm
  rlp_request_limit :: int
  rlp_window_seconds :: int
  rlp_burst_capacity :: "int option"
  rlp_priority :: int
  rlp_created_at :: jsstr
  rlp_updated_at :: jsstr

datatype policy_type = TypeRateLimit | TypeRbac
datatype policy_effect = EffRateLimit | EffAllow | EffDeny
datatype policy_status = StActive | StDisabled

record UnifiedPolicy =
  up_id :: jsstr
  up_type :: policy_type
  up_name :: jsstr
  up_effect :: policy_effect
  up_subjects :: jsstr
  up_tools :: jsstr
  up_server :: jsstr
  up_priority :: int
  up_status :: policy_status
  up_updatedAt :: jsstr
  up_raw :: "RateLimitPolicyView + role_view"

section \<open>Helpers\<close>

definition short_subject :: "jsstr \<Rightarrow> jsstr" where
  "short_subject i = take 8 i @ [ellipsis]"

text \<open>The cast of the raw record is by the type, which is set together with it.\<close>

definition humanExplain :: "UnifiedPolicy \<Rightarrow> jsstr" where
  "humanExplain p =
     (case (up_type p, up_raw p) of
        (TypeRateLimit, Inl rl) \<Rightarrow>
          (if truthy (rlp_subject_id rl) then ''Subject '' @ in_quotes (short_subject (the (rlp_subject_id rl))) else ''All subjects'') @
          '' may make at most '' @ int_str (rlp_request_limit rl) @ '' requests per '' @ int_str (rlp_window_seconds rl) @ ''s to '' @
          (if truthy (rlp_tool_pattern rl) then ''tools matching '' @ in_quotes (the (rlp_tool_pattern rl)) else ''all tools'') @
          '' on '' @
          (if truthy (rlp_server_pattern rl) then ''server '' @ in_quotes (the (rlp_server_pattern rl)) else ''all servers'') @
          '' ('' @ (if rlp_algorithm rl = SlidingWindow then ''sliding window'' else ''token bucket'') @ '').''
      | _ \<Rightarrow> ''Members assigned to role '' @ in_quotes (up_name p) @
             '' have access controlled by tool permissions configured on this role.'')"

definition patternBreadth :: "jsstr option \<Rightarrow> jsstr" where
  "patternBreadth pat = (if \<not> truthy pat \<or> pat = Some ''*'' then ''broad'' else ''normal'')"

fun EffectPill :: "policy_effect \<Rightarrow> jsstr" where
  "EffectPill EffRateLimit = ''Rate Limit''"
| "EffectPill EffAllow = ''Allow''"
| "EffectPill EffDeny = ''Deny''"

fun StatusPill :: "policy_status \<Rightarrow> jsstr" where
  "StatusPill StActive = ''active''"
| "StatusPill StDisabled = ''disabled''"

section \<open>The list\<close>

definition unified_rate_limit :: "RateLimitPolicyView \<Rightarrow> UnifiedPolicy" where
  "unified_rate_limit p =
     \<lparr>up_id = rlp_id p, up_type = TypeRateLimit,
      up_name = (if truthy (rlp_subject_id p) then ''Rate limit: '' @ short_subject (the (rlp_subject_id p)) else ''Global rate limit''),
      up_effect = EffRateLimit, up_subjects = nullish (rlp_subject_id p) ''all'', up_tools = nullish (rlp_tool_pattern p) ''*'',
      up_server = nullish (rlp_server_pattern p) ''*'', up_priority = rlp_priority p, up_status = StActive,
      up_updatedAt = rlp_updated_at p, up_raw = Inl p\<rparr>"

definition unified_role :: "role_view \<Rightarrow> UnifiedPolicy" where
  "unified_role r =
     \<lparr>up_id = rv_id r, up_type = TypeRbac, up_name = rv_name r, up_effect = EffAllow, up_subjects = ''role members'',
      up_tools = ''*'', up_server = ''*'', up_priority = 0, up_status = StActive, up_updatedAt = rv_created_at r, up_raw = Inr r\<rparr>"

definition unified :: "RateLimitPolicyView list \<Rightarrow> role_view list \<Rightarrow> UnifiedPolicy list" where
  "unified rls roles = map unified_rate_limit rls @ map unified_role roles"

definition is_broad :: "UnifiedPolicy \<Rightarrow> bool" where
  "is_broad p \<longleftrightarrow>
     (case (up_type p, up_raw p) of
        (TypeRateLimit, Inl rl) \<Rightarrow>
          patternBreadth (rlp_tool_pattern rl) = ''broad'' \<or> patternBreadth (rlp_server_pattern rl) = ''broad''
      | _ \<Rightarrow> False)"

definition broadPolicies :: "UnifiedPolicy list \<Rightarrow> nat" where
  "broadPolicies ps = length (filter is_broad ps)"

definition activePolicies :: "UnifiedPolicy list \<Rightarrow> nat" where
  "activePolicies ps = length (filter (\<lambda>p. up_status p = StActive) ps)"

definition health_cards :: "RateLimitPolicyView list \<Rightarrow> role_view list \<Rightarrow> (jsstr \<times> nat \<times> jsstr) list" where
  "health_cards rls roles =
     (let ps = unified rls roles in
      [(''Active Policies'', activePolicies ps, nat_str (length ps) @ '' total''),
       (''Rate Limit Rules'', length rls, []),
       (''RBAC Roles'', length roles, ''with tool permissions''),
       (''Overly Broad'', broadPolicies ps, ''wildcard patterns''),
       (''Disabled'', 0, ''no disabled policies'')])"

text \<open>The filters: \<^const>\<open>None\<close> is the choice \<open>all\<close>.\<close>

definition filtered :: "jsstr \<Rightarrow> policy_effect option \<Rightarrow> policy_type option \<Rightarrow> UnifiedPolicy list \<Rightarrow> UnifiedPolicy list" where
  "filtered sq fe ft ps =
     (let q = to_lower sq in
      filter (\<lambda>p.
        if q \<noteq> [] \<and> \<not> sublist q (to_lower (up_name p)) \<and> \<not> sublist q (to_lower (up_tools p)) \<and> \<not> sublist q (to_lower (up_server p)) then False
        else if fe \<noteq> None \<and> Some (up_effect p) \<noteq> fe then False
        else if ft \<noteq> None \<and> Some (up_type p) \<noteq> ft then False
        else True) ps)"

text \<open>The handler of the delete button; \<open>ok\<close> is the answer of the browser's confirmation, \<open>api\<close> the backend.\<close>

definition handleDeleteRL :: "bool \<Rightarrow> (jsstr \<Rightarrow> api_error + unit) \<Rightarrow> jsstr \<Rightarrow> jsstr list \<times> effect list" where
  "handleDeleteRL ok api i =
     (if \<not> ok then ([], [])
      else case api i of
             Inr _ \<Rightarrow> ([i], [ToastSuccess ''Policy deleted'', Refetch ''/v1/rate-limit-policies''])
           | Inl _ \<Rightarrow> ([i], [ToastError ''Failed to delete policy'']))"

section \<open>The table\<close>

datatype row_action = ViewPolicy jsstr | DeletePolicy jsstr | ManageInRoles

record policy_row =
  pr_name :: jsstr
  pr_explanation :: jsstr
  pr_broad :: bool
  pr_cells :: "jsstr list"
  pr_actions :: "row_action list"

definition policy_row_of :: "int \<Rightarrow> (jsstr \<Rightarrow> int option) \<Rightarrow> UnifiedPolicy \<Rightarrow> policy_row" where
  "policy_row_of at time p =
     \<lparr>pr_name = up_name p, pr_explanation = humanExplain p, pr_broad = is_broad p,
      pr_cells = [EffectPill (up_effect p), up_subjects p, up_tools p, up_server p, int_str (up_priority p),
                  StatusPill (up_status p), ago at (time (up_updatedAt p))],
      pr_actions = (if up_type p = TypeRateLimit then [ViewPolicy (up_id p), DeletePolicy (up_id p)] else [ManageInRoles])\<rparr>"

datatype policy_table = TableLoading | TableEmptyAll | TableNoMatch | TableRows "policy_row list"

definition policy_table_of ::
  "bool \<Rightarrow> int \<Rightarrow> (jsstr \<Rightarrow> int option) \<Rightarrow> jsstr \<Rightarrow> policy_effect option \<Rightarrow> policy_type option \<Rightarrow>
   RateLimitPolicyView list \<Rightarrow> role_view list \<Rightarrow> policy_table" where
  "policy_table_of loading at time sq fe ft rls roles =
     (let ps = unified rls roles; shown = filtered sq fe ft ps in
      if loading then TableLoading
      else if shown = [] then (if ps = [] then TableEmptyAll else TableNoMatch)
      else TableRows (map (policy_row_of at time) shown))"

section \<open>Properties\<close>

lemma unified_parts:
  "p \<in> set (unified rls roles) \<longleftrightarrow> (\<exists>r\<in>set rls. p = unified_rate_limit r) \<or> (\<exists>r\<in>set roles. p = unified_role r)"
  by (auto simp: unified_def)

lemma filtered_type: "filtered s fe (Some t) ps = filter (\<lambda>p. up_type p = t) (filtered s fe None ps)"
  unfolding filtered_def Let_def filter_filter by (rule filter_cong) auto

lemma filtered_type_partition:
  "length (filtered s fe (Some TypeRateLimit) ps) + length (filtered s fe (Some TypeRbac) ps) = length (filtered s fe None ps)"
proof -
  have "(up_type p = TypeRbac) = (up_type p \<noteq> TypeRateLimit)" for p :: UnifiedPolicy by (cases "up_type p") auto
  then show ?thesis
    using sum_length_filter_compl [of "\<lambda>p. up_type p = TypeRateLimit" "filtered s fe None ps"] by (simp only: filtered_type)
qed

lemma active_all: "activePolicies (unified rls roles) = length rls + length roles"
  by (simp add: activePolicies_def unified_def unified_rate_limit_def unified_role_def filter_map o_def)

lemma broad_only_rate_limits: "broadPolicies (unified rls roles) \<le> length rls"
  by (simp add: broadPolicies_def unified_def unified_role_def is_broad_def filter_map o_def)

lemma deny_filter_empty: "filtered s (Some EffDeny) ft (unified rls roles) = []"
  by (auto simp: filtered_def Let_def filter_empty_conv unified_parts unified_rate_limit_def unified_role_def)

text \<open>
  The policy list accounts for everything once: without filters it shows every policy and role, the
  two types partition whatever the search and effect filter leave, the active count is the number of
  policies and roles and the broad count at most the number of rate limits. The deny filter shows
  nothing, whatever permissions the roles hold, because every role is listed as allowing.
\<close>

lemma policy_list_accounts:
  "filtered [] None None (unified rls roles) = unified rls roles \<and>
   length (filtered s fe (Some TypeRateLimit) (unified rls roles)) + length (filtered s fe (Some TypeRbac) (unified rls roles)) =
     length (filtered s fe None (unified rls roles)) \<and>
   activePolicies (unified rls roles) = length rls + length roles \<and>
   broadPolicies (unified rls roles) \<le> length rls \<and>
   filtered s (Some EffDeny) ft (unified rls roles) = []"
  using filtered_type_partition active_all broad_only_rate_limits deny_filter_empty by (simp add: filtered_def)

end
