(* ===== verification/Audit_Page.thy ===== *)
theory Audit_Page
  imports Js_Json Roles_Tab
begin

text \<open>
  The organization audit log, \<open>web/src/app/dashboard/audit/page.tsx\<close>: the mapping of gateway records to
  events, redaction, retention, the filters with the saved searches, the pages fetched from the
  backend, the table, the detail drawer, the webhook dialog and the CSV export.

  \<open>time\<close> is the host's date parser (\<open>new Date(s).getTime()\<close>, \<^const>\<open>None\<close> for \<open>NaN\<close>) and \<open>fmt\<close> its
  locale-dependent date printer; both depend on the host's zone and locale and are arguments.
\<close>

section \<open>Events\<close>

datatype OrgEventCategory =
  CatAuth | CatInvitation | CatRole | CatApiKey | CatPolicy | CatServer | CatTool | CatRequest | CatBilling | CatIntegration

datatype actor_type = ActorUser | ActorApiKey | ActorSystem
datatype event_outcome = OutSuccess | OutFailure | OutBlocked
datatype AuditEventType = AuthFailure | PlatformAdminGranted | RbacDeny | ToolCall | TenantProvisioned

text \<open>A record of the audit API; the fields the code guards with \<open>??\<close> are optional.\<close>

record AuditLogView =
  al_id :: "jsstr option"
  al_tenant_id :: "jsstr option"
  al_subject_id :: "jsstr option"
  al_subject_type :: "SubjectType option"
  al_event_type :: AuditEventType
  al_server_slug :: "jsstr option"
  al_tool_name :: "jsstr option"
  al_rpc_method :: "jsstr option"
  al_outcome :: "jsstr option"
  al_client_ip :: "jsstr option"
  al_request_id :: "jsstr option"
  al_detail :: json
  al_created_at :: "jsstr option"

record OrgEvent =
  ev_id :: jsstr
  ev_category :: OrgEventCategory
  ev_action :: jsstr
  ev_actor :: jsstr
  ev_actorType :: actor_type
  ev_resource :: jsstr
  ev_resourceType :: jsstr
  ev_prevValue :: jsstr
  ev_newValue :: jsstr
  ev_outcome :: event_outcome
  ev_timestamp :: jsstr
  ev_ip :: jsstr
  ev_userAgent :: jsstr
  ev_requestId :: jsstr
  ev_reason :: jsstr
  ev_raw :: "AuditLogView option"

fun category_str :: "OrgEventCategory \<Rightarrow> jsstr" where
  "category_str CatAuth = ''auth''" | "category_str CatInvitation = ''invitation''" | "category_str CatRole = ''role''"
| "category_str CatApiKey = ''api_key''" | "category_str CatPolicy = ''policy''" | "category_str CatServer = ''server''"
| "category_str CatTool = ''tool''" | "category_str CatRequest = ''request''" | "category_str CatBilling = ''billing''"
| "category_str CatIntegration = ''integration''"

fun outcome_str :: "event_outcome \<Rightarrow> jsstr" where
  "outcome_str OutSuccess = ''success''" | "outcome_str OutFailure = ''failure''" | "outcome_str OutBlocked = ''blocked''"

definition CATEGORY_CONFIG :: "(OrgEventCategory \<times> jsstr) list" where
  "CATEGORY_CONFIG =
     [(CatAuth, ''User login''), (CatInvitation, ''User invitation''), (CatRole, ''Role change''), (CatApiKey, ''API key''),
      (CatPolicy, ''Policy''), (CatServer, ''Server''), (CatTool, ''Tool''), (CatRequest, ''Request blocked''),
      (CatBilling, ''Billing change''), (CatIntegration, ''Integration change'')]"

definition category_label :: "OrgEventCategory \<Rightarrow> jsstr" where
  "category_label c = the (map_of CATEGORY_CONFIG c)"

fun OUTCOME_CONFIG :: "event_outcome \<Rightarrow> jsstr" where
  "OUTCOME_CONFIG OutSuccess = ''Success''" | "OUTCOME_CONFIG OutFailure = ''Failure''" | "OUTCOME_CONFIG OutBlocked = ''Blocked''"

text \<open>\<open>mapAuditLog\<close>; \<open>today\<close> is the current time as an ISO string.\<close>

definition mapAuditLog :: "jsstr \<Rightarrow> AuditLogView \<Rightarrow> nat \<Rightarrow> OrgEvent" where
  "mapAuditLog today l idx =
     (let actor = nullish (al_subject_id l) ''system'';
          ip = nullish (al_client_ip l) [em_dash];
          rid = nullish (al_request_id l) (nullish (al_id l) (''synth-'' @ nat_str idx));
          ts = nullish (al_created_at l) today
      in if al_event_type l = AuthFailure then
           \<lparr>ev_id = rid, ev_category = CatAuth, ev_action = ''Authentication failed'', ev_actor = actor, ev_actorType = ActorApiKey,
            ev_resource = nullish (al_server_slug l) ''gateway'', ev_resourceType = ''gateway'',
            ev_prevValue = ''authenticated'', ev_newValue = ''rejected'', ev_outcome = OutFailure, ev_timestamp = ts, ev_ip = ip,
            ev_userAgent = ''mcp-client/1.0'', ev_requestId = rid, ev_reason = ''Invalid or expired API key'', ev_raw = Some l\<rparr>
         else if al_event_type l = RbacDeny then
           \<lparr>ev_id = rid, ev_category = CatRequest, ev_action = ''Request blocked'', ev_actor = actor, ev_actorType = ActorApiKey,
            ev_resource = nullish (al_server_slug l) ''server'' @ ''/'' @ nullish (al_tool_name l) ''tool'', ev_resourceType = ''tool'',
            ev_prevValue = [em_dash], ev_newValue = [em_dash], ev_outcome = OutBlocked, ev_timestamp = ts, ev_ip = ip,
            ev_userAgent = ''mcp-client/1.0'', ev_requestId = rid,
            ev_reason = ''RBAC policy denied access to '' @ [quote_c] @ nullish (al_tool_name l) ''tool'' @ [quote_c], ev_raw = Some l\<rparr>
         else
           \<lparr>ev_id = rid, ev_category = CatRequest,
            ev_action = ''Tool call: '' @ nullish (al_tool_name l) (nullish (al_rpc_method l) ''unknown''), ev_actor = actor,
            ev_actorType = ActorApiKey,
            ev_resource = nullish (al_server_slug l) ''server'' @ ''/'' @ nullish (al_tool_name l) ''tool'', ev_resourceType = ''tool'',
            ev_prevValue = [em_dash], ev_newValue = nullish (al_outcome l) ''success'',
            ev_outcome = (if al_outcome l = Some ''error'' \<or> al_outcome l = Some ''failure'' then OutFailure else OutSuccess),
            ev_timestamp = ts, ev_ip = ip, ev_userAgent = ''mcp-client/1.0'', ev_requestId = rid,
            ev_reason = (if json_truthy (al_detail l) then stringify (al_detail l) else [em_dash]), ev_raw = Some l\<rparr>)"

section \<open>Helpers\<close>

definition audit_relativeTime :: "int \<Rightarrow> (jsstr \<Rightarrow> int option) \<Rightarrow> jsstr \<Rightarrow> jsstr" where
  "audit_relativeTime at time ts = (if ts = [] then [em_dash] else ago at (time ts))"

definition fmtDateFull :: "(jsstr \<Rightarrow> jsstr) \<Rightarrow> jsstr \<Rightarrow> jsstr" where
  "fmtDateFull fmt ts = (if ts = [] then [em_dash] else fmt ts)"

definition redact :: "jsstr \<Rightarrow> bool \<Rightarrow> jsstr" where
  "redact val masked =
     (if \<not> masked \<or> val = [] \<or> val = [em_dash] then val
      else if length val \<le> 4 then replicate (length val) bullet
      else take 3 val @ replicate (min (length val - 3) 12) bullet)"

text \<open>The retention in milliseconds; \<^const>\<open>None\<close> is \<open>Infinity\<close>.\<close>

definition retentionMs :: "jsstr \<Rightarrow> int option" where
  "retentionMs r =
     (if r = ''7d'' then Some (7 * 86400000)
      else if r = ''30d'' then Some (30 * 86400000)
      else if r = ''90d'' then Some (90 * 86400000)
      else if r = ''1y'' then Some (365 * 86400000)
      else None)"

section \<open>CSV export\<close>

definition CSV_HEADER :: "jsstr list" where
  "CSV_HEADER =
     [''Timestamp'', ''Category'', ''Action'', ''Actor'', ''Resource'', ''Previous value'', ''New value'', ''Outcome'',
      ''IP address'', ''Request ID'', ''Reason'']"

definition csv_fields :: "(jsstr \<Rightarrow> jsstr) \<Rightarrow> bool \<Rightarrow> OrgEvent \<Rightarrow> jsstr list" where
  "csv_fields fmt compliance e =
     [fmtDateFull fmt (ev_timestamp e), category_label (ev_category e), ev_action e,
      redact (ev_actor e) (compliance \<and> ev_actorType e = ActorApiKey), ev_resource e, ev_prevValue e, ev_newValue e,
      outcome_str (ev_outcome e), redact (ev_ip e) compliance, ev_requestId e, replace_all (CHR '','') '';'' (ev_reason e)]"

definition csv_row :: "jsstr list \<Rightarrow> jsstr" where
  "csv_row vs = join '','' (map (\<lambda>v. [quote_c] @ v @ [quote_c]) vs)"

text \<open>The text of the file \<open>exportCsv\<close> offers for download.\<close>

definition exportCsv :: "(jsstr \<Rightarrow> jsstr) \<Rightarrow> OrgEvent list \<Rightarrow> bool \<Rightarrow> jsstr" where
  "exportCsv fmt events compliance =
     join [newline] (join '','' CSV_HEADER # map (\<lambda>e. csv_row (csv_fields fmt compliance e)) events)"

section \<open>The detail drawer\<close>

definition drawer_fields :: "(jsstr \<Rightarrow> jsstr) \<Rightarrow> bool \<Rightarrow> OrgEvent \<Rightarrow> (jsstr \<times> jsstr) list" where
  "drawer_fields fmt compliance e =
     [(''Actor'', redact (ev_actor e) (compliance \<and> ev_actorType e = ActorApiKey)), (''Action'', ev_action e),
      (''Resource'', ev_resource e), (''Resource type'', ev_resourceType e), (''Previous value'', str_or (ev_prevValue e) [em_dash]),
      (''New value'', str_or (ev_newValue e) [em_dash]), (''Timestamp'', fmtDateFull fmt (ev_timestamp e)),
      (''IP address'', redact (ev_ip e) compliance), (''User agent'', ev_userAgent e), (''Request ID'', ev_requestId e),
      (''Reason'', str_or (ev_reason e) [em_dash]), (''Outcome'', outcome_str (ev_outcome e))]"

fun event_type_str :: "AuditEventType \<Rightarrow> jsstr" where
  "event_type_str AuthFailure = ''auth_failure''" | "event_type_str PlatformAdminGranted = ''platform_admin_granted''"
| "event_type_str RbacDeny = ''rbac_deny''" | "event_type_str ToolCall = ''tool_call''"
| "event_type_str TenantProvisioned = ''tenant_provisioned''"

fun subject_type_str :: "SubjectType \<Rightarrow> jsstr" where
  "subject_type_str api_key_subject = ''api_key''" | "subject_type_str oauth_subject = ''oauth_subject''"

definition json_opt :: "jsstr option \<Rightarrow> json" where
  "json_opt v = (case v of None \<Rightarrow> JNull | Some s \<Rightarrow> JStr s)"

text \<open>The record as it came from the backend.\<close>

definition log_json :: "AuditLogView \<Rightarrow> json" where
  "log_json l = JObj
     [(''id'', json_opt (al_id l)), (''tenant_id'', json_opt (al_tenant_id l)), (''subject_id'', json_opt (al_subject_id l)),
      (''subject_type'', json_opt (map_option subject_type_str (al_subject_type l))),
      (''event_type'', JStr (event_type_str (al_event_type l))), (''server_slug'', json_opt (al_server_slug l)),
      (''tool_name'', json_opt (al_tool_name l)), (''rpc_method'', json_opt (al_rpc_method l)),
      (''outcome'', json_opt (al_outcome l)), (''client_ip'', json_opt (al_client_ip l)),
      (''request_id'', json_opt (al_request_id l)), (''detail'', al_detail l), (''created_at'', json_opt (al_created_at l))]"

record drawer_view =
  dv_pills :: "jsstr \<times> jsstr"
  dv_title :: jsstr
  dv_fields :: "(jsstr \<times> jsstr) list"
  dv_raw :: "jsstr option"

definition DetailDrawer :: "(jsstr \<Rightarrow> jsstr) \<Rightarrow> bool \<Rightarrow> OrgEvent \<Rightarrow> drawer_view" where
  "DetailDrawer fmt compliance e =
     \<lparr>dv_pills = (category_label (ev_category e), OUTCOME_CONFIG (ev_outcome e)), dv_title = ev_action e,
      dv_fields = drawer_fields fmt compliance e, dv_raw = map_option (\<lambda>l. pretty 0 (log_json l)) (ev_raw e)\<rparr>"

section \<open>Filters and saved searches\<close>

record FilterState =
  fl_search :: jsstr
  fl_category :: jsstr
  fl_outcome :: jsstr
  fl_actor :: jsstr
  fl_retention :: jsstr

definition EMPTY_FILTERS :: FilterState where
  "EMPTY_FILTERS = \<lparr>fl_search = [], fl_category = [], fl_outcome = [], fl_actor = [], fl_retention = ''30d''\<rparr>"

record SavedSearch =
  ss_id :: jsstr
  ss_name :: jsstr
  ss_filters :: FilterState
  ss_createdAt :: jsstr

text \<open>The comparison of the sort: \<open>a\<close> goes after \<open>b\<close> when \<open>b\<close> is later; a difference that is \<open>NaN\<close> counts as equal.\<close>

definition older :: "(jsstr \<Rightarrow> int option) \<Rightarrow> OrgEvent \<Rightarrow> OrgEvent \<Rightarrow> bool" where
  "older time a b =
     (case (time (ev_timestamp a), time (ev_timestamp b)) of (Some ta, Some tb) \<Rightarrow> tb - ta > 0 | _ \<Rightarrow> False)"

definition allEvents :: "(jsstr \<Rightarrow> int option) \<Rightarrow> jsstr \<Rightarrow> AuditLogView list \<Rightarrow> OrgEvent list" where
  "allEvents time today logs = sort_by (older time) (map2 (mapAuditLog today) logs [0..<length logs])"

definition retained :: "int \<Rightarrow> (jsstr \<Rightarrow> int option) \<Rightarrow> jsstr \<Rightarrow> OrgEvent \<Rightarrow> bool" where
  "retained at time r e =
     (case time (ev_timestamp e) of
        None \<Rightarrow> False
      | Some t \<Rightarrow> (case retentionMs r of None \<Rightarrow> True | Some ms \<Rightarrow> t \<ge> at - ms))"

definition has_text :: "jsstr \<Rightarrow> jsstr \<Rightarrow> bool" where
  "has_text q s = sublist (to_lower q) (to_lower s)"

definition audit_filtered :: "int \<Rightarrow> (jsstr \<Rightarrow> int option) \<Rightarrow> FilterState \<Rightarrow> OrgEvent list \<Rightarrow> OrgEvent list" where
  "audit_filtered at time f events =
     (let r1 = filter (retained at time (fl_retention f)) events;
          r2 = (if fl_search f \<noteq> []
                then filter (\<lambda>e. has_text (fl_search f) (ev_action e) \<or> has_text (fl_search f) (ev_actor e) \<or>
                                 has_text (fl_search f) (ev_resource e) \<or> has_text (fl_search f) (ev_requestId e)) r1
                else r1);
          r3 = (if fl_category f \<noteq> [] then filter (\<lambda>e. category_str (ev_category e) = fl_category f) r2 else r2);
          r4 = (if fl_outcome f \<noteq> [] then filter (\<lambda>e. outcome_str (ev_outcome e) = fl_outcome f) r3 else r3)
      in if fl_actor f \<noteq> [] then filter (\<lambda>e. has_text (fl_actor f) (ev_actor e)) r4 else r4)"

definition category_counts :: "OrgEvent list \<Rightarrow> (OrgEventCategory \<times> nat) list" where
  "category_counts events =
     fold (\<lambda>e c. assoc_set (ev_category e) (nullish (map_of c (ev_category e)) 0 + 1) c) events []"

text \<open>The buttons of the category strip, each with its count; a category without events has none.\<close>

definition category_strip :: "OrgEvent list \<Rightarrow> (jsstr \<times> nat) list" where
  "category_strip events =
     (''All'', length events) #
     concat (map (\<lambda>(cat, label).
       let n = nullish (map_of (category_counts events) cat) 0 in if n = 0 then [] else [(label, n)]) CATEGORY_CONFIG)"

section \<open>The page\<close>

definition PAGE_SIZE :: nat where
  "PAGE_SIZE = 50"

record audit_state =
  as_page :: nat
  as_filters :: FilterState
  as_compliance :: bool
  as_saved :: "SavedSearch list"
  as_saveName :: jsstr
  as_showSaveName :: bool
  as_showSavedMenu :: bool

definition audit_init :: audit_state where
  "audit_init =
     \<lparr>as_page = 0, as_filters = EMPTY_FILTERS, as_compliance = False, as_saved = [], as_saveName = [],
      as_showSaveName = False, as_showSavedMenu = False\<rparr>"

definition totalPages :: "nat \<Rightarrow> nat \<Rightarrow> nat" where
  "totalPages page nlogs = page + 1 + (if nlogs \<ge> PAGE_SIZE then 1 else 0)"

datatype audit_event =
    ASetFilter "FilterState \<Rightarrow> FilterState"
  | AClear
  | AApplySaved SavedSearch
  | ADeleteSaved SavedSearch
  | ASaveName jsstr
  | AShowSaveName
  | ASaveSearch int jsstr
  | AToggleSavedMenu
  | AToggleCompliance
  | APrevious
  | ANext

text \<open>
  One event on the page; \<open>server\<close> answers the query for a limit and an offset. A save carries the
  current time, as a number and as text. The page buttons only exist when there is more than one page.
\<close>

fun audit_step :: "(nat \<Rightarrow> nat \<Rightarrow> AuditLogView list) \<Rightarrow> audit_event \<Rightarrow> audit_state \<Rightarrow> audit_state" where
  "audit_step server (ASetFilter f) st = st\<lparr>as_filters := f (as_filters st), as_page := 0\<rparr>"
| "audit_step server AClear st = st\<lparr>as_filters := EMPTY_FILTERS, as_page := 0\<rparr>"
| "audit_step server (AApplySaved s) st = st\<lparr>as_filters := ss_filters s, as_showSavedMenu := False, as_page := 0\<rparr>"
| "audit_step server (ADeleteSaved s) st = st\<lparr>as_saved := filter (\<lambda>x. ss_id x \<noteq> ss_id s) (as_saved st)\<rparr>"
| "audit_step server (ASaveName v) st = st\<lparr>as_saveName := v\<rparr>"
| "audit_step server AShowSaveName st = st\<lparr>as_showSaveName := True\<rparr>"
| "audit_step server (ASaveSearch ms ts) st =
     (if trim (as_saveName st) = [] then st
      else st\<lparr>as_saved := as_saved st @ [\<lparr>ss_id = int_str ms, ss_name = trim (as_saveName st), ss_filters = as_filters st, ss_createdAt = ts\<rparr>],
              as_saveName := [], as_showSaveName := False\<rparr>)"
| "audit_step server AToggleSavedMenu st = st\<lparr>as_showSavedMenu := \<not> as_showSavedMenu st\<rparr>"
| "audit_step server AToggleCompliance st = st\<lparr>as_compliance := \<not> as_compliance st\<rparr>"
| "audit_step server APrevious st = (if as_page st = 0 then st else st\<lparr>as_page := as_page st - 1\<rparr>)"
| "audit_step server ANext st =
     (if as_page st \<ge> totalPages (as_page st) (length (server PAGE_SIZE (as_page st * PAGE_SIZE))) - 1 then st
      else st\<lparr>as_page := as_page st + 1\<rparr>)"

text \<open>What the page lists.\<close>

definition audit_shown :: "int \<Rightarrow> (jsstr \<Rightarrow> int option) \<Rightarrow> jsstr \<Rightarrow> (nat \<Rightarrow> nat \<Rightarrow> AuditLogView list) \<Rightarrow> audit_state \<Rightarrow> OrgEvent list" where
  "audit_shown at time today server st =
     audit_filtered at time (as_filters st) (allEvents time today (server PAGE_SIZE (as_page st * PAGE_SIZE)))"

definition audit_row :: "int \<Rightarrow> (jsstr \<Rightarrow> int option) \<Rightarrow> bool \<Rightarrow> OrgEvent \<Rightarrow> jsstr list" where
  "audit_row at time compliance e =
     [audit_relativeTime at time (ev_timestamp e), category_label (ev_category e), ev_action e,
      redact (ev_actor e) (compliance \<and> ev_actorType e = ActorApiKey), ev_resource e, OUTCOME_CONFIG (ev_outcome e)]"

section \<open>The webhook dialog\<close>

record webhook_state =
  wh_url :: jsstr
  wh_secret :: jsstr
  wh_selected :: "OrgEventCategory list"
  wh_saved :: bool

datatype webhook_event = WhUrl jsstr | WhSecret jsstr | WhToggle OrgEventCategory | WhSave

fun WebhookModal :: "webhook_event \<Rightarrow> webhook_state \<Rightarrow> webhook_state" where
  "WebhookModal (WhUrl v) w = w\<lparr>wh_url := v\<rparr>"
| "WebhookModal (WhSecret v) w = w\<lparr>wh_secret := v\<rparr>"
| "WebhookModal (WhToggle c) w = w\<lparr>wh_selected := toggle c (wh_selected w)\<rparr>"
| "WebhookModal WhSave w = w\<lparr>wh_saved := True\<rparr>"

section \<open>Reading a CSV file\<close>

text \<open>
  A reader of the CSV format (RFC 4180): fields are separated by commas and records by line breaks; a
  quoted field ends at its quotation mark, a doubled one stands for itself, and anything else after the
  closing mark is an error, as is an unclosed field.
\<close>

datatype csv_mode = FieldStart | Unquoted | InQuotes | AfterQuote

fun csv_scan :: "csv_mode \<Rightarrow> jsstr \<Rightarrow> jsstr list \<Rightarrow> jsstr \<Rightarrow> jsstr list list option" where
  "csv_scan m cur fs [] = (if m = InQuotes then None else Some [fs @ [cur]])"
| "csv_scan InQuotes cur fs (c # cs) =
     (if c = quote_c then csv_scan AfterQuote cur fs cs else csv_scan InQuotes (cur @ [c]) fs cs)"
| "csv_scan m cur fs (c # cs) =
     (if c = CHR '','' then csv_scan FieldStart [] (fs @ [cur]) cs
      else if c = newline then map_option (Cons (fs @ [cur])) (csv_scan FieldStart [] [] cs)
      else if c = quote_c then
        (if m = FieldStart then csv_scan InQuotes [] fs cs
         else if m = AfterQuote then csv_scan InQuotes (cur @ [c]) fs cs else None)
      else if m = AfterQuote then None else csv_scan Unquoted (cur @ [c]) fs cs)"

definition csv_read :: "jsstr \<Rightarrow> jsstr list list option" where
  "csv_read s = csv_scan FieldStart [] [] s"

lemma csv_scan_quoted:
  "quote_c \<notin> set v \<Longrightarrow> csv_scan InQuotes cur fs (v @ quote_c # rest) = csv_scan AfterQuote (cur @ v) fs rest"
  by (induction v arbitrary: cur) auto

lemma csv_scan_field:
  assumes "quote_c \<notin> set v"
  shows "csv_scan FieldStart [] fs ([quote_c] @ v @ [quote_c] @ rest) = csv_scan AfterQuote v fs rest"
  using csv_scan_quoted [OF assms, of "[]"] by simp

text \<open>A row of quoted fields, followed by the end of the text or by a line break.\<close>

lemma csv_scan_row:
  assumes "vs \<noteq> []" and "\<forall>v\<in>set vs. quote_c \<notin> set v"
  shows "csv_scan FieldStart [] fs (csv_row vs) = Some [fs @ vs]"
    and "csv_scan FieldStart [] fs (csv_row vs @ newline # rest) = map_option (Cons (fs @ vs)) (csv_scan FieldStart [] [] rest)"
proof -
  have "csv_scan FieldStart [] fs (csv_row vs) = Some [fs @ vs] \<and>
        csv_scan FieldStart [] fs (csv_row vs @ newline # rest) = map_option (Cons (fs @ vs)) (csv_scan FieldStart [] [] rest)"
    using assms
  proof (induction vs arbitrary: fs rule: induct_list012)
    case (2 v)
    then show ?case using csv_scan_field [of v fs "[]"] csv_scan_field [of v fs "newline # rest"] by (simp add: csv_row_def)
  next
    case (3 v w ws)
    have q: "quote_c \<notin> set v" using 3(4) by simp
    have r: "csv_row (v # w # ws) = [quote_c] @ v @ [quote_c] @ CHR '','' # csv_row (w # ws)" by (simp add: csv_row_def)
    show ?case
      unfolding r append.assoc csv_scan_field [OF q] using 3(2) [of "fs @ [v]"] 3(4)
      by (simp add: csv_scan_field [OF q, simplified])
  qed simp
  then show "csv_scan FieldStart [] fs (csv_row vs) = Some [fs @ vs]"
    and "csv_scan FieldStart [] fs (csv_row vs @ newline # rest) = map_option (Cons (fs @ vs)) (csv_scan FieldStart [] [] rest)"
    by simp_all
qed

lemma csv_scan_rows:
  assumes "\<forall>vs\<in>set rows. vs \<noteq> [] \<and> (\<forall>v\<in>set vs. quote_c \<notin> set v)" and "rows \<noteq> []"
  shows "csv_scan FieldStart [] [] (join [newline] (map csv_row rows)) = Some rows"
  using assms
proof (induction rows rule: induct_list012)
  case (2 vs)
  then show ?case using csv_scan_row(1) [of vs "[]"] by simp
next
  case (3 vs ws rest)
  then show ?case using csv_scan_row(2) [of vs "[]"] by simp
qed simp

lemma csv_scan_header:
  "csv_scan FieldStart [] [] (join '','' CSV_HEADER) = Some [CSV_HEADER]"
  "csv_scan FieldStart [] [] (join '','' CSV_HEADER @ newline # rest) =
     map_option (Cons CSV_HEADER) (csv_scan FieldStart [] [] rest)"
  by (simp_all add: CSV_HEADER_def)

section \<open>Masking\<close>

text \<open>Two values a masked field must not tell apart: long, with the same start and the same capped length.\<close>

definition same_shape :: "jsstr \<Rightarrow> jsstr \<Rightarrow> bool" where
  "same_shape v w \<longleftrightarrow> 4 < length v \<and> 4 < length w \<and> take 3 v = take 3 w \<and> min (length v) 15 = min (length w) 15"

lemma redact_same_shape: "same_shape v w \<Longrightarrow> redact v True = redact w True"
  by (auto simp: same_shape_def redact_def min_def split: if_splits)

lemma redact_hides:
  assumes "4 < length v"
  shows "redact v True = take 3 v @ replicate (min (length v - 3) 12) bullet"
  using assms by (auto simp: redact_def)

section \<open>Counting\<close>

lemma category_counts_fold:
  "nullish (map_of (fold (\<lambda>e c. assoc_set (ev_category e) (nullish (map_of c (ev_category e)) 0 + 1) c) es c0) k) 0 =
   nullish (map_of c0 k) 0 + length (filter (\<lambda>e. ev_category e = k) es)"
  by (induction es arbitrary: c0) (simp_all add: map_of_assoc_set)

lemma category_counts: "nullish (map_of (category_counts es) k) 0 = length (filter (\<lambda>e. ev_category e = k) es)"
  using category_counts_fold [of es "[]" k] by (simp add: category_counts_def)

lemma categories_listed: "(\<lambda>e. ev_category e) ` set es \<subseteq> set (map fst CATEGORY_CONFIG)"
proof -
  have "c \<in> set (map fst CATEGORY_CONFIG)" for c by (cases c) (simp_all add: CATEGORY_CONFIG_def)
  then show ?thesis by blast
qed

lemma sum_filter_keys:
  assumes "distinct ks" and "f ` set es \<subseteq> set ks"
  shows "sum_list (map (\<lambda>k. length (filter (\<lambda>e. f e = k) es)) ks) = length es"
  using assms(2)
proof (induction es)
  case (Cons e es)
  have "length (filter (\<lambda>x. f x = k) (e # es)) = (if f e = k then 1 else 0) + length (filter (\<lambda>x. f x = k) es)" for k
    by simp
  then have "sum_list (map (\<lambda>k. length (filter (\<lambda>x. f x = k) (e # es))) ks) =
      sum_list (map (\<lambda>k. if f e = k then 1 else 0) ks) + sum_list (map (\<lambda>k. length (filter (\<lambda>x. f x = k) es)) ks)"
    by (simp only: sum_list_addf)
  moreover have "sum_list (map (\<lambda>k. if f e = k then 1 else 0) ks) = (1 :: nat)"
    using assms(1) Cons.prems by (simp add: sum_list_distinct_conv_sum_set)
  ultimately show ?case using Cons by simp
qed simp

lemma strip_sum:
  "sum_list (map snd (concat (map (\<lambda>(k, l). let n = g k in if n = 0 then [] else [(l, n)]) xs))) =
   sum_list (map (\<lambda>k. g k) (map fst xs :: 'k list))" for g :: "'k \<Rightarrow> nat"
  by (induction xs) (auto simp: Let_def)

lemma category_strip_sum: "sum_list (map snd (tl (category_strip es))) = length es"
proof -
  have d: "distinct (map fst CATEGORY_CONFIG)" by (simp add: CATEGORY_CONFIG_def)
  show ?thesis
    unfolding category_strip_def list.sel category_counts strip_sum [of "\<lambda>cat. length (filter (\<lambda>e. ev_category e = cat) es)"]
    by (rule sum_filter_keys [OF d categories_listed])
qed

section \<open>Sorting\<close>

text \<open>The comparison by the instant of an event, for events whose dates parse.\<close>

definition earlier :: "(OrgEvent \<Rightarrow> int) \<Rightarrow> OrgEvent \<Rightarrow> OrgEvent \<Rightarrow> bool" where
  "earlier t a b \<longleftrightarrow> t a < t b"

interpretation newest: js_comparator "earlier t" for t
  by unfold_locales (auto simp: earlier_def)

lemma sort_by_cong:
  assumes "\<And>a b. a \<in> set xs \<Longrightarrow> b \<in> set xs \<Longrightarrow> f a b = g a b"
  shows "sort_by f xs = sort_by g xs"
proof -
  have i: "insert_by f x ys = insert_by g x ys" if "\<And>b. b \<in> set ys \<Longrightarrow> f x b = g x b" for x and ys :: "'a list"
    using that by (induction ys) auto
  from assms show ?thesis
    by (induction xs) (auto intro!: i)
qed

lemma older_sorted:
  assumes "\<And>e. e \<in> set es \<Longrightarrow> time (ev_timestamp e) \<noteq> None"
  shows "sorted_wrt (\<lambda>a b. the (time (ev_timestamp b)) \<le> the (time (ev_timestamp a))) (sort_by (older time) es)"
proof -
  let ?t = "\<lambda>e. the (time (ev_timestamp e))"
  have "older time a b = earlier ?t a b" if ab: "a \<in> set es" "b \<in> set es" for a b
  proof -
    obtain x y where "time (ev_timestamp a) = Some x" "time (ev_timestamp b) = Some y" using assms ab by blast
    then show ?thesis by (simp add: older_def earlier_def)
  qed
  then have "sort_by (older time) es = sort_by (earlier ?t) es" by (rule sort_by_cong)
  then show ?thesis using newest.sorted_sort_by [of ?t es] by (simp add: earlier_def not_less)
qed

section \<open>Paging\<close>

text \<open>The backend as a list of records, of which a query returns a slice.\<close>

definition slices :: "'a list \<Rightarrow> nat \<Rightarrow> nat \<Rightarrow> 'a list" where
  "slices rows limit offset = take limit (drop offset rows)"

lemma next_page:
  "as_page (audit_step (slices rows) ANext st) =
     (if as_page st < length rows div PAGE_SIZE then as_page st + 1 else as_page st)"
proof -
  have "PAGE_SIZE \<le> length (slices rows PAGE_SIZE (as_page st * PAGE_SIZE)) \<longleftrightarrow> as_page st < length rows div PAGE_SIZE"
    by (auto simp: slices_def PAGE_SIZE_def)
  then show ?thesis by (auto simp: totalPages_def)
qed

lemma next_pages:
  "as_page st \<le> length rows div PAGE_SIZE \<Longrightarrow>
   as_page ((audit_step (slices rows) ANext ^^ n) st) = min (as_page st + n) (length rows div PAGE_SIZE)"
  by (induction n) (auto simp: next_page min_def simp del: audit_step.simps)

lemma pages_concat: "concat (map (\<lambda>i. slices rows k (i * k)) [0..<n]) = take (n * k) rows"
proof (induction n)
  case (Suc n)
  have "take (Suc n * k) rows = take (n * k) rows @ take k (drop (n * k) rows)"
    by (simp only: mult_Suc add.commute [of k] take_add)
  then show ?case using Suc by (simp add: slices_def)
qed simp

section \<open>Properties\<close>

definition demo_log :: AuditLogView where
  "demo_log =
     \<lparr>al_id = Some ''a1'', al_tenant_id = Some ''t'', al_subject_id = Some ''key-12345678'', al_subject_type = Some api_key_subject,
      al_event_type = ToolCall, al_server_slug = Some ''github'', al_tool_name = Some ''read_file'', al_rpc_method = Some ''tools/call'',
      al_outcome = Some ''success'', al_client_ip = Some ''10.1.2.3'', al_request_id = Some ''r1'', al_detail = JNull,
      al_created_at = Some ''2025-01-01''\<rparr>"

definition demo_event :: OrgEvent where
  "demo_event = mapAuditLog ''2025-01-02'' demo_log 0"

lemma demo_event_eval:
  "ev_actor demo_event = ''key-12345678''" "ev_ip demo_event = ''10.1.2.3''" "ev_actorType demo_event = ActorApiKey"
  "ev_timestamp demo_event = ''2025-01-01''"
  by (simp_all add: demo_event_def mapAuditLog_def demo_log_def Let_def)

text \<open>
  C23. In compliance mode the table, the drawer's fields and the export do not tell two keys, or two
  addresses, apart that have the same first three characters and the same length up to fifteen: nothing
  more than that of either reaches them.
\<close>

theorem compliance_masks:
  assumes "ev_actorType e = ActorApiKey" and "same_shape (ev_actor e) a" and "same_shape (ev_ip e) i"
  shows "csv_fields fmt True (e\<lparr>ev_actor := a, ev_ip := i\<rparr>) = csv_fields fmt True e \<and>
    audit_row at time True (e\<lparr>ev_actor := a, ev_ip := i\<rparr>) = audit_row at time True e \<and>
    drawer_fields fmt True (e\<lparr>ev_actor := a, ev_ip := i\<rparr>) = drawer_fields fmt True e"
  using assms redact_same_shape [OF assms(2)] redact_same_shape [OF assms(3)]
  by (simp add: csv_fields_def audit_row_def drawer_fields_def)

theorem compliance_masks_witness:
  "csv_fields id True (demo_event\<lparr>ev_actor := ''key-87654321'', ev_ip := ''10.9.9.9''\<rparr>) = csv_fields id True demo_event"
  using compliance_masks [of demo_event "''key-87654321''" "''10.9.9.9''" id]
  by (simp add: demo_event_eval same_shape_def)

text \<open>
  The drawer undoes the masking: in compliance mode too, the raw record it offers contains the whole
  subject id and the whole address of every event, quoted as JSON.
\<close>

lemma raw_record_unmasked:
  assumes "al_client_ip l = Some ip" and "al_subject_id l = Some sid"
  shows "\<exists>raw. dv_raw (DetailDrawer fmt True (mapAuditLog today l idx)) = Some raw \<and>
    sublist (json_quote ip) raw \<and> sublist (json_quote sid) raw"
proof -
  let ?raw = "pretty 0 (log_json l)"
  have m: "ev_raw (mapAuditLog today l idx) = Some l" by (simp add: mapAuditLog_def Let_def)
  have p: "pretty (0 + 2) (JStr x) = json_quote x" for x by simp
  have "sublist (pretty (0 + 2) (JStr ip)) ?raw" "sublist (pretty (0 + 2) (JStr sid)) ?raw"
    unfolding log_json_def assms json_opt_def option.case
    by (rule pretty_object_shows [where k = "''client_ip''"], simp) (rule pretty_object_shows [where k = "''subject_id''"], simp)
  then show ?thesis unfolding p by (simp add: DetailDrawer_def m)
qed

text \<open>
  C24. The export is a CSV file that reads back: if no exported value contains a quotation mark, a reader
  of the format gets the header and then exactly the exported fields of each event, in order, whatever
  commas and line breaks they contain.
\<close>

theorem csv_roundtrip:
  assumes "\<forall>e\<in>set events. \<forall>v\<in>set (csv_fields fmt compliance e). quote_c \<notin> set v"
  shows "csv_read (exportCsv fmt events compliance) = Some (CSV_HEADER # map (csv_fields fmt compliance) events)"
proof (cases events)
  case Nil
  then show ?thesis by (simp add: exportCsv_def csv_read_def csv_scan_header)
next
  case (Cons e es)
  let ?rows = "map (csv_fields fmt compliance) events"
  have "csv_scan FieldStart [] [] (join [newline] (map csv_row ?rows)) = Some ?rows"
    using assms Cons by (intro csv_scan_rows) (auto simp: csv_fields_def)
  then show ?thesis using Cons by (simp add: exportCsv_def csv_read_def csv_scan_header(2) o_def)
qed

theorem csv_roundtrip_witness:
  "csv_read (exportCsv id [demo_event] True) = Some [CSV_HEADER, csv_fields id True demo_event]"
  using csv_roundtrip [of "[demo_event]" id True]
  by (simp add: csv_fields_def demo_event_def mapAuditLog_def demo_log_def Let_def redact_def category_label_def CATEGORY_CONFIG_def
      fmtDateFull_def replace_all_def)

text \<open>
  Blocked requests break the export: their reason names the tool between quotation marks, which the
  export does not double. Where no other field has a quotation mark and the tool's name does not start
  with a separator, the file with such an event cannot be read.
\<close>

lemma blocked_request_breaks_csv:
  assumes "al_event_type l = RbacDeny" and "al_tool_name l = Some tool" and "tool = c # cs" and "c \<notin> {quote_c, CHR '','', newline}"
    and "\<forall>v\<in>set (butlast (csv_fields fmt compliance (mapAuditLog today l idx))). quote_c \<notin> set v"
  shows "csv_read (exportCsv fmt [mapAuditLog today l idx] compliance) = None"
proof -
  let ?e = "mapAuditLog today l idx"
  obtain vs where f: "csv_fields fmt compliance ?e = vs @ [replace_all (CHR '','') '';'' (ev_reason ?e)]" and vs: "vs \<noteq> []"
    by (simp add: csv_fields_def)
  have r: "replace_all (CHR '','') '';'' (ev_reason ?e) =
      ''RBAC policy denied access to '' @ quote_c # c # replace_all (CHR '','') '';'' (cs @ [quote_c])"
    using assms(1-4) by (simp add: mapAuditLog_def Let_def replace_all_def)
  have row: "csv_row (vs @ [w]) = csv_row vs @ CHR '','' # quote_c # w @ [quote_c]" for w
    using vs by (induction vs rule: induct_list012) (simp_all add: csv_row_def)
  have scan: "csv_scan FieldStart [] fs (csv_row vs @ CHR '','' # quote_c # ''RBAC policy denied access to '' @ quote_c # c # xs) = None" for fs xs
    using vs assms(5) unfolding f butlast_snoc
  proof (induction vs arbitrary: fs rule: induct_list012)
    case (2 v)
    then have q: "quote_c \<notin> set v" by simp
    show ?case using assms(4) csv_scan_field [OF q] by (simp add: csv_row_def csv_scan_quoted [OF q])
  next
    case (3 v w ws)
    then have q: "quote_c \<notin> set v" by simp
    show ?case using 3(2) [of "fs @ [v]"] 3(4) by (simp add: csv_row_def csv_scan_quoted [OF q])
  qed simp
  show ?thesis using scan [of "[]"] by (simp add: exportCsv_def csv_read_def csv_scan_header(2) f r row)
qed

definition demo_deny :: AuditLogView where
  "demo_deny = demo_log\<lparr>al_event_type := RbacDeny\<rparr>"

text \<open>
  The list is what the filters say: for records whose dates parse, the page shows the events of the
  fetched records that the retention and every filter in use admit, newest first, and the counts of the
  category buttons add up to the number of events shown.
\<close>

lemma audit_list_correct:
  assumes "\<forall>e\<in>set (allEvents time today logs). time (ev_timestamp e) \<noteq> None"
  shows "case audit_filtered at time f (allEvents time today logs) of shown \<Rightarrow>
    (\<forall>e. e \<in> set shown \<longleftrightarrow>
       e \<in> set (map2 (mapAuditLog today) logs [0..<length logs]) \<and> retained at time (fl_retention f) e \<and>
       (fl_search f = [] \<or> (\<exists>t. t \<in> {ev_action e, ev_actor e, ev_resource e, ev_requestId e} \<and> has_text (fl_search f) t)) \<and>
       (fl_category f = [] \<or> category_str (ev_category e) = fl_category f) \<and>
       (fl_outcome f = [] \<or> outcome_str (ev_outcome e) = fl_outcome f) \<and>
       (fl_actor f = [] \<or> has_text (fl_actor f) (ev_actor e))) \<and>
    sorted_wrt (\<lambda>a b. the (time (ev_timestamp b)) \<le> the (time (ev_timestamp a))) shown \<and>
    sum_list (map snd (tl (category_strip shown))) = length shown"
proof -
  let ?all = "allEvents time today logs" and ?shown = "audit_filtered at time f (allEvents time today logs)"
  have s: "sorted_wrt (\<lambda>a b. the (time (ev_timestamp b)) \<le> the (time (ev_timestamp a))) ?all"
    using assms unfolding allEvents_def set_sort_by by (intro older_sorted) blast
  have "sorted_wrt (\<lambda>a b. the (time (ev_timestamp b)) \<le> the (time (ev_timestamp a))) ?shown"
    unfolding audit_filtered_def Let_def by (simp add: s sorted_wrt_filter)
  moreover have "sum_list (map snd (tl (category_strip ?shown))) = length ?shown"
    by (rule category_strip_sum)
  ultimately show ?thesis by (auto simp: audit_filtered_def Let_def allEvents_def)
qed

text \<open>
  C27. Paging reaches every record: over a backend with any number of records, clicking \<open>Next\<close> as often as
  there are full pages, or more, ends on the last page, where a further click does nothing, and the pages
  passed contain every record once, in the backend's order.
\<close>

theorem paging_complete:
  assumes "length rows div PAGE_SIZE \<le> n"
  shows "case (audit_step (slices rows) ANext ^^ n) audit_init of st \<Rightarrow>
    audit_step (slices rows) ANext st = st \<and>
    concat (map (\<lambda>i. slices rows PAGE_SIZE (i * PAGE_SIZE)) [0..<as_page st + 1]) = rows"
proof -
  let ?st = "(audit_step (slices rows) ANext ^^ n) audit_init"
  have p: "as_page ?st = length rows div PAGE_SIZE"
    using next_pages [of audit_init rows n] assms by (simp add: audit_init_def)
  have "as_page (audit_step (slices rows) ANext ?st) = as_page ?st" unfolding next_page p by simp
  then have "audit_step (slices rows) ANext ?st = ?st" by (auto split: if_splits)
  moreover have "length rows \<le> (length rows div PAGE_SIZE + 1) * PAGE_SIZE"
    by (simp add: PAGE_SIZE_def)
  ultimately show ?thesis unfolding p pages_concat by simp
qed

theorem paging_complete_witness:
  "concat (map (\<lambda>i. slices [demo_log] PAGE_SIZE (i * PAGE_SIZE))
     [0..<as_page ((audit_step (slices [demo_log]) ANext ^^ 3) audit_init) + 1]) = [demo_log]"
proof -
  have "length [demo_log] div PAGE_SIZE \<le> 3" by (simp add: PAGE_SIZE_def)
  from paging_complete [OF this] show ?thesis by simp
qed

end
