(* ===== verification/Redis_Store.thy ===== *)
theory Redis_Store
  imports Js_Prelude Complex_Main
begin

text \<open>
  The part of Redis the gateway relies on, as its documentation describes it: keys with values of three
  types and an optional moment of expiry, and commands that fail with \<open>WRONGTYPE\<close> on a value of another
  type. A key whose moment has come does not exist. Times are seconds, as rational numbers; the clock of
  the gateway and that of the server agree.
\<close>

type_synonym secs = rat

text \<open>
  A hash with the two fields of a token bucket, a sorted set of members with scores, a string that is the
  JSON document of a session's owner (tenant, subject, server), any other string.
\<close>

datatype redis_value =
    RHash secs secs
  | RZset "(jsstr \<times> secs) list"
  | RSession jsstr jsstr jsstr
  | RStr jsstr

type_synonym redis = "jsstr \<Rightarrow> (redis_value \<times> secs) option"

datatype redis_error = WrongType | Unreachable

definition live :: "secs \<Rightarrow> redis \<Rightarrow> jsstr \<Rightarrow> redis_value option" where
  "live now db k = (case db k of None \<Rightarrow> None | Some (v, ex) \<Rightarrow> if now < ex then Some v else None)"

text \<open>Every write of the gateway sets an expiry.\<close>

definition put :: "secs \<Rightarrow> int \<Rightarrow> jsstr \<Rightarrow> redis_value \<Rightarrow> redis \<Rightarrow> redis" where
  "put now ttl k v db = db(k := Some (v, now + of_int ttl))"

text \<open>Overwriting the value while keeping the expiry.\<close>

definition put_keep :: "jsstr \<Rightarrow> redis_value \<Rightarrow> redis \<Rightarrow> redis" where
  "put_keep k v db = (case db k of None \<Rightarrow> db | Some (_, ex) \<Rightarrow> db(k := Some (v, ex)))"

definition del :: "jsstr \<Rightarrow> redis \<Rightarrow> redis" where
  "del k db = db(k := None)"

lemma live_put: "live now' (put now ttl k v db) k = (if now' < now + of_int ttl then Some v else None)"
  by (simp add: live_def put_def)

lemma put_same: "put now ttl k v db k = Some (v, now + of_int ttl)"
  by (simp add: put_def)

lemma live_put_other: "k' \<noteq> k \<Longrightarrow> live now' (put now ttl k v db) k' = live now' db k'"
  by (simp add: live_def put_def)

lemma live_del: "live now' (del k db) k = None" "k' \<noteq> k \<Longrightarrow> live now' (del k db) k' = live now' db k'"
  by (simp_all add: live_def del_def)

lemma live_put_keep_other: "k' \<noteq> k \<Longrightarrow> live now' (put_keep k v db) k' = live now' db k'"
  by (simp add: live_def put_keep_def split: option.split)

text \<open>A key that is gone stays gone while nobody writes it.\<close>

lemma live_later: "live now db k = None \<Longrightarrow> now \<le> now' \<Longrightarrow> live now' db k = None"
  by (auto simp: live_def split: option.splits if_splits)

lemma live_earlier: "live now' db k = Some v \<Longrightarrow> now \<le> now' \<Longrightarrow> live now db k = Some v"
  by (auto simp: live_def split: option.splits if_splits)

end
