(* ===== verification/Gateway_Limiter.thy ===== *)
theory Gateway_Limiter
  imports Gateway_Rules Redis_Store
begin

text \<open>
  The gateway's rate limiter, \<open>api/app/limits/redis_bucket.py\<close> and \<open>pre_auth.py\<close>: the two Lua scripts as
  functions on one Redis key, the keys of the buckets, the dispatch by algorithm and scope, and the limit
  before authentication. The numbers of the scripts are rational instead of floating-point numbers. The
  window, the request limit and the rate are positive, as the API's schema demands.
\<close>

section \<open>The scripts\<close>

record script_result =
  sr_allowed :: bool
  sr_remaining :: int
  sr_reset_after :: secs

text \<open>
  \<open>_TOKEN_BUCKET_LUA\<close>: the bucket is absent, or has a number of tokens and the moment of its last refill.
  The result, the new tokens and the time to live the script sets.
\<close>

definition refill :: "secs \<Rightarrow> secs \<Rightarrow> secs \<Rightarrow> (secs \<times> secs) option \<Rightarrow> secs" where
  "refill capacity rate now data =
     (let tokens = (case data of None \<Rightarrow> capacity | Some (t, _) \<Rightarrow> t);
          last_refill = (case data of None \<Rightarrow> now | Some (_, l) \<Rightarrow> l);
          elapsed = now - last_refill
      in min capacity (tokens + elapsed * rate))"

definition token_bucket_lua :: "secs \<Rightarrow> secs \<Rightarrow> secs \<Rightarrow> secs \<Rightarrow> (secs \<times> secs) option \<Rightarrow> script_result \<times> secs \<times> int" where
  "token_bucket_lua capacity rate now cost data =
     (let tokens = refill capacity rate now data;
          remaining = max 0 (tokens - cost);
          allowed = (tokens \<ge> cost);
          tokens' = (if allowed then tokens - cost else tokens);
          ttl = \<lceil>capacity / rate\<rceil> + 1
      in (\<lparr>sr_allowed = allowed, sr_remaining = \<lfloor>remaining\<rfloor>, sr_reset_after = (capacity - tokens') / rate\<rparr>, tokens', ttl))"

text \<open>
  \<open>_SLIDING_WINDOW_LUA\<close> on the entries of the sorted set; \<open>m\<close> is the member it adds, the printed time
  followed by a random number. The result and the entries afterwards.
\<close>

definition oldest_score :: "(jsstr \<times> secs) list \<Rightarrow> secs option" where
  "oldest_score zs = (if zs = [] then None else Some (Min (snd ` set zs)))"

definition sliding_window_lua ::
  "int \<Rightarrow> int \<Rightarrow> secs \<Rightarrow> jsstr \<Rightarrow> (jsstr \<times> secs) list \<Rightarrow> script_result \<times> (jsstr \<times> secs) list" where
  "sliding_window_lua limit window now m zs =
     (let window_start = now - of_int window;
          kept = filter (\<lambda>z. snd z > window_start) zs;
          count = int (length kept);
          remaining = max 0 (limit - count - 1);
          allowed = (count < limit);
          zs' = (if allowed then assoc_set m now kept else kept);
          reset_after = (case oldest_score zs' of None \<Rightarrow> 0 | Some s \<Rightarrow> max 0 (s + of_int window - now))
      in (\<lparr>sr_allowed = allowed, sr_remaining = remaining, sr_reset_after = reset_after\<rparr>, zs'))"

section \<open>The scripts on the store\<close>

text \<open>
  \<open>HMGET\<close> and \<open>ZREMRANGEBYSCORE\<close> fail on a key of another type. The bucket always gets a new time to
  live; the window only when a request was admitted, and an emptied set is no key.
\<close>

definition run_token_bucket ::
  "secs \<Rightarrow> secs \<Rightarrow> secs \<Rightarrow> secs \<Rightarrow> jsstr \<Rightarrow> redis \<Rightarrow> redis_error + script_result \<times> redis" where
  "run_token_bucket capacity rate now cost key db =
     (let go = (\<lambda>data. let (res, tokens, ttl) = token_bucket_lua capacity rate now cost data in
                  Inr (res, put now ttl key (RHash tokens now) db))
      in case live now db key of
           None \<Rightarrow> go None
         | Some (RHash t l) \<Rightarrow> go (Some (t, l))
         | Some _ \<Rightarrow> Inl WrongType)"

definition run_sliding_window ::
  "int \<Rightarrow> int \<Rightarrow> secs \<Rightarrow> jsstr \<Rightarrow> jsstr \<Rightarrow> redis \<Rightarrow> redis_error + script_result \<times> redis" where
  "run_sliding_window limit window now m key db =
     (let go = (\<lambda>zs. let (res, zs') = sliding_window_lua limit window now m zs in
                  Inr (res, if sr_allowed res then put now window key (RZset zs') db
                            else if zs' = [] then del key db else put_keep key (RZset zs') db))
      in case live now db key of
           None \<Rightarrow> go []
         | Some (RZset zs) \<Rightarrow> go zs
         | Some _ \<Rightarrow> Inl WrongType)"

section \<open>Checks\<close>

record RateLimitResult =
  rr_allowed :: bool
  rr_limit :: int
  rr_remaining :: int
  rr_reset_after_seconds :: secs
  rr_retry_after_seconds :: secs

definition typed_result :: "int \<Rightarrow> script_result \<Rightarrow> RateLimitResult" where
  "typed_result limit r =
     \<lparr>rr_allowed = sr_allowed r, rr_limit = limit, rr_remaining = sr_remaining r, rr_reset_after_seconds = sr_reset_after r,
      rr_retry_after_seconds = (if sr_allowed r then 0 else sr_reset_after r)\<rparr>"

definition bucket_capacity :: "EffectivePolicy \<Rightarrow> int" where
  "bucket_capacity p = (case ep_burst_capacity p of Some b \<Rightarrow> b | None \<Rightarrow> ep_request_limit p)"

definition bucket_rate :: "EffectivePolicy \<Rightarrow> secs" where
  "bucket_rate p = of_int (ep_request_limit p) / of_int (ep_window_seconds p)"

definition check_token_bucket :: "jsstr \<Rightarrow> EffectivePolicy \<Rightarrow> secs \<Rightarrow> redis \<Rightarrow> redis_error + RateLimitResult \<times> redis" where
  "check_token_bucket key p now db =
     map_sum id (\<lambda>(r, db'). (typed_result (bucket_capacity p) r, db'))
       (run_token_bucket (of_int (bucket_capacity p)) (bucket_rate p) now 1 key db)"

definition check_sliding_window :: "jsstr \<Rightarrow> EffectivePolicy \<Rightarrow> secs \<Rightarrow> jsstr \<Rightarrow> redis \<Rightarrow> redis_error + RateLimitResult \<times> redis" where
  "check_sliding_window key p now m db =
     map_sum id (\<lambda>(r, db'). (typed_result (ep_request_limit p) r, db'))
       (run_sliding_window (ep_request_limit p) (ep_window_seconds p) now m key db)"

section \<open>Keys\<close>

definition sanitize_segment :: "jsstr \<Rightarrow> nat \<Rightarrow> jsstr" where
  "sanitize_segment value max_len =
     str_or (take max_len
       (replace_all (CHR 0x0D) ''_'' (replace_all newline ''_'' (replace_all (CHR '':'') ''_'' value)))) ''unknown''"

definition build_key :: "jsstr \<Rightarrow> jsstr \<Rightarrow> jsstr \<Rightarrow> jsstr \<Rightarrow> jsstr" where
  "build_key tenant_id subject_id server_slug tool_or_method =
     ''rl:'' @ tenant_id @ '':'' @ sanitize_segment subject_id 200 @ '':'' @ sanitize_segment server_slug 100 @ '':'' @
     sanitize_segment tool_or_method 200"

definition scope_key :: "jsstr \<Rightarrow> jsstr \<Rightarrow> jsstr \<Rightarrow> jsstr \<Rightarrow> jsstr \<Rightarrow> jsstr" where
  "scope_key scope tenant_id subject_id server_slug tool_or_method =
     (if scope = ''global'' then
        (if server_slug \<noteq> ''management_api'' then ''rl:'' @ tenant_id @ '':global:'' @ sanitize_segment server_slug 100
         else ''rl:'' @ tenant_id @ '':global'')
      else if scope = ''subject'' then ''rl:'' @ tenant_id @ '':'' @ sanitize_segment subject_id 200
      else if scope = ''server'' then
        ''rl:'' @ tenant_id @ '':'' @ sanitize_segment subject_id 200 @ '':'' @ sanitize_segment server_slug 100
      else build_key tenant_id subject_id server_slug tool_or_method)"

text \<open>\<open>RateLimiter.check\<close>.\<close>

definition limiter_check ::
  "jsstr \<Rightarrow> jsstr \<Rightarrow> jsstr \<Rightarrow> jsstr \<Rightarrow> EffectivePolicy \<Rightarrow> secs \<Rightarrow> jsstr \<Rightarrow> redis \<Rightarrow> redis_error + RateLimitResult \<times> redis" where
  "limiter_check tenant_id subject_id server_slug tool_or_method p now m db =
     (let key = scope_key (ep_scope p) tenant_id subject_id server_slug tool_or_method in
      if ep_algorithm p = TOKEN_BUCKET then check_token_bucket key p now db else check_sliding_window key p now m db)"

definition check_pre_auth_limit :: "jsstr \<Rightarrow> int \<Rightarrow> int \<Rightarrow> secs \<Rightarrow> jsstr \<Rightarrow> redis \<Rightarrow> redis_error + RateLimitResult \<times> redis" where
  "check_pre_auth_limit client_ip limit window now m db =
     check_sliding_window (''pre_auth:'' @ client_ip)
       \<lparr>ep_algorithm = SLIDING_WINDOW, ep_request_limit = limit, ep_window_seconds = window, ep_burst_capacity = None,
        ep_scope = ''tool''\<rparr> now m db"

section \<open>Token buckets over time\<close>

definition bucket_policy :: "EffectivePolicy \<Rightarrow> bool" where
  "bucket_policy p \<longleftrightarrow> ep_request_limit p > 0 \<and> ep_window_seconds p > 0 \<and> bucket_capacity p \<ge> 1"

definition bucket_data :: "secs \<Rightarrow> redis \<Rightarrow> jsstr \<Rightarrow> (secs \<times> secs) option" where
  "bucket_data now db key = (case live now db key of Some (RHash t l) \<Rightarrow> Some (t, l) | _ \<Rightarrow> None)"

text \<open>The key holds a bucket of the policy, or nothing.\<close>

definition bucket_inv :: "EffectivePolicy \<Rightarrow> secs \<Rightarrow> redis \<Rightarrow> jsstr \<Rightarrow> bool" where
  "bucket_inv p now db key \<longleftrightarrow>
     (case live now db key of
        None \<Rightarrow> True
      | Some (RHash t l) \<Rightarrow> 0 \<le> t \<and> t \<le> of_int (bucket_capacity p) \<and> l \<le> now
      | _ \<Rightarrow> False)"

text \<open>The tokens a request at a moment finds.\<close>

definition avail :: "EffectivePolicy \<Rightarrow> secs \<Rightarrow> redis \<Rightarrow> jsstr \<Rightarrow> secs" where
  "avail p now db key = refill (of_int (bucket_capacity p)) (bucket_rate p) now (bucket_data now db key)"

lemma bucket_rate_pos: "bucket_policy p \<Longrightarrow> bucket_rate p > 0"
  by (simp add: bucket_policy_def bucket_rate_def)

lemma avail_bounds:
  assumes "bucket_policy p" and "bucket_inv p now db key"
  shows "0 \<le> avail p now db key" and "avail p now db key \<le> of_int (bucket_capacity p)"
proof -
  have c: "(0 :: secs) \<le> of_int (bucket_capacity p)" using assms(1) by (simp add: bucket_policy_def)
  have r: "0 \<le> (now - l) * bucket_rate p" if "l \<le> now" for l
    using that bucket_rate_pos [OF assms(1)] by simp
  show "0 \<le> avail p now db key"
    using assms(2) c r unfolding avail_def refill_def bucket_data_def bucket_inv_def Let_def
    by (auto split: option.splits redis_value.splits)
  show "avail p now db key \<le> of_int (bucket_capacity p)"
    by (simp add: avail_def refill_def Let_def)
qed

text \<open>One check: it never fails on such a key, admits exactly when a token is there, and takes it.\<close>

lemma check_bucket:
  assumes "bucket_inv p now db key"
  obtains r db' where "check_token_bucket key p now db = Inr (r, db')" and "rr_allowed r = (avail p now db key \<ge> 1)"
    and "db' = put now (\<lceil>of_int (bucket_capacity p) / bucket_rate p\<rceil> + 1) key
           (RHash (avail p now db key - (if avail p now db key \<ge> 1 then 1 else 0)) now) db"
proof -
  let ?res = "token_bucket_lua (of_int (bucket_capacity p)) (bucket_rate p) now 1 (bucket_data now db key)"
  have "run_token_bucket (of_int (bucket_capacity p)) (bucket_rate p) now 1 key db =
      Inr (fst ?res, put now (snd (snd ?res)) key (RHash (fst (snd ?res)) now) db)"
    using assms unfolding run_token_bucket_def bucket_inv_def bucket_data_def
    by (auto simp: Let_def case_prod_unfold split: option.splits redis_value.splits)
  then have c: "check_token_bucket key p now db =
      Inr (typed_result (bucket_capacity p) (fst ?res), put now (snd (snd ?res)) key (RHash (fst (snd ?res)) now) db)"
    by (simp add: check_token_bucket_def)
  show thesis
    by (rule that [OF c]) (simp_all add: token_bucket_lua_def Let_def typed_result_def avail_def)
qed

text \<open>The expiry of an idle bucket is invisible: by then it would be full again.\<close>

lemma avail_after:
  assumes w: "bucket_policy p" and i: "bucket_inv p now db key" and le: "now \<le> now'"
    and tk: "tokens = avail p now db key - (if avail p now db key \<ge> 1 then 1 else 0)"
    and db: "db' = put now (\<lceil>of_int (bucket_capacity p) / bucket_rate p\<rceil> + 1) key (RHash tokens now) db"
  shows "bucket_inv p now' db' key"
    and "avail p now' db' key = min (of_int (bucket_capacity p)) (tokens + (now' - now) * bucket_rate p)"
proof -
  let ?c = "of_int (bucket_capacity p) :: secs" and ?r = "bucket_rate p"
  let ?ttl = "\<lceil>?c / ?r\<rceil> + 1"
  have t: "0 \<le> tokens" "tokens \<le> ?c" using avail_bounds [OF w i] tk by (auto split: if_splits)
  have r: "0 < ?r" using bucket_rate_pos [OF w] .
  have l: "live now' db' key = (if now' < now + of_int ?ttl then Some (RHash tokens now) else None)"
    unfolding db by (rule live_put)
  show "bucket_inv p now' db' key" using t le by (simp add: bucket_inv_def l)
  show "avail p now' db' key = min ?c (tokens + (now' - now) * ?r)"
  proof (cases "now' < now + of_int ?ttl")
    case True
    then show ?thesis by (simp add: avail_def bucket_data_def l refill_def Let_def)
  next
    case False
    have "?c / ?r \<le> of_int \<lceil>?c / ?r\<rceil>" by (rule le_of_int_ceiling)
    also have "\<dots> \<le> now' - now" using False by simp
    finally have "?c \<le> (now' - now) * ?r" using r by (simp add: pos_divide_le_eq)
    then have "min ?c (tokens + (now' - now) * ?r) = ?c" using t by simp
    then show ?thesis using False by (simp add: avail_def bucket_data_def l refill_def Let_def)
  qed
qed

text \<open>Successive checks of one key, at the given moments.\<close>

fun bucket_run :: "EffectivePolicy \<Rightarrow> jsstr \<Rightarrow> secs list \<Rightarrow> redis \<Rightarrow> redis_error + bool list" where
  "bucket_run p key [] db = Inr []"
| "bucket_run p key (t # ts) db =
     (case check_token_bucket key p t db of
        Inl err \<Rightarrow> Inl err
      | Inr (r, db') \<Rightarrow> map_sum id (Cons (rr_allowed r)) (bucket_run p key ts db'))"

lemma bucket_run_bound:
  assumes "bucket_policy p" and "sorted (t # ts)" and "bucket_inv p t db key"
  shows "\<exists>bs. bucket_run p key (t # ts) db = Inr bs \<and> length bs = length (t # ts) \<and>
    of_nat (length (filter id bs)) \<le> avail p t db key + bucket_rate p * (last (t # ts) - t)"
  using assms(2,3)
proof (induction ts arbitrary: t db)
  case Nil
  obtain r db' where c: "check_token_bucket key p t db = Inr (r, db')" "rr_allowed r = (avail p t db key \<ge> 1)"
    using check_bucket [OF Nil(2)] by blast
  then show ?case using avail_bounds [OF assms(1) Nil(2)] by simp
next
  case (Cons u us)
  let ?a = "avail p t db key"
  obtain r db' where c: "check_token_bucket key p t db = Inr (r, db')" "rr_allowed r = (?a \<ge> 1)"
    and db': "db' = put t (\<lceil>of_int (bucket_capacity p) / bucket_rate p\<rceil> + 1) key (RHash (?a - (if ?a \<ge> 1 then 1 else 0)) t) db"
    using check_bucket [OF Cons(3)] by blast
  have le: "t \<le> u" and s: "sorted (u # us)" using Cons(2) by simp_all
  note n = avail_after [OF assms(1) Cons(3) le refl db']
  from Cons.IH [OF s n(1)] obtain bs where bs: "bucket_run p key (u # us) db' = Inr bs" "length bs = length (u # us)"
    "of_nat (length (filter id bs)) \<le> avail p u db' key + bucket_rate p * (last (u # us) - u)" by blast
  have "avail p u db' key \<le> ?a - (if ?a \<ge> 1 then 1 else 0) + (u - t) * bucket_rate p" unfolding n(2) by simp
  then have "of_nat (length (filter id ((?a \<ge> 1) # bs))) \<le> ?a + bucket_rate p * (last (u # us) - t)"
    using bs(3) by (simp add: algebra_simps split: if_splits)
  moreover have "bucket_run p key (t # u # us) db = Inr ((?a \<ge> 1) # bs)"
    unfolding bucket_run.simps(2) [of _ _ t] using c bs(1) by simp
  moreover have "last (t # u # us) = last (u # us)" by simp
  ultimately show ?case using bs(2) by (metis length_Cons)
qed

text \<open>A caller that keeps to the rate is never refused.\<close>

lemma bucket_run_paced:
  assumes "bucket_policy p" and "successively (\<lambda>a b. 1 \<le> (b - a) * bucket_rate p) (t # ts)" and "bucket_inv p t db key"
    and "avail p t db key \<ge> 1"
  shows "bucket_run p key (t # ts) db = Inr (replicate (length (t # ts)) True)"
  using assms(2-4)
proof (induction ts arbitrary: t db)
  case Nil
  then obtain r db' where "check_token_bucket key p t db = Inr (r, db')" "rr_allowed r" using check_bucket [OF Nil(2)] by metis
  then show ?case by simp
next
  case (Cons u us)
  let ?a = "avail p t db key"
  obtain r db' where c: "check_token_bucket key p t db = Inr (r, db')" "rr_allowed r = (?a \<ge> 1)"
    and db': "db' = put t (\<lceil>of_int (bucket_capacity p) / bucket_rate p\<rceil> + 1) key (RHash (?a - (if ?a \<ge> 1 then 1 else 0)) t) db"
    using check_bucket [OF Cons(3)] by blast
  have g: "1 \<le> (u - t) * bucket_rate p" and s: "successively (\<lambda>a b. 1 \<le> (b - a) * bucket_rate p) (u # us)"
    using Cons(2) by simp_all
  have "0 < (u - t) * bucket_rate p" using g by simp
  then have le: "t \<le> u" using bucket_rate_pos [OF assms(1)] by (simp add: zero_less_mult_iff)
  note n = avail_after [OF assms(1) Cons(3) le refl db']
  have "avail p u db' key \<ge> 1"
    unfolding n(2) using g Cons(4) assms(1) by (simp add: bucket_policy_def)
  from Cons.IH [OF s n(1) this] show ?case using c Cons(4) by simp
qed

section \<open>Sliding windows over time\<close>

text \<open>
  What a sliding window promises, on the moments of the admitted requests: a request is admitted when
  fewer than the limit were admitted in the window before it.
\<close>

fun window_spec :: "int \<Rightarrow> secs \<Rightarrow> secs list \<Rightarrow> secs list \<Rightarrow> bool list" where
  "window_spec limit w admitted [] = []"
| "window_spec limit w admitted (t # ts) =
     (let ok = int (length (filter (\<lambda>s. s > t - w) admitted)) < limit in
      ok # window_spec limit w (if ok then admitted @ [t] else admitted) ts)"

fun window_run :: "EffectivePolicy \<Rightarrow> jsstr \<Rightarrow> (secs \<times> jsstr) list \<Rightarrow> redis \<Rightarrow> redis_error + bool list" where
  "window_run p key [] db = Inr []"
| "window_run p key ((t, m) # cs) db =
     (case check_sliding_window key p t m db of
        Inl err \<Rightarrow> Inl err
      | Inr (r, db') \<Rightarrow> map_sum id (Cons (rr_allowed r)) (window_run p key cs db'))"

definition entries :: "secs \<Rightarrow> redis \<Rightarrow> jsstr \<Rightarrow> (jsstr \<times> secs) list" where
  "entries now db key = (case live now db key of Some (RZset zs) \<Rightarrow> zs | _ \<Rightarrow> [])"

abbreviation recent :: "secs \<Rightarrow> secs \<Rightarrow> jsstr \<times> secs \<Rightarrow> bool" where
  "recent w now z \<equiv> snd z > now - w"

text \<open>The set in the store against the log of all admitted requests.\<close>

definition window_inv :: "secs \<Rightarrow> (jsstr \<times> secs) list \<Rightarrow> secs \<Rightarrow> redis \<Rightarrow> jsstr \<Rightarrow> bool" where
  "window_inv w hist now db key \<longleftrightarrow>
     (case live now db key of None \<Rightarrow> True | Some (RZset _) \<Rightarrow> True | _ \<Rightarrow> False) \<and>
     filter (recent w now) (entries now db key) = filter (recent w now) hist \<and>
     (\<forall>v ex. db key = Some (v, ex) \<longrightarrow> (\<forall>z\<in>set hist. snd z + w \<le> ex)) \<and>
     (\<forall>z\<in>set hist. snd z \<le> now)"

lemma filter_stronger: "(\<And>z. P z \<Longrightarrow> Q z) \<Longrightarrow> filter Q xs = filter Q ys \<Longrightarrow> filter P xs = filter P ys"
  by (metis (mono_tags, lifting) filter_cong filter_filter)

lemma window_inv_later:
  assumes i: "window_inv w hist now db key" and le: "now \<le> now'"
  shows "window_inv w hist now' db key"
proof -
  have r: "\<And>z. recent w now' z \<Longrightarrow> recent w now z" using le by simp
  have h: "\<forall>z\<in>set hist. snd z \<le> now'" using i le by (auto simp: window_inv_def)
  show ?thesis
  proof (cases "live now' db key")
    case None
    have "filter (recent w now') hist = []"
    proof (cases "live now db key")
      case None
      then have "filter (recent w now) hist = []" using i by (simp add: window_inv_def entries_def)
      then show ?thesis using r by (auto simp: filter_empty_conv)
    next
      case (Some v)
      then obtain ex where ex: "db key = Some (v, ex)" by (auto simp: live_def split: option.splits if_splits)
      then have "ex \<le> now'" using None by (auto simp: live_def split: if_splits)
      moreover have "\<forall>z\<in>set hist. snd z + w \<le> ex" using i ex by (simp add: window_inv_def)
      ultimately show ?thesis by (fastforce simp: filter_empty_conv)
    qed
    then show ?thesis using None i h by (simp add: window_inv_def entries_def)
  next
    case (Some v)
    then have l: "live now db key = Some v" using le by (rule live_earlier)
    have "filter (recent w now) (entries now db key) = filter (recent w now) hist" using i by (simp add: window_inv_def)
    from filter_stronger [OF r this] show ?thesis using i h Some l by (simp add: window_inv_def entries_def)
  qed
qed

lemma assoc_set_fresh: "k \<notin> fst ` set xs \<Longrightarrow> assoc_set k v xs = xs @ [(k, v)]"
  by (induction xs) auto

lemma window_inv_put:
  assumes "filter (recent (of_int w) now) zs = filter (recent (of_int w) now) hist" and "\<forall>z\<in>set hist. snd z \<le> now" and "w > 0"
  shows "window_inv (of_int w) hist now (put now w key (RZset zs) db) key"
  using assms by (auto simp: window_inv_def entries_def live_put put_same)

lemma window_inv_del:
  "filter (recent w now) hist = [] \<Longrightarrow> \<forall>z\<in>set hist. snd z \<le> now \<Longrightarrow> window_inv w hist now (del key db) key"
  by (simp add: window_inv_def entries_def live_del(1)) (simp add: del_def)

lemma window_inv_keep:
  assumes "window_inv w hist now db key" and "filter (recent w now) zs = filter (recent w now) hist"
    and "db key = Some (v, ex)" and "now < ex"
  shows "window_inv w hist now (put_keep key (RZset zs) db) key"
  using assms by (auto simp: window_inv_def entries_def live_def put_keep_def)

lemma check_window:
  assumes i: "window_inv (of_int w) hist now db key" and fresh: "m \<notin> fst ` set hist" and w: "w > 0"
    and p: "ep_window_seconds p = w" "ep_request_limit p = limit"
  defines "ok \<equiv> int (length (filter (recent (of_int w) now) hist)) < limit"
  obtains r db' where "check_sliding_window key p now m db = Inr (r, db')" and "rr_allowed r = ok"
    and "window_inv (of_int w) (if ok then hist @ [(m, now)] else hist) now db' key"
proof -
  let ?kept = "filter (recent (of_int w) now) hist"
  let ?res = "sliding_window_lua limit w now m (entries now db key)"
  let ?db = "if ok then put now w key (RZset (snd ?res)) db else if snd ?res = [] then del key db else put_keep key (RZset (snd ?res)) db"
  have k: "filter (recent (of_int w) now) (entries now db key) = ?kept" using i by (simp add: window_inv_def)
  have ok: "sr_allowed (fst ?res) = ok" by (simp add: sliding_window_lua_def Let_def k ok_def)
  have zs: "snd ?res = (if ok then ?kept @ [(m, now)] else ?kept)"
    using fresh by (auto simp: sliding_window_lua_def Let_def k ok_def intro!: assoc_set_fresh)
  have "run_sliding_window limit w now m key db = Inr (fst ?res, ?db)"
    using i ok unfolding run_sliding_window_def window_inv_def entries_def
    by (auto simp: Let_def case_prod_unfold split: option.splits redis_value.splits)
  then have c: "check_sliding_window key p now m db = Inr (typed_result limit (fst ?res), ?db)"
    by (simp add: check_sliding_window_def p)
  have h: "\<forall>z\<in>set hist. snd z \<le> now" using i by (simp add: window_inv_def)
  have "window_inv (of_int w) (if ok then hist @ [(m, now)] else hist) now ?db key"
  proof (cases ok)
    case True
    then show ?thesis using window_inv_put [where w = w and now = now and zs = "snd ?res" and hist = "hist @ [(m, now)]" and key = key and db = db] h w by (simp add: zs)
  next
    case False
    show ?thesis
    proof (cases "?kept = []")
      case True
      then show ?thesis using False window_inv_del [OF True h] by (simp add: zs)
    next
      case nonempty: False
      then obtain v where "live now db key = Some (RZset v)"
        using i by (auto simp: window_inv_def entries_def split: option.splits redis_value.splits)
      then obtain ex where ex: "db key = Some (RZset v, ex)" "now < ex"
        by (auto simp: live_def split: option.splits if_splits)
      have "filter (recent (of_int w) now) (snd ?res) = filter (recent (of_int w) now) hist" using False by (simp add: zs)
      from window_inv_keep [OF i this ex] show ?thesis using False nonempty by (simp add: zs)
    qed
  qed
  then show thesis using c ok by (intro that [of "typed_result limit (fst ?res)" ?db]) (simp_all add: typed_result_def)
qed

lemma window_run_spec:
  assumes w: "w > 0" and p: "ep_window_seconds p = w" "ep_request_limit p = limit"
    and "window_inv (of_int w) hist now db key" and "sorted (now # map fst cs)" and "distinct (map snd cs)"
    and "fst ` set hist \<inter> set (map snd cs) = {}"
  shows "window_run p key cs db = Inr (window_spec limit (of_int w) (map snd hist) (map fst cs))"
  using assms(4-)
proof (induction cs arbitrary: hist now db)
  case (Cons c cs)
  obtain t m where c: "c = (t, m)" by fastforce
  have le: "now \<le> t" and s: "sorted (t # map fst cs)" using Cons.prems c by simp_all
  have i: "window_inv (of_int w) hist t db key" using window_inv_later [OF Cons.prems(1) le] .
  have f: "m \<notin> fst ` set hist" using Cons.prems(4) c by auto
  let ?ok = "int (length (filter (recent (of_int w) t) hist)) < limit"
  obtain r db' where r: "check_sliding_window key p t m db = Inr (r, db')" "rr_allowed r = ?ok"
    and i': "window_inv (of_int w) (if ?ok then hist @ [(m, t)] else hist) t db' key"
    using check_window [OF i f w p] by blast
  have "fst ` set (if ?ok then hist @ [(m, t)] else hist) \<inter> set (map snd cs) = {}"
    using Cons.prems(3,4) c by auto
  from Cons.IH [OF i' s _ this] have "window_run p key cs db' =
      Inr (window_spec limit (of_int w) (map snd (if ?ok then hist @ [(m, t)] else hist)) (map fst cs))"
    using Cons.prems(3) by simp
  moreover have "length (filter (\<lambda>s. s > t - of_int w) (map snd hist)) = length (filter (recent (of_int w) t) hist)"
    by (simp add: filter_map o_def)
  ultimately show ?case using r c by (simp add: Let_def)
qed simp

lemma window_spec_bound:
  assumes "\<And>t. int (length (filter (\<lambda>s. t - w < s \<and> s \<le> t) admitted)) \<le> limit" and "\<forall>s\<in>set admitted. \<forall>t\<in>set ts. s \<le> t"
    and "sorted ts"
  shows "int (length (filter (\<lambda>s. t - w < s \<and> s \<le> t) (admitted @ map fst (filter snd (zip ts (window_spec limit w admitted ts)))))) \<le> limit"
  using assms
proof (induction ts arbitrary: admitted)
  case (Cons u us)
  let ?ok = "int (length (filter (\<lambda>s. s > u - w) admitted)) < limit"
  let ?adm = "if ?ok then admitted @ [u] else admitted"
  have b: "int (length (filter (\<lambda>s. x - w < s \<and> s \<le> x) ?adm)) \<le> limit" for x
  proof (cases "?ok \<and> x - w < u \<and> u \<le> x")
    case True
    have "length (filter (\<lambda>s. x - w < s \<and> s \<le> x) admitted) \<le> length (filter (\<lambda>s. s > u - w) admitted)"
      unfolding length_filter_conv_card by (rule card_mono) (use True in auto)
    then show ?thesis using True by simp
  next
    case False
    then show ?thesis using Cons.prems(1) [of x] by auto
  qed
  have "\<forall>s\<in>set ?adm. \<forall>t\<in>set us. s \<le> t" using Cons.prems(2,3) by auto
  note ih = Cons.IH [OF b this]
  show ?case
  proof (cases ?ok)
    case True
    then show ?thesis using ih Cons.prems(3) by (simp add: Let_def)
  next
    case False
    then show ?thesis using ih Cons.prems(3) by (simp add: Let_def)
  qed
qed simp

section \<open>Keys apart\<close>

lemma replace_all_set: "set (replace_all c r s) \<subseteq> (set s - {c}) \<union> set r"
  by (auto simp: replace_all_def)

lemma sanitize_no_colon: "CHR '':'' \<notin> set (sanitize_segment v n)"
proof -
  let ?a = "replace_all (CHR '':'') ''_'' v"
  have "CHR '':'' \<notin> set ?a" by (rule replace_all_removes) simp
  then have "CHR '':'' \<notin> set (replace_all (CHR 0x0D) ''_'' (replace_all newline ''_'' ?a))"
    using replace_all_set [of "CHR 0x0D" "''_''" "replace_all newline ''_'' ?a"] replace_all_set [of newline "''_''" ?a] by auto
  then have "CHR '':'' \<notin> set (take n (replace_all (CHR 0x0D) ''_'' (replace_all newline ''_'' ?a)))" using in_set_takeD by fast
  then show ?thesis by (simp add: sanitize_segment_def str_or_def)
qed

text \<open>A key starts with its tenant, and what follows it is empty or starts with a colon.\<close>

lemma scope_key_tenant: "\<exists>rest. scope_key scope ten sid sv tool = ''rl:'' @ ten @ CHR '':'' # rest"
  by (simp add: scope_key_def build_key_def)

lemma colon_prefix_unique:
  "a @ CHR '':'' # x = b @ CHR '':'' # y \<Longrightarrow> CHR '':'' \<notin> set a \<Longrightarrow> CHR '':'' \<notin> set b \<Longrightarrow> a = b"
  by (metis index_of_append option.inject append_eq_append_conv)

lemma build_key_segments:
  assumes "CHR '':'' \<notin> set ten1" and "CHR '':'' \<notin> set ten2" and "build_key ten1 sid1 sv1 tool1 = build_key ten2 sid2 sv2 tool2"
  shows "sanitize_segment sid1 200 = sanitize_segment sid2 200" and "sanitize_segment sv1 100 = sanitize_segment sv2 100"
    and "sanitize_segment tool1 200 = sanitize_segment tool2 200"
proof -
  have s: "split_on (CHR '':'') (build_key t a b c) =
      [''rl'', t, sanitize_segment a 200, sanitize_segment b 100, sanitize_segment c 200]" if "CHR '':'' \<notin> set t" for t a b c
  proof -
    have "build_key t a b c = ''rl'' @ CHR '':'' # t @ CHR '':'' # sanitize_segment a 200 @ CHR '':'' # sanitize_segment b 100 @
        CHR '':'' # sanitize_segment c 200" by (simp add: build_key_def)
    then show ?thesis
      using that by (simp only: split_on_append_sep split_on_no_sep sanitize_no_colon not_False_eq_True) (simp add: split_on_append_sep sanitize_no_colon split_on_no_sep)
  qed
  from assms(3) have "split_on (CHR '':'') (build_key ten1 sid1 sv1 tool1) = split_on (CHR '':'') (build_key ten2 sid2 sv2 tool2)" by simp
  then show "sanitize_segment sid1 200 = sanitize_segment sid2 200" and "sanitize_segment sv1 100 = sanitize_segment sv2 100"
    and "sanitize_segment tool1 200 = sanitize_segment tool2 200"
    unfolding s [OF assms(1)] s [OF assms(2)] by simp_all
qed

section \<open>Properties\<close>

definition demo_bucket :: EffectivePolicy where
  "demo_bucket = \<lparr>ep_algorithm = TOKEN_BUCKET, ep_request_limit = 2, ep_window_seconds = 1, ep_burst_capacity = Some 3, ep_scope = ''global''\<rparr>"

definition demo_window :: EffectivePolicy where
  "demo_window = \<lparr>ep_algorithm = SLIDING_WINDOW, ep_request_limit = 1, ep_window_seconds = 10, ep_burst_capacity = None, ep_scope = ''global''\<rparr>"

text \<open>
  C13. A token bucket admits no more than it promises: from an unused key, any requests in the order of
  their moments are all answered, and at most the capacity plus the rate times the time between the first
  and the last of them is admitted, however long the pauses and although idle buckets expire.
\<close>

theorem token_bucket_bound:
  assumes "bucket_policy p" and "sorted (t # ts)" and "live t db key = None"
  shows "\<exists>bs. bucket_run p key (t # ts) db = Inr bs \<and> length bs = length (t # ts) \<and>
    of_nat (length (filter id bs)) \<le> of_int (bucket_capacity p) + bucket_rate p * (last (t # ts) - t)"
proof -
  have i: "bucket_inv p t db key" using assms(3) by (simp add: bucket_inv_def)
  have "avail p t db key \<le> of_int (bucket_capacity p)" using avail_bounds(2) [OF assms(1) i] .
  then show ?thesis using bucket_run_bound [OF assms(1,2) i] by fastforce
qed

theorem token_bucket_bound_witness:
  "\<exists>bs. bucket_run demo_bucket ''k'' [0, 0, 0, 0, 0] Map.empty = Inr bs \<and> length (filter id bs) \<le> 3"
proof -
  have "bucket_policy demo_bucket" "sorted [0, 0, 0, 0, 0 :: secs]" "live 0 Map.empty ''k'' = None"
    by (simp_all add: bucket_policy_def bucket_capacity_def demo_bucket_def live_def)
  from token_bucket_bound [OF this] show ?thesis by (auto simp: bucket_capacity_def demo_bucket_def)
qed

text \<open>
  A caller that keeps to the rate is never refused: from an unused key, requests whose distance is at
  least the time one token takes are all admitted.
\<close>

lemma paced_never_refused:
  assumes "bucket_policy p" and "successively (\<lambda>a b. 1 \<le> (b - a) * bucket_rate p) (t # ts)" and "live t db key = None"
  shows "bucket_run p key (t # ts) db = Inr (replicate (length (t # ts)) True)"
proof -
  have i: "bucket_inv p t db key" using assms(3) by (simp add: bucket_inv_def)
  have "avail p t db key \<ge> 1"
    using assms(1,3) by (simp add: avail_def bucket_data_def refill_def Let_def bucket_policy_def)
  then show ?thesis using bucket_run_paced [OF assms(1,2) i] by simp
qed



text \<open>
  Buckets are kept apart: as tenant ids contain no colon, two checks of different tenants never use
  one key, and two checks of the tool scope use one key only if subject, server and tool agree after
  sanitizing, in particular not because a subject contains the separator.
\<close>

lemma buckets_apart:
  assumes "CHR '':'' \<notin> set ten1" and "CHR '':'' \<notin> set ten2"
    and "scope_key sc1 ten1 sid1 sv1 tool1 = scope_key sc2 ten2 sid2 sv2 tool2"
  shows "ten1 = ten2 \<and>
    (sc1 = ''tool'' \<and> sc2 = ''tool'' \<longrightarrow>
       sanitize_segment sid1 200 = sanitize_segment sid2 200 \<and> sanitize_segment sv1 100 = sanitize_segment sv2 100 \<and>
       sanitize_segment tool1 200 = sanitize_segment tool2 200)"
proof -
  obtain x y where "scope_key sc1 ten1 sid1 sv1 tool1 = ''rl:'' @ ten1 @ CHR '':'' # x"
    and "scope_key sc2 ten2 sid2 sv2 tool2 = ''rl:'' @ ten2 @ CHR '':'' # y"
    using scope_key_tenant by blast
  then have "ten1 @ CHR '':'' # x = ten2 @ CHR '':'' # y" using assms(3) by simp
  then have "ten1 = ten2" using colon_prefix_unique assms(1,2) by blast
  moreover have "build_key ten1 sid1 sv1 tool1 = build_key ten2 sid2 sv2 tool2" if "sc1 = ''tool''" "sc2 = ''tool''"
    using assms(3) that by (simp add: scope_key_def)
  ultimately show ?thesis using build_key_segments [OF assms(1,2)] by blast
qed

text \<open>
  Two policies of one scope with different algorithms break each other: all checks of the global scope
  for a server use one key, so for a second after a token-bucket check the script of a sliding-window
  policy fails on it with \<open>WRONGTYPE\<close>, whatever subject and tool it is for.
\<close>

lemma mixed_algorithms_fail:
  assumes "bucket_policy p" and "ep_algorithm p = TOKEN_BUCKET" and "ep_algorithm q = SLIDING_WINDOW"
    and "ep_scope p = ''global''" and "ep_scope q = ''global''" and "limiter_check ten s1 sv t1 p now m1 db = Inr (r, db')"
    and "now \<le> now'" and "now' < now + 1"
  shows "limiter_check ten s2 sv t2 q now' m2 db' = Inl WrongType"
proof -
  let ?k = "scope_key ''global'' ten s1 sv t1"
  have k: "scope_key ''global'' ten s2 sv t2 = ?k" by (simp add: scope_key_def)
  have "0 \<le> (of_int (bucket_capacity p) :: secs) / bucket_rate p"
    using assms(1) bucket_rate_pos [OF assms(1)] by (simp add: bucket_policy_def)
  then have ttl: "1 \<le> \<lceil>(of_int (bucket_capacity p) :: secs) / bucket_rate p\<rceil> + 1" by simp
  have "\<exists>tok. db' = put now (\<lceil>of_int (bucket_capacity p) / bucket_rate p\<rceil> + 1) ?k (RHash tok now) db"
    using assms(6) unfolding limiter_check_def assms(2,4) check_token_bucket_def run_token_bucket_def token_bucket_lua_def
    by (auto simp: Let_def split: option.splits redis_value.splits)
  then obtain tok where db': "db' = put now (\<lceil>of_int (bucket_capacity p) / bucket_rate p\<rceil> + 1) ?k (RHash tok now) db" ..
  have "now' < now + of_int (\<lceil>of_int (bucket_capacity p) / bucket_rate p\<rceil> + 1)"
    using assms(8) ttl by (metis add_left_mono le_less_trans not_le of_int_1_le_iff)
  then have "live now' db' ?k = Some (RHash tok now)" unfolding db' live_put by simp
  then show ?thesis
    by (simp add: limiter_check_def assms(3,5) k check_sliding_window_def run_sliding_window_def)
qed

end
