(* ===== verification/Gateway_Auth.thy ===== *)
theory Gateway_Auth
  imports Js_Json
begin

text \<open>
  Bearer authentication of the gateway: \<open>api/app/auth/api_keys.py\<close> (key format, issuing, verifying,
  revoking, over the table of \<open>repositories/api_keys.py\<close>), the tenant of a verified token of
  \<open>auth/jwt_validator.py\<close>, and the dispatch of \<open>auth/authenticate.py\<close>. The password hasher and the
  verification of a signed token are arguments.
\<close>

datatype subject_kind = API_KEY | OAUTH_SUBJECT

record Subject =
  sj_subject_id :: jsstr
  sj_subject_type :: subject_kind
  sj_tenant_id :: jsstr
  sj_scopes :: "jsstr list"

record ApiKey =
  ak_id :: jsstr
  ak_tenant_id :: jsstr
  ak_user_id :: "jsstr option"
  ak_name :: jsstr
  ak_key_prefix :: jsstr
  ak_key_hash :: jsstr
  ak_scopes :: "jsstr list"
  ak_last_used_at :: "int option"
  ak_revoked_at :: "jsstr option"

section \<open>The key format\<close>

definition url_safe :: "char \<Rightarrow> bool" where
  "url_safe c \<longleftrightarrow> c \<in> set ''ABCDEFGHIJKLMNOPQRSTUVWXYZabcdefghijklmnopqrstuvwxyz0123456789-_''"

text \<open>
  \<open>_KEY_RE.match\<close>: the marker, eight characters, an underscore and 43 characters; the dollar sign also
  matches before a line break at the end.
\<close>

definition parse_key :: "jsstr \<Rightarrow> (jsstr \<times> jsstr) option" where
  "parse_key raw =
     (let s = (if length raw = 56 \<and> last raw = newline then butlast raw else raw);
          pre = take 8 (drop 3 s); secret = drop 12 s
      in if length s = 55 \<and> take 3 s = ''pk_'' \<and> list_all url_safe pre \<and> s ! 11 = CHR ''_'' \<and> list_all url_safe secret
         then Some (pre, secret) else None)"

section \<open>The table\<close>

text \<open>The prefix column is unique: inserting a prefix that exists raises.\<close>

definition key_create :: "ApiKey \<Rightarrow> ApiKey list \<Rightarrow> ApiKey list option" where
  "key_create k keys = (if ak_key_prefix k \<in> ak_key_prefix ` set keys then None else Some (keys @ [k]))"

definition get_by_prefix :: "jsstr \<Rightarrow> ApiKey list \<Rightarrow> ApiKey option" where
  "get_by_prefix p keys = find (\<lambda>k. ak_key_prefix k = p \<and> ak_revoked_at k = None) keys"

definition key_revoke :: "jsstr \<Rightarrow> jsstr \<Rightarrow> jsstr \<Rightarrow> ApiKey list \<Rightarrow> bool \<times> ApiKey list" where
  "key_revoke at key_id tenant_id keys =
     (let hit = (\<lambda>k. ak_id k = key_id \<and> ak_tenant_id k = tenant_id \<and> ak_revoked_at k = None) in
      (list_ex hit keys, map (\<lambda>k. if hit k then k\<lparr>ak_revoked_at := Some at\<rparr> else k) keys))"

section \<open>Issuing, verifying, revoking\<close>

text \<open>
  \<open>pre\<close> and \<open>secret\<close> are the two random strings, \<open>i\<close> the id of the new row, \<open>hash\<close> the hasher. The
  plaintext and the table; \<^const>\<open>None\<close> where the insertion raises.
\<close>

definition issue_key ::
  "(jsstr \<Rightarrow> jsstr) \<Rightarrow> jsstr \<Rightarrow> jsstr \<Rightarrow> jsstr \<Rightarrow> jsstr \<Rightarrow> jsstr list \<Rightarrow> jsstr \<Rightarrow> jsstr \<Rightarrow> jsstr option \<Rightarrow> ApiKey list \<Rightarrow>
     (jsstr \<times> ApiKey list) option" where
  "issue_key hash i pre secret name scopes pepper tenant_id user_id keys =
     map_option (\<lambda>keys'. (''pk_'' @ pre @ ''_'' @ secret, keys'))
       (key_create \<lparr>ak_id = i, ak_tenant_id = tenant_id, ak_user_id = user_id, ak_name = name, ak_key_prefix = pre, ak_key_hash = hash (secret @ pepper),
                    ak_scopes = scopes, ak_last_used_at = None, ak_revoked_at = None\<rparr> keys)"

text \<open>\<open>verify h s\<close> is the hasher's check of a text against a hash.\<close>

definition verify_key ::
  "(jsstr \<Rightarrow> jsstr \<Rightarrow> bool) \<Rightarrow> jsstr \<Rightarrow> jsstr option \<Rightarrow> ApiKey list \<Rightarrow> jsstr \<Rightarrow> Subject option" where
  "verify_key verify pepper fallback_pepper keys raw =
     (case parse_key raw of
        None \<Rightarrow> None
      | Some (pre, secret) \<Rightarrow>
          (case get_by_prefix pre keys of
             None \<Rightarrow> None
           | Some k \<Rightarrow>
               if verify (ak_key_hash k) (secret @ pepper) \<or>
                  (truthy fallback_pepper \<and> fallback_pepper \<noteq> Some pepper \<and> verify (ak_key_hash k) (secret @ the fallback_pepper))
               then Some \<lparr>sj_subject_id = ak_id k, sj_subject_type = API_KEY, sj_tenant_id = ak_tenant_id k, sj_scopes = ak_scopes k\<rparr>
               else None))"

text \<open>
  A successful check stamps the row, at most once an hour; the moment is in seconds. The subject and the
  table after the call.
\<close>

definition update_last_used :: "int \<Rightarrow> jsstr \<Rightarrow> ApiKey list \<Rightarrow> ApiKey list" where
  "update_last_used moment key_id keys = map (\<lambda>k. if ak_id k = key_id then k\<lparr>ak_last_used_at := Some moment\<rparr> else k) keys"

definition stamp_use :: "int \<Rightarrow> ApiKey \<Rightarrow> ApiKey list \<Rightarrow> ApiKey list" where
  "stamp_use moment k keys =
     (case ak_last_used_at k of
        None \<Rightarrow> update_last_used moment (ak_id k) keys
      | Some t \<Rightarrow> if moment - t \<ge> 3600 then update_last_used moment (ak_id k) keys else keys)"

definition use_key ::
  "(jsstr \<Rightarrow> jsstr \<Rightarrow> bool) \<Rightarrow> jsstr \<Rightarrow> jsstr option \<Rightarrow> int \<Rightarrow> ApiKey list \<Rightarrow> jsstr \<Rightarrow> Subject option \<times> ApiKey list" where
  "use_key verify pepper fallback_pepper moment keys raw =
     (case verify_key verify pepper fallback_pepper keys raw of
        None \<Rightarrow> (None, keys)
      | Some subject \<Rightarrow>
          (Some subject,
           case map_option fst (parse_key raw) of
             None \<Rightarrow> keys
           | Some pre \<Rightarrow> (case get_by_prefix pre keys of None \<Rightarrow> keys | Some k \<Rightarrow> stamp_use moment k keys)))"

definition revoke_key :: "jsstr \<Rightarrow> jsstr \<Rightarrow> jsstr \<Rightarrow> ApiKey list \<Rightarrow> ApiKey list option" where
  "revoke_key at key_id tenant_id keys = (case key_revoke at key_id tenant_id keys of (found, keys') \<Rightarrow> if found then Some keys' else None)"

section \<open>Tokens\<close>

definition tenant_claim_keys :: "jsstr \<Rightarrow> jsstr list" where
  "tenant_claim_keys audience =
     [''tenant_id'', ''tenantId'', ''org_id'', ''orgId'', ''tid'', ''https://portcullis/tenant'', ''https://portcullis.io/tenant''] @
     (if audience \<noteq> [] then [audience @ ''/tenant''] else [])"

text \<open>
  The tenant of a verified token from its claims; \<open>uuid\<close> parses a claim, \<^const>\<open>None\<close> where \<open>UUID\<close> raises. The
  first claim that is present decides; without one it is the default tenant.
\<close>

fun token_tenant :: "(json \<Rightarrow> jsstr option) \<Rightarrow> jsstr \<Rightarrow> (jsstr \<times> json) list \<Rightarrow> jsstr list \<Rightarrow> jsstr option" where
  "token_tenant uuid dflt claims [] = Some dflt"
| "token_tenant uuid dflt claims (k # ks) =
     (case map_of claims k of
        None \<Rightarrow> token_tenant uuid dflt claims ks
      | Some v \<Rightarrow> if json_truthy v then uuid v else token_tenant uuid dflt claims ks)"

text \<open>
  \<open>claims_of\<close> verifies the signature, the expiry and the audience of a token against the key set and gives
  its claims, among them a textual subject.
\<close>

definition token_scopes :: "(jsstr \<times> json) list \<Rightarrow> jsstr list option" where
  "token_scopes claims =
     (case map_of claims ''scope'' of
        None \<Rightarrow> Some []
      | Some (JStr sc) \<Rightarrow> Some (filter (\<lambda>w. w \<noteq> []) (split_ws sc))
      | Some v \<Rightarrow> if json_truthy v then None else Some [])"

definition verify_jwt ::
  "(jsstr \<Rightarrow> (jsstr \<times> json) list option) \<Rightarrow> (json \<Rightarrow> jsstr option) \<Rightarrow> jsstr \<Rightarrow> jsstr \<Rightarrow> jsstr \<Rightarrow> Subject option" where
  "verify_jwt claims_of uuid dflt audience raw =
     (case claims_of raw of
        None \<Rightarrow> None
      | Some claims \<Rightarrow>
          (case (map_of claims ''sub'', token_scopes claims, token_tenant uuid dflt claims (tenant_claim_keys audience)) of
             (Some (JStr s), Some scopes, Some t) \<Rightarrow>
               if s = [] then None
               else Some \<lparr>sj_subject_id = s, sj_subject_type = OAUTH_SUBJECT, sj_tenant_id = t, sj_scopes = scopes\<rparr>
           | _ \<Rightarrow> None))"

definition authenticate ::
  "(jsstr \<Rightarrow> Subject option) \<Rightarrow> (jsstr \<Rightarrow> Subject option) \<Rightarrow> bool \<Rightarrow> jsstr \<Rightarrow> Subject option" where
  "authenticate by_key by_jwt jwt_configured raw_token =
     (if prefix ''pk_'' raw_token then by_key raw_token
      else if \<not> jwt_configured then None
      else by_jwt raw_token)"

section \<open>Lemmas\<close>

lemma parse_key_plain:
  assumes "length pre = 8" "list_all url_safe pre" "length secret = 43" "list_all url_safe secret"
  shows "parse_key (''pk_'' @ pre @ ''_'' @ secret) = Some (pre, secret)"
proof -
  let ?s = "''pk_'' @ pre @ ''_'' @ secret"
  have l: "length ?s = 55" using assms by simp
  have "take 8 (drop 3 ?s) = pre" "drop 12 ?s = secret" "?s ! 11 = CHR ''_''" "take 3 ?s = ''pk_''"
    using assms by (simp_all add: drop_Cons' nth_append)
  then show ?thesis using assms l unfolding parse_key_def Let_def by simp
qed

lemma parse_key_marker:
  assumes "parse_key raw = Some (pre, secret)"
  shows "prefix ''pk_'' raw"
proof -
  have "take 3 (if length raw = 56 \<and> last raw = newline then butlast raw else raw) = ''pk_''"
    using assms by (auto simp: parse_key_def Let_def split: if_splits)
  then have "take 3 raw = ''pk_''" by (auto simp: take_butlast split: if_splits)
  then show ?thesis by (metis take_is_prefix)
qed

lemma find_append: "find P (xs @ ys) = (case find P xs of None \<Rightarrow> find P ys | Some x \<Rightarrow> Some x)"
  by (induction xs) auto

lemma find_None_all: "(\<And>x. x \<in> set xs \<Longrightarrow> \<not> P x) \<Longrightarrow> find P xs = None"
  by (simp add: find_None_iff)

section \<open>The life of a key\<close>

datatype key_op =
    OpIssue jsstr jsstr jsstr jsstr "jsstr list" jsstr "jsstr option"
  | OpRevoke jsstr jsstr jsstr
  | OpUse int jsstr

text \<open>An operation of the key API; one that raises leaves the table as it was.\<close>

fun key_step :: "(jsstr \<Rightarrow> jsstr) \<Rightarrow> (jsstr \<Rightarrow> jsstr \<Rightarrow> bool) \<Rightarrow> jsstr \<Rightarrow> key_op \<Rightarrow> ApiKey list \<Rightarrow> ApiKey list" where
  "key_step hash verify pepper (OpIssue i pre secret name scopes tenant_id user_id) keys =
     (case issue_key hash i pre secret name scopes pepper tenant_id user_id keys of Some (_, keys') \<Rightarrow> keys' | None \<Rightarrow> keys)"
| "key_step hash verify pepper (OpRevoke at key_id tenant_id) keys =
     (case revoke_key at key_id tenant_id keys of Some keys' \<Rightarrow> keys' | None \<Rightarrow> keys)"
| "key_step hash verify pepper (OpUse moment raw) keys = snd (use_key verify pepper None moment keys raw)"

definition prefix_dead :: "jsstr \<Rightarrow> ApiKey list \<Rightarrow> bool" where
  "prefix_dead p keys \<longleftrightarrow> p \<in> ak_key_prefix ` set keys \<and> (\<forall>k\<in>set keys. ak_key_prefix k = p \<longrightarrow> ak_revoked_at k \<noteq> None)"

lemma revoke_rows: "ak_key_prefix ` set (snd (key_revoke at i t keys)) = ak_key_prefix ` set keys"
  unfolding key_revoke_def Let_def snd_conv set_map image_image by (rule image_cong) simp_all

lemma stamp_rows: "ak_key_prefix ` set (update_last_used moment i keys) = ak_key_prefix ` set keys"
  unfolding update_last_used_def set_map image_image by (rule image_cong) simp_all

lemma revoke_revoked:
  "k' \<in> set (snd (key_revoke at i t keys)) \<Longrightarrow>
   \<exists>k\<in>set keys. ak_key_prefix k = ak_key_prefix k' \<and> (ak_revoked_at k \<noteq> None \<longrightarrow> ak_revoked_at k' \<noteq> None)"
  by (auto simp: key_revoke_def Let_def)

lemma prefix_dead_step: "prefix_dead p keys \<Longrightarrow> prefix_dead p (key_step hash verify pepper op keys)"
proof (cases op)
  case (OpIssue i pre secret name scopes t u)
  assume "prefix_dead p keys"
  then show ?thesis using OpIssue by (auto simp: prefix_dead_def issue_key_def key_create_def split: option.splits)
next
  case (OpRevoke at i t)
  assume "prefix_dead p keys"
  moreover have "prefix_dead p (snd (key_revoke at i t keys))"
    unfolding prefix_dead_def revoke_rows using calculation revoke_revoked unfolding prefix_dead_def by metis
  ultimately show ?thesis using OpRevoke by (simp add: revoke_key_def case_prod_unfold split: option.split)
next
  case (OpUse moment raw)
  assume "prefix_dead p keys"
  then have "prefix_dead p (update_last_used moment i keys)" for i
    unfolding prefix_dead_def stamp_rows by (auto simp: update_last_used_def)
  with \<open>prefix_dead p keys\<close> show ?thesis
    unfolding OpUse key_step.simps use_key_def stamp_use_def by (simp split: option.split)
qed

interpretation dead_prefix: step_invariant "prefix_dead p" "key_step hash verify pepper" for p hash verify pepper
  by unfold_locales (rule prefix_dead_step)

section \<open>Properties\<close>

text \<open>
  An issued key works and stays with its owner: with the row's prefix new to the table and a hasher
  that accepts a text against its own hash, the plaintext that is returned authenticates as the new key
  in the tenant it was issued for, with its scopes, and the row keeps the hash of the peppered secret.
\<close>

lemma issued_key_verifies:
  assumes "length pre = 8" "list_all url_safe pre" "length secret = 43" "list_all url_safe secret"
    and "\<And>x. verify (hash x) x" and "issue_key hash i pre secret name scopes pepper ten user keys = Some (plain, keys')"
  shows "verify_key verify pepper fb keys' plain =
      Some \<lparr>sj_subject_id = i, sj_subject_type = API_KEY, sj_tenant_id = ten, sj_scopes = scopes\<rparr> \<and>
    ak_key_hash (last keys') = hash (secret @ pepper)"
proof -
  let ?k = "\<lparr>ak_id = i, ak_tenant_id = ten, ak_user_id = user, ak_name = name, ak_key_prefix = pre, ak_key_hash = hash (secret @ pepper),
    ak_scopes = scopes, ak_last_used_at = None, ak_revoked_at = None\<rparr>"
  have k: "keys' = keys @ [?k]" "plain = ''pk_'' @ pre @ ''_'' @ secret" "pre \<notin> ak_key_prefix ` set keys"
    using assms(6) by (auto simp: issue_key_def key_create_def split: if_splits)
  have "find (\<lambda>k. ak_key_prefix k = pre \<and> ak_revoked_at k = None) keys = None" using k(3) by (auto intro: find_None_all)
  then have "get_by_prefix pre keys' = Some ?k" unfolding get_by_prefix_def k(1) find_append by simp
  then show ?thesis
    unfolding verify_key_def k(2) parse_key_plain [OF assms(1-4)] using assms(5) by (simp add: k(1))
qed

text \<open>
  A revoked key is dead: once every row with its prefix is revoked, no sequence of issuing, using and
  revoking makes any token with that prefix authenticate again, whatever the hasher says.
\<close>

lemma revoked_key_rejected:
  assumes "distinct (map ak_key_prefix keys)" and "k \<in> set keys" and "revoke_key at (ak_id k) (ak_tenant_id k) keys = Some keys'"
    and "parse_key raw = Some (ak_key_prefix k, secret)"
  shows "verify_key verify pepper fb (fold (key_step hash verify' pepper') ops keys') raw = None"
proof -
  have k': "keys' = snd (key_revoke at (ak_id k) (ak_tenant_id k) keys)"
    using assms(3) by (auto simp: revoke_key_def split: prod.splits if_splits)
  have u: "x = k" if "x \<in> set keys" "ak_key_prefix x = ak_key_prefix k" for x
    using assms(1,2) that by (auto simp: distinct_map inj_on_def)
  have "prefix_dead (ak_key_prefix k) keys'"
    unfolding prefix_dead_def k' revoke_rows
  proof (intro conjI ballI impI)
    fix x assume "x \<in> set (snd (key_revoke at (ak_id k) (ak_tenant_id k) keys))" and "ak_key_prefix x = ak_key_prefix k"
    then show "ak_revoked_at x \<noteq> None" using u by (auto simp: key_revoke_def Let_def split: if_splits)
  qed (use assms(2) in simp)
  from dead_prefix.inv_run [OF this] have "prefix_dead (ak_key_prefix k) (fold (key_step hash verify' pepper') ops keys')" .
  then have "get_by_prefix (ak_key_prefix k) (fold (key_step hash verify' pepper') ops keys') = None"
    unfolding get_by_prefix_def prefix_dead_def by (simp add: find_None_iff)
  then show ?thesis by (simp add: verify_key_def assms(4))
qed

definition demo_key :: ApiKey where
  "demo_key = \<lparr>ak_id = ''k1'', ak_tenant_id = ''t'', ak_user_id = None, ak_name = ''n'', ak_key_prefix = ''aaaaaaaa'', ak_key_hash = ''h'',
     ak_scopes = [], ak_last_used_at = None, ak_revoked_at = None\<rparr>"

end
