(* ===== verification/Gateway_Protocol.thy ===== *)
theory Gateway_Protocol
  imports Js_Json Redis_Store
begin

text \<open>
  The pieces of the proxy's request handling: JSON-RPC requests and errors (\<open>api/app/gateway/jsonrpc.py\<close>),
  the headers sent upstream (\<open>gateway/headers.py\<close>), the registry of MCP sessions (\<open>gateway/session.py\<close>), the
  origin check (\<open>gateway/origin_check.py\<close>) and the validation of upstream addresses
  (\<open>security/upstreams.py\<close>).
\<close>

section \<open>JSON-RPC\<close>

definition SUPPORTED_METHODS :: "jsstr list" where
  "SUPPORTED_METHODS =
     [''initialize'', ''notifications/initialized'', ''ping'', ''tools/list'', ''tools/call'', ''resources/list'', ''resources/read'',
      ''resources/subscribe'', ''resources/unsubscribe'', ''prompts/list'', ''prompts/get'', ''sampling/createMessage'', ''roots/list'',
      ''session/terminate'']"

abbreviation PARSE_ERROR :: int where "PARSE_ERROR \<equiv> -32700"
abbreviation INVALID_REQUEST :: int where "INVALID_REQUEST \<equiv> -32600"
abbreviation METHOD_NOT_FOUND :: int where "METHOD_NOT_FOUND \<equiv> -32601"
abbreviation INVALID_PARAMS :: int where "INVALID_PARAMS \<equiv> -32602"
abbreviation UNAUTHORIZED :: int where "UNAUTHORIZED \<equiv> -32001"
abbreviation FORBIDDEN :: int where "FORBIDDEN \<equiv> -32002"
abbreviation RATE_LIMITED :: int where "RATE_LIMITED \<equiv> -32003"
abbreviation UPSTREAM_UNAVAILABLE :: int where "UPSTREAM_UNAVAILABLE \<equiv> -32004"
abbreviation INTERNAL_ERROR :: int where "INTERNAL_ERROR \<equiv> -32603"

text \<open>The id is \<^const>\<open>JNull\<close> for a notification.\<close>

record JsonRpcRequest =
  rpc_method :: jsstr
  rpc_id :: json
  rpc_params :: "(jsstr \<times> json) list option"

definition code_text :: "int \<Rightarrow> jsstr \<Rightarrow> jsstr" where
  "code_text code msg = ''code='' @ int_str code @ '' '' @ msg"

text \<open>Absent keys read as \<open>None\<close>, like null.\<close>

definition py_get :: "jsstr \<Rightarrow> (jsstr \<times> json) list \<Rightarrow> json" where
  "py_get k kvs = nullish (map_of kvs k) JNull"

definition valid_id :: "json \<Rightarrow> bool" where
  "valid_id v = (case v of JNull \<Rightarrow> True | JNum _ \<Rightarrow> True | JStr _ \<Rightarrow> True | JBool _ \<Rightarrow> True | _ \<Rightarrow> False)"

text \<open>
  \<open>parse_request\<close> on the decoded body, \<^const>\<open>None\<close> where \<open>json.loads\<close> raises; the left result is the text of
  the \<open>ValueError\<close>. A Python boolean is an integer.
\<close>

definition parse_request :: "json option \<Rightarrow> jsstr + JsonRpcRequest" where
  "parse_request data =
     (case data of
        None \<Rightarrow> Inl (code_text PARSE_ERROR ''Parse error'')
      | Some (JObj kvs) \<Rightarrow>
          if py_get ''jsonrpc'' kvs \<noteq> JStr ''2.0'' then
            Inl (code_text INVALID_REQUEST
              (''Invalid or missing '' @ [CHR 0x27] @ ''jsonrpc'' @ [CHR 0x27] @ '' field; must be '' @ [CHR 0x27] @ ''2.0'' @ [CHR 0x27]))
          else (case py_get ''method'' kvs of
             JStr method \<Rightarrow>
               if method = [] then
                 Inl (code_text INVALID_REQUEST (''Invalid or missing '' @ [CHR 0x27] @ ''method'' @ [CHR 0x27] @ '' field''))
               else if method \<notin> set SUPPORTED_METHODS then
                 Inl (code_text METHOD_NOT_FOUND (''Method '' @ [CHR 0x27] @ method @ [CHR 0x27] @ '' is not supported''))
               else if \<not> valid_id (py_get ''id'' kvs) then
                 Inl (code_text INVALID_REQUEST ([CHR 0x27] @ ''id'' @ [CHR 0x27] @ '' must be a string, integer, or null''))
               else (case py_get ''params'' kvs of
                  JNull \<Rightarrow> Inr \<lparr>rpc_method = method, rpc_id = py_get ''id'' kvs, rpc_params = None\<rparr>
                | JObj ps \<Rightarrow> Inr \<lparr>rpc_method = method, rpc_id = py_get ''id'' kvs, rpc_params = Some ps\<rparr>
                | _ \<Rightarrow> Inl (code_text INVALID_REQUEST ([CHR 0x27] @ ''params'' @ [CHR 0x27] @ '' must be an object or null'')))
           | _ \<Rightarrow> Inl (code_text INVALID_REQUEST (''Invalid or missing '' @ [CHR 0x27] @ ''method'' @ [CHR 0x27] @ '' field'')))
      | Some _ \<Rightarrow> Inl (code_text INVALID_REQUEST ''Request must be a JSON object''))"

definition make_error :: "json \<Rightarrow> int \<Rightarrow> jsstr \<Rightarrow> json" where
  "make_error i code message =
     JObj [(''jsonrpc'', JStr ''2.0''), (''id'', i), (''error'', JObj [(''code'', JNum code), (''message'', JStr message)])]"

section \<open>Headers sent upstream\<close>

type_synonym headers = "(jsstr \<times> jsstr) list"

definition STRIP_FROM_CLIENT :: "jsstr list" where
  "STRIP_FROM_CLIENT =
     [''authorization'', ''cookie'', ''set-cookie'', ''connection'', ''keep-alive'', ''proxy-authenticate'', ''proxy-authorization'',
      ''te'', ''trailers'', ''transfer-encoding'', ''upgrade'', ''host'']"

definition build_upstream_headers :: "headers \<Rightarrow> jsstr option \<Rightarrow> headers" where
  "build_upstream_headers client_headers service_token =
     (let result = filter (\<lambda>(k, v). to_lower k \<notin> set STRIP_FROM_CLIENT) client_headers in
      case service_token of None \<Rightarrow> result | Some t \<Rightarrow> assoc_set ''Authorization'' (''Bearer '' @ t) result)"

definition TOKEN_VAR_PREFIX :: jsstr where
  "TOKEN_VAR_PREFIX = ''PORTCULLIS_UPSTREAM_TOKEN_''"

definition token_var_char :: "char \<Rightarrow> bool" where
  "token_var_char c \<longleftrightarrow> c \<in> set ''ABCDEFGHIJKLMNOPQRSTUVWXYZ0123456789_''"

definition token_var_ok :: "jsstr \<Rightarrow> bool" where
  "token_var_ok v \<longleftrightarrow>
     prefix TOKEN_VAR_PREFIX v \<and>
     (let rest = drop (length TOKEN_VAR_PREFIX) v in 1 \<le> length rest \<and> length rest \<le> 64 \<and> list_all token_var_char rest)"

text \<open>\<open>environ\<close> is the environment of the process.\<close>

definition extract_service_token :: "(jsstr \<Rightarrow> jsstr option) \<Rightarrow> jsstr option \<Rightarrow> jsstr option" where
  "extract_service_token environ var =
     (case var of
        None \<Rightarrow> None
      | Some v \<Rightarrow> if v = [] \<or> \<not> token_var_ok v then None else or_absent (nullish (environ v) []))"

section \<open>Sessions\<close>

record owner =
  ow_tenant :: jsstr
  ow_subject :: jsstr
  ow_server :: jsstr

definition SESSION_TTL_SECONDS :: int where
  "SESSION_TTL_SECONDS = 3600"

definition session_key :: "jsstr \<Rightarrow> jsstr" where
  "session_key session_id = ''mcp-session:'' @ session_id"

definition session_char :: "char \<Rightarrow> bool" where
  "session_char c \<longleftrightarrow> c \<in> set ''ABCDEFGHIJKLMNOPQRSTUVWXYZabcdefghijklmnopqrstuvwxyz0123456789-_''"

definition is_valid_session_id :: "jsstr \<Rightarrow> bool" where
  "is_valid_session_id s \<longleftrightarrow> 8 \<le> length s \<and> length s \<le> 128 \<and> list_all session_char s"

definition session_value :: "owner \<Rightarrow> redis_value" where
  "session_value ow = RSession (ow_tenant ow) (ow_subject ow) (ow_server ow)"

text \<open>\<open>up\<close> tells whether the store answers; \<open>record\<close> raises when it does not (left).\<close>

definition session_record :: "bool \<Rightarrow> secs \<Rightarrow> jsstr \<Rightarrow> owner \<Rightarrow> redis \<Rightarrow> redis_error + redis" where
  "session_record up now i ow db =
     (if \<not> is_valid_session_id i then Inr db
      else if \<not> up then Inl Unreachable
      else Inr (put now SESSION_TTL_SECONDS (session_key i) (session_value ow) db))"

text \<open>
  Reading the id and extending its life are two commands. When the first fails, or the value is not a
  session, there is no session; when the second fails the error leaves \<open>lookup\<close>, which only catches the
  errors of decoding there.
\<close>

definition session_lookup :: "bool \<Rightarrow> bool \<Rightarrow> secs \<Rightarrow> jsstr \<Rightarrow> redis \<Rightarrow> redis_error + owner option \<times> redis" where
  "session_lookup get_up expire_up now i db =
     (if \<not> get_up then Inr (None, db)
      else case live now db (session_key i) of
             Some (RSession t s v) \<Rightarrow>
               if expire_up
               then Inr (Some \<lparr>ow_tenant = t, ow_subject = s, ow_server = v\<rparr>, put now SESSION_TTL_SECONDS (session_key i) (RSession t s v) db)
               else Inl Unreachable
           | _ \<Rightarrow> Inr (None, db))"

definition session_delete :: "bool \<Rightarrow> jsstr \<Rightarrow> redis \<Rightarrow> redis" where
  "session_delete up i db = (if up then del (session_key i) db else db)"

definition session_matches :: "owner option \<Rightarrow> owner \<Rightarrow> bool" where
  "session_matches rec ow = (rec = Some ow)"

text \<open>\<open>SET NX\<close>, then a lookup of the existing record.\<close>

definition claim_or_validate :: "bool \<Rightarrow> bool \<Rightarrow> bool \<Rightarrow> secs \<Rightarrow> jsstr \<Rightarrow> owner \<Rightarrow> redis \<Rightarrow> redis_error + bool \<times> redis" where
  "claim_or_validate set_up get_up expire_up now i ow db =
     (if \<not> is_valid_session_id i \<or> \<not> set_up then Inr (False, db)
      else if live now db (session_key i) = None
      then Inr (True, put now SESSION_TTL_SECONDS (session_key i) (session_value ow) db)
      else map_sum id (\<lambda>(rec, db'). (session_matches rec ow, db')) (session_lookup get_up expire_up now i db))"

section \<open>Origins\<close>

datatype environment = DEVELOPMENT | STAGING | PRODUCTION

text \<open>\<^const>\<open>None\<close> is a call of the next handler, otherwise the status of the refusal.\<close>

definition origin_dispatch :: "environment \<Rightarrow> jsstr list \<Rightarrow> jsstr \<Rightarrow> jsstr option \<Rightarrow> nat option" where
  "origin_dispatch env allowed_origins path origin =
     (if \<not> prefix ''/mcp/'' path then None
      else if env \<notin> {PRODUCTION, STAGING} then None
      else case origin of
             None \<Rightarrow> None
           | Some og \<Rightarrow> if og = [] then None else if og \<notin> set allowed_origins then Some 403 else None)"

section \<open>Upstream addresses\<close>

text \<open>
  Python's \<open>urlparse\<close>, as far as it is used: the scheme, the network location, its host name and the
  fragment. A scheme starts with a letter; the location runs to the next slash, question mark or number
  sign.
\<close>

definition scheme_char :: "char \<Rightarrow> bool" where
  "scheme_char c \<longleftrightarrow> c \<in> set ''abcdefghijklmnopqrstuvwxyzABCDEFGHIJKLMNOPQRSTUVWXYZ0123456789+-.''"

definition ascii_letter :: "char \<Rightarrow> bool" where
  "ascii_letter c \<longleftrightarrow> c \<in> set ''abcdefghijklmnopqrstuvwxyzABCDEFGHIJKLMNOPQRSTUVWXYZ''"

record parsed_url =
  pu_scheme :: jsstr
  pu_netloc :: jsstr
  pu_fragment :: jsstr

definition urlparse :: "jsstr \<Rightarrow> parsed_url" where
  "urlparse raw =
     (let url = filter (\<lambda>c. c \<notin> {CHR 0x09, newline, CHR 0x0D}) (dropWhile (\<lambda>c. of_char c \<le> (32 :: nat)) raw);
          sch = (case index_of (CHR '':'') url of
                   Some i \<Rightarrow> if 0 < i \<and> ascii_letter (url ! 0) \<and> list_all scheme_char (take i url) then i else 0
                 | None \<Rightarrow> 0);
          rest = (if sch = 0 then url else drop (Suc sch) url);
          netloc = (if prefix ''//'' rest then takeWhile (\<lambda>c. c \<notin> {CHR ''/'', CHR ''?'', CHR ''#''}) (drop 2 rest) else []);
          tail = (if prefix ''//'' rest then dropWhile (\<lambda>c. c \<notin> {CHR ''/'', CHR ''?'', CHR ''#''}) (drop 2 rest) else rest)
      in \<lparr>pu_scheme = to_lower (take sch url), pu_netloc = netloc,
          pu_fragment = (case index_of (CHR ''#'') tail of Some i \<Rightarrow> drop (Suc i) tail | None \<Rightarrow> [])\<rparr>)"

text \<open>The host of a location without credentials: before the port, or between brackets.\<close>

definition netloc_host :: "jsstr \<Rightarrow> jsstr" where
  "netloc_host n =
     (let h = (case index_of (CHR ''@'') (rev n) of Some i \<Rightarrow> drop (length n - i) n | None \<Rightarrow> n) in
      to_lower (case index_of (CHR ''['') h of
                  Some i \<Rightarrow> takeWhile (\<lambda>c. c \<noteq> CHR '']'') (drop (Suc i) h)
                | None \<Rightarrow> takeWhile (\<lambda>c. c \<noteq> CHR '':'') h))"

text \<open>The result tells whether the address is accepted; \<open>ValueError\<close> is false.\<close>

definition validate_upstream_url :: "jsstr \<Rightarrow> jsstr list \<Rightarrow> environment \<Rightarrow> bool" where
  "validate_upstream_url url allowed_hosts env =
     (let p = urlparse url; scheme = to_lower (pu_scheme p) in
      if pu_fragment p \<noteq> [] then False
      else if CHR ''@'' \<in> set (pu_netloc p) then False
      else if env \<in> {PRODUCTION, STAGING} \<and> scheme \<noteq> ''https'' then False
      else if env \<notin> {PRODUCTION, STAGING} \<and> scheme \<notin> {''http'', ''https''} then False
      else list_ex (\<lambda>h. to_lower (netloc_host (pu_netloc p)) = to_lower h) allowed_hosts)"

section \<open>What the registry promises\<close>

text \<open>
  A registry of ids with owners: claiming gives an id to an owner, touching changes no owner, dropping
  forgets one id. A client that only claims free or own ids and only drops own ones never disturbs
  another owner.
\<close>

locale owner_registry =
  fixes view :: "'d \<Rightarrow> 'i \<Rightarrow> 'o option"
    and claim :: "'i \<Rightarrow> 'o \<Rightarrow> 'd \<Rightarrow> 'd"
    and touch :: "'i \<Rightarrow> 'd \<Rightarrow> 'd"
    and forget :: "'i \<Rightarrow> 'd \<Rightarrow> 'd"
  assumes view_claim: "view (claim i ow d) j = (if j = i then Some ow else view d j)"
    and view_touch: "view (touch i d) j = view d j"
    and view_forget: "view (forget i d) j = (if j = i then None else view d j)"
begin

lemma claim_keeps_others:
  "view d j = Some other \<Longrightarrow> other \<noteq> ow \<Longrightarrow> view d i = None \<or> view d i = Some ow \<Longrightarrow> view (claim i ow d) j = Some other"
  by (auto simp: view_claim)

lemma forget_keeps_others:
  "view d j = Some other \<Longrightarrow> other \<noteq> ow \<Longrightarrow> view d i = Some ow \<Longrightarrow> view (forget i d) j = Some other"
  by (auto simp: view_forget)

end

definition session_owner :: "secs \<Rightarrow> redis \<Rightarrow> jsstr \<Rightarrow> owner option" where
  "session_owner now db i =
     (case live now db (session_key i) of
        Some (RSession t s v) \<Rightarrow> Some \<lparr>ow_tenant = t, ow_subject = s, ow_server = v\<rparr>
      | _ \<Rightarrow> None)"

lemma session_key_inj [simp]: "session_key i = session_key j \<longleftrightarrow> i = j"
  by (simp add: session_key_def)

lemma live_session_put: "live now (put now SESSION_TTL_SECONDS k v db) k = Some v"
  by (simp add: live_put SESSION_TTL_SECONDS_def)

lemma session_owner_put:
  "session_owner now (put now SESSION_TTL_SECONDS (session_key i) (session_value ow) db) j =
     (if j = i then Some ow else session_owner now db j)"
  by (cases "j = i") (simp_all add: session_owner_def live_session_put live_put_other session_value_def)

lemma session_lookup_cases:
  assumes "session_lookup g e now i db = Inr (rec, db')"
  shows "db' = db \<or> (\<exists>ow. session_owner now db i = Some ow \<and> db' = put now SESSION_TTL_SECONDS (session_key i) (session_value ow) db)"
    and "rec = (if g then session_owner now db i else None)"
  using assms by (auto simp: session_lookup_def session_owner_def session_value_def split: if_splits option.splits redis_value.splits)

lemma session_owner_lookup:
  "session_lookup g e now i db = Inr (rec, db') \<Longrightarrow> session_owner now db' j = session_owner now db j"
  using session_lookup_cases(1) [of g e now i db rec db'] by (auto simp: session_owner_put)

lemma session_owner_del: "session_owner now (del (session_key i) db) j = (if j = i then None else session_owner now db j)"
  by (cases "j = i") (simp_all add: session_owner_def live_del)

definition session_touch :: "bool \<Rightarrow> bool \<Rightarrow> secs \<Rightarrow> jsstr \<Rightarrow> redis \<Rightarrow> redis" where
  "session_touch g e now i db = (case session_lookup g e now i db of Inl _ \<Rightarrow> db | Inr (_, db') \<Rightarrow> db')"

lemma session_owner_touch: "session_owner now (session_touch g e now i db) j = session_owner now db j"
  by (auto simp: session_touch_def session_owner_lookup split: sum.split)

interpretation sessions: owner_registry "session_owner now"
  "\<lambda>i ow. put now SESSION_TTL_SECONDS (session_key i) (session_value ow)"
  "session_touch g e now" "\<lambda>i. del (session_key i)" for now g e
  by unfold_locales (rule session_owner_put session_owner_touch session_owner_del)+

section \<open>Properties\<close>



lemma claim_on_owned:
  assumes "session_owner now db i = Some ow" and "claim_or_validate u g e now i ow' db = Inr (ok, db')"
  shows "session_owner now db' i = Some ow" and "ok \<Longrightarrow> ow' = ow"
proof -
  have "live now db (session_key i) \<noteq> None" using assms(1) by (auto simp: session_owner_def split: option.splits)
  with assms(2) consider "\<not> ok" "db' = db"
    | rec where "session_lookup g e now i db = Inr (rec, db')" "ok = session_matches rec ow'"
    by (cases "session_lookup g e now i db") (auto simp: claim_or_validate_def split: if_splits)
  then have "session_owner now db' i = Some ow \<and> (ok \<longrightarrow> ow' = ow)"
  proof cases
    case 1
    then show ?thesis using assms(1) by simp
  next
    case 2
    from session_lookup_cases(2) [OF 2(1)] session_owner_lookup [OF 2(1)] 2(2) assms(1)
    show ?thesis by (auto simp: session_matches_def split: if_splits)
  qed
  then show "session_owner now db' i = Some ow" and "ok \<Longrightarrow> ow' = ow" by auto
qed

lemma claim_by_owner:
  assumes "session_owner now db i = Some ow" and "is_valid_session_id i"
  shows "\<exists>db'. claim_or_validate True True True now i ow db = Inr (True, db')"
  using assms
  by (auto simp: claim_or_validate_def session_lookup_def session_owner_def session_matches_def split: option.splits redis_value.splits)

lemma claim_succeeds:
  assumes "claim_or_validate u g e now i ow db = Inr (True, db')"
  shows "is_valid_session_id i" and "session_owner now db' i = Some ow"
proof -
  show "is_valid_session_id i" using assms by (auto simp: claim_or_validate_def split: if_splits)
  show "session_owner now db' i = Some ow"
  proof (cases "live now db (session_key i) = None")
    case True
    then show ?thesis using assms by (auto simp: claim_or_validate_def session_owner_put split: if_splits)
  next
    case False
    with assms obtain rec where l: "session_lookup g e now i db = Inr (rec, db')" "session_matches rec ow"
      by (cases "session_lookup g e now i db") (auto simp: claim_or_validate_def split: if_splits)
    from session_lookup_cases(2) [OF l(1)] session_owner_lookup [OF l(1)] l(2) show ?thesis
      by (auto simp: session_matches_def split: if_splits)
  qed
qed

text \<open>
  A claimed session cannot be taken over: after any successful claim, as long as the session lives,
  a claim of the same id by another owner that returns is refused and leaves the owner, whichever of its
  commands the store answers, and the first owner's next claim is confirmed once the store answers.
\<close>

lemma session_not_stolen:
  assumes "claim_or_validate u g e now i ow db = Inr (True, db1)" and "ow' \<noteq> ow"
    and "claim_or_validate u' g' e' now i ow' db1 = Inr (ok, db2)"
  shows "\<not> ok \<and> session_owner now db2 i = Some ow \<and> (\<exists>db3. claim_or_validate True True True now i ow db2 = Inr (True, db3))"
  using claim_on_owned [OF claim_succeeds(2) [OF assms(1)] assms(3)] assms(2)
    claim_by_owner [OF _ claim_succeeds(1) [OF assms(1)]] by blast

end
