(* ===== verification/Gateway_Router.thy ===== *)
theory Gateway_Router
  imports Gateway_Limiter Gateway_Auth Gateway_Protocol
begin

text \<open>
  The proxy pipeline of the gateway, \<open>api/app/gateway/router.py\<close>, with the queries of the repositories it
  uses and the usage cap of \<open>api/app/usage.py\<close>: a request is bounded and parsed, limited by address,
  authenticated, resolved to a server, checked against its session and the permissions, limited, metered
  and forwarded, and the answer is filtered.

  The handlers are functions of an environment (settings, tables, clock, the outside functions) and a
  world (Redis, the audit and usage records, what was sent upstream), with early returns as the left
  values of a sum. A request is served at one instant, and the database answers. Metrics, logs and the
  free-form detail of audit events are not modelled; audit and usage writes never raise. Header names are
  in lower case, as the framework gives them, and header values are ASCII.
\<close>

section \<open>Environment\<close>

record Settings =
  st_environment :: environment
  st_max_request_body_bytes :: nat
  st_max_response_body_bytes :: nat
  st_auth_rate_limit_default :: jsstr
  st_rate_limit_default :: jsstr
  st_upstream_hosts :: "jsstr list"
  st_usage_enforcement_enabled :: bool
  st_cap_pro :: int
  st_cap_enterprise :: int
  st_cap_community :: int

datatype ServerStatus = ACTIVE | DISABLED | UNHEALTHY
datatype ServerAuthMode = NONE | SERVICE_TOKEN

record McpServer =
  ms_tenant_id :: jsstr
  ms_slug :: jsstr
  ms_upstream_url :: jsstr
  ms_status :: ServerStatus
  ms_auth_mode :: ServerAuthMode
  ms_service_token_env_var :: "jsstr option"

record tables =
  tb_servers :: "McpServer list"
  tb_roles :: "(jsstr \<times> jsstr) list"
  tb_bindings :: "(jsstr \<times> subject_kind \<times> jsstr) list"
  tb_permissions :: "(jsstr \<times> ToolPermission) list"
  tb_policies :: "(jsstr \<times> RateLimitPolicy) list"
  tb_plans :: "(jsstr \<times> jsstr) list"
  tb_month_calls :: "(jsstr \<times> int) list"

record http_request =
  hr_headers :: headers
  hr_body :: jsstr
  hr_method :: jsstr
  hr_dry_run :: "jsstr option"
  hr_client_ip :: jsstr
  hr_request_id :: "jsstr option"

datatype body = NoBody | RawBody jsstr | JsonBody json | StreamBody jsstr

record http_response =
  rs_status :: nat
  rs_headers :: headers
  rs_body :: body

record upstream_request =
  uq_url :: jsstr
  uq_method :: jsstr
  uq_headers :: headers
  uq_body :: jsstr
  uq_stream :: bool

record upstream_response =
  us_status :: nat
  us_headers :: headers
  us_content :: jsstr

text \<open>
  The outside: whether Redis answers a command, the two members the window script makes up, the JSON
  decoder, Python's \<open>str\<close>, the authentication, the HTTP client with its TLS set-up, the process
  environment and the plugins before authentication. The client fails with an \<open>UpstreamError\<close> or with
  another exception.
\<close>

datatype upstream_failure = UpstreamError | OtherException

record gateway =
  gw_settings :: Settings
  gw_tables :: tables
  gw_now :: secs
  gw_member_pre :: jsstr
  gw_member :: jsstr
  gw_up :: "jsstr \<Rightarrow> bool"
  gw_loads :: "jsstr \<Rightarrow> json option"
  gw_str :: "json \<Rightarrow> jsstr"
  gw_authenticate :: "jsstr \<Rightarrow> Subject option"
  gw_upstream :: "upstream_request \<Rightarrow> upstream_failure + upstream_response"
  gw_environ :: "jsstr \<Rightarrow> jsstr option"
  gw_plugin :: "http_request \<Rightarrow> http_response option"

datatype audit_type = AUTH_FAILURE | RBAC_DENY | TOOL_CALL

record audit_event =
  ae_event_type :: audit_type
  ae_outcome :: jsstr
  ae_tenant_id :: "jsstr option"
  ae_subject_id :: "jsstr option"
  ae_subject_type :: "subject_kind option"
  ae_server_slug :: jsstr
  ae_client_ip :: jsstr
  ae_request_id :: "jsstr option"
  ae_tool_name :: "jsstr option"
  ae_rpc_method :: "jsstr option"

datatype usage_event = UsageRequest jsstr bool | UsageDenial jsstr | UsageRejection jsstr

record world =
  wd_redis :: redis
  wd_audit :: "audit_event list"
  wd_usage :: "usage_event list"
  wd_sent :: "upstream_request list"

section \<open>Early returns\<close>

type_synonym 'a handler = "world \<Rightarrow> (http_response + 'a) \<times> world"

definition ret :: "'a \<Rightarrow> 'a handler" where
  "ret x = (\<lambda>w. (Inr x, w))"

definition stop :: "http_response \<Rightarrow> 'a handler" where
  "stop r = (\<lambda>w. (Inl r, w))"

definition and_then :: "'a handler \<Rightarrow> ('a \<Rightarrow> 'b handler) \<Rightarrow> 'b handler" where
  "and_then m f = (\<lambda>w. case m w of (Inl r, w') \<Rightarrow> (Inl r, w') | (Inr x, w') \<Rightarrow> f x w')"

section \<open>Queries\<close>

fun kind_str :: "subject_kind \<Rightarrow> jsstr" where
  "kind_str API_KEY = ''api_key''"
| "kind_str OAUTH_SUBJECT = ''oauth_subject''"

definition get_permissions_for_subject :: "tables \<Rightarrow> jsstr \<Rightarrow> subject_kind \<Rightarrow> jsstr \<Rightarrow> ToolPermission list" where
  "get_permissions_for_subject db tenant_id stype sid =
     concat (map (\<lambda>(rid, p).
       concat (map (\<lambda>(r, t).
         if r = rid \<and> t = tenant_id
         then map (\<lambda>_. p) (filter (\<lambda>(b, bt, bs). b = rid \<and> bt = stype \<and> bs = sid) (tb_bindings db)) else [])
         (tb_roles db))) (tb_permissions db))"

definition get_by_slug :: "tables \<Rightarrow> jsstr \<Rightarrow> jsstr \<Rightarrow> McpServer option" where
  "get_by_slug db tenant_id slug = find (\<lambda>s. ms_tenant_id s = tenant_id \<and> ms_slug s = slug) (tb_servers db)"

definition list_policies :: "tables \<Rightarrow> jsstr \<Rightarrow> RateLimitPolicy list" where
  "list_policies db tenant_id = map snd (filter (\<lambda>(t, p). t = tenant_id) (tb_policies db))"

definition monthly_cap :: "jsstr option \<Rightarrow> Settings \<Rightarrow> int" where
  "monthly_cap plan st =
     (case plan of
        None \<Rightarrow> 0
      | Some p \<Rightarrow> if p = ''pro'' then st_cap_pro st else if p = ''enterprise'' then st_cap_enterprise st else st_cap_community st)"

definition check_usage_cap :: "tables \<Rightarrow> jsstr \<Rightarrow> Settings \<Rightarrow> bool" where
  "check_usage_cap db tenant_id st =
     (if \<not> st_usage_enforcement_enabled st then True
      else let cap = monthly_cap (map_of (tb_plans db) tenant_id) st in
           if cap \<le> 0 then True else nullish (map_of (tb_month_calls db) tenant_id) 0 < cap)"

section \<open>Responses\<close>

definition dict_update :: "headers \<Rightarrow> headers \<Rightarrow> headers" where
  "dict_update hs extra = fold (\<lambda>(k, v) acc. assoc_set k v acc) extra hs"

definition with_request_id :: "http_request \<Rightarrow> headers \<Rightarrow> headers" where
  "with_request_id req hs = (if truthy (hr_request_id req) then assoc_set ''X-Request-Id'' (the (hr_request_id req)) hs else hs)"

definition json_error :: "http_request \<Rightarrow> nat \<Rightarrow> json \<Rightarrow> int \<Rightarrow> jsstr \<Rightarrow> headers \<Rightarrow> http_response" where
  "json_error req status i code message extra =
     \<lparr>rs_status = status, rs_headers = dict_update (with_request_id req []) extra, rs_body = JsonBody (make_error i code message)\<rparr>"

text \<open>The answer of the handlers' last \<open>except\<close>.\<close>

definition raise :: "http_request \<Rightarrow> json \<Rightarrow> http_response" where
  "raise req i = json_error req 500 i INTERNAL_ERROR ''Internal server error'' []"

definition py_trunc :: "secs \<Rightarrow> int" where
  "py_trunc x = (if x \<ge> 0 then \<lfloor>x\<rfloor> else \<lceil>x\<rceil>)"

definition rate_limit_headers :: "RateLimitResult \<Rightarrow> headers" where
  "rate_limit_headers r =
     [(''RateLimit-Limit'', int_str (rr_limit r)), (''RateLimit-Remaining'', int_str (rr_remaining r)),
      (''RateLimit-Reset'', int_str (py_trunc (rr_reset_after_seconds r)))]"

definition retry_headers :: "RateLimitResult \<Rightarrow> headers" where
  "retry_headers r = assoc_set ''Retry-After'' (int_str (py_trunc (rr_retry_after_seconds r))) (rate_limit_headers r)"

definition header :: "jsstr \<Rightarrow> http_request \<Rightarrow> jsstr" where
  "header k req = nullish (map_of (hr_headers req) k) []"

text \<open>The arguments of \<open>record_event\<close>, \<open>detail\<close> apart.\<close>

definition audit_of ::
  "http_request \<Rightarrow> jsstr \<Rightarrow> audit_type \<Rightarrow> jsstr \<Rightarrow> Subject option \<Rightarrow> jsstr option \<Rightarrow> jsstr option \<Rightarrow> audit_event" where
  "audit_of req slug kind outcome subject tool method =
     \<lparr>ae_event_type = kind, ae_outcome = outcome, ae_tenant_id = map_option sj_tenant_id subject,
      ae_subject_id = map_option sj_subject_id subject, ae_subject_type = map_option sj_subject_type subject,
      ae_server_slug = slug, ae_client_ip = hr_client_ip req, ae_request_id = hr_request_id req,
      ae_tool_name = tool, ae_rpc_method = method\<rparr>"

definition audit :: "audit_event \<Rightarrow> world \<Rightarrow> world" where
  "audit e w = w\<lparr>wd_audit := wd_audit w @ [e]\<rparr>"

definition usage :: "usage_event \<Rightarrow> world \<Rightarrow> world" where
  "usage e w = w\<lparr>wd_usage := wd_usage w @ [e]\<rparr>"

section \<open>Checks\<close>

text \<open>Python's \<open>str.strip\<close>, on characters below 256.\<close>

definition py_space :: "char \<Rightarrow> bool" where
  "py_space c \<longleftrightarrow>
     c \<in> {CHR 0x09, CHR 0x0A, CHR 0x0B, CHR 0x0C, CHR 0x0D, CHR 0x1C, CHR 0x1D, CHR 0x1E, CHR 0x1F, CHR '' '', CHR 0x85, CHR 0xA0}"

definition py_strip :: "jsstr \<Rightarrow> jsstr" where
  "py_strip s = rev (dropWhile py_space (rev (dropWhile py_space s)))"

definition bearer_token :: "http_request \<Rightarrow> jsstr" where
  "bearer_token req =
     (let a = header ''authorization'' req in py_strip (if prefix ''Bearer '' a then drop 7 a else a))"

definition run_pre_auth_checks :: "gateway \<Rightarrow> http_request \<Rightarrow> jsstr \<Rightarrow> json \<Rightarrow> Subject handler" where
  "run_pre_auth_checks gw req slug i w =
     (case parse_default (st_auth_rate_limit_default (gw_settings gw)) of
        None \<Rightarrow> (Inl (raise req i), w)
      | Some (limit, window) \<Rightarrow>
          (case (if gw_up gw ''pre_auth''
                 then check_pre_auth_limit (hr_client_ip req) limit window (gw_now gw) (gw_member_pre gw) (wd_redis w)
                 else Inl Unreachable) of
             Inl _ \<Rightarrow> (Inl (json_error req 503 i INTERNAL_ERROR ''Rate limit backend unavailable'' []), w)
           | Inr (res, db) \<Rightarrow>
               let w' = w\<lparr>wd_redis := db\<rparr> in
               if \<not> rr_allowed res
               then (Inl (json_error req 429 i RATE_LIMITED ''Pre-auth rate limit exceeded'' (retry_headers res)), w')
               else if bearer_token req = []
               then (Inl (json_error req 401 i UNAUTHORIZED ''Invalid or missing credentials'' []), w')
               else (case gw_authenticate gw (bearer_token req) of
                  None \<Rightarrow>
                    (Inl (json_error req 401 i UNAUTHORIZED ''Invalid or missing credentials'' []),
                     audit (audit_of req slug AUTH_FAILURE ''denied'' None None None) w')
                | Some subject \<Rightarrow> (Inr subject, w'))))"

definition quoted :: "jsstr \<Rightarrow> jsstr" where
  "quoted s = [CHR 0x27] @ s @ [CHR 0x27]"

definition resolve_server :: "gateway \<Rightarrow> http_request \<Rightarrow> jsstr \<Rightarrow> json \<Rightarrow> Subject \<Rightarrow> McpServer handler" where
  "resolve_server gw req slug i subject =
     (case get_by_slug (gw_tables gw) (sj_tenant_id subject) slug of
        None \<Rightarrow> stop (json_error req 404 i METHOD_NOT_FOUND (''Server '' @ quoted slug @ '' not found'') [])
      | Some server \<Rightarrow>
          if \<not> validate_upstream_url (ms_upstream_url server) (st_upstream_hosts (gw_settings gw)) (st_environment (gw_settings gw))
          then stop (json_error req 502 i UPSTREAM_UNAVAILABLE (''Server '' @ quoted slug @ '' upstream no longer allowed'') [])
          else (case ms_status server of
             DISABLED \<Rightarrow> stop (json_error req 503 i UPSTREAM_UNAVAILABLE (''Server '' @ quoted slug @ '' is disabled'') [])
           | UNHEALTHY \<Rightarrow> stop (json_error req 503 i UPSTREAM_UNAVAILABLE (''Server '' @ quoted slug @ '' is unhealthy'') [])
           | ACTIVE \<Rightarrow> ret server))"

definition caller :: "Subject \<Rightarrow> jsstr \<Rightarrow> owner" where
  "caller subject slug = \<lparr>ow_tenant = sj_tenant_id subject, ow_subject = sj_subject_id subject, ow_server = slug\<rparr>"

definition validate_session :: "gateway \<Rightarrow> http_request \<Rightarrow> jsstr \<Rightarrow> json \<Rightarrow> Subject \<Rightarrow> unit handler" where
  "validate_session gw req slug i subject w =
     (let inbound = header ''mcp-session-id'' req in
      if inbound = [] then (Inr (), w)
      else if \<not> is_valid_session_id inbound then (Inl (json_error req 400 i INVALID_PARAMS ''Invalid Mcp-Session-Id'' []), w)
      else case session_lookup (gw_up gw ''validate/get'') (gw_up gw ''validate/expire'') (gw_now gw) inbound (wd_redis w) of
             Inl _ \<Rightarrow> (Inl (json_error req 503 i INTERNAL_ERROR ''Session backend unavailable'' []), w)
           | Inr (rec, db) \<Rightarrow>
               let w' = w\<lparr>wd_redis := db\<rparr> in
               (case rec of
                  None \<Rightarrow> (Inl (json_error req 404 i INVALID_PARAMS ''Session not found'' []), w')
                | Some _ \<Rightarrow>
                    if \<not> session_matches rec (caller subject slug)
                    then (Inl (json_error req 403 i FORBIDDEN ''Session does not belong to caller'' []), w')
                    else (Inr (), w')))"

definition check_rate_limit :: "gateway \<Rightarrow> http_request \<Rightarrow> jsstr \<Rightarrow> json \<Rightarrow> Subject \<Rightarrow> jsstr \<Rightarrow> headers handler" where
  "check_rate_limit gw req slug i subject tool w =
     (case resolve_policy (Some (sj_subject_id subject)) (Some (kind_str (sj_subject_type subject))) (Some slug) (Some tool)
             (list_policies (gw_tables gw) (sj_tenant_id subject)) (st_rate_limit_default (gw_settings gw)) of
        None \<Rightarrow> (Inl (raise req i), w)
      | Some policy \<Rightarrow>
          (case (if gw_up gw ''limit''
                 then limiter_check (sj_tenant_id subject) (sj_subject_id subject) slug tool policy (gw_now gw) (gw_member gw) (wd_redis w)
                 else Inl Unreachable) of
             Inl _ \<Rightarrow> (Inl (json_error req 503 i INTERNAL_ERROR ''Rate limit backend unavailable'' []), w)
           | Inr (res, db) \<Rightarrow>
               let w' = w\<lparr>wd_redis := db\<rparr> in
               if rr_allowed res then (Inr (rate_limit_headers res), w')
               else (Inl (json_error req 429 i RATE_LIMITED ''Rate limit exceeded'' (retry_headers res)),
                     usage (UsageRejection (sj_tenant_id subject)) w')))"

section \<open>Permissions\<close>

definition RBAC_REQUIRED :: "jsstr list" where
  "RBAC_REQUIRED =
     [''tools/call'', ''resources/read'', ''resources/subscribe'', ''resources/unsubscribe'', ''prompts/get'', ''sampling/createMessage'']"

text \<open>The resource a request names, \<^const>\<open>JNull\<close> for none; an empty parameter object counts as none.\<close>

definition resource_name :: "JsonRpcRequest \<Rightarrow> json" where
  "resource_name rpc =
     (let method = rpc_method rpc; params = nullish (rpc_params rpc) [] in
      if params = [] then JNull
      else if method = ''tools/call'' then py_get ''name'' params
      else if method \<in> {''resources/read'', ''resources/subscribe'', ''resources/unsubscribe''} then py_get ''uri'' params
      else if method = ''prompts/get'' then py_get ''name'' params
      else if method = ''sampling/createMessage'' then JStr ''createMessage''
      else JNull)"

text \<open>
  The permission check; it gives the name for the later steps. Matching a name that is not a text raises,
  once a rule's server pattern matches.
\<close>

definition check_rbac :: "gateway \<Rightarrow> http_request \<Rightarrow> jsstr \<Rightarrow> JsonRpcRequest \<Rightarrow> Subject \<Rightarrow> jsstr option handler" where
  "check_rbac gw req slug rpc subject w =
     (let method = rpc_method rpc; i = rpc_id rpc; res = resource_name rpc;
          permissions = get_permissions_for_subject (gw_tables gw) (sj_tenant_id subject) (sj_subject_type subject) (sj_subject_id subject);
          denied = (\<lambda>name.
            (Inl (json_error req 403 i FORBIDDEN (''Resource '' @ quoted name @ '' is not permitted'') []),
             audit (audit_of req slug RBAC_DENY ''denied'' (Some subject) (Some name) (Some method))
               (usage (UsageDenial (sj_tenant_id subject)) w)))
      in if method \<in> set RBAC_REQUIRED then
           (case res of
              JNull \<Rightarrow> (Inl (json_error req 422 i INVALID_PARAMS (method @ '' requires resource identifier'') []), w)
            | JStr name \<Rightarrow> if pd_allowed (evaluate_permission slug name permissions) then (Inr (Some name), w) else denied name
            | v \<Rightarrow> if list_ex (\<lambda>p. fnmatchcase slug (tp_server_pattern p)) permissions then (Inl (raise req i), w) else denied (gw_str gw v))
         else (Inr None, w))"

section \<open>Forwarding\<close>

definition build_url :: "jsstr \<Rightarrow> jsstr \<Rightarrow> jsstr" where
  "build_url upstream_url path = rev (dropWhile (\<lambda>c. c = CHR ''/'') (rev upstream_url)) @ path"

definition upstream_headers :: "gateway \<Rightarrow> http_request \<Rightarrow> McpServer \<Rightarrow> headers" where
  "upstream_headers gw req server =
     build_upstream_headers (hr_headers req)
       (extract_service_token (gw_environ gw) (if ms_auth_mode server = SERVICE_TOKEN then ms_service_token_env_var server else None))"

definition forward ::
  "gateway \<Rightarrow> http_request \<Rightarrow> McpServer \<Rightarrow> jsstr \<Rightarrow> jsstr \<Rightarrow> bool \<Rightarrow> json \<Rightarrow> headers \<Rightarrow> upstream_response handler" where
  "forward gw req server method body stream i rl w =
     (let q = \<lparr>uq_url = build_url (ms_upstream_url server) [], uq_method = method, uq_headers = upstream_headers gw req server,
               uq_body = body, uq_stream = stream\<rparr>;
          w' = w\<lparr>wd_sent := wd_sent w @ [q]\<rparr>
      in case gw_upstream gw q of
           Inl UpstreamError \<Rightarrow> (Inl (json_error req 502 i UPSTREAM_UNAVAILABLE ''Upstream server error'' rl), w')
         | Inl OtherException \<Rightarrow> (Inl (raise req i), w')
         | Inr u \<Rightarrow> (Inr u, w'))"

definition tool_audit :: "http_request \<Rightarrow> jsstr \<Rightarrow> Subject \<Rightarrow> jsstr option \<Rightarrow> jsstr \<Rightarrow> world \<Rightarrow> world" where
  "tool_audit req slug subject tool method = audit (audit_of req slug TOOL_CALL ''allowed'' (Some subject) tool (Some method))"

definition us_header :: "jsstr \<Rightarrow> upstream_response \<Rightarrow> jsstr" where
  "us_header k u = nullish (map_of (us_headers u) k) []"

text \<open>Adopting the session id an upstream issued; the response headers with it.\<close>

definition adopt_session ::
  "gateway \<Rightarrow> http_request \<Rightarrow> jsstr \<Rightarrow> json \<Rightarrow> Subject \<Rightarrow> upstream_response \<Rightarrow> headers \<Rightarrow> headers handler" where
  "adopt_session gw req slug i subject u hs w =
     (let sid = us_header ''mcp-session-id'' u; inbound = header ''mcp-session-id'' req in
      if sid = [] \<or> \<not> is_valid_session_id sid then (Inr hs, w)
      else (case session_lookup (gw_up gw ''adopt/get'') (gw_up gw ''adopt/expire'') (gw_now gw) sid (wd_redis w) of
         Inl _ \<Rightarrow> (Inl (raise req i), w)
       | Inr (existing, db) \<Rightarrow>
           if existing \<noteq> None \<and> \<not> session_matches existing (caller subject slug)
           then (Inl (json_error req 409 i INVALID_REQUEST ''Session id conflict'' []), w\<lparr>wd_redis := db\<rparr>)
           else (let db' = (if inbound \<noteq> [] \<and> inbound \<noteq> sid then session_delete (gw_up gw ''delete'') inbound db else db) in
             case session_record (gw_up gw ''record'') (gw_now gw) sid (caller subject slug) db' of
               Inl _ \<Rightarrow> (Inl (raise req i), w\<lparr>wd_redis := db'\<rparr>)
             | Inr db'' \<Rightarrow> (Inr (assoc_set ''Mcp-Session-Id'' sid hs), w\<lparr>wd_redis := db''\<rparr>))))"

section \<open>Ending a session\<close>

text \<open>The id is checked once more, and its owner.\<close>

definition check_terminable :: "gateway \<Rightarrow> http_request \<Rightarrow> jsstr \<Rightarrow> json \<Rightarrow> Subject \<Rightarrow> unit handler" where
  "check_terminable gw req slug i subject w =
     (let inbound = header ''mcp-session-id'' req in
      if inbound = [] then (Inl (json_error req 400 i INVALID_PARAMS ''session/terminate requires Mcp-Session-Id header'' []), w)
      else if \<not> is_valid_session_id inbound then (Inl (json_error req 400 i INVALID_PARAMS ''Invalid Mcp-Session-Id'' []), w)
      else (case session_lookup (gw_up gw ''terminate/get'') (gw_up gw ''terminate/expire'') (gw_now gw) inbound (wd_redis w) of
         Inl _ \<Rightarrow> (Inl (raise req i), w)
       | Inr (rec, db) \<Rightarrow>
           let w' = w\<lparr>wd_redis := db\<rparr> in
           (case rec of
              None \<Rightarrow> (Inl (json_error req 404 i INVALID_PARAMS ''Session not found'' []), w')
            | Some _ \<Rightarrow>
                if \<not> session_matches rec (caller subject slug)
                then (Inl (json_error req 403 i FORBIDDEN ''Not authorized to terminate this session'' []), w')
                else (Inr (), w'))))"

definition forget_session :: "gateway \<Rightarrow> http_request \<Rightarrow> unit handler" where
  "forget_session gw req w =
     (Inr (), w\<lparr>wd_redis := session_delete (gw_up gw ''delete'') (header ''mcp-session-id'' req) (wd_redis w)\<rparr>)"

definition terminate_session ::
  "gateway \<Rightarrow> http_request \<Rightarrow> jsstr \<Rightarrow> JsonRpcRequest \<Rightarrow> Subject \<Rightarrow> McpServer \<Rightarrow> http_response handler" where
  "terminate_session gw req slug rpc subject server =
     and_then (check_terminable gw req slug (rpc_id rpc) subject) (\<lambda>_.
     and_then (check_rate_limit gw req slug (rpc_id rpc) subject ''session/terminate'') (\<lambda>rl.
     and_then (forget_session gw req) (\<lambda>_.
     and_then (forward gw req server (hr_method req) (hr_body req) False (rpc_id rpc) rl) (\<lambda>u w.
       (Inr \<lparr>rs_status = us_status u, rs_headers = with_request_id req rl, rs_body = RawBody (us_content u)\<rparr>,
        tool_audit req slug subject (Some ''session/terminate'') (rpc_method rpc) w)))))"

section \<open>Answering\<close>

definition LIST_METHODS :: "jsstr list" where
  "LIST_METHODS = [''tools/list'', ''resources/list'', ''prompts/list'', ''roots/list'']"

definition filter_list :: "jsstr \<Rightarrow> jsstr \<Rightarrow> ToolPermission list \<Rightarrow> (jsstr \<times> json) list \<Rightarrow> (jsstr \<times> json) list option" where
  "filter_list method slug permissions =
     (if method = ''tools/list'' then filter_tools_list slug permissions
      else if method = ''resources/list'' then filter_resources_list slug permissions
      else if method = ''prompts/list'' then filter_prompts_list slug permissions
      else filter_roots_list slug permissions)"

definition too_large :: "gateway \<Rightarrow> upstream_response \<Rightarrow> bool" where
  "too_large gw u =
     (let clen = us_header ''content-length'' u in
      (clen \<noteq> [] \<and> list_all is_digit clen \<and> nat_val 0 clen > st_max_response_body_bytes (gw_settings gw)) \<or>
      length (us_content u) > st_max_response_body_bytes (gw_settings gw))"

definition answer_list ::
  "gateway \<Rightarrow> http_request \<Rightarrow> jsstr \<Rightarrow> JsonRpcRequest \<Rightarrow> Subject \<Rightarrow> upstream_response \<Rightarrow> headers \<Rightarrow> http_response handler" where
  "answer_list gw req slug rpc subject u hs =
     (case gw_loads gw (us_content u) of
        None \<Rightarrow> ret \<lparr>rs_status = us_status u, rs_headers = hs, rs_body = RawBody (us_content u)\<rparr>
      | Some (JObj kvs) \<Rightarrow>
          (case filter_list (rpc_method rpc) slug
                  (get_permissions_for_subject (gw_tables gw) (sj_tenant_id subject) (sj_subject_type subject) (sj_subject_id subject)) kvs of
             None \<Rightarrow> stop (raise req (rpc_id rpc))
           | Some kvs' \<Rightarrow> ret \<lparr>rs_status = us_status u, rs_headers = hs, rs_body = JsonBody (JObj kvs')\<rparr>)
      | Some _ \<Rightarrow> stop (raise req (rpc_id rpc)))"

definition deliver ::
  "gateway \<Rightarrow> http_request \<Rightarrow> jsstr \<Rightarrow> JsonRpcRequest \<Rightarrow> Subject \<Rightarrow> jsstr option \<Rightarrow> bool \<Rightarrow> upstream_response \<Rightarrow> headers \<Rightarrow>
     http_response handler" where
  "deliver gw req slug rpc subject name stream u hs =
     (if prefix ''text/event-stream'' (us_header ''content-type'' u) \<or> stream
      then ret \<lparr>rs_status = us_status u, rs_headers = hs, rs_body = StreamBody (us_content u)\<rparr>
      else if rpc_method rpc \<in> set LIST_METHODS then answer_list gw req slug rpc subject u hs
      else (\<lambda>w.
        (Inr \<lparr>rs_status = us_status u, rs_headers = hs, rs_body = RawBody (us_content u)\<rparr>,
         if rpc_method rpc \<in> {''tools/call'', ''resources/read'', ''prompts/get'', ''sampling/createMessage''} \<and> us_status u < 500
         then tool_audit req slug subject name (rpc_method rpc) w else w)))"

definition answer ::
  "gateway \<Rightarrow> http_request \<Rightarrow> jsstr \<Rightarrow> JsonRpcRequest \<Rightarrow> Subject \<Rightarrow> jsstr option \<Rightarrow> headers \<Rightarrow> bool \<Rightarrow> upstream_response \<Rightarrow>
     http_response handler" where
  "answer gw req slug rpc subject name rl stream u =
     (let i = rpc_id rpc; sid = us_header ''mcp-session-id'' u; inbound = header ''mcp-session-id'' req in
      if i = JNull then
        ret \<lparr>rs_status = 202,
             rs_headers = (let hs = with_request_id req rl in if sid \<noteq> [] \<and> sid \<noteq> inbound then assoc_set ''Mcp-Session-Id'' sid hs else hs),
             rs_body = NoBody\<rparr>
      else if \<not> stream \<and> too_large gw u
      then stop (json_error req 502 i UPSTREAM_UNAVAILABLE ''Upstream response too large'' [])
      else and_then (adopt_session gw req slug i subject u (with_request_id req rl)) (deliver gw req slug rpc subject name stream u))"

section \<open>The handlers\<close>

definition is_dry_run :: "http_request \<Rightarrow> bool" where
  "is_dry_run req \<longleftrightarrow> to_lower (nullish (hr_dry_run req) []) \<in> {''1'', ''true'', ''yes''}"

definition explain :: "http_request \<Rightarrow> jsstr \<Rightarrow> JsonRpcRequest \<Rightarrow> Subject \<Rightarrow> McpServer \<Rightarrow> jsstr option \<Rightarrow> headers \<Rightarrow> http_response" where
  "explain req slug rpc subject server name rl =
     \<lparr>rs_status = 200, rs_headers = assoc_set ''X-Portcullis-Dry-Run'' ''1'' (with_request_id req rl),
      rs_body = JsonBody (JObj [(''jsonrpc'', JStr ''2.0''), (''id'', rpc_id rpc),
        (''result'', JObj [(''allowed'', JBool True), (''server_slug'', JStr slug), (''method'', JStr (rpc_method rpc)),
           (''tool'', case name of None \<Rightarrow> JNull | Some n \<Rightarrow> JStr n), (''subject_type'', JStr (kind_str (sj_subject_type subject))),
           (''rate_limit'', JObj (map (\<lambda>(k, v). (k, JStr v)) rl)), (''upstream_would_forward_to'', JStr (ms_upstream_url server))])])\<rparr>"

definition meter :: "gateway \<Rightarrow> http_request \<Rightarrow> JsonRpcRequest \<Rightarrow> Subject \<Rightarrow> unit handler" where
  "meter gw req rpc subject w =
     (let w' = usage (UsageRequest (sj_tenant_id subject) (rpc_method rpc = ''tools/call'')) w in
      if rpc_method rpc = ''tools/call'' \<and> \<not> check_usage_cap (gw_tables gw) (sj_tenant_id subject) (gw_settings gw)
      then (Inl (json_error req 402 (rpc_id rpc) INVALID_REQUEST ''Monthly usage cap reached for this plan'' []), w')
      else (Inr (), w'))"

text \<open>Who asks, of which server, for what: everything that is checked before a method is served.\<close>

definition admission :: "gateway \<Rightarrow> http_request \<Rightarrow> jsstr \<Rightarrow> JsonRpcRequest \<Rightarrow> (Subject \<times> McpServer \<times> jsstr option) handler" where
  "admission gw req slug rpc =
     and_then (run_pre_auth_checks gw req slug (rpc_id rpc)) (\<lambda>subject.
     and_then (resolve_server gw req slug (rpc_id rpc) subject) (\<lambda>server.
     and_then (validate_session gw req slug (rpc_id rpc) subject) (\<lambda>_.
     and_then (check_rbac gw req slug rpc subject) (\<lambda>name.
     ret (subject, server, name)))))"

definition should_stream :: "http_request \<Rightarrow> bool" where
  "should_stream req = sublist ''text/event-stream'' (header ''accept'' req)"

definition serve :: "gateway \<Rightarrow> http_request \<Rightarrow> jsstr \<Rightarrow> JsonRpcRequest \<Rightarrow> Subject \<Rightarrow> McpServer \<Rightarrow> jsstr option \<Rightarrow> http_response handler" where
  "serve gw req slug rpc subject server name =
     and_then (check_rate_limit gw req slug (rpc_id rpc) subject (str_or (nullish name []) (rpc_method rpc))) (\<lambda>rl.
     if is_dry_run req
     then (\<lambda>w. (Inr (explain req slug rpc subject server name rl), tool_audit req slug subject name (rpc_method rpc) w))
     else
     and_then (meter gw req rpc subject) (\<lambda>_.
     and_then (forward gw req server (hr_method req) (hr_body req) (should_stream req) (rpc_id rpc) rl) (\<lambda>u.
     answer gw req slug rpc subject name rl (should_stream req) u)))"

text \<open>The steps after the request was parsed.\<close>

definition proxy_steps :: "gateway \<Rightarrow> http_request \<Rightarrow> jsstr \<Rightarrow> JsonRpcRequest \<Rightarrow> http_response handler" where
  "proxy_steps gw req slug rpc =
     and_then (admission gw req slug rpc) (\<lambda>(subject, server, name).
     if rpc_method rpc = ''session/terminate'' then terminate_session gw req slug rpc subject server
     else serve gw req slug rpc subject server name)"

definition merge_return :: "(http_response + http_response) \<times> world \<Rightarrow> http_response \<times> world" where
  "merge_return p = (case fst p of Inl r \<Rightarrow> r | Inr r \<Rightarrow> r, snd p)"

text \<open>The code and status of a \<open>ValueError\<close> are read back from its text.\<close>

definition parse_failure :: "http_request \<Rightarrow> jsstr \<Rightarrow> http_response" where
  "parse_failure req msg =
     (let text = (case index_of (CHR '' '') msg of Some k \<Rightarrow> drop (Suc k) msg | None \<Rightarrow> msg) in
      if sublist (''code='' @ int_str PARSE_ERROR) msg then json_error req 400 JNull PARSE_ERROR text []
      else if sublist (''code='' @ int_str METHOD_NOT_FOUND) msg then json_error req 404 JNull METHOD_NOT_FOUND text []
      else json_error req 400 JNull INVALID_REQUEST text [])"

definition mcp_proxy :: "gateway \<Rightarrow> http_request \<Rightarrow> jsstr \<Rightarrow> world \<Rightarrow> http_response \<times> world" where
  "mcp_proxy gw req slug w =
     (let clen = header ''content-length'' req; limit = st_max_request_body_bytes (gw_settings gw) in
      case gw_plugin gw req of
        Some r \<Rightarrow> (r, w)
      | None \<Rightarrow>
          if (clen \<noteq> [] \<and> list_all is_digit clen \<and> nat_val 0 clen > limit) \<or> length (hr_body req) > limit
          then (json_error req 413 JNull INVALID_REQUEST ''Request body too large'' [], w)
          else (case parse_request (gw_loads gw (hr_body req)) of
             Inl msg \<Rightarrow> (parse_failure req msg, w)
           | Inr rpc \<Rightarrow> merge_return (proxy_steps gw req slug rpc w)))"

text \<open>The event stream of a server.\<close>

definition stream_steps :: "gateway \<Rightarrow> http_request \<Rightarrow> jsstr \<Rightarrow> http_response handler" where
  "stream_steps gw req slug =
     and_then (run_pre_auth_checks gw req slug JNull) (\<lambda>subject.
     and_then (resolve_server gw req slug JNull subject) (\<lambda>server.
     and_then (validate_session gw req slug JNull subject) (\<lambda>_.
     and_then (check_rate_limit gw req slug JNull subject ''stream'') (\<lambda>rl.
     and_then (\<lambda>w. (Inr (), usage (UsageRequest (sj_tenant_id subject) False) w)) (\<lambda>_.
     and_then (forward gw req server ''GET'' [] True JNull rl) (\<lambda>u.
     and_then (adopt_session gw req slug JNull subject u (with_request_id req rl)) (\<lambda>hs.
     ret \<lparr>rs_status = us_status u, rs_headers = hs, rs_body = StreamBody (us_content u)\<rparr>)))))))"

definition mcp_sse_stream :: "gateway \<Rightarrow> http_request \<Rightarrow> jsstr \<Rightarrow> world \<Rightarrow> http_response \<times> world" where
  "mcp_sse_stream gw req slug w = merge_return (stream_steps gw req slug w)"

end
