(* ===== verification/Gateway_Pipeline.thy ===== *)
theory Gateway_Pipeline
  imports Gateway_Router
begin

text \<open>
  What the pipeline of \<open>api/app/gateway/router.py\<close> guarantees as a whole: which requests reach an upstream,
  that sessions and rows of others have no part in it, and what a caller sees of the lists.
\<close>

section \<open>Composition\<close>

lemma and_then_cases:
  assumes "and_then m f w = (x, w')"
  obtains r where "m w = (Inl r, w')" "x = Inl r"
  | a w1 where "m w = (Inr a, w1)" "f a w1 = (x, w')"
  using assms by (auto simp: and_then_def split: prod.splits sum.splits)

text \<open>Handlers that send nothing upstream.\<close>

definition quiet :: "'a handler \<Rightarrow> bool" where
  "quiet m \<longleftrightarrow> (\<forall>w. wd_sent (snd (m w)) = wd_sent w)"

named_theorems quiet_intros

lemma quietD: "quiet m \<Longrightarrow> m w = (x, w') \<Longrightarrow> wd_sent w' = wd_sent w"
  unfolding quiet_def by (metis snd_conv)

lemma quiet_basic [quiet_intros]: "quiet (ret x)" "quiet (stop r)"
  by (simp_all add: quiet_def ret_def stop_def)

lemma quiet_and_then [quiet_intros]:
  assumes "quiet m" and "\<And>a. quiet (f a)"
  shows "quiet (and_then m f)"
  unfolding quiet_def
proof
  fix w
  obtain x w' where e: "and_then m f w = (x, w')" by fastforce
  then show "wd_sent (snd (and_then m f w)) = wd_sent w"
    by (cases rule: and_then_cases) (use e quietD [OF assms(1)] quietD [OF assms(2)] in fastforce)+
qed

lemma wd_sent_records [simp]:
  "wd_sent (audit e w) = wd_sent w" "wd_sent (usage u w) = wd_sent w" "wd_sent (tool_audit req slug s t mth w) = wd_sent w"
  "wd_redis (audit e w) = wd_redis w" "wd_redis (usage u w) = wd_redis w" "wd_redis (tool_audit req slug s t mth w) = wd_redis w"
  by (simp_all add: audit_def usage_def tool_audit_def)

lemma quiet_pre_auth [quiet_intros]: "quiet (run_pre_auth_checks gw req slug i)"
  unfolding quiet_def run_pre_auth_checks_def Let_def by (simp split: option.split sum.split prod.split)

lemma quiet_resolve [quiet_intros]: "quiet (resolve_server gw req slug i subject)"
  by (auto simp: resolve_server_def quiet_basic split: option.split ServerStatus.split)

lemma quiet_validate [quiet_intros]: "quiet (validate_session gw req slug i subject)"
  unfolding quiet_def validate_session_def Let_def by (simp split: option.split sum.split prod.split)

lemma quiet_limit [quiet_intros]: "quiet (check_rate_limit gw req slug i subject tool)"
  unfolding quiet_def check_rate_limit_def Let_def by (simp split: option.split sum.split prod.split)

lemma quiet_rbac [quiet_intros]: "quiet (check_rbac gw req slug rpc subject)"
  unfolding quiet_def check_rbac_def Let_def by (simp split: json.split)

lemma quiet_meter [quiet_intros]: "quiet (meter gw req rpc subject)"
  by (auto simp: quiet_def meter_def Let_def)

lemma quiet_adopt [quiet_intros]: "quiet (adopt_session gw req slug i subject u hs)"
  unfolding quiet_def adopt_session_def Let_def by (simp split: option.split sum.split prod.split)

lemma quiet_answer_list [quiet_intros]: "quiet (answer_list gw req slug rpc subject u hs)"
  by (auto simp: answer_list_def quiet_basic split: option.split json.split)

lemma quiet_deliver [quiet_intros]: "quiet (deliver gw req slug rpc subject name stream u hs)"
proof -
  have "quiet (\<lambda>w. (Inr x, if b then tool_audit req slug subject name mth w else w))" for x :: http_response and b mth
    by (simp add: quiet_def)
  then show ?thesis unfolding deliver_def by (simp add: quiet_basic quiet_answer_list)
qed

lemma quiet_answer [quiet_intros]: "quiet (answer gw req slug rpc subject name rl stream u)"
  unfolding answer_def Let_def by (simp add: quiet_basic quiet_and_then quiet_adopt quiet_deliver)

text \<open>Past a quiet step, something was sent only if the step went through.\<close>

lemma sent_past_quiet:
  assumes "and_then m f w = (x, w')" and "quiet m" and "wd_sent w' \<noteq> wd_sent w"
  obtains a w1 where "m w = (Inr a, w1)" "f a w1 = (x, w')" "wd_sent w1 = wd_sent w"
  using assms(1)
proof (cases rule: and_then_cases)
  case (1 r)
  then show ?thesis using quietD [OF assms(2)] assms(3) by blast
next
  case (2 a w1)
  then show ?thesis using that quietD [OF assms(2)] by blast
qed

section \<open>What a passed check means\<close>

lemma pre_auth_passed:
  "run_pre_auth_checks gw req slug i w = (Inr subject, w') \<Longrightarrow>
     gw_authenticate gw (bearer_token req) = Some subject \<and> bearer_token req \<noteq> []"
  by (auto simp: run_pre_auth_checks_def Let_def split: option.splits sum.splits if_splits)

definition reachable_server :: "gateway \<Rightarrow> jsstr \<Rightarrow> jsstr \<Rightarrow> McpServer \<Rightarrow> bool" where
  "reachable_server gw tenant slug server \<longleftrightarrow>
     server \<in> set (tb_servers (gw_tables gw)) \<and> ms_tenant_id server = tenant \<and> ms_slug server = slug \<and> ms_status server = ACTIVE \<and>
     validate_upstream_url (ms_upstream_url server) (st_upstream_hosts (gw_settings gw)) (st_environment (gw_settings gw))"

lemma resolve_passed:
  "resolve_server gw req slug i subject w = (Inr server, w') \<Longrightarrow>
     reachable_server gw (sj_tenant_id subject) slug server \<and> w' = w"
  by (auto simp: resolve_server_def reachable_server_def get_by_slug_def stop_def ret_def find_Some_iff
      split: option.splits if_splits ServerStatus.splits)

lemma rbac_passed:
  assumes "check_rbac gw req slug rpc subject w = (Inr name, w')"
  shows "w' = w"
    and "rpc_method rpc \<in> set RBAC_REQUIRED \<Longrightarrow> \<exists>n. name = Some n \<and> resource_name rpc = JStr n \<and>
      pd_allowed (evaluate_permission slug n (get_permissions_for_subject (gw_tables gw) (sj_tenant_id subject)
        (sj_subject_type subject) (sj_subject_id subject)))"
  using assms by (auto simp: check_rbac_def Let_def split: if_splits json.splits)

lemma meter_passed:
  "meter gw req rpc subject w = (Inr u, w') \<Longrightarrow>
     rpc_method rpc = ''tools/call'' \<Longrightarrow> check_usage_cap (gw_tables gw) (sj_tenant_id subject) (gw_settings gw)"
  by (auto simp: meter_def Let_def split: if_splits)

section \<open>Sessions and the limiter\<close>

lemma window_check_keeps: "check_sliding_window key p now m db = Inr (r, db') \<Longrightarrow> k \<noteq> key \<Longrightarrow> live t0 db' k = live t0 db k"
  by (auto simp: check_sliding_window_def run_sliding_window_def Let_def live_put_other live_del live_put_keep_other
      split: option.splits redis_value.splits prod.splits)

lemma bucket_check_keeps: "check_token_bucket key p now db = Inr (r, db') \<Longrightarrow> k \<noteq> key \<Longrightarrow> live t0 db' k = live t0 db k"
  by (auto simp: check_token_bucket_def run_token_bucket_def Let_def live_put_other
      split: option.splits redis_value.splits prod.splits)

lemma session_key_apart: "session_key i \<noteq> scope_key scope ten sid sv tool" "session_key i \<noteq> ''pre_auth:'' @ ip"
  using scope_key_tenant [of scope ten sid sv tool] by (auto simp: session_key_def)

lemma session_owner_cong: "live t0 db' (session_key j) = live t0 db (session_key j) \<Longrightarrow> session_owner t0 db' j = session_owner t0 db j"
  by (simp add: session_owner_def)

lemma limiter_keeps_sessions:
  "limiter_check ten sid sv tool p now m db = Inr (r, db') \<Longrightarrow> session_owner t0 db' j = session_owner t0 db j"
  "check_pre_auth_limit ip limit window now m db = Inr (r, db') \<Longrightarrow> session_owner t0 db' j = session_owner t0 db j"
proof -
  show "session_owner t0 db' j = session_owner t0 db j" if "limiter_check ten sid sv tool p now m db = Inr (r, db')"
    using that unfolding limiter_check_def Let_def
    by (intro session_owner_cong) (simp add: bucket_check_keeps window_check_keeps session_key_apart(1) split: if_splits)
  show "session_owner t0 db' j = session_owner t0 db j" if "check_pre_auth_limit ip limit window now m db = Inr (r, db')"
    using that unfolding check_pre_auth_limit_def by (rule session_owner_cong [OF window_check_keeps [OF _ session_key_apart(2)]])
qed

text \<open>Handlers that leave the owner of every session.\<close>

definition keeps_owners :: "secs \<Rightarrow> 'a handler \<Rightarrow> bool" where
  "keeps_owners now m \<longleftrightarrow> (\<forall>w j. session_owner now (wd_redis (snd (m w))) j = session_owner now (wd_redis w) j)"

lemma keeps_ownersD: "keeps_owners now m \<Longrightarrow> m w = (x, w') \<Longrightarrow> session_owner now (wd_redis w') j = session_owner now (wd_redis w) j"
  unfolding keeps_owners_def by (metis snd_conv)

lemma pre_auth_keeps_owners: "keeps_owners now (run_pre_auth_checks gw req slug i)"
  unfolding keeps_owners_def run_pre_auth_checks_def Let_def
  by (simp add: limiter_keeps_sessions(2) split: option.split sum.split prod.split)

lemma limit_keeps_owners: "keeps_owners now (check_rate_limit gw req slug i subject tool)"
  unfolding keeps_owners_def check_rate_limit_def Let_def
  by (simp add: limiter_keeps_sessions(1) split: option.split sum.split prod.split)

lemma validate_keeps_owners: "keeps_owners (gw_now gw) (validate_session gw req slug i subject)"
  unfolding keeps_owners_def validate_session_def Let_def
  by (simp add: session_owner_lookup split: option.split sum.split prod.split)

lemma others_keep_owners:
  "keeps_owners now (resolve_server gw req slug i subject)" "keeps_owners now (check_rbac gw req slug rpc subject)"
  "keeps_owners now (meter gw req rpc subject)" "keeps_owners now (forward gw req server mth body stream i rl)"
  "keeps_owners now (answer_list gw req slug rpc subject u hs)"
  unfolding keeps_owners_def resolve_server_def check_rbac_def meter_def forward_def answer_list_def Let_def
  by (simp_all add: ret_def stop_def split: option.split sum.split json.split ServerStatus.split upstream_failure.split)

lemma validate_passed:
  assumes "validate_session gw req slug i subject w = (Inr u, w')" and "header ''mcp-session-id'' req \<noteq> []"
  shows "session_owner (gw_now gw) (wd_redis w) (header ''mcp-session-id'' req) = Some (caller subject slug)"
proof -
  let ?sid = "header ''mcp-session-id'' req"
  obtain rec db where l: "session_lookup (gw_up gw ''validate/get'') (gw_up gw ''validate/expire'') (gw_now gw) ?sid (wd_redis w) = Inr (rec, db)"
    and m: "session_matches rec (caller subject slug)"
    using assms by (auto simp: validate_session_def Let_def split: sum.splits option.splits if_splits)
  from session_lookup_cases(2) [OF l] m show ?thesis by (auto simp: session_matches_def split: if_splits)
qed

section \<open>Forwarding\<close>

lemma forward_sends:
  "forward gw req server mth body stream i rl w = (x, w') \<Longrightarrow>
     wd_sent w' = wd_sent w @ [\<lparr>uq_url = build_url (ms_upstream_url server) [], uq_method = mth,
       uq_headers = upstream_headers gw req server, uq_body = body, uq_stream = stream\<rparr>]"
  by (auto simp: forward_def Let_def split: sum.splits upstream_failure.splits)

text \<open>The one request that may go out for a call of a server.\<close>

definition outgoing :: "gateway \<Rightarrow> http_request \<Rightarrow> McpServer \<Rightarrow> bool \<Rightarrow> upstream_request" where
  "outgoing gw req server stream =
     \<lparr>uq_url = build_url (ms_upstream_url server) [], uq_method = hr_method req, uq_headers = upstream_headers gw req server,
      uq_body = hr_body req, uq_stream = stream\<rparr>"

lemma quiet_terminable [quiet_intros]: "quiet (check_terminable gw req slug i subject)"
  unfolding quiet_def check_terminable_def Let_def by (simp split: option.split sum.split prod.split)

lemma quiet_forget [quiet_intros]: "quiet (forget_session gw req)"
  by (simp add: quiet_def forget_session_def)

lemma terminate_sends:
  assumes "terminate_session gw req slug rpc subject server w = (x, w')" and "wd_sent w' \<noteq> wd_sent w"
  shows "wd_sent w' = wd_sent w @ [outgoing gw req server False]"
proof -
  let ?say = "\<lambda>rl u w. (Inr \<lparr>rs_status = us_status u, rs_headers = with_request_id req rl, rs_body = RawBody (us_content u)\<rparr>,
      tool_audit req slug subject (Some ''session/terminate'') (rpc_method rpc) w)"
  let ?send = "\<lambda>rl. and_then (forward gw req server (hr_method req) (hr_body req) False (rpc_id rpc) rl) (?say rl)"
  obtain w1 where s1: "wd_sent w1 = wd_sent w"
    and 1: "and_then (check_rate_limit gw req slug (rpc_id rpc) subject ''session/terminate'')
      (\<lambda>rl. and_then (forget_session gw req) (\<lambda>_. ?send rl)) w1 = (x, w')"
    by (rule sent_past_quiet [OF assms(1) [unfolded terminate_session_def] quiet_terminable assms(2)])
  have n1: "wd_sent w' \<noteq> wd_sent w1" using s1 assms(2) by simp
  obtain rl w2 where s2: "wd_sent w2 = wd_sent w1" and 2: "and_then (forget_session gw req) (\<lambda>_. ?send rl) w2 = (x, w')"
    by (rule sent_past_quiet [OF 1 quiet_limit n1])
  have n2: "wd_sent w' \<noteq> wd_sent w2" using s2 n1 by simp
  obtain w3 where s3: "wd_sent w3 = wd_sent w2" and 3: "?send rl w3 = (x, w')"
    by (rule sent_past_quiet [OF 2 quiet_forget n2])
  from 3 show ?thesis
    by (cases rule: and_then_cases) (use s1 s2 s3 in \<open>auto simp: outgoing_def dest!: forward_sends\<close>)
qed

lemma serve_sends:
  assumes "serve gw req slug rpc subject server name w = (x, w')" and "wd_sent w' \<noteq> wd_sent w"
  shows "wd_sent w' = wd_sent w @ [outgoing gw req server (should_stream req)] \<and> \<not> is_dry_run req \<and>
    (rpc_method rpc = ''tools/call'' \<longrightarrow> check_usage_cap (gw_tables gw) (sj_tenant_id subject) (gw_settings gw))"
proof -
  obtain rl w1 where 1: "(if is_dry_run req
       then (\<lambda>w. (Inr (explain req slug rpc subject server name rl), tool_audit req slug subject name (rpc_method rpc) w))
       else and_then (meter gw req rpc subject) (\<lambda>_.
         and_then (forward gw req server (hr_method req) (hr_body req) (should_stream req) (rpc_id rpc) rl)
           (answer gw req slug rpc subject name rl (should_stream req)))) w1 = (x, w')"
    and s1: "wd_sent w1 = wd_sent w"
    by (rule sent_past_quiet [OF assms(1) [unfolded serve_def] quiet_limit assms(2)])
  have d: "\<not> is_dry_run req" using 1 s1 assms(2) by auto
  have n1: "wd_sent w' \<noteq> wd_sent w1" using s1 assms(2) by simp
  obtain w2 u where m: "meter gw req rpc subject w1 = (Inr u, w2)" and s2: "wd_sent w2 = wd_sent w1"
    and 2: "and_then (forward gw req server (hr_method req) (hr_body req) (should_stream req) (rpc_id rpc) rl)
           (answer gw req slug rpc subject name rl (should_stream req)) w2 = (x, w')"
    by (rule sent_past_quiet [OF 1 [unfolded if_not_P [OF d]] quiet_meter n1])
  from 2 have "wd_sent w' = wd_sent w2 @ [outgoing gw req server (should_stream req)]"
  proof (cases rule: and_then_cases)
    case (1 r)
    then show ?thesis using forward_sends by (simp add: outgoing_def)
  next
    case (2 a w3)
    then show ?thesis using forward_sends [OF 2(1)] quietD [OF quiet_answer 2(2)] by (simp add: outgoing_def)
  qed
  then show ?thesis using s1 s2 d meter_passed [OF m] by simp
qed

lemma quiet_admission: "quiet (admission gw req slug rpc)"
  unfolding admission_def by (intro quiet_intros)

lemma admission_passed:
  assumes "admission gw req slug rpc w = (Inr (subject, server, name), w')"
  shows "gw_authenticate gw (bearer_token req) = Some subject" and "reachable_server gw (sj_tenant_id subject) slug server"
    and "header ''mcp-session-id'' req \<noteq> [] \<Longrightarrow>
      session_owner (gw_now gw) (wd_redis w) (header ''mcp-session-id'' req) = Some (caller subject slug)"
    and "rpc_method rpc \<in> set RBAC_REQUIRED \<Longrightarrow> \<exists>n. name = Some n \<and> resource_name rpc = JStr n \<and>
      pd_allowed (evaluate_permission slug n (get_permissions_for_subject (gw_tables gw) (sj_tenant_id subject)
        (sj_subject_type subject) (sj_subject_id subject)))"
proof -
  obtain w1 w2 w3 u w4 where
    1: "run_pre_auth_checks gw req slug (rpc_id rpc) w = (Inr subject, w1)" and
    2: "resolve_server gw req slug (rpc_id rpc) subject w1 = (Inr server, w2)" and
    3: "validate_session gw req slug (rpc_id rpc) subject w2 = (Inr u, w3)" and
    4: "check_rbac gw req slug rpc subject w3 = (Inr name, w4)"
    using assms unfolding admission_def and_then_def ret_def by (auto split: prod.splits sum.splits)
  show "gw_authenticate gw (bearer_token req) = Some subject" using pre_auth_passed [OF 1] ..
  show "reachable_server gw (sj_tenant_id subject) slug server" using resolve_passed [OF 2] ..
  show "session_owner (gw_now gw) (wd_redis w) (header ''mcp-session-id'' req) = Some (caller subject slug)"
    if "header ''mcp-session-id'' req \<noteq> []"
    using validate_passed [OF 3 that] keeps_ownersD [OF pre_auth_keeps_owners 1] resolve_passed [OF 2] by simp
  show "\<exists>n. name = Some n \<and> resource_name rpc = JStr n \<and>
      pd_allowed (evaluate_permission slug n (get_permissions_for_subject (gw_tables gw) (sj_tenant_id subject)
        (sj_subject_type subject) (sj_subject_id subject)))" if "rpc_method rpc \<in> set RBAC_REQUIRED"
    using rbac_passed(2) [OF 4 that] .
qed

lemma proxy_parsed:
  assumes "mcp_proxy gw req slug w = (r, w')" and "w' \<noteq> w"
  obtains rpc x where "gw_plugin gw req = None" "length (hr_body req) \<le> st_max_request_body_bytes (gw_settings gw)"
    "parse_request (gw_loads gw (hr_body req)) = Inr rpc" "proxy_steps gw req slug rpc w = (x, w')" "x = Inl r \<or> x = Inr r"
proof -
  from assms obtain rpc where "gw_plugin gw req = None" "length (hr_body req) \<le> st_max_request_body_bytes (gw_settings gw)"
    "parse_request (gw_loads gw (hr_body req)) = Inr rpc" "merge_return (proxy_steps gw req slug rpc w) = (r, w')"
    unfolding mcp_proxy_def Let_def by (simp split: option.splits if_splits sum.splits)
  then show ?thesis using that by (cases "proxy_steps gw req slug rpc w") (auto simp: merge_return_def split: sum.splits)
qed

lemma stream_sent_authenticated:
  assumes "stream_steps gw req slug w = (x, w')" and "wd_sent w' \<noteq> wd_sent w"
  shows "gw_authenticate gw (bearer_token req) \<noteq> None"
proof -
  obtain subject w1 where "run_pre_auth_checks gw req slug JNull w = (Inr subject, w1)"
    by (rule sent_past_quiet [OF assms(1) [unfolded stream_steps_def] quiet_pre_auth assms(2)])
  then show ?thesis using pre_auth_passed by fastforce
qed

lemma proxy_sent_authenticated:
  assumes "mcp_proxy gw req slug w = (r, w')" and "wd_sent w' \<noteq> wd_sent w"
  shows "gw_authenticate gw (bearer_token req) \<noteq> None"
proof -
  have n: "w' \<noteq> w" using assms(2) by auto
  from assms(1) n obtain rpc x where p: "proxy_steps gw req slug rpc w = (x, w')" by (rule proxy_parsed)
  obtain a w1 where "admission gw req slug rpc w = (Inr a, w1)"
    by (rule sent_past_quiet [OF p [unfolded proxy_steps_def] quiet_admission assms(2)])
  then show ?thesis using admission_passed(1) [of gw req slug rpc w "fst a" "fst (snd a)" "snd (snd a)" w1] by simp
qed

section \<open>Sessions of others\<close>

lemma keeps_owners_and_then:
  assumes "keeps_owners now m" and "\<And>a. keeps_owners now (f a)"
  shows "keeps_owners now (and_then m f)"
  unfolding keeps_owners_def
proof (intro allI)
  fix w j
  obtain x w' where e: "and_then m f w = (x, w')" by fastforce
  then show "session_owner now (wd_redis (snd (and_then m f w))) j = session_owner now (wd_redis w) j"
    by (cases rule: and_then_cases) (use e keeps_ownersD [OF assms(1)] keeps_ownersD [OF assms(2)] in fastforce)+
qed

lemma ret_keeps_owners: "keeps_owners now (ret x)"
  by (simp add: keeps_owners_def ret_def)

lemma say_keeps_owners: "keeps_owners now (\<lambda>w. (Inr y, tool_audit req slug subject t m w))"
  by (simp add: keeps_owners_def)

lemma stop_keeps_owners: "keeps_owners now (stop r)"
  by (simp add: keeps_owners_def stop_def)

lemma admission_keeps_owners: "keeps_owners (gw_now gw) (admission gw req slug rpc)"
  unfolding admission_def
  by (intro keeps_owners_and_then pre_auth_keeps_owners others_keep_owners validate_keeps_owners ret_keeps_owners)

lemma adopt_spares:
  assumes "adopt_session gw req slug i subject u hs w = (x, w')" and "gw_up gw ''adopt/get''"
    and "header ''mcp-session-id'' req = [] \<or>
      session_owner (gw_now gw) (wd_redis w) (header ''mcp-session-id'' req) = Some (caller subject slug)"
    and "session_owner (gw_now gw) (wd_redis w) j = Some other" and "other \<noteq> caller subject slug"
  shows "session_owner (gw_now gw) (wd_redis w') j = Some other"
proof (cases "w' = w")
  case True
  then show ?thesis using assms(4) by simp
next
  case False
  let ?now = "gw_now gw" and ?sid = "us_header ''mcp-session-id'' u" and ?in = "header ''mcp-session-id'' req"
  from assms(1) False obtain rec db
    where l: "session_lookup (gw_up gw ''adopt/get'') (gw_up gw ''adopt/expire'') ?now ?sid (wd_redis w) = Inr (rec, db)"
    by (simp add: adopt_session_def Let_def split: if_splits sum.splits prod.splits)
  note o = session_owner_lookup [OF l] and rec = session_lookup_cases(2) [OF l, unfolded if_P [OF assms(2)]]
  let ?db = "if ?in \<noteq> [] \<and> ?in \<noteq> ?sid then session_delete (gw_up gw ''delete'') ?in db else db"
  have d: "session_owner ?now ?db j = Some other"
    using assms(3-5) by (auto simp: session_delete_def session_owner_del o)
  from assms(1) l False consider "wd_redis w' = db" | "wd_redis w' = ?db"
    | "session_matches rec (caller subject slug) \<or> rec = None"
      "wd_redis w' = put ?now SESSION_TTL_SECONDS (session_key ?sid) (session_value (caller subject slug)) ?db"
    unfolding adopt_session_def Let_def session_record_def by (simp split: if_splits) auto
  then show ?thesis
  proof cases
    case 3
    then have "j \<noteq> ?sid" using rec assms(4,5) by (auto simp: session_matches_def)
    then show ?thesis using 3(2) d by (simp add: session_owner_put)
  qed (use d o assms(4) in auto)
qed

lemma deliver_keeps_owners: "keeps_owners now (deliver gw req slug rpc subject name stream u hs)"
proof -
  have "keeps_owners now (\<lambda>w. (Inr y, if b then tool_audit req slug subject name m w else w))" for y :: http_response and b m
    by (simp add: keeps_owners_def)
  then show ?thesis unfolding deliver_def by (simp add: ret_keeps_owners others_keep_owners(5))
qed

text \<open>
  Triples for handlers: from a state with the first property a handler goes on with a value and a state
  with the second, or returns early in a state with the third.
\<close>

definition triple :: "(world \<Rightarrow> bool) \<Rightarrow> 'a handler \<Rightarrow> ('a \<Rightarrow> world \<Rightarrow> bool) \<Rightarrow> (world \<Rightarrow> bool) \<Rightarrow> bool" where
  "triple P m Q E \<longleftrightarrow> (\<forall>w. P w \<longrightarrow> (case m w of (Inl r, w') \<Rightarrow> E w' | (Inr a, w') \<Rightarrow> Q a w'))"

lemma tripleI:
  "(\<And>w r w'. P w \<Longrightarrow> m w = (Inl r, w') \<Longrightarrow> E w') \<Longrightarrow> (\<And>w a w'. P w \<Longrightarrow> m w = (Inr a, w') \<Longrightarrow> Q a w') \<Longrightarrow> triple P m Q E"
  unfolding triple_def by (auto split: prod.split sum.split)

lemma tripleD: "triple P m (\<lambda>_. E) E \<Longrightarrow> P w \<Longrightarrow> m w = (x, w') \<Longrightarrow> E w'"
  unfolding triple_def by (fastforce split: sum.splits)

lemma triple_and_then: "triple P m Q E \<Longrightarrow> (\<And>a. triple (Q a) (f a) R E) \<Longrightarrow> triple P (and_then m f) R E"
  unfolding triple_def and_then_def by (fastforce split: prod.splits sum.splits)

lemma triple_if: "(b \<Longrightarrow> triple P m Q E) \<Longrightarrow> (\<not> b \<Longrightarrow> triple P m' Q E) \<Longrightarrow> triple P (if b then m else m') Q E"
  by simp

lemma triple_weaken: "triple P m Q E \<Longrightarrow> (\<And>w. P' w \<Longrightarrow> P w) \<Longrightarrow> triple P' m Q E"
  by (simp add: triple_def)

definition owners :: "gateway \<Rightarrow> world \<Rightarrow> jsstr \<Rightarrow> owner option" where
  "owners gw w = session_owner (gw_now gw) (wd_redis w)"

lemma keeps_same: "keeps_owners (gw_now gw) m \<Longrightarrow> m w = (x, w') \<Longrightarrow> owners gw w' = owners gw w"
  unfolding owners_def by (rule ext) (rule keeps_ownersD)

text \<open>A session of another caller is kept; the session the request carries is the caller's own.\<close>

definition kept :: "gateway \<Rightarrow> jsstr \<Rightarrow> owner \<Rightarrow> world \<Rightarrow> bool" where
  "kept gw j other w \<longleftrightarrow> owners gw w j = Some other"

definition own_session :: "gateway \<Rightarrow> http_request \<Rightarrow> owner \<Rightarrow> world \<Rightarrow> bool" where
  "own_session gw req ow w \<longleftrightarrow> header ''mcp-session-id'' req = [] \<or> owners gw w (header ''mcp-session-id'' req) = Some ow"

lemma kept_step: "kept gw j other w \<Longrightarrow> keeps_owners (gw_now gw) m \<Longrightarrow> m w = (x, w') \<Longrightarrow> kept gw j other w'"
  using keeps_same [of gw m w x w'] by (simp add: kept_def)

lemma triple_kept: "keeps_owners (gw_now gw) m \<Longrightarrow> triple (kept gw j other) m (\<lambda>_. kept gw j other) (kept gw j other)"
  by (rule tripleI) (erule kept_step, assumption, assumption)+

lemma triple_both:
  assumes "keeps_owners (gw_now gw) m"
  shows "triple (\<lambda>w. kept gw j other w \<and> own_session gw req ow w) m (\<lambda>_ w. kept gw j other w \<and> own_session gw req ow w) (kept gw j other)"
  by (rule tripleI) (drule keeps_same [OF assms], simp add: kept_def own_session_def)+

lemma triple_validate:
  "triple (kept gw j other) (validate_session gw req slug i subject)
     (\<lambda>_ w. kept gw j other w \<and> own_session gw req (caller subject slug) w) (kept gw j other)"
proof (rule tripleI)
  fix w a w' assume k: "kept gw j other w" and m: "validate_session gw req slug i subject w = (Inr a, w')"
  show "kept gw j other w' \<and> own_session gw req (caller subject slug) w'"
    using k validate_passed [OF m] keeps_same [OF validate_keeps_owners m] by (auto simp: kept_def own_session_def owners_def)
qed (rule kept_step [OF _ validate_keeps_owners])

lemma triple_adopt:
  assumes "gw_up gw ''adopt/get''" and "other \<noteq> caller subject slug"
  shows "triple (\<lambda>w. kept gw j other w \<and> own_session gw req (caller subject slug) w) (adopt_session gw req slug i subject u hs)
     (\<lambda>_. kept gw j other) (kept gw j other)"
  by (rule tripleI) (use adopt_spares assms in \<open>auto simp: kept_def own_session_def owners_def\<close>)

lemma triple_drop: "triple P m Q E \<Longrightarrow> triple (\<lambda>w. P w \<and> R w) m Q E"
  by (erule triple_weaken) simp

lemma triple_answer:
  assumes "gw_up gw ''adopt/get''" and "other \<noteq> caller subject slug"
  shows "triple (\<lambda>w. kept gw j other w \<and> own_session gw req (caller subject slug) w) (answer gw req slug rpc subject name rl stream u)
     (\<lambda>_. kept gw j other) (kept gw j other)"
  unfolding answer_def Let_def
  apply (rule triple_if)
   apply (rule triple_drop, rule triple_kept, rule ret_keeps_owners)
  apply (rule triple_if)
   apply (rule triple_drop, rule triple_kept, rule stop_keeps_owners)
  apply (rule triple_and_then, rule triple_adopt [OF assms])
  apply (rule triple_kept, rule deliver_keeps_owners)
  done

lemma triple_serve:
  assumes "gw_up gw ''adopt/get''" and "other \<noteq> caller subject slug"
  shows "triple (\<lambda>w. kept gw j other w \<and> own_session gw req (caller subject slug) w) (serve gw req slug rpc subject server name)
     (\<lambda>_. kept gw j other) (kept gw j other)"
  unfolding serve_def
  apply (rule triple_and_then, rule triple_both, rule limit_keeps_owners)
  apply (rule triple_if)
   apply (rule triple_drop, rule triple_kept, rule say_keeps_owners)
  apply (rule triple_and_then, rule triple_both, rule others_keep_owners)
  apply (rule triple_and_then, rule triple_both, rule others_keep_owners)
  apply (rule triple_answer [OF assms])
  done

lemma terminable_keeps_owners: "keeps_owners (gw_now gw) (check_terminable gw req slug i subject)"
  unfolding keeps_owners_def check_terminable_def Let_def
  by (simp add: session_owner_lookup split: option.split sum.split prod.split)

text \<open>A session is only dropped by its owner.\<close>

lemma triple_terminate:
  assumes "other \<noteq> caller subject slug"
  shows "triple (\<lambda>w. kept gw j other w \<and> own_session gw req (caller subject slug) w)
    (terminate_session gw req slug rpc subject server) (\<lambda>_. kept gw j other) (kept gw j other)"
proof -
  have forget: "triple (\<lambda>w. kept gw j other w \<and> own_session gw req (caller subject slug) w \<and> header ''mcp-session-id'' req \<noteq> [])
      (forget_session gw req) (\<lambda>_. kept gw j other) (kept gw j other)"
    by (rule tripleI)
      (use assms in \<open>auto simp: forget_session_def kept_def own_session_def owners_def session_delete_def session_owner_del\<close>)
  have first: "triple (\<lambda>w. kept gw j other w \<and> own_session gw req (caller subject slug) w) (check_terminable gw req slug i subject)
      (\<lambda>_ w. (kept gw j other w \<and> own_session gw req (caller subject slug) w) \<and> header ''mcp-session-id'' req \<noteq> []) (kept gw j other)" for i
  proof (rule tripleI)
    fix w a w' assume k: "kept gw j other w \<and> own_session gw req (caller subject slug) w"
      and m: "check_terminable gw req slug i subject w = (Inr a, w')"
    have "header ''mcp-session-id'' req \<noteq> []" using m by (auto simp: check_terminable_def Let_def)
    then show "(kept gw j other w' \<and> own_session gw req (caller subject slug) w') \<and> header ''mcp-session-id'' req \<noteq> []"
      using k keeps_same [OF terminable_keeps_owners m] by (simp add: kept_def own_session_def)
  qed (use kept_step [OF _ terminable_keeps_owners] in blast)
  have limit: "triple (\<lambda>w. (kept gw j other w \<and> own_session gw req (caller subject slug) w) \<and> header ''mcp-session-id'' req \<noteq> [])
      (check_rate_limit gw req slug i subject tool)
      (\<lambda>_ w. kept gw j other w \<and> own_session gw req (caller subject slug) w \<and> header ''mcp-session-id'' req \<noteq> []) (kept gw j other)" for i tool
    by (rule tripleI) (drule keeps_same [of gw, OF limit_keeps_owners], auto simp: kept_def own_session_def)+
  show ?thesis
    unfolding terminate_session_def
    apply (rule triple_and_then, rule first)
    apply (rule triple_and_then, rule limit)
    apply (rule triple_and_then, rule forget)
    apply (rule triple_and_then, rule triple_kept, rule others_keep_owners)
    apply (rule triple_kept, rule say_keeps_owners)
    done
qed

lemma triple_pre_auth:
  "triple (kept gw j other) (run_pre_auth_checks gw req slug i)
     (\<lambda>subject w. kept gw j other w \<and> gw_authenticate gw (bearer_token req) = Some subject) (kept gw j other)"
  by (rule tripleI) (auto dest: pre_auth_passed kept_step [OF _ pre_auth_keeps_owners])

lemma triple_pure: "(b \<Longrightarrow> triple P m Q E) \<Longrightarrow> triple (\<lambda>w. P w \<and> b) m Q E"
  by (auto simp: triple_def)

text \<open>Both endpoints, once the subject is known to be another.\<close>

lemma triple_admission:
  "triple (kept gw j other) (admission gw req slug rpc)
     (\<lambda>a w. (kept gw j other w \<and> own_session gw req (caller (fst a) slug) w) \<and> gw_authenticate gw (bearer_token req) = Some (fst a))
     (kept gw j other)"
proof (rule tripleI)
  fix w a w' assume k: "kept gw j other w" and m: "admission gw req slug rpc w = (Inr a, w')"
  obtain subject server name where a: "a = (subject, server, name)" by (cases a)
  show "(kept gw j other w' \<and> own_session gw req (caller (fst a) slug) w') \<and> gw_authenticate gw (bearer_token req) = Some (fst a)"
    using k admission_passed(1,3) [OF m [unfolded a]] keeps_same [OF admission_keeps_owners m]
    by (auto simp: a kept_def own_session_def owners_def)
qed (rule kept_step [OF _ admission_keeps_owners])

lemma proxy_spares:
  assumes "gw_up gw ''adopt/get''" and "\<And>subject. gw_authenticate gw (bearer_token req) = Some subject \<Longrightarrow> other \<noteq> caller subject slug"
  shows "triple (kept gw j other) (proxy_steps gw req slug rpc) (\<lambda>_. kept gw j other) (kept gw j other)"
  unfolding proxy_steps_def
proof (rule triple_and_then [OF triple_admission], rule triple_pure)
  fix a :: "Subject \<times> McpServer \<times> jsstr option"
  assume "gw_authenticate gw (bearer_token req) = Some (fst a)"
  note ne = assms(2) [OF this]
  obtain subject server name where a: "a = (subject, server, name)" by (cases a)
  show "triple (\<lambda>w. kept gw j other w \<and> own_session gw req (caller (fst a) slug) w)
      (case a of (subject, server, name) \<Rightarrow> if rpc_method rpc = ''session/terminate'' then terminate_session gw req slug rpc subject server
        else serve gw req slug rpc subject server name) (\<lambda>_. kept gw j other) (kept gw j other)"
    unfolding a prod.case fst_conv using ne [unfolded a fst_conv]
    by (intro triple_if triple_terminate triple_serve assms(1))
qed

lemma stream_spares:
  assumes "gw_up gw ''adopt/get''" and "\<And>subject. gw_authenticate gw (bearer_token req) = Some subject \<Longrightarrow> other \<noteq> caller subject slug"
  shows "triple (kept gw j other) (stream_steps gw req slug) (\<lambda>_. kept gw j other) (kept gw j other)"
  unfolding stream_steps_def
proof (rule triple_and_then [OF triple_pre_auth], rule triple_pure)
  fix subject
  assume "gw_authenticate gw (bearer_token req) = Some subject"
  note ne = assms(2) [OF this]
  have u: "keeps_owners (gw_now gw) (\<lambda>w. (Inr (), usage e w))" for e by (simp add: keeps_owners_def)
  show "triple (kept gw j other) (and_then (resolve_server gw req slug JNull subject) (\<lambda>server.
     and_then (validate_session gw req slug JNull subject) (\<lambda>_.
     and_then (check_rate_limit gw req slug JNull subject ''stream'') (\<lambda>rl.
     and_then (\<lambda>w. (Inr (), usage (UsageRequest (sj_tenant_id subject) False) w)) (\<lambda>_.
     and_then (forward gw req server ''GET'' [] True JNull rl) (\<lambda>u.
     and_then (adopt_session gw req slug JNull subject u (with_request_id req rl)) (\<lambda>hs.
     ret \<lparr>rs_status = us_status u, rs_headers = hs, rs_body = StreamBody (us_content u)\<rparr>))))))) (\<lambda>_. kept gw j other) (kept gw j other)"
    apply (rule triple_and_then, rule triple_kept, rule others_keep_owners)
    apply (rule triple_and_then, rule triple_validate)
    apply (rule triple_and_then, rule triple_both, rule limit_keeps_owners)
    apply (rule triple_and_then, rule triple_both, rule u)
    apply (rule triple_and_then, rule triple_both, rule others_keep_owners)
    apply (rule triple_and_then, rule triple_adopt [OF assms(1) ne])
    apply (rule triple_kept, rule ret_keeps_owners)
    done
qed

lemma terminate_forgets:
  assumes "terminate_session gw req slug rpc subject server w = (x, w')" and "wd_sent w' \<noteq> wd_sent w" and "gw_up gw ''delete''"
  shows "session_owner (gw_now gw) (wd_redis w') (header ''mcp-session-id'' req) = None"
proof -
  let ?gone = "\<lambda>w. session_owner (gw_now gw) (wd_redis w) (header ''mcp-session-id'' req) = None"
  let ?say = "\<lambda>rl u w. (Inr \<lparr>rs_status = us_status u, rs_headers = with_request_id req rl, rs_body = RawBody (us_content u)\<rparr>,
      tool_audit req slug subject (Some ''session/terminate'') (rpc_method rpc) w)"
  let ?send = "\<lambda>rl. and_then (forward gw req server (hr_method req) (hr_body req) False (rpc_id rpc) rl) (?say rl)"
  obtain w1 where s1: "wd_sent w1 = wd_sent w"
    and 1: "and_then (check_rate_limit gw req slug (rpc_id rpc) subject ''session/terminate'')
      (\<lambda>rl. and_then (forget_session gw req) (\<lambda>_. ?send rl)) w1 = (x, w')"
    by (rule sent_past_quiet [OF assms(1) [unfolded terminate_session_def] quiet_terminable assms(2)])
  have n1: "wd_sent w' \<noteq> wd_sent w1" using s1 assms(2) by simp
  obtain rl w2 where 2: "and_then (forget_session gw req) (\<lambda>_. ?send rl) w2 = (x, w')"
    by (rule sent_past_quiet [OF 1 quiet_limit n1])
  have "triple (\<lambda>w. True) (forget_session gw req) (\<lambda>_. ?gone) ?gone"
    by (rule tripleI) (simp_all add: forget_session_def assms(3) session_delete_def session_owner_del)
  moreover have "triple ?gone (?send rl) (\<lambda>_. ?gone) ?gone"
    by (rule tripleI)
      (auto simp: keeps_ownersD [OF keeps_owners_and_then [OF others_keep_owners(4) say_keeps_owners]])
  ultimately have "triple (\<lambda>w. True) (and_then (forget_session gw req) (\<lambda>_. ?send rl)) (\<lambda>_. ?gone) ?gone"
    by (rule triple_and_then)
  from tripleD [OF this _ 2] show ?thesis by simp
qed

section \<open>Types of the stored values\<close>

text \<open>Sessions are stored under session keys, and counters under the keys of the limiter.\<close>

fun counter :: "redis_value \<Rightarrow> bool" where
  "counter (RHash _ _) = True"
| "counter (RZset _) = True"
| "counter _ = False"

fun session_data :: "redis_value \<Rightarrow> bool" where
  "session_data (RSession _ _ _) = True"
| "session_data _ = False"

definition entry_ok :: "jsstr \<Rightarrow> redis_value \<Rightarrow> bool" where
  "entry_ok k v \<longleftrightarrow> (prefix ''mcp-session:'' k \<longrightarrow> session_data v) \<and> (prefix ''rl:'' k \<or> prefix ''pre_auth:'' k \<longrightarrow> counter v)"

definition store_typed :: "redis \<Rightarrow> bool" where
  "store_typed db \<longleftrightarrow> (\<forall>k v ex. db k = Some (v, ex) \<longrightarrow> entry_ok k v)"

lemma typed_put: "store_typed db \<Longrightarrow> entry_ok k v \<Longrightarrow> store_typed (put now ttl k v db)"
  by (simp add: store_typed_def put_def)

lemma typed_del: "store_typed db \<Longrightarrow> store_typed (del k db)"
  by (simp add: store_typed_def del_def)

lemma typed_put_keep: "store_typed db \<Longrightarrow> entry_ok k v \<Longrightarrow> store_typed (put_keep k v db)"
  by (simp add: store_typed_def put_keep_def split: option.split)

lemma entry_session: "entry_ok (session_key i) (RSession t s v)"
  by (simp add: entry_ok_def session_key_def)

lemma entry_counter:
  "counter v \<Longrightarrow> entry_ok (scope_key scope ten sid sv tool) v" "counter v \<Longrightarrow> entry_ok (''pre_auth:'' @ ip) v"
proof -
  obtain rest where "scope_key scope ten sid sv tool = ''rl:'' @ ten @ CHR '':'' # rest" using scope_key_tenant by blast
  then show "counter v \<Longrightarrow> entry_ok (scope_key scope ten sid sv tool) v" by (simp add: entry_ok_def)
qed (simp add: entry_ok_def)

lemma typed_window:
  assumes "check_sliding_window key p now m db = Inr (r, db')" and "store_typed db" and "\<And>zs. entry_ok key (RZset zs)"
  shows "store_typed db'"
  using assms
  by (auto simp: check_sliding_window_def run_sliding_window_def Let_def intro!: typed_put typed_del typed_put_keep
      split: option.splits redis_value.splits prod.splits if_splits)

lemma typed_bucket:
  assumes "check_token_bucket key p now db = Inr (r, db')" and "store_typed db" and "\<And>t l. entry_ok key (RHash t l)"
  shows "store_typed db'"
  using assms
  by (auto simp: check_token_bucket_def run_token_bucket_def Let_def intro!: typed_put
      split: option.splits redis_value.splits prod.splits)

lemma typed_limits:
  "limiter_check ten sid sv tool p now m db = Inr (r, db') \<Longrightarrow> store_typed db \<Longrightarrow> store_typed db'"
  "check_pre_auth_limit ip limit window now m db = Inr (r, db') \<Longrightarrow> store_typed db \<Longrightarrow> store_typed db'"
proof -
  show "store_typed db'" if "limiter_check ten sid sv tool p now m db = Inr (r, db')" "store_typed db"
    using that typed_bucket typed_window entry_counter(1) by (auto simp: limiter_check_def Let_def split: if_splits)
  show "store_typed db'" if "check_pre_auth_limit ip limit window now m db = Inr (r, db')" "store_typed db"
    using that(1) [unfolded check_pre_auth_limit_def] that(2) by (rule typed_window) (rule entry_counter(2), simp)
qed

lemma typed_lookup: "session_lookup g e now i db = Inr (rec, db') \<Longrightarrow> store_typed db \<Longrightarrow> store_typed db'"
  using session_lookup_cases(1) [of g e now i db rec db'] by (auto simp: session_value_def intro: typed_put entry_session)

definition keeps_type :: "'a handler \<Rightarrow> bool" where
  "keeps_type m \<longleftrightarrow> (\<forall>w. store_typed (wd_redis w) \<longrightarrow> store_typed (wd_redis (snd (m w))))"

lemma keeps_typeD: "keeps_type m \<Longrightarrow> m w = (x, w') \<Longrightarrow> store_typed (wd_redis w) \<Longrightarrow> store_typed (wd_redis w')"
  unfolding keeps_type_def by (metis snd_conv)

named_theorems type_intros

lemma keeps_type_and_then [type_intros]:
  assumes "keeps_type m" and "\<And>a. keeps_type (f a)"
  shows "keeps_type (and_then m f)"
  unfolding keeps_type_def
proof (intro allI impI)
  fix w :: world assume w: "store_typed (wd_redis w)"
  obtain x w' where e: "and_then m f w = (x, w')" by fastforce
  then show "store_typed (wd_redis (snd (and_then m f w)))"
  proof (cases rule: and_then_cases)
    case (1 r)
    then show ?thesis using e keeps_typeD [OF assms(1) 1(1) w] by simp
  next
    case (2 a w1)
    then show ?thesis using e keeps_typeD [OF assms(2) 2(2) keeps_typeD [OF assms(1) 2(1) w]] by simp
  qed
qed

lemma keeps_type_if [type_intros]: "keeps_type m \<Longrightarrow> keeps_type m' \<Longrightarrow> keeps_type (if b then m else m')"
  by simp

lemma keeps_type_steps [type_intros]:
  "keeps_type (ret x)" "keeps_type (stop r)" "keeps_type (resolve_server gw req slug i subject)"
  "keeps_type (check_rbac gw req slug rpc subject)" "keeps_type (meter gw req rpc subject)"
  "keeps_type (forward gw req server mth body stream i rl)" "keeps_type (answer_list gw req slug rpc subject u hs)"
  "keeps_type (\<lambda>w. (Inr y, tool_audit req slug subject t m w))" "keeps_type (\<lambda>w. (Inr y, usage ev w))"
  "keeps_type (\<lambda>w. (Inr y, if b then tool_audit req slug subject t m w else w))"
  unfolding keeps_type_def resolve_server_def check_rbac_def meter_def forward_def answer_list_def Let_def
  by (simp_all add: ret_def stop_def split: option.split sum.split json.split ServerStatus.split upstream_failure.split)

lemma keeps_type_redis [type_intros]:
  "keeps_type (run_pre_auth_checks gw req slug i)" "keeps_type (check_rate_limit gw req slug i subject tool)"
  "keeps_type (validate_session gw req slug i subject)" "keeps_type (check_terminable gw req slug i subject)"
  "keeps_type (forget_session gw req)"
  unfolding keeps_type_def run_pre_auth_checks_def check_rate_limit_def validate_session_def check_terminable_def forget_session_def Let_def
  by (simp_all add: typed_limits typed_lookup session_delete_def typed_del split: option.split sum.split prod.split)

lemma keeps_type_adopt [type_intros]: "keeps_type (adopt_session gw req slug i subject u hs)"
  unfolding keeps_type_def adopt_session_def session_record_def Let_def
  by (simp add: typed_lookup session_delete_def typed_del typed_put session_value_def entry_session split: sum.split prod.split)

lemma typed_step: "keeps_type m \<Longrightarrow> store_typed (wd_redis w) \<Longrightarrow> store_typed (wd_redis (snd (m w)))"
  by (simp add: keeps_type_def)

lemma keeps_type_proxy: "keeps_type (proxy_steps gw req slug rpc)"
  unfolding proxy_steps_def admission_def serve_def terminate_session_def answer_def deliver_def Let_def case_prod_unfold
  by (intro type_intros)

lemma keeps_type_stream: "keeps_type (stream_steps gw req slug)"
  unfolding stream_steps_def by (intro type_intros)

section \<open>Answers\<close>

definition is_error :: "http_response \<Rightarrow> bool" where
  "is_error r \<longleftrightarrow> (\<exists>i c m. rs_body r = JsonBody (make_error i c m))"

lemma is_error_responses [simp]: "is_error (json_error req status i c m hs)" "is_error (raise req i)"
  by (auto simp: is_error_def json_error_def raise_def)

lemma error_no_result: "is_error r \<Longrightarrow> rs_body r = JsonBody (JObj kvs) \<Longrightarrow> map_of kvs ''result'' = None"
  by (auto simp: is_error_def make_error_def)

lemma error_body: "is_error r \<Longrightarrow> rs_body r \<noteq> StreamBody b"
  by (auto simp: is_error_def)

text \<open>What the proxy returns once something was sent: the answer to the upstream's response, or an error.\<close>

lemma serve_answers:
  assumes "serve gw req slug rpc subject server name w = (x, w')" and "wd_sent w' \<noteq> wd_sent w"
  obtains f r where "gw_upstream gw (outgoing gw req server (should_stream req)) = Inl f" "x = Inl r" "is_error r"
  | u rl w1 where "gw_upstream gw (outgoing gw req server (should_stream req)) = Inr u"
    "answer gw req slug rpc subject name rl (should_stream req) u w1 = (x, w')"
proof -
  let ?fwd = "\<lambda>rl. forward gw req server (hr_method req) (hr_body req) (should_stream req) (rpc_id rpc) rl"
  obtain rl w1 where 1: "(if is_dry_run req
       then (\<lambda>w. (Inr (explain req slug rpc subject server name rl), tool_audit req slug subject name (rpc_method rpc) w))
       else and_then (meter gw req rpc subject) (\<lambda>_. and_then (?fwd rl) (answer gw req slug rpc subject name rl (should_stream req)))) w1 = (x, w')"
    and s1: "wd_sent w1 = wd_sent w"
    by (rule sent_past_quiet [OF assms(1) [unfolded serve_def] quiet_limit assms(2)])
  have d: "\<not> is_dry_run req" using 1 s1 assms(2) by auto
  have n1: "wd_sent w' \<noteq> wd_sent w1" using s1 assms(2) by simp
  obtain w2 where 2: "and_then (?fwd rl) (answer gw req slug rpc subject name rl (should_stream req)) w2 = (x, w')"
    by (rule sent_past_quiet [OF 1 [unfolded if_not_P [OF d]] quiet_meter n1])
  then show thesis
  proof (cases rule: and_then_cases)
    case (1 r)
    then obtain f where "gw_upstream gw (outgoing gw req server (should_stream req)) = Inl f"
      and "is_error r"
      by (auto simp: forward_def outgoing_def Let_def split: sum.splits upstream_failure.splits)
    then show ?thesis using that(1) 1(2) by blast
  next
    case (2 u w3)
    then have "gw_upstream gw (outgoing gw req server (should_stream req)) = Inr u"
      by (auto simp: forward_def outgoing_def Let_def split: sum.splits upstream_failure.splits)
    then show ?thesis using that(2) 2(2) by blast
  qed
qed

text \<open>The same for a whole request that does not end a session.\<close>

lemma proxy_answers:
  assumes "mcp_proxy gw req slug w = (r, w')" and "wd_sent w' \<noteq> wd_sent w"
    and "parse_request (gw_loads gw (hr_body req)) = Inr rpc" and "rpc_method rpc \<noteq> ''session/terminate''"
  obtains "is_error r" "\<exists>f. gw_upstream gw (last (wd_sent w')) = Inl f"
  | u subject name rl w1 x where "gw_upstream gw (last (wd_sent w')) = Inr u" "gw_authenticate gw (bearer_token req) = Some subject"
    "answer gw req slug rpc subject name rl (should_stream req) u w1 = (x, w')" "x = Inl r \<or> x = Inr r"
proof -
  have n: "w' \<noteq> w" using assms(2) by auto
  from assms(1) n obtain rpc' x where q: "parse_request (gw_loads gw (hr_body req)) = Inr rpc'" "proxy_steps gw req slug rpc' w = (x, w')"
    and x: "x = Inl r \<or> x = Inr r"
    by (rule proxy_parsed)
  have p: "proxy_steps gw req slug rpc w = (x, w')" using q assms(3) by simp
  obtain a w1 where a: "admission gw req slug rpc w = (Inr a, w1)" and s1: "wd_sent w1 = wd_sent w"
    and m: "(case a of (subject, server, name) \<Rightarrow> if rpc_method rpc = ''session/terminate''
        then terminate_session gw req slug rpc subject server else serve gw req slug rpc subject server name) w1 = (x, w')"
    by (rule sent_past_quiet [OF p [unfolded proxy_steps_def] quiet_admission assms(2)])
  obtain subject server name where e: "a = (subject, server, name)" by (cases a)
  have t: "serve gw req slug rpc subject server name w1 = (x, w')" using m assms(4) e by simp
  have n1: "wd_sent w' \<noteq> wd_sent w1" using s1 assms(2) by simp
  have l: "last (wd_sent w') = outgoing gw req server (should_stream req)" using serve_sends [OF t n1] by simp
  from t n1 show thesis
  proof (cases rule: serve_answers)
    case (1 f r')
    then show ?thesis using that(1) l x by auto
  next
    case (2 u rl w2)
    then show ?thesis using that(2) l x admission_passed(1) [OF a [unfolded e]] by simp
  qed
qed

lemma adopt_error: "adopt_session gw req slug i subject u hs w = (Inl r, w') \<Longrightarrow> is_error r"
  by (auto simp: adopt_session_def Let_def split: if_splits sum.splits prod.splits)

lemma answer_cases:
  assumes "answer gw req slug rpc subject name rl stream u w = (x, w')" and "x = Inl r \<or> x = Inr r"
  obtains "rs_body r = NoBody" "rpc_id rpc = JNull" | "is_error r" "\<not> stream \<or> us_header ''mcp-session-id'' u \<noteq> []"
  | hs w1 where "deliver gw req slug rpc subject name stream u hs w1 = (x, w')"
proof -
  from assms consider "rs_body r = NoBody" "rpc_id rpc = JNull" | "\<not> stream" "is_error r"
    | "and_then (adopt_session gw req slug (rpc_id rpc) subject u (with_request_id req rl)) (deliver gw req slug rpc subject name stream u) w = (x, w')"
    by (auto simp: answer_def Let_def ret_def stop_def split: if_splits)
  then show thesis
  proof cases
    case 3
    then show ?thesis
    proof (cases rule: and_then_cases)
      case (1 r')
      then have "us_header ''mcp-session-id'' u \<noteq> []" by (auto simp: adopt_session_def Let_def)
      then show ?thesis using that(2) adopt_error [OF 1(1)] 1(2) assms(2) by auto
    next
      case (2 hs w1)
      then show ?thesis using that(3) by blast
    qed
  qed (use that in blast)+
qed

lemma filter_generic_permitted:
  assumes "filter_generic_list sv ps lk nk body = Some out" and "map_of out ''result'' = Some (JObj result)"
    and "map_of result lk = Some (JArr items)" and "item \<in> set items"
  shows "permitted_item sv ps nk item"
proof (cases "map_of body ''result''")
  case (Some v)
  show ?thesis
  proof (cases "\<exists>res. v = JObj res")
    case True
    then obtain res where v: "v = JObj res" ..
    show ?thesis
      using assms Some v
      by (auto simp: filter_generic_list_def map_of_assoc_set dest!: filter_list_eq split: option.splits if_splits)
  qed (use assms Some in \<open>auto simp: filter_generic_list_def split: json.splits\<close>)
qed (use assms in \<open>auto simp: filter_generic_list_def\<close>)

section \<open>Rows of other tenants\<close>

text \<open>Two states of the database that agree on the rows of a tenant; permissions and bindings belong to it through their role.\<close>

definition own_roles :: "jsstr \<Rightarrow> tables \<Rightarrow> (jsstr \<times> jsstr) list" where
  "own_roles t db = filter (\<lambda>(r, ten). ten = t) (tb_roles db)"

definition of_role :: "jsstr \<Rightarrow> tables \<Rightarrow> jsstr \<Rightarrow> bool" where
  "of_role t db r \<longleftrightarrow> (r, t) \<in> set (tb_roles db)"

definition same_rows :: "jsstr \<Rightarrow> tables \<Rightarrow> tables \<Rightarrow> bool" where
  "same_rows t db db' \<longleftrightarrow>
     filter (\<lambda>s. ms_tenant_id s = t) (tb_servers db') = filter (\<lambda>s. ms_tenant_id s = t) (tb_servers db) \<and>
     own_roles t db' = own_roles t db \<and>
     filter (\<lambda>(r, b). of_role t db' r) (tb_bindings db') = filter (\<lambda>(r, b). of_role t db r) (tb_bindings db) \<and>
     filter (\<lambda>(r, p). of_role t db' r) (tb_permissions db') = filter (\<lambda>(r, p). of_role t db r) (tb_permissions db) \<and>
     filter (\<lambda>(ten, p). ten = t) (tb_policies db') = filter (\<lambda>(ten, p). ten = t) (tb_policies db) \<and>
     map_of (tb_plans db') t = map_of (tb_plans db) t \<and> map_of (tb_month_calls db') t = map_of (tb_month_calls db) t"

lemma find_filter: "find (\<lambda>x. P x \<and> Q x) xs = find Q (filter P xs)"
  by (induction xs) auto

lemma concat_map_filter: "(\<And>x. x \<in> set xs \<Longrightarrow> \<not> P x \<Longrightarrow> f x = []) \<Longrightarrow> concat (map f xs) = concat (map f (filter P xs))"
  by (induction xs) auto

lemma concat_if_pair:
  "concat (map (\<lambda>(r, ten). if r = rid \<and> ten = t then xs else []) rs) =
   concat (map (\<lambda>(r, ten). if r = rid then xs else []) (filter (\<lambda>(r, ten). ten = t) rs))"
  by (induction rs) auto

lemma same_slug: "same_rows t db db' \<Longrightarrow> get_by_slug db' t slug = get_by_slug db t slug"
  by (simp add: get_by_slug_def find_filter same_rows_def)

lemma same_policies: "same_rows t db db' \<Longrightarrow> list_policies db' t = list_policies db t"
  by (simp add: list_policies_def same_rows_def)

lemma same_cap: "same_rows t db db' \<Longrightarrow> check_usage_cap db' t st = check_usage_cap db t st"
  by (simp add: check_usage_cap_def same_rows_def)

text \<open>The permissions of a subject only depend on the rows of the tenant's roles.\<close>

definition role_join :: "(jsstr \<times> jsstr) list \<Rightarrow> (jsstr \<times> subject_kind \<times> jsstr) list \<Rightarrow> subject_kind \<Rightarrow> jsstr \<Rightarrow> jsstr \<times> 'p \<Rightarrow> 'p list" where
  "role_join roles bindings stype sid = (\<lambda>(rid, p).
     concat (map (\<lambda>(r, t). if r = rid then map (\<lambda>_. p) (filter (\<lambda>(b, bt, bs). b = rid \<and> bt = stype \<and> bs = sid) bindings) else []) roles))"

lemma permissions_join:
  "get_permissions_for_subject db t stype sid =
     concat (map (role_join (own_roles t db) (filter (\<lambda>(r, b). of_role t db r) (tb_bindings db)) stype sid)
       (filter (\<lambda>(r, p). of_role t db r) (tb_permissions db)))"
proof -
  let ?inner = "\<lambda>(rid, p). concat (map (\<lambda>(r, ten). if r = rid \<and> ten = t
      then map (\<lambda>_. p) (filter (\<lambda>(b, bt, bs). b = rid \<and> bt = stype \<and> bs = sid) (tb_bindings db)) else []) (tb_roles db))"
  let ?b = "filter (\<lambda>(r, b). of_role t db r) (tb_bindings db)"
  have e: "?inner x = []" if "\<not> (case x of (r, p) \<Rightarrow> of_role t db r)" for x :: "jsstr \<times> ToolPermission"
    using that by (auto simp: of_role_def split: if_splits)
  have i: "?inner (rid, p) = role_join (own_roles t db) ?b stype sid (rid, p)" if "of_role t db rid" for rid and p :: ToolPermission
  proof -
    have f: "filter (\<lambda>(b, bt, bs). b = rid \<and> bt = stype \<and> bs = sid) ?b = filter (\<lambda>(b, bt, bs). b = rid \<and> bt = stype \<and> bs = sid) (tb_bindings db)"
      unfolding filter_filter by (rule filter_cong) (use that in auto)
    show ?thesis unfolding role_join_def prod.case f own_roles_def by (rule concat_if_pair)
  qed
  have "get_permissions_for_subject db t stype sid = concat (map ?inner (filter (\<lambda>(r, p). of_role t db r) (tb_permissions db)))"
    unfolding get_permissions_for_subject_def by (rule concat_map_filter) (rule e)
  also have "\<dots> = concat (map (role_join (own_roles t db) ?b stype sid) (filter (\<lambda>(r, p). of_role t db r) (tb_permissions db)))"
    by (rule arg_cong [where f = concat], rule map_cong [OF refl]) (use i in auto)
  finally show ?thesis .
qed

lemma same_permissions: "same_rows t db db' \<Longrightarrow> get_permissions_for_subject db' t stype sid = get_permissions_for_subject db t stype sid"
  by (simp add: permissions_join same_rows_def)

lemma and_then_cong:
  "m w = m' w \<Longrightarrow> (\<And>a w1. m w = (Inr a, w1) \<Longrightarrow> f a w1 = f' a w1) \<Longrightarrow> and_then m f w = and_then m' f' w"
  by (auto simp: and_then_def split: prod.splits sum.splits)

lemma gateway_update:
  fixes gw :: gateway
  shows "gw_settings (gw\<lparr>gw_tables := db\<rparr>) = gw_settings gw" "gw_tables (gw\<lparr>gw_tables := db\<rparr>) = db"
    "gw_now (gw\<lparr>gw_tables := db\<rparr>) = gw_now gw" "gw_member_pre (gw\<lparr>gw_tables := db\<rparr>) = gw_member_pre gw"
    "gw_member (gw\<lparr>gw_tables := db\<rparr>) = gw_member gw" "gw_up (gw\<lparr>gw_tables := db\<rparr>) = gw_up gw"
    "gw_loads (gw\<lparr>gw_tables := db\<rparr>) = gw_loads gw" "gw_str (gw\<lparr>gw_tables := db\<rparr>) = gw_str gw"
    "gw_authenticate (gw\<lparr>gw_tables := db\<rparr>) = gw_authenticate gw" "gw_upstream (gw\<lparr>gw_tables := db\<rparr>) = gw_upstream gw"
    "gw_environ (gw\<lparr>gw_tables := db\<rparr>) = gw_environ gw" "gw_plugin (gw\<lparr>gw_tables := db\<rparr>) = gw_plugin gw"
  by simp_all

text \<open>So do the steps of the pipeline.\<close>

lemma same_steps:
  fixes gw :: gateway
  assumes rows: "same_rows (sj_tenant_id subject) (gw_tables gw) db'"
  shows "resolve_server (gw\<lparr>gw_tables := db'\<rparr>) req slug i subject = resolve_server gw req slug i subject"
    and "check_rbac (gw\<lparr>gw_tables := db'\<rparr>) req slug rpc subject = check_rbac gw req slug rpc subject"
    and "check_rate_limit (gw\<lparr>gw_tables := db'\<rparr>) req slug i subject tool = check_rate_limit gw req slug i subject tool"
    and "meter (gw\<lparr>gw_tables := db'\<rparr>) req rpc subject = meter gw req rpc subject"
    and "answer_list (gw\<lparr>gw_tables := db'\<rparr>) req slug rpc subject u hs = answer_list gw req slug rpc subject u hs"
  unfolding fun_eq_iff resolve_server_def answer_list_def check_rbac_def check_rate_limit_def meter_def gateway_update
    same_slug [OF rows] same_permissions [OF rows] same_policies [OF rows] same_cap [OF rows]
  by (rule allI refl)+

lemma free_steps:
  fixes gw :: gateway
  shows "run_pre_auth_checks (gw\<lparr>gw_tables := db'\<rparr>) req slug i = run_pre_auth_checks gw req slug i"
    and "validate_session (gw\<lparr>gw_tables := db'\<rparr>) req slug i subject = validate_session gw req slug i subject"
    and "check_terminable (gw\<lparr>gw_tables := db'\<rparr>) req slug i subject = check_terminable gw req slug i subject"
    and "forget_session (gw\<lparr>gw_tables := db'\<rparr>) req = forget_session gw req"
    and "forward (gw\<lparr>gw_tables := db'\<rparr>) req server mth body stream i rl = forward gw req server mth body stream i rl"
    and "adopt_session (gw\<lparr>gw_tables := db'\<rparr>) req slug i subject u hs = adopt_session gw req slug i subject u hs"
    and "too_large (gw\<lparr>gw_tables := db'\<rparr>) u = too_large gw u"
  unfolding fun_eq_iff run_pre_auth_checks_def validate_session_def check_terminable_def forget_session_def forward_def upstream_headers_def
    adopt_session_def too_large_def gateway_update
  by (rule allI refl)+

lemma same_serving:
  fixes gw :: gateway
  assumes rows: "same_rows (sj_tenant_id subject) (gw_tables gw) db'"
  shows "serve (gw\<lparr>gw_tables := db'\<rparr>) req slug rpc subject server name = serve gw req slug rpc subject server name"
    and "terminate_session (gw\<lparr>gw_tables := db'\<rparr>) req slug rpc subject server = terminate_session gw req slug rpc subject server"
  unfolding serve_def terminate_session_def answer_def deliver_def [abs_def] free_steps same_steps [OF rows] gateway_update by (rule refl)+

lemma same_proxy:
  fixes gw :: gateway
  assumes "\<And>subject. gw_authenticate gw (bearer_token req) = Some subject \<Longrightarrow> same_rows (sj_tenant_id subject) (gw_tables gw) db'"
  shows "proxy_steps (gw\<lparr>gw_tables := db'\<rparr>) req slug rpc w = proxy_steps gw req slug rpc w"
    and "stream_steps (gw\<lparr>gw_tables := db'\<rparr>) req slug w = stream_steps gw req slug w"
proof -
  have adm: "admission (gw\<lparr>gw_tables := db'\<rparr>) req slug rpc w = admission gw req slug rpc w"
    unfolding admission_def free_steps
    by (rule and_then_cong [OF refl]) (simp add: same_steps [OF assms] pre_auth_passed)
  show "proxy_steps (gw\<lparr>gw_tables := db'\<rparr>) req slug rpc w = proxy_steps gw req slug rpc w"
    unfolding proxy_steps_def
  proof (rule and_then_cong, rule adm)
    fix a w1 assume "admission (gw\<lparr>gw_tables := db'\<rparr>) req slug rpc w = (Inr a, w1)"
    then have "admission gw req slug rpc w = (Inr (fst a, fst (snd a), snd (snd a)), w1)" using adm by simp
    from same_serving [OF assms [OF admission_passed(1) [OF this]]]
    show "(case a of (subject, server, name) \<Rightarrow> if rpc_method rpc = ''session/terminate''
          then terminate_session (gw\<lparr>gw_tables := db'\<rparr>) req slug rpc subject server
          else serve (gw\<lparr>gw_tables := db'\<rparr>) req slug rpc subject server name) w1 =
        (case a of (subject, server, name) \<Rightarrow> if rpc_method rpc = ''session/terminate''
          then terminate_session gw req slug rpc subject server else serve gw req slug rpc subject server name) w1"
      by (simp add: case_prod_unfold)
  qed
  show "stream_steps (gw\<lparr>gw_tables := db'\<rparr>) req slug w = stream_steps gw req slug w"
    unfolding stream_steps_def free_steps
    by (rule and_then_cong [OF refl]) (simp add: same_steps [OF assms] pre_auth_passed)
qed

section \<open>An example\<close>

definition demo_rpc :: "jsstr \<Rightarrow> json" where
  "demo_rpc method = JObj [(''jsonrpc'', JStr ''2.0''), (''id'', JNum 1), (''method'', JStr method), (''params'', JObj [(''name'', JStr ''read'')])]"

definition demo_settings :: Settings where
  "demo_settings = \<lparr>st_environment = DEVELOPMENT, st_max_request_body_bytes = 100, st_max_response_body_bytes = 100,
     st_auth_rate_limit_default = ''10/minute'', st_rate_limit_default = ''10/minute'', st_upstream_hosts = [''up''],
     st_usage_enforcement_enabled = False, st_cap_pro = 0, st_cap_enterprise = 0, st_cap_community = 0\<rparr>"

definition demo_tables :: tables where
  "demo_tables = \<lparr>tb_servers = [\<lparr>ms_tenant_id = ''t'', ms_slug = ''s'', ms_upstream_url = ''http://up/'', ms_status = ACTIVE,
       ms_auth_mode = NONE, ms_service_token_env_var = None\<rparr>],
     tb_roles = [(''r'', ''t'')], tb_bindings = [(''r'', API_KEY, ''k'')],
     tb_permissions = [(''r'', \<lparr>tp_id = ''p'', tp_server_pattern = ''s'', tp_tool_pattern = ''re*'', tp_effect = AllowEffect, tp_priority = 0\<rparr>)],
     tb_policies = [], tb_plans = [], tb_month_calls = []\<rparr>"

definition demo_subject :: Subject where
  "demo_subject = \<lparr>sj_subject_id = ''k'', sj_subject_type = API_KEY, sj_tenant_id = ''t'', sj_scopes = []\<rparr>"

definition demo_gw :: gateway where
  "demo_gw = \<lparr>gw_settings = demo_settings, gw_tables = demo_tables, gw_now = 0, gw_member_pre = ''a'', gw_member = ''b'',
     gw_up = (\<lambda>_. True), gw_loads = (\<lambda>body. Some (demo_rpc body)), gw_str = (\<lambda>_. []),
     gw_authenticate = (\<lambda>tok. if tok = ''pk'' then Some demo_subject else None),
     gw_upstream = (\<lambda>_. Inr \<lparr>us_status = 200, us_headers = [], us_content = ''ok''\<rparr>), gw_environ = (\<lambda>_. None), gw_plugin = (\<lambda>_. None)\<rparr>"

definition demo_req :: "headers \<Rightarrow> jsstr \<Rightarrow> http_request" where
  "demo_req hs body = \<lparr>hr_headers = (''authorization'', ''Bearer pk'') # hs, hr_body = body, hr_method = ''POST'', hr_dry_run = None,
     hr_client_ip = ''ip'', hr_request_id = None\<rparr>"

definition demo_world :: world where
  "demo_world = \<lparr>wd_redis = Map.empty, wd_audit = [], wd_usage = [], wd_sent = []\<rparr>"

definition demo_own :: world where
  "demo_own = demo_world\<lparr>wd_redis := put 0 SESSION_TTL_SECONDS (session_key ''session-1'') (session_value (caller demo_subject ''s'')) Map.empty\<rparr>"

definition demo_dry :: http_request where
  "demo_dry = (demo_req [(''mcp-session-id'', ''session-1'')] ''session/terminate'')\<lparr>hr_dry_run := Some ''1''\<rparr>"

lemma demo_dry_sent: "map uq_url (wd_sent (snd (mcp_proxy demo_gw demo_dry ''s'' demo_own))) = [''http://up'']"
  by code_simp

definition demo_lists :: gateway where
  "demo_lists = demo_gw\<lparr>gw_loads := (\<lambda>body. if body = ''ok''
     then Some (JObj [(''result'', JObj [(''tools'', JArr [JObj [(''name'', JStr ''read'')], JObj [(''name'', JStr ''drop'')]])])])
     else Some (demo_rpc body))\<rparr>"

lemma demo_listed:
  "map uq_url (wd_sent (snd (mcp_proxy demo_lists (demo_req [] ''tools/list'') ''s'' demo_world))) = [''http://up'']"
  "rs_body (fst (mcp_proxy demo_lists (demo_req [] ''tools/list'') ''s'' demo_world)) =
     JsonBody (JObj [(''result'', JObj [(''tools'', JArr [JObj [(''name'', JStr ''read'')]])])])"
  by code_simp+

lemma demo_streamed:
  "map uq_url (wd_sent (snd (mcp_proxy demo_gw (demo_req [(''accept'', ''application/json, text/event-stream'')] ''tools/list'') ''s'' demo_world))) =
     [''http://up'']"
  by code_simp

definition demo_others :: tables where
  "demo_others = demo_tables\<lparr>tb_servers := \<lparr>ms_tenant_id = ''x'', ms_slug = ''s'', ms_upstream_url = ''http://other/'', ms_status = ACTIVE,
       ms_auth_mode = NONE, ms_service_token_env_var = None\<rparr> # tb_servers demo_tables,
     tb_roles := (''q'', ''x'') # tb_roles demo_tables, tb_bindings := (''q'', API_KEY, ''k'') # tb_bindings demo_tables,
     tb_permissions := (''q'', \<lparr>tp_id = ''d'', tp_server_pattern = ''s'', tp_tool_pattern = ''read'', tp_effect = DenyEffect, tp_priority = 9\<rparr>)
       # tb_permissions demo_tables\<rparr>"

lemma demo_sent: "map uq_url (wd_sent (snd (mcp_proxy demo_gw (demo_req [] ''tools/call'') ''s'' demo_world))) = [''http://up'']"
  by code_simp

section \<open>Properties\<close>

text \<open>
  C3. Only authorised requests reach an upstream, and each at most once: when the proxy sends anything,
  the body was within the bound and a valid request, its token authenticated a subject, the server is an
  active one of that subject's tenant whose address is still allowed, a session id it carried is owned by
  this subject on this server, the permissions allow the named resource where the method needs that, a
  tool call is under the plan's cap, and a dry run was not asked for unless the method ends a session.
\<close>

theorem forward_only_authorized:
  assumes "mcp_proxy gw req slug w = (r, w')" and "wd_sent w' \<noteq> wd_sent w"
  shows "\<exists>rpc subject server stream.
    length (hr_body req) \<le> st_max_request_body_bytes (gw_settings gw) \<and>
    parse_request (gw_loads gw (hr_body req)) = Inr rpc \<and>
    gw_authenticate gw (bearer_token req) = Some subject \<and>
    reachable_server gw (sj_tenant_id subject) slug server \<and>
    (header ''mcp-session-id'' req = [] \<or>
     session_owner (gw_now gw) (wd_redis w) (header ''mcp-session-id'' req) = Some (caller subject slug)) \<and>
    (rpc_method rpc \<in> set RBAC_REQUIRED \<longrightarrow> (\<exists>n. resource_name rpc = JStr n \<and>
       pd_allowed (evaluate_permission slug n (get_permissions_for_subject (gw_tables gw) (sj_tenant_id subject)
         (sj_subject_type subject) (sj_subject_id subject))))) \<and>
    (rpc_method rpc = ''tools/call'' \<longrightarrow> check_usage_cap (gw_tables gw) (sj_tenant_id subject) (gw_settings gw)) \<and>
    (is_dry_run req \<longrightarrow> rpc_method rpc = ''session/terminate'') \<and>
    wd_sent w' = wd_sent w @ [outgoing gw req server stream]"
proof -
  have "w' \<noteq> w" using assms(2) by auto
  from assms(1) this obtain rpc x where p: "length (hr_body req) \<le> st_max_request_body_bytes (gw_settings gw)"
    "parse_request (gw_loads gw (hr_body req)) = Inr rpc" "proxy_steps gw req slug rpc w = (x, w')"
    by (rule proxy_parsed)
  obtain a w1 where a: "admission gw req slug rpc w = (Inr a, w1)" and s1: "wd_sent w1 = wd_sent w"
    and m: "(case a of (subject, server, name) \<Rightarrow> if rpc_method rpc = ''session/terminate''
        then terminate_session gw req slug rpc subject server else serve gw req slug rpc subject server name) w1 = (x, w')"
    by (rule sent_past_quiet [OF p(3) [unfolded proxy_steps_def] quiet_admission assms(2)])
  obtain subject server name where e: "a = (subject, server, name)" by (cases a)
  note adm = admission_passed [OF a [unfolded e]]
  have n1: "wd_sent w' \<noteq> wd_sent w1" using s1 assms(2) by simp
  have "\<exists>stream. (rpc_method rpc = ''tools/call'' \<longrightarrow> check_usage_cap (gw_tables gw) (sj_tenant_id subject) (gw_settings gw)) \<and>
      (is_dry_run req \<longrightarrow> rpc_method rpc = ''session/terminate'') \<and> wd_sent w' = wd_sent w @ [outgoing gw req server stream]"
  proof (cases "rpc_method rpc = ''session/terminate''")
    case True
    then show ?thesis using terminate_sends [OF _ n1] m e s1 by force
  next
    case False
    then show ?thesis using serve_sends [OF _ n1] m e s1 by force
  qed
  then show ?thesis using p adm by blast
qed

theorem forward_only_authorized_witness:
  "\<exists>rpc server. parse_request (gw_loads demo_gw ''tools/call'') = Inr rpc \<and> reachable_server demo_gw ''t'' ''s'' server \<and>
     wd_sent (snd (mcp_proxy demo_gw (demo_req [] ''tools/call'') ''s'' demo_world)) \<noteq> []"
proof -
  let ?p = "mcp_proxy demo_gw (demo_req [] ''tools/call'') ''s'' demo_world"
  have n: "wd_sent (snd ?p) \<noteq> wd_sent demo_world" using demo_sent by (auto simp: demo_world_def)
  from forward_only_authorized [OF surjective_pairing n] obtain rpc subject server where
    r: "parse_request (gw_loads demo_gw (hr_body (demo_req [] ''tools/call''))) = Inr rpc"
      "gw_authenticate demo_gw (bearer_token (demo_req [] ''tools/call'')) = Some subject"
      "reachable_server demo_gw (sj_tenant_id subject) ''s'' server" by blast
  moreover have "sj_tenant_id subject = ''t''"
    using r(2) by (auto simp: demo_gw_def demo_subject_def split: if_splits)
  ultimately show ?thesis using demo_sent by (auto simp: demo_req_def)
qed

text \<open>
  C8. Nobody's session is touched by another: whatever a caller sends through either endpoint and whatever
  the upstream answers, a live session of another owner keeps that owner, provided the store answers when
  the id that the upstream issued is looked up.
\<close>

theorem sessions_of_others_untouched:
  assumes "gw_up gw ''adopt/get''" and "session_owner (gw_now gw) (wd_redis w) j = Some other"
    and "\<And>subject. gw_authenticate gw (bearer_token req) = Some subject \<Longrightarrow> other \<noteq> caller subject slug"
  shows "session_owner (gw_now gw) (wd_redis (snd (mcp_proxy gw req slug w))) j = Some other \<and>
    session_owner (gw_now gw) (wd_redis (snd (mcp_sse_stream gw req slug w))) j = Some other"
proof
  have k: "kept gw j other w" using assms(2) by (simp add: kept_def owners_def)
  obtain r w' where p: "mcp_proxy gw req slug w = (r, w')" by fastforce
  have "kept gw j other w'"
  proof (cases "w' = w")
    case False
    from p False obtain rpc x where "proxy_steps gw req slug rpc w = (x, w')" by (rule proxy_parsed)
    with tripleD [OF proxy_spares [OF assms(1,3)] k] show ?thesis by blast
  qed (use k in simp)
  then show "session_owner (gw_now gw) (wd_redis (snd (mcp_proxy gw req slug w))) j = Some other"
    using p by (simp add: kept_def owners_def)
  have "kept gw j other (snd (stream_steps gw req slug w))"
    using tripleD [OF stream_spares [OF assms(1,3)] k surjective_pairing] by blast
  then show "session_owner (gw_now gw) (wd_redis (snd (mcp_sse_stream gw req slug w))) j = Some other"
    by (simp add: mcp_sse_stream_def merge_return_def kept_def owners_def)
qed

definition demo_owner :: owner where
  "demo_owner = \<lparr>ow_tenant = ''x'', ow_subject = ''y'', ow_server = ''z''\<rparr>"

definition demo_held :: world where
  "demo_held = demo_world\<lparr>wd_redis := put 0 SESSION_TTL_SECONDS (session_key ''session-1'') (session_value demo_owner) Map.empty\<rparr>"

lemma demo_held_owner: "session_owner (gw_now demo_gw) (wd_redis demo_held) ''session-1'' = Some demo_owner"
  by (simp add: demo_held_def demo_gw_def session_owner_put)

lemma demo_authenticates: "gw_authenticate demo_gw tok = Some subject \<Longrightarrow> subject = demo_subject"
  by (simp add: demo_gw_def split: if_splits)

theorem sessions_of_others_untouched_witness:
  "session_owner 0 (wd_redis (snd (mcp_proxy demo_gw (demo_req [] ''tools/call'') ''s'' demo_held))) ''session-1'' = Some demo_owner"
proof -
  have up: "gw_up demo_gw ''adopt/get''" by (simp add: demo_gw_def)
  have "demo_owner \<noteq> caller subject ''s''" if "gw_authenticate demo_gw (bearer_token (demo_req [] ''tools/call'')) = Some subject" for subject
    using demo_authenticates [OF that] by (simp add: demo_owner_def caller_def demo_subject_def)
  from sessions_of_others_untouched [OF up demo_held_owner this] show ?thesis by (simp add: demo_gw_def)
qed

text \<open>
  C28. The lookup fails open when a session is adopted: if the store does not answer the lookup of the id
  that an upstream issued but answers the write after it, the caller becomes the owner of that id
  whoever owned it before, although \<open>lookup\<close> documents the missing answer as failing closed.
\<close>

theorem adopt_fails_open:
  assumes "\<not> gw_up gw ''adopt/get''" and "gw_up gw ''record''" and "is_valid_session_id (us_header ''mcp-session-id'' u)"
  shows "\<exists>hs' w'. adopt_session gw req slug i subject u hs w = (Inr hs', w') \<and>
    session_owner (gw_now gw) (wd_redis w') (us_header ''mcp-session-id'' u) = Some (caller subject slug)"
proof -
  have "us_header ''mcp-session-id'' u \<noteq> []" using assms(3) by (auto simp: is_valid_session_id_def)
  then show ?thesis
    using assms by (simp add: adopt_session_def Let_def session_lookup_def session_record_def session_owner_put)
qed

definition demo_issuing :: upstream_response where
  "demo_issuing = \<lparr>us_status = 200, us_headers = [(''mcp-session-id'', ''session-1'')], us_content = ''ok''\<rparr>"

theorem adopt_fails_open_witness:
  "\<exists>hs w'. adopt_session (demo_gw\<lparr>gw_up := (\<lambda>c. c = ''record'')\<rparr>) (demo_req [] ''tools/call'') ''s'' (JNum 1) demo_subject demo_issuing [] demo_held = (Inr hs, w') \<and>
     session_owner 0 (wd_redis w') ''session-1'' = Some (caller demo_subject ''s'')"
proof -
  let ?gw = "demo_gw\<lparr>gw_up := (\<lambda>c. c = ''record'')\<rparr>"
  have h: "us_header ''mcp-session-id'' demo_issuing = ''session-1''" by (simp add: us_header_def demo_issuing_def nullish_def)
  have v: "is_valid_session_id (us_header ''mcp-session-id'' demo_issuing)" unfolding h by code_simp
  have "\<not> gw_up ?gw ''adopt/get''" "gw_up ?gw ''record''" by simp_all
  from adopt_fails_open [OF this v, of "demo_req [] ''tools/call''" "''s''" "JNum 1" demo_subject "[]" demo_held]
  show ?thesis by (simp add: h demo_gw_def)
qed



text \<open>
  C10. A filtered tool list shows only permitted tools: whenever the proxy answers a request for the tool
  list with JSON, every tool in the answer is one the permissions of the authenticated subject allow on
  this server.
\<close>

theorem lists_show_only_permitted:
  assumes "mcp_proxy gw req slug w = (r, w')" and "wd_sent w' \<noteq> wd_sent w"
    and "parse_request (gw_loads gw (hr_body req)) = Inr rpc" and "rpc_method rpc = ''tools/list''"
    and "rs_body r = JsonBody (JObj kvs)" and "map_of kvs ''result'' = Some (JObj result)"
    and "map_of result ''tools'' = Some (JArr items)" and "item \<in> set items"
  shows "\<exists>subject. gw_authenticate gw (bearer_token req) = Some subject \<and>
    permitted_item slug (get_permissions_for_subject (gw_tables gw) (sj_tenant_id subject) (sj_subject_type subject) (sj_subject_id subject)) ''name'' item"
proof -
  have no: "\<not> is_error r" using error_no_result [OF _ assms(5)] assms(6) by auto
  have ml: "rpc_method rpc \<noteq> ''session/terminate''" using assms(4) by simp
  from assms(1,2,3) ml obtain u subject name rl w1 x where a: "gw_authenticate gw (bearer_token req) = Some subject"
    "answer gw req slug rpc subject name rl (should_stream req) u w1 = (x, w')" "x = Inl r \<or> x = Inr r"
    by (cases rule: proxy_answers) (use no in auto)
  from a(2,3) obtain hs w2 where d: "deliver gw req slug rpc subject name (should_stream req) u hs w2 = (x, w')"
    by (cases rule: answer_cases) (use no assms(5) in auto)
  let ?ps = "get_permissions_for_subject (gw_tables gw) (sj_tenant_id subject) (sj_subject_type subject) (sj_subject_id subject)"
  have l: "''tools/list'' \<in> set LIST_METHODS" by (simp add: LIST_METHODS_def)
  have "answer_list gw req slug rpc subject u hs w2 = (x, w')"
    using d a(3) assms(4,5) l by (auto simp: deliver_def ret_def split: if_splits)
  then obtain body where "filter_generic_list slug ?ps ''tools'' ''name'' body = Some kvs"
    using a(3) assms(4,5) no
    by (auto simp: answer_list_def filter_list_def filter_tools_list_def ret_def stop_def split: option.splits json.splits)
  from filter_generic_permitted [OF this assms(6,7,8)] a(1) show ?thesis by blast
qed

text \<open>
  C25. A client that accepts an event stream gets the lists unfiltered: any answered request whose
  \<open>Accept\<close> header names the event stream is answered with the upstream's bytes as they are, tool lists
  included, and no permission has a say in it.
\<close>

theorem stream_bypasses_filter:
  assumes "mcp_proxy gw req slug w = (r, w')" and "wd_sent w' \<noteq> wd_sent w"
    and "parse_request (gw_loads gw (hr_body req)) = Inr rpc" and "rpc_method rpc \<in> set LIST_METHODS" and "rpc_id rpc \<noteq> JNull"
    and "should_stream req" and "gw_upstream gw (last (wd_sent w')) = Inr u" and "us_header ''mcp-session-id'' u = []"
  shows "rs_body r = StreamBody (us_content u)"
proof -
  have ml: "rpc_method rpc \<noteq> ''session/terminate''" using assms(4) by (auto simp: LIST_METHODS_def)
  from assms(1,2,3) ml obtain subject name rl w1 x where
    "answer gw req slug rpc subject name rl (should_stream req) u w1 = (x, w')" and x: "x = Inl r \<or> x = Inr r"
    by (cases rule: proxy_answers) (use assms(7) in auto)
  then obtain hs w2 where d: "deliver gw req slug rpc subject name (should_stream req) u hs w2 = (x, w')"
    by (cases rule: answer_cases) (use assms(5,6,8) in auto)
  then show ?thesis using x assms(6) by (auto simp: deliver_def ret_def)
qed

theorem lists_show_only_permitted_witness:
  "permitted_item ''s'' (get_permissions_for_subject demo_tables ''t'' API_KEY ''k'') ''name'' (JObj [(''name'', JStr ''read'')])"
proof -
  have p: "parse_request (gw_loads demo_lists (hr_body (demo_req [] ''tools/list''))) =
      Inr \<lparr>rpc_method = ''tools/list'', rpc_id = JNum 1, rpc_params = Some [(''name'', JStr ''read'')]\<rparr>"
    by code_simp
  have n: "wd_sent (snd (mcp_proxy demo_lists (demo_req [] ''tools/list'') ''s'' demo_world)) \<noteq> wd_sent demo_world"
    using demo_listed by (auto simp: demo_world_def)
  from lists_show_only_permitted [OF surjective_pairing n p _ demo_listed(2), of "[(''tools'', JArr [JObj [(''name'', JStr ''read'')]])]"
      "[JObj [(''name'', JStr ''read'')]]" "JObj [(''name'', JStr ''read'')]"]
  obtain subject where "gw_authenticate demo_lists (bearer_token (demo_req [] ''tools/list'')) = Some subject"
    and "permitted_item ''s'' (get_permissions_for_subject (gw_tables demo_lists) (sj_tenant_id subject) (sj_subject_type subject)
      (sj_subject_id subject)) ''name'' (JObj [(''name'', JStr ''read'')])" by auto
  then show ?thesis by (auto simp: demo_lists_def demo_gw_def demo_subject_def split: if_splits)
qed

theorem stream_bypasses_filter_witness:
  "rs_body (fst (mcp_proxy demo_gw (demo_req [(''accept'', ''application/json, text/event-stream'')] ''tools/list'') ''s'' demo_world)) = StreamBody ''ok''"
proof -
  let ?req = "demo_req [(''accept'', ''application/json, text/event-stream'')] ''tools/list''"
  have p: "parse_request (gw_loads demo_gw (hr_body ?req)) =
      Inr \<lparr>rpc_method = ''tools/list'', rpc_id = JNum 1, rpc_params = Some [(''name'', JStr ''read'')]\<rparr>"
    by code_simp
  have n: "wd_sent (snd (mcp_proxy demo_gw ?req ''s'' demo_world)) \<noteq> wd_sent demo_world"
    using demo_streamed by (auto simp: demo_world_def)
  have s: "should_stream ?req" by code_simp
  show ?thesis
    using stream_bypasses_filter [OF surjective_pairing n p _ _ s, of "\<lparr>us_status = 200, us_headers = [], us_content = ''ok''\<rparr>"]
    by (simp add: demo_gw_def us_header_def nullish_def LIST_METHODS_def)
qed

text \<open>
  C6. Tenants do not see each other: what either endpoint answers to a request, what it sends upstream and
  what it records depend on the rows of the authenticated subject's tenant only; any change to the servers,
  roles, bindings, permissions, policies, plans and counters of other tenants leaves all of it the same.
\<close>

theorem tenant_isolation:
  fixes gw :: gateway
  assumes "\<And>subject. gw_authenticate gw (bearer_token req) = Some subject \<Longrightarrow> same_rows (sj_tenant_id subject) (gw_tables gw) db'"
  shows "mcp_proxy (gw\<lparr>gw_tables := db'\<rparr>) req slug w = mcp_proxy gw req slug w \<and>
    mcp_sse_stream (gw\<lparr>gw_tables := db'\<rparr>) req slug w = mcp_sse_stream gw req slug w"
proof -
  have "proxy_steps (gw\<lparr>gw_tables := db'\<rparr>) req slug rpc w = proxy_steps gw req slug rpc w" for rpc
    by (rule same_proxy(1)) (rule assms)
  moreover have "stream_steps (gw\<lparr>gw_tables := db'\<rparr>) req slug w = stream_steps gw req slug w"
    by (rule same_proxy(2)) (rule assms)
  ultimately show ?thesis unfolding mcp_proxy_def mcp_sse_stream_def gateway_update by (simp only: simp_thms)
qed

theorem tenant_isolation_witness:
  "mcp_proxy (demo_gw\<lparr>gw_tables := demo_others\<rparr>) (demo_req [] ''tools/call'') ''s'' demo_world =
   mcp_proxy demo_gw (demo_req [] ''tools/call'') ''s'' demo_world"
proof -
  have "same_rows (sj_tenant_id demo_subject) (gw_tables demo_gw) demo_others"
    by (simp add: same_rows_def demo_others_def demo_gw_def demo_tables_def demo_subject_def own_roles_def of_role_def)
  then have "same_rows (sj_tenant_id subject) (gw_tables demo_gw) demo_others"
    if "gw_authenticate demo_gw (bearer_token (demo_req [] ''tools/call'')) = Some subject" for subject
    using demo_authenticates [OF that] by simp
  from tenant_isolation [OF this] show ?thesis by blast
qed

text \<open>
  C30. The values in the store keep their types: sessions stay under session keys and counters under the
  keys of the limiter, whatever requests either endpoint serves, so no lookup of a session ever meets a
  counter and no counter a session.
\<close>

theorem store_stays_typed:
  assumes "store_typed (wd_redis w)"
  shows "store_typed (wd_redis (snd (mcp_proxy gw req slug w))) \<and> store_typed (wd_redis (snd (mcp_sse_stream gw req slug w)))"
proof
  show "store_typed (wd_redis (snd (mcp_proxy gw req slug w)))"
    unfolding mcp_proxy_def Let_def merge_return_def
    by (simp add: assms typed_step [OF keeps_type_proxy assms] split: option.split sum.split)
  show "store_typed (wd_redis (snd (mcp_sse_stream gw req slug w)))"
    by (simp add: mcp_sse_stream_def merge_return_def typed_step [OF keeps_type_stream assms])
qed

theorem store_stays_typed_witness:
  "store_typed (wd_redis (snd (mcp_proxy demo_gw (demo_req [] ''tools/call'') ''s'' demo_held)))"
proof -
  have "store_typed (wd_redis demo_held)"
    unfolding demo_held_def session_value_def by (simp, intro typed_put entry_session) (simp add: store_typed_def)
  from store_stays_typed [OF this] show ?thesis by blast
qed

end
