(* ===== verification/Keys_Api.thy ===== *)
theory Keys_Api
  imports Gateway_Router
begin

text \<open>
  The management endpoint of API keys: the dependencies of \<open>api/app/auth/dependencies.py\<close> that admit a
  caller, the request schema \<open>ApiKeyCreate\<close> of \<open>models/schemas.py\<close>, and the three routes of
  \<open>api/app/api/api_keys.py\<close>, over the table of \<^theory_text>\<open>Gateway_Auth\<close>. The parser of a UUID and the moment of a
  change are arguments. The creation moment of a row is not part of the model.
\<close>

section \<open>Users and members\<close>

datatype UserApprovalStatus = APPROVED | PENDING | REJECTED

datatype OrgRole = ORG_OWNER | ORG_ADMIN | DEVELOPER | VIEWER

datatype MemberRole =
    MEMBER_ORG_OWNER | MEMBER_ORG_ADMIN | MEMBER_DEVELOPER | MEMBER_TEAM_MEMBER | MEMBER_VIEWER | MEMBER_AUDITOR | MEMBER_BILLING_ADMIN

record User =
  us_id :: jsstr
  us_tenant_id :: jsstr
  us_is_active :: bool
  us_is_platform_admin :: bool
  us_org_role :: "OrgRole option"
  us_approval_status :: UserApprovalStatus

record OrgMember =
  om_tenant_id :: jsstr
  om_user_subject :: jsstr
  om_admin_role :: MemberRole

text \<open>The tables the dependencies read, and whether the database answers.\<close>

record accounts =
  ac_users :: "User list"
  ac_members :: "OrgMember list"
  ac_keys :: "ApiKey list"
  ac_up :: bool

definition user_by_id :: "jsstr \<Rightarrow> jsstr \<Rightarrow> User list \<Rightarrow> User option" where
  "user_by_id tenant_id user_id users = find (\<lambda>u. us_tenant_id u = tenant_id \<and> us_id u = user_id) users"

definition get_by_subject :: "jsstr \<Rightarrow> jsstr \<Rightarrow> OrgMember list \<Rightarrow> OrgMember option" where
  "get_by_subject tenant_id user_subject members =
     find (\<lambda>m. om_tenant_id m = tenant_id \<and> om_user_subject m = user_subject) members"

definition get_by_id :: "jsstr \<Rightarrow> jsstr \<Rightarrow> ApiKey list \<Rightarrow> ApiKey option" where
  "get_by_id key_id tenant_id keys = find (\<lambda>k. ak_id k = key_id \<and> ak_tenant_id k = tenant_id \<and> ak_revoked_at k = None) keys"

definition list_active :: "jsstr \<Rightarrow> ApiKey list \<Rightarrow> ApiKey list" where
  "list_active tenant_id keys = filter (\<lambda>k. ak_tenant_id k = tenant_id \<and> ak_revoked_at k = None) keys"

section \<open>Dependencies\<close>

type_synonym api_error = "nat \<times> jsstr"

definition unauthorized :: api_error where
  "unauthorized = (401, ''Invalid or missing credentials'')"

definition has_scope :: "Subject \<Rightarrow> jsstr \<Rightarrow> bool" where
  "has_scope subject scope \<longleftrightarrow> scope \<in> set (sj_scopes subject)"

text \<open>The header decides; without a token there, the cookie of the single sign-on does.\<close>

definition current_subject :: "(jsstr \<Rightarrow> Subject option) \<Rightarrow> jsstr \<Rightarrow> jsstr option \<Rightarrow> api_error + Subject" where
  "current_subject auth authorization cookie =
     (let header_raw = py_strip (if prefix ''Bearer '' authorization then drop 7 authorization else authorization);
          raw = (if header_raw = [] then py_strip (nullish cookie []) else header_raw)
      in if raw = [] then Inl unauthorized
         else (case auth raw of None \<Rightarrow> Inl unauthorized | Some subject \<Rightarrow> Inr subject))"

definition member_admin :: "OrgMember option \<Rightarrow> bool" where
  "member_admin m = (case m of None \<Rightarrow> False | Some m \<Rightarrow> om_admin_role m \<in> {MEMBER_ORG_OWNER, MEMBER_ORG_ADMIN})"

definition user_admin :: "User option \<Rightarrow> bool" where
  "user_admin u =
     (case u of
        None \<Rightarrow> False
      | Some u \<Rightarrow> us_is_active u \<and> (us_is_platform_admin u \<or> us_org_role u \<in> {Some ORG_OWNER, Some ORG_ADMIN}))"

text \<open>
  A key of a user counts with the user's row and with the member row of the user's id. Any failure of a
  lookup is caught and ends in the refusal.
\<close>

definition key_admin :: "(jsstr \<Rightarrow> jsstr option) \<Rightarrow> accounts \<Rightarrow> Subject \<Rightarrow> bool" where
  "key_admin uuid ac subject =
     (case Option.bind (uuid (sj_subject_id subject)) (\<lambda>i. get_by_id i (sj_tenant_id subject) (ac_keys ac)) of
        None \<Rightarrow> False
      | Some k \<Rightarrow>
          (case ak_user_id k of
             None \<Rightarrow> False
           | Some u \<Rightarrow>
               user_admin (user_by_id (sj_tenant_id subject) u (ac_users ac)) \<or>
               member_admin (get_by_subject (sj_tenant_id subject) u (ac_members ac))))"

definition admin_subject :: "(jsstr \<Rightarrow> jsstr option) \<Rightarrow> accounts \<Rightarrow> Subject \<Rightarrow> api_error + Subject" where
  "admin_subject uuid ac subject =
     (if has_scope subject ''admin'' then Inr subject
      else if \<not> ac_up ac then Inl (403, ''Admin scope required'')
      else if sj_subject_type subject = API_KEY \<and> key_admin uuid ac subject then Inr subject
      else if member_admin (get_by_subject (sj_tenant_id subject) (sj_subject_id subject) (ac_members ac)) then Inr subject
      else Inl (403, ''Admin scope required''))"

text \<open>\<open>dflt\<close> is the default tenant; a lookup that fails and a subject id that is no UUID raise.\<close>

definition platform_admin_subject :: "(jsstr \<Rightarrow> jsstr option) \<Rightarrow> jsstr \<Rightarrow> accounts \<Rightarrow> Subject \<Rightarrow> api_error + Subject" where
  "platform_admin_subject uuid dflt ac subject =
     (if sj_subject_type subject \<noteq> API_KEY then Inl unauthorized
      else case uuid (sj_subject_id subject) of
        None \<Rightarrow> Inl (500, ''Internal server error'')
      | Some i \<Rightarrow>
          if \<not> ac_up ac then Inl (500, ''Internal server error'')
          else (case Option.bind (get_by_id i dflt (ac_keys ac)) ak_user_id of
             None \<Rightarrow> Inl unauthorized
           | Some u \<Rightarrow>
               (case user_by_id dflt u (ac_users ac) of
                  None \<Rightarrow> Inl unauthorized
                | Some user \<Rightarrow>
                    if \<not> us_is_active user \<or> us_approval_status user \<noteq> APPROVED then Inl unauthorized
                    else if \<not> us_is_platform_admin user then Inl (403, ''Platform admin required'')
                    else Inr subject)))"

section \<open>The request body\<close>

record ApiKeyCreate =
  kc_name :: jsstr
  kc_scopes :: "jsstr list"

definition ALLOWED_SCOPES :: "jsstr list" where
  "ALLOWED_SCOPES = [''admin'', ''auditor'']"

definition validate_scopes :: "jsstr list \<Rightarrow> bool" where
  "validate_scopes scopes = list_all (\<lambda>s. s \<in> set ALLOWED_SCOPES \<and> length s \<le> 50) scopes"

definition valid_create :: "ApiKeyCreate \<Rightarrow> bool" where
  "valid_create body \<longleftrightarrow>
     1 \<le> length (kc_name body) \<and> length (kc_name body) \<le> 200 \<and> length (kc_scopes body) \<le> 20 \<and> validate_scopes (kc_scopes body)"

section \<open>Routes\<close>

record ApiKeyView =
  kv_id :: jsstr
  kv_name :: jsstr
  kv_key_prefix :: jsstr
  kv_scopes :: "jsstr list"
  kv_last_used_at :: "int option"

definition key_view :: "ApiKey \<Rightarrow> ApiKeyView" where
  "key_view k = \<lparr>kv_id = ak_id k, kv_name = ak_name k, kv_key_prefix = ak_key_prefix k, kv_scopes = ak_scopes k, kv_last_used_at = ak_last_used_at k\<rparr>"

text \<open>What a request of the key API draws and computes: the row id, the two random strings, the hasher, the pepper.\<close>

record key_source =
  ks_id :: jsstr
  ks_prefix :: jsstr
  ks_secret :: jsstr
  ks_hash :: "jsstr \<Rightarrow> jsstr"
  ks_pepper :: jsstr

definition create_api_key :: "key_source \<Rightarrow> ApiKeyCreate \<Rightarrow> Subject \<Rightarrow> ApiKey list \<Rightarrow> (api_error + ApiKeyView \<times> jsstr) \<times> ApiKey list" where
  "create_api_key src body subject keys =
     (case issue_key (ks_hash src) (ks_id src) (ks_prefix src) (ks_secret src) (kc_name body) (kc_scopes body) (ks_pepper src)
             (sj_tenant_id subject) None keys of
        None \<Rightarrow> (Inl (500, ''Internal server error''), keys)
      | Some (plain, keys') \<Rightarrow>
          (case get_by_prefix (ks_prefix src) keys' of
             None \<Rightarrow> (Inl (500, ''Failed to retrieve created key''), keys')
           | Some k \<Rightarrow> (Inr (key_view k, plain), keys')))"

text \<open>The page of a listing and the total of its header.\<close>

definition list_api_keys :: "nat \<Rightarrow> nat \<Rightarrow> Subject \<Rightarrow> ApiKey list \<Rightarrow> api_error + nat \<times> ApiKeyView list" where
  "list_api_keys limit offset subject keys =
     (if limit < 1 \<or> 200 < limit then Inl (422, ''limit'')
      else (let active = list_active (sj_tenant_id subject) keys
            in Inr (length active, map key_view (take limit (drop offset active)))))"

definition revoke_api_key :: "jsstr \<Rightarrow> jsstr \<Rightarrow> Subject \<Rightarrow> ApiKey list \<Rightarrow> (api_error + unit) \<times> ApiKey list" where
  "revoke_api_key moment key_id subject keys =
     (case revoke_key moment key_id (sj_tenant_id subject) keys of
        None \<Rightarrow> (Inl (404, ''Key '' @ key_id @ '' not found''), keys)
      | Some keys' \<Rightarrow> (Inr (), keys'))"

text \<open>A creation as the framework runs it: the dependencies, the body, the handler.\<close>

definition post_api_keys ::
  "(jsstr \<Rightarrow> jsstr option) \<Rightarrow> key_source \<Rightarrow> (api_error + Subject) \<Rightarrow> ApiKeyCreate \<Rightarrow> accounts \<Rightarrow> (api_error + ApiKeyView \<times> jsstr) \<times> accounts" where
  "post_api_keys uuid src who body ac =
     (case who of
        Inl e \<Rightarrow> (Inl e, ac)
      | Inr s \<Rightarrow>
          (case admin_subject uuid ac s of
             Inl e \<Rightarrow> (Inl e, ac)
           | Inr subject \<Rightarrow>
               if \<not> valid_create body then (Inl (422, ''body''), ac)
               else (case create_api_key src body subject (ac_keys ac) of (r, keys') \<Rightarrow> (r, ac\<lparr>ac_keys := keys'\<rparr>))))"

definition delete_api_keys ::
  "(jsstr \<Rightarrow> jsstr option) \<Rightarrow> jsstr \<Rightarrow> (api_error + Subject) \<Rightarrow> jsstr \<Rightarrow> accounts \<Rightarrow> (api_error + unit) \<times> accounts" where
  "delete_api_keys uuid moment who key_id ac =
     (case who of
        Inl e \<Rightarrow> (Inl e, ac)
      | Inr s \<Rightarrow>
          (case admin_subject uuid ac s of
             Inl e \<Rightarrow> (Inl e, ac)
           | Inr subject \<Rightarrow>
               (case revoke_api_key moment key_id subject (ac_keys ac) of (r, keys') \<Rightarrow> (r, ac\<lparr>ac_keys := keys'\<rparr>))))"


datatype key_request =
    PostKey key_source "api_error + Subject" ApiKeyCreate
  | DeleteKey jsstr "api_error + Subject" jsstr

fun key_api :: "(jsstr \<Rightarrow> jsstr option) \<Rightarrow> key_request \<Rightarrow> accounts \<Rightarrow> accounts" where
  "key_api uuid (PostKey src who body) ac = snd (post_api_keys uuid src who body ac)"
| "key_api uuid (DeleteKey moment who key_id) ac = snd (delete_api_keys uuid moment who key_id ac)"

fun request_tenant :: "key_request \<Rightarrow> jsstr option" where
  "request_tenant (PostKey _ (Inr s) _) = Some (sj_tenant_id s)"
| "request_tenant (DeleteKey _ (Inr s) _) = Some (sj_tenant_id s)"
| "request_tenant _ = None"

section \<open>Lemmas\<close>

lemma admin_subject_same: "admin_subject uuid ac s = Inr s' \<Longrightarrow> s' = s"
  by (auto simp: admin_subject_def split: if_splits)

lemma issue_key_rows:
  "issue_key hash i pre secret name scopes pepper ten user keys = Some (plain, keys') \<Longrightarrow>
   plain = ''pk_'' @ pre @ ''_'' @ secret \<and> pre \<notin> ak_key_prefix ` set keys \<and>
   keys' = keys @ [\<lparr>ak_id = i, ak_tenant_id = ten, ak_user_id = user, ak_name = name, ak_key_prefix = pre, ak_key_hash = hash (secret @ pepper),
     ak_scopes = scopes, ak_last_used_at = None, ak_revoked_at = None\<rparr>]"
  by (auto simp: issue_key_def key_create_def split: if_splits)

lemma get_new_prefix: "pre \<notin> ak_key_prefix ` set keys \<Longrightarrow> get_by_prefix pre (keys @ [k]) = get_by_prefix pre [k]"
proof -
  assume "pre \<notin> ak_key_prefix ` set keys"
  then have "find (\<lambda>k. ak_key_prefix k = pre \<and> ak_revoked_at k = None) keys = None" by (intro find_None_all) auto
  then show ?thesis unfolding get_by_prefix_def find_append by simp
qed

lemma revoke_key_rows:
  "revoke_key moment i ten keys = Some keys' \<Longrightarrow>
   keys' = map (\<lambda>k. if ak_id k = i \<and> ak_tenant_id k = ten \<and> ak_revoked_at k = None then k\<lparr>ak_revoked_at := Some moment\<rparr> else k) keys"
  by (auto simp: revoke_key_def key_revoke_def Let_def split: if_splits)

lemma filter_map_other:
  assumes "\<And>x. P (f x) = P x" and "\<And>x. P x \<Longrightarrow> f x = x"
  shows "filter P (map f xs) = filter P xs"
  by (induction xs) (simp_all add: assms)

lemma create_rows_other:
  assumes "sj_tenant_id s \<noteq> ten"
  shows "filter (\<lambda>k. ak_tenant_id k = ten) (snd (create_api_key src body s keys)) = filter (\<lambda>k. ak_tenant_id k = ten) keys"
  using assms by (auto simp: create_api_key_def dest!: issue_key_rows split: option.split)

lemma revoke_rows_other:
  assumes "sj_tenant_id s \<noteq> ten"
  shows "filter (\<lambda>k. ak_tenant_id k = ten) (snd (revoke_api_key moment i s keys)) = filter (\<lambda>k. ak_tenant_id k = ten) keys"
proof (cases "revoke_key moment i (sj_tenant_id s) keys")
  case (Some keys')
  then have "filter (\<lambda>k. ak_tenant_id k = ten) keys' = filter (\<lambda>k. ak_tenant_id k = ten) keys"
    unfolding revoke_key_rows [OF Some] by (intro filter_map_other) (use assms in auto)
  then show ?thesis using Some by (simp add: revoke_api_key_def)
qed (simp add: revoke_api_key_def)

lemma key_api_other:
  assumes "request_tenant r \<noteq> Some ten"
  shows "filter (\<lambda>k. ak_tenant_id k = ten) (ac_keys (key_api uuid r ac)) = filter (\<lambda>k. ak_tenant_id k = ten) (ac_keys ac)"
proof (cases r)
  case (PostKey src who body)
  show ?thesis
  proof (cases who)
    case (Inr s)
    then have "sj_tenant_id s \<noteq> ten" using assms PostKey by simp
    from create_rows_other [OF this] show ?thesis
      unfolding PostKey Inr key_api.simps post_api_keys_def
      by (auto simp: case_prod_unfold dest!: admin_subject_same split: sum.split)
  qed (simp add: PostKey post_api_keys_def)
next
  case (DeleteKey moment who i)
  show ?thesis
  proof (cases who)
    case (Inr s)
    then have "sj_tenant_id s \<noteq> ten" using assms DeleteKey by simp
    from revoke_rows_other [OF this] show ?thesis
      unfolding DeleteKey Inr key_api.simps delete_api_keys_def
      by (auto simp: case_prod_unfold dest!: admin_subject_same split: sum.split)
  qed (simp add: DeleteKey delete_api_keys_def)
qed

lemma url_safe_no_space: "url_safe c \<Longrightarrow> \<not> py_space c"
  unfolding url_safe_def by (auto simp: py_space_def)

lemma py_strip_bare:
  assumes "s \<noteq> []" and "\<not> py_space (hd s)" and "\<not> py_space (last s)"
  shows "py_strip s = s"
proof -
  have "dropWhile py_space s = s" "dropWhile py_space (rev s) = rev s"
    using assms by (simp_all add: dropWhile_eq_self_iff hd_rev)
  then show ?thesis by (simp add: py_strip_def)
qed

lemma issued_token_bare:
  assumes "secret \<noteq> []" and "list_all url_safe secret"
  shows "py_strip (''pk_'' @ pre @ ''_'' @ secret) = ''pk_'' @ pre @ ''_'' @ secret"
proof (rule py_strip_bare)
  have "last secret \<in> set secret" using assms(1) by simp
  then show "\<not> py_space (last (''pk_'' @ pre @ ''_'' @ secret))"
    using assms url_safe_no_space by (simp add: list_all_iff)
qed (simp_all add: py_space_def)

lemma created_key:
  assumes "post_api_keys uuid src who body ac = (Inr (view, plain), ac')"
  obtains s where "who = Inr s" "valid_create body"
    "plain = ''pk_'' @ ks_prefix src @ ''_'' @ ks_secret src" "ks_prefix src \<notin> ak_key_prefix ` set (ac_keys ac)"
    "ac' = ac\<lparr>ac_keys := ac_keys ac @
       [\<lparr>ak_id = ks_id src, ak_tenant_id = sj_tenant_id s, ak_user_id = None, ak_name = kc_name body, ak_key_prefix = ks_prefix src,
         ak_key_hash = ks_hash src (ks_secret src @ ks_pepper src), ak_scopes = kc_scopes body, ak_last_used_at = None, ak_revoked_at = None\<rparr>]\<rparr>"
proof -
  obtain s where s: "who = Inr s" using assms by (cases who) (auto simp: post_api_keys_def)
  have a: "admin_subject uuid ac s = Inr s" and v: "valid_create body"
    using assms s by (auto simp: post_api_keys_def dest: admin_subject_same split: sum.splits if_splits)
  have c: "create_api_key src body s (ac_keys ac) = (Inr (view, plain), ac_keys ac')" and ac: "ac' = ac\<lparr>ac_keys := ac_keys ac'\<rparr>"
    using assms by (auto simp: post_api_keys_def s a v split: prod.splits)
  obtain k' where "issue_key (ks_hash src) (ks_id src) (ks_prefix src) (ks_secret src) (kc_name body) (kc_scopes body) (ks_pepper src)
      (sj_tenant_id s) None (ac_keys ac) = Some (plain, k')" and "ac_keys ac' = k'"
    using c by (auto simp: create_api_key_def split: option.splits)
  from issue_key_rows [OF this(1)] this(2) ac s v that show ?thesis by metis
qed

section \<open>Properties\<close>

text \<open>
  C14. The key API acts within one tenant: whatever keys are created and revoked, by callers admitted or
  not, the rows of a tenant none of the callers belongs to stay as they are, so no caller creates,
  revokes or changes a key of another tenant.
\<close>

theorem key_rows_confined:
  assumes "\<And>r. r \<in> set rs \<Longrightarrow> request_tenant r \<noteq> Some ten"
  shows "filter (\<lambda>k. ak_tenant_id k = ten) (ac_keys (fold (key_api uuid) rs ac)) = filter (\<lambda>k. ak_tenant_id k = ten) (ac_keys ac)"
  using assms
proof (induction rs arbitrary: ac)
  case (Cons r rs)
  then show ?case using key_api_other [of r ten uuid ac] by simp
qed simp

definition demo_accounts :: accounts where
  "demo_accounts = \<lparr>ac_users = [], ac_members = [], ac_keys = [demo_key], ac_up = True\<rparr>"

definition demo_admin :: "jsstr \<Rightarrow> Subject" where
  "demo_admin ten = \<lparr>sj_subject_id = ''root'', sj_subject_type = API_KEY, sj_tenant_id = ten, sj_scopes = [''admin'']\<rparr>"

definition demo_source :: key_source where
  "demo_source = \<lparr>ks_id = ''k2'', ks_prefix = ''cccccccc'', ks_secret = replicate 43 (CHR ''d''), ks_hash = id, ks_pepper = ''p''\<rparr>"

theorem key_rows_confined_witness:
  "filter (\<lambda>k. ak_tenant_id k = ''t'')
     (ac_keys (fold (key_api Some)
        [PostKey demo_source (Inr (demo_admin ''u'')) \<lparr>kc_name = ''n'', kc_scopes = []\<rparr>, DeleteKey ''now'' (Inr (demo_admin ''u'')) ''k1'']
        demo_accounts)) = [demo_key]"
proof -
  have r: "request_tenant r \<noteq> Some ''t''"
    if "r \<in> set [PostKey demo_source (Inr (demo_admin ''u'')) \<lparr>kc_name = ''n'', kc_scopes = []\<rparr>, DeleteKey ''now'' (Inr (demo_admin ''u'')) ''k1'']" for r
    using that by (auto simp: demo_admin_def)
  show ?thesis by (rule trans, rule key_rows_confined, erule r) (simp add: demo_accounts_def demo_key_def)
qed

text \<open>
  C18. A created key is what was asked for: with well-formed random strings and a hasher that accepts a
  text against its own hash, the plaintext in the answer authenticates at once as the new key, in the
  tenant of its creator and with the scopes of the body; and unless the directory lists the new id as a
  member, the key is admitted to the management API exactly when the body asked for the scope \<open>admin\<close>.
\<close>

theorem created_key_admitted:
  assumes "post_api_keys uuid src (Inr s) body ac = (Inr (view, plain), ac')"
    and "length (ks_prefix src) = 8" "list_all url_safe (ks_prefix src)" "length (ks_secret src) = 43" "list_all url_safe (ks_secret src)"
    and "\<And>x. verify (ks_hash src x) x"
  shows "\<exists>subject. current_subject (authenticate (verify_key verify (ks_pepper src) fb (ac_keys ac')) by_jwt jwt) (''Bearer '' @ plain) cookie = Inr subject \<and>
      sj_subject_id subject = ks_id src \<and> sj_tenant_id subject = sj_tenant_id s \<and> sj_scopes subject = kc_scopes body \<and>
      (get_by_subject (sj_tenant_id s) (ks_id src) (ac_members ac') = None \<and> (\<forall>k\<in>set (ac_keys ac). ak_id k \<noteq> ks_id src) \<and> uuid (ks_id src) = Some (ks_id src) \<longrightarrow>
        (admin_subject uuid ac' subject = Inr subject \<longleftrightarrow> ''admin'' \<in> set (kc_scopes body)))"
proof -
  let ?pre = "ks_prefix src" and ?sec = "ks_secret src"
  let ?k = "\<lparr>ak_id = ks_id src, ak_tenant_id = sj_tenant_id s, ak_user_id = None, ak_name = kc_name body, ak_key_prefix = ?pre,
    ak_key_hash = ks_hash src (?sec @ ks_pepper src), ak_scopes = kc_scopes body, ak_last_used_at = None, ak_revoked_at = None\<rparr>"
  let ?s = "\<lparr>sj_subject_id = ks_id src, sj_subject_type = API_KEY, sj_tenant_id = sj_tenant_id s, sj_scopes = kc_scopes body\<rparr>"
  from assms(1) have plain: "plain = ''pk_'' @ ?pre @ ''_'' @ ?sec" and new: "?pre \<notin> ak_key_prefix ` set (ac_keys ac)"
    and ac': "ac' = ac\<lparr>ac_keys := ac_keys ac @ [?k]\<rparr>"
    by (auto elim!: created_key)
  have strip: "py_strip plain = plain" unfolding plain by (rule issued_token_bare) (use assms(4,5) in auto)
  have "verify_key verify (ks_pepper src) fb (ac_keys ac') plain = Some ?s"
    unfolding verify_key_def plain parse_key_plain [OF assms(2-5)] ac' using assms(6) get_new_prefix [OF new, of ?k]
    by (simp add: get_by_prefix_def)
  then have "current_subject (authenticate (verify_key verify (ks_pepper src) fb (ac_keys ac')) by_jwt jwt) (''Bearer '' @ plain) cookie = Inr ?s"
    using strip by (simp add: current_subject_def Let_def authenticate_def plain)
  moreover have "admin_subject uuid ac' ?s = Inr ?s \<longleftrightarrow> ''admin'' \<in> set (kc_scopes body)"
    if h: "get_by_subject (sj_tenant_id s) (ks_id src) (ac_members ac') = None" "\<forall>k\<in>set (ac_keys ac). ak_id k \<noteq> ks_id src" "uuid (ks_id src) = Some (ks_id src)"
  proof -
    have "find (\<lambda>k. ak_id k = ks_id src \<and> ak_tenant_id k = sj_tenant_id s \<and> ak_revoked_at k = None) (ac_keys ac) = None"
      using h(2) by (intro find_None_all) auto
    then have "\<not> key_admin uuid ac' ?s" using h(3) by (simp add: key_admin_def get_by_id_def ac' find_append)
    then show ?thesis using h(1) by (simp add: admin_subject_def has_scope_def member_admin_def)
  qed
  ultimately show ?thesis by (intro exI [of _ ?s]) simp
qed

theorem created_key_admitted_witness:
  "\<exists>subject. current_subject
       (authenticate (verify_key (=) ''p'' None (ac_keys (snd (post_api_keys Some demo_source (Inr (demo_admin ''u'')) \<lparr>kc_name = ''n'', kc_scopes = [''admin'']\<rparr> demo_accounts))))
         (\<lambda>_. None) False) (''Bearer '' @ ''pk_cccccccc_'' @ replicate 43 (CHR ''d'')) None = Inr subject \<and> sj_tenant_id subject = ''u''"
proof -
  let ?r = "post_api_keys Some demo_source (Inr (demo_admin ''u'')) \<lparr>kc_name = ''n'', kc_scopes = [''admin'']\<rparr> demo_accounts"
  have "\<exists>v. fst ?r = Inr (v, ''pk_cccccccc_'' @ replicate 43 (CHR ''d''))"
    by (simp add: post_api_keys_def admin_subject_def has_scope_def demo_admin_def valid_create_def validate_scopes_def ALLOWED_SCOPES_def
        create_api_key_def issue_key_def key_create_def demo_source_def demo_accounts_def demo_key_def get_by_prefix_def)
  then obtain v where r: "?r = (Inr (v, ''pk_cccccccc_'' @ replicate 43 (CHR ''d'')), snd ?r)" by (metis prod.collapse)
  have w: "length (ks_prefix demo_source) = 8" "list_all url_safe (ks_prefix demo_source)" "length (ks_secret demo_source) = 43"
    "list_all url_safe (ks_secret demo_source)" and h: "\<And>x. ks_hash demo_source x = x" and p: "ks_pepper demo_source = ''p''"
    by (simp_all add: demo_source_def url_safe_def list_all_iff)
  from created_key_admitted [OF r w, of "(=)" None "\<lambda>_. None" False None] h p show ?thesis by (auto simp: demo_admin_def)
qed

end
