(* ===== verification/Api_Keys_Page.thy ===== *)
theory Api_Keys_Page
  imports Form_Action Keys_Api
begin

text \<open>
  The API key page of the dashboard, \<open>web/src/app/dashboard/api-keys/page.tsx\<close>: the scopes a wizard state
  is encoded to, the edits of its three steps, the review, the snippets of the reveal screen, the dialog
  with its running request and its delayed reset, and the table with its revoke action; and the dialog
  composed with the route of \<^theory_text>\<open>Keys_Api\<close> that answers it. The date a number of days from now is an
  argument, and so is the detail the framework gives for a body it refuses.
\<close>

section \<open>The wizard state\<close>

datatype key_env = EnvProduction | EnvStaging | EnvDevelopment | EnvLocal

datatype expiration = Exp7d | Exp30d | Exp90d | Exp1y | ExpNever | ExpCustom

datatype rate_unit = PerMinute | PerHour | PerDay

fun env_text :: "key_env \<Rightarrow> jsstr" where
  "env_text EnvProduction = ''production''"
| "env_text EnvStaging = ''staging''"
| "env_text EnvDevelopment = ''development''"
| "env_text EnvLocal = ''local''"

fun unit_text :: "rate_unit \<Rightarrow> jsstr" where
  "unit_text PerMinute = ''minute''"
| "unit_text PerHour = ''hour''"
| "unit_text PerDay = ''day''"

record WizardState =
  wz_name :: jsstr
  wz_owner :: jsstr
  wz_environment :: "key_env option"
  wz_description :: jsstr
  wz_allowedServers :: "jsstr list"
  wz_toolPatterns :: jsstr
  wz_expiration :: expiration
  wz_customExpiry :: jsstr
  wz_rateLimitValue :: jsstr
  wz_rateLimitUnit :: rate_unit
  wz_ipRanges :: jsstr

definition DEFAULT_STATE :: WizardState where
  "DEFAULT_STATE = \<lparr>wz_name = [], wz_owner = [], wz_environment = None, wz_description = [], wz_allowedServers = [], wz_toolPatterns = [],
     wz_expiration = ExpNever, wz_customExpiry = [], wz_rateLimitValue = [], wz_rateLimitUnit = PerHour, wz_ipRanges = []\<rparr>"

section \<open>Helpers\<close>

text \<open>\<open>s.split(",").map(p => p.trim()).filter(Boolean)\<close>.\<close>

definition comma_parts :: "jsstr \<Rightarrow> jsstr list" where
  "comma_parts s = filter (\<lambda>p. p \<noteq> []) (map trim (split_on (CHR '','') s))"

fun expiry_days :: "expiration \<Rightarrow> nat option" where
  "expiry_days Exp7d = Some 7"
| "expiry_days Exp30d = Some 30"
| "expiry_days Exp90d = Some 90"
| "expiry_days Exp1y = Some 365"
| "expiry_days _ = None"

definition computeExpiryDate :: "(nat \<Rightarrow> jsstr) \<Rightarrow> expiration \<Rightarrow> jsstr" where
  "computeExpiryDate date_in preset = (case expiry_days preset of Some n \<Rightarrow> date_in n | None \<Rightarrow> [])"

definition buildScopes :: "(nat \<Rightarrow> jsstr) \<Rightarrow> WizardState \<Rightarrow> jsstr list" where
  "buildScopes date_in s =
     (case wz_environment s of Some e \<Rightarrow> [''env:'' @ env_text e] | None \<Rightarrow> []) @
     (if wz_allowedServers s \<noteq> [] then map (\<lambda>slug. ''server:'' @ slug) (wz_allowedServers s) else [''server:*'']) @
     (if trim (wz_toolPatterns s) \<noteq> [] then map (\<lambda>p. ''tool:'' @ p) (comma_parts (wz_toolPatterns s)) else [''tool:*'']) @
     (if wz_expiration s \<noteq> ExpNever then
        (let expiry = (if wz_expiration s = ExpCustom then wz_customExpiry s else computeExpiryDate date_in (wz_expiration s))
         in if expiry \<noteq> [] then [''expire:'' @ expiry] else [])
      else []) @
     (if trim (wz_rateLimitValue s) \<noteq> [] then [''ratelimit:'' @ wz_rateLimitValue s @ ''/'' @ unit_text (wz_rateLimitUnit s)] else []) @
     (if trim (wz_ipRanges s) \<noteq> [] then map (\<lambda>ip. ''ip:'' @ ip) (comma_parts (wz_ipRanges s)) else []) @
     (if wz_owner s \<noteq> [] then [''owner:'' @ wz_owner s] else [])"

fun expiryLabel :: "expiration \<Rightarrow> jsstr \<Rightarrow> jsstr" where
  "expiryLabel Exp7d _ = ''7 days''"
| "expiryLabel Exp30d _ = ''30 days''"
| "expiryLabel Exp90d _ = ''90 days''"
| "expiryLabel Exp1y _ = ''1 year''"
| "expiryLabel ExpNever _ = ''Never''"
| "expiryLabel ExpCustom custom = str_or custom ''Custom''"

definition env_key_char :: "char \<Rightarrow> char" where
  "env_key_char c = (if c \<in> set ''ABCDEFGHIJKLMNOPQRSTUVWXYZ0123456789'' then c else CHR ''_'')"

definition generateEnvSnippet :: "jsstr \<Rightarrow> jsstr \<Rightarrow> jsstr" where
  "generateEnvSnippet plaintext name =
     (let envKey = map env_key_char (to_upper name)
      in join [newline]
           [''# '' @ name, ''PORTCULLIS_API_KEY='' @ plaintext, ''# or'', ''PORTCULLIS_'' @ envKey @ ''_KEY='' @ plaintext])"

abbreviation dq :: "jsstr \<Rightarrow> jsstr" where
  "dq s \<equiv> [quote_c] @ s @ [quote_c]"

definition generateCurl :: "jsstr \<Rightarrow> jsstr" where
  "generateCurl plaintext =
     join [newline]
       [''curl -X POST https://your-gateway.example.com/mcp/{server-slug} '' @ [CHR 0x5C],
        ''  -H '' @ dq (''Authorization: Bearer '' @ plaintext) @ '' '' @ [CHR 0x5C],
        ''  -H '' @ dq ''Content-Type: application/json'' @ '' '' @ [CHR 0x5C],
        ''  -d '' @ [CHR 0x27] @ ''{'' @ dq ''jsonrpc'' @ '':'' @ dq ''2.0'' @ '','' @ dq ''method'' @ '':'' @ dq ''tools/list'' @ '','' @
          dq ''params'' @ '':{},'' @ dq ''id'' @ '':1}'' @ [CHR 0x27]]"

definition generatePython :: "jsstr \<Rightarrow> jsstr" where
  "generatePython plaintext =
     join [newline]
       [''import httpx'', [],
        ''client = httpx.Client('',
        ''    base_url='' @ dq ''https://your-gateway.example.com'' @ '','',
        ''    headers={'' @ dq ''Authorization'' @ '': f'' @ dq (''Bearer '' @ plaintext) @ ''},'',
        '')'', [],
        ''response = client.post('' @ dq ''/mcp/{server-slug}'' @ '', json={'',
        ''    '' @ dq ''jsonrpc'' @ '': '' @ dq ''2.0'' @ '','',
        ''    '' @ dq ''method'' @ '': '' @ dq ''tools/call'' @ '','',
        ''    '' @ dq ''params'' @ '': {'' @ dq ''name'' @ '': '' @ dq ''tool_name'' @ '', '' @ dq ''arguments'' @ '': {}},'',
        ''    '' @ dq ''id'' @ '': 1,'',
        ''})'',
        ''print(response.json())'']"

definition env_badge :: "jsstr \<Rightarrow> jsstr" where
  "env_badge env =
     nullish (map_of [(''production'', ''Production''), (''staging'', ''Staging''), (''development'', ''Development''), (''local'', ''Local'')] env) env"

section \<open>Edits\<close>

datatype identity_edit = EditName jsstr | EditOwner jsstr | ClickEnv key_env | EditDescription jsstr

fun apply_identity :: "identity_edit \<Rightarrow> WizardState \<Rightarrow> WizardState" where
  "apply_identity (EditName v) s = s\<lparr>wz_name := v\<rparr>"
| "apply_identity (EditOwner v) s = s\<lparr>wz_owner := v\<rparr>"
| "apply_identity (ClickEnv e) s = s\<lparr>wz_environment := (if wz_environment s = Some e then None else Some e)\<rparr>"
| "apply_identity (EditDescription v) s = s\<lparr>wz_description := v\<rparr>"

definition TOOL_CHIPS :: "jsstr list" where
  "TOOL_CHIPS = [''read_*'', ''list_*'', ''search_*'', ''write_*'', ''create_*'', ''delete_*'']"

definition click_chip :: "jsstr \<Rightarrow> jsstr \<Rightarrow> jsstr" where
  "click_chip pattern patterns = join '', '' (toggle pattern (comma_parts patterns))"

definition chip_lit :: "jsstr \<Rightarrow> jsstr \<Rightarrow> bool" where
  "chip_lit pattern patterns = sublist pattern patterns"

datatype scope_edit = ToggleServer jsstr | AllServers | EditTools jsstr | ClickChip jsstr

fun apply_scope :: "scope_edit \<Rightarrow> WizardState \<Rightarrow> WizardState" where
  "apply_scope (ToggleServer slug) s = s\<lparr>wz_allowedServers := toggle slug (wz_allowedServers s)\<rparr>"
| "apply_scope AllServers s = s\<lparr>wz_allowedServers := []\<rparr>"
| "apply_scope (EditTools v) s = s\<lparr>wz_toolPatterns := v\<rparr>"
| "apply_scope (ClickChip p) s = s\<lparr>wz_toolPatterns := click_chip p (wz_toolPatterns s)\<rparr>"

datatype restriction_edit =
    PickExpiry expiration | EditCustom jsstr | EditRate jsstr | EditUnit rate_unit | PickRate jsstr rate_unit | EditIp jsstr

definition RATE_PRESETS :: "(jsstr \<times> rate_unit) list" where
  "RATE_PRESETS = [(''60'', PerMinute), (''1000'', PerHour), (''10000'', PerDay)]"

text \<open>The date is shown for a custom expiry only.\<close>

fun apply_restriction :: "restriction_edit \<Rightarrow> WizardState \<Rightarrow> WizardState" where
  "apply_restriction (PickExpiry x) s = s\<lparr>wz_expiration := x\<rparr>"
| "apply_restriction (EditCustom v) s = (if wz_expiration s = ExpCustom then s\<lparr>wz_customExpiry := v\<rparr> else s)"
| "apply_restriction (EditRate v) s = s\<lparr>wz_rateLimitValue := v\<rparr>"
| "apply_restriction (EditUnit u) s = s\<lparr>wz_rateLimitUnit := u\<rparr>"
| "apply_restriction (PickRate v u) s = (if (v, u) \<in> set RATE_PRESETS then s\<lparr>wz_rateLimitValue := v, wz_rateLimitUnit := u\<rparr> else s)"
| "apply_restriction (EditIp v) s = s\<lparr>wz_ipRanges := v\<rparr>"

text \<open>An edit and the step that shows its control.\<close>

datatype wizard_edit = OnIdentity identity_edit | OnScope scope_edit | OnRestrictions restriction_edit

fun apply_edit :: "wizard_edit \<Rightarrow> WizardState \<Rightarrow> WizardState" where
  "apply_edit (OnIdentity e) s = apply_identity e s"
| "apply_edit (OnScope e) s = apply_scope e s"
| "apply_edit (OnRestrictions e) s = apply_restriction e s"

fun edit_step :: "wizard_edit \<Rightarrow> nat" where
  "edit_step (OnIdentity _) = 0"
| "edit_step (OnScope _) = 1"
| "edit_step (OnRestrictions _) = 2"

definition review_rows :: "WizardState \<Rightarrow> (jsstr \<times> jsstr) list" where
  "review_rows s =
     [(''Name'', wz_name s),
      (''Owner'', str_or (wz_owner s) [em_dash]),
      (''Environment'', case wz_environment s of Some e \<Rightarrow> env_badge (env_text e) | None \<Rightarrow> [em_dash]),
      (''Description'', str_or (wz_description s) [em_dash]),
      (''Servers'', if wz_allowedServers s = [] then ''All servers (*)'' else join '', '' (wz_allowedServers s)),
      (''Tools'', str_or (trim (wz_toolPatterns s)) ''All tools (*)''),
      (''Expiration'', expiryLabel (wz_expiration s) (wz_customExpiry s)),
      (''Rate Limit'', if wz_rateLimitValue s \<noteq> [] then wz_rateLimitValue s @ '' / '' @ unit_text (wz_rateLimitUnit s) else ''None''),
      (''IP Allowlist'', str_or (trim (wz_ipRanges s)) ''Any'')]"

section \<open>The reveal screen\<close>

datatype snippet = SnipEnv | SnipCurl | SnipPython

datatype copy_target = CopyKey | CopySnippet snippet

record reveal_state =
  rv_copied :: "copy_target option"
  rv_showKey :: bool
  rv_activeSnippet :: snippet

datatype reveal_event = Copied copy_target bool | CopyTimer | ToggleShow | SelectSnippet snippet

definition reveal_init :: reveal_state where
  "reveal_init = \<lparr>rv_copied = None, rv_showKey = True, rv_activeSnippet = SnipEnv\<rparr>"

fun snippet_code :: "jsstr \<Rightarrow> jsstr \<Rightarrow> snippet \<Rightarrow> jsstr" where
  "snippet_code plaintext name SnipEnv = generateEnvSnippet plaintext name"
| "snippet_code plaintext name SnipCurl = generateCurl plaintext"
| "snippet_code plaintext name SnipPython = generatePython plaintext"

text \<open>What a copy button writes to the clipboard.\<close>

fun copy_text :: "jsstr \<Rightarrow> jsstr \<Rightarrow> copy_target \<Rightarrow> jsstr" where
  "copy_text plaintext name CopyKey = plaintext"
| "copy_text plaintext name (CopySnippet sn) = snippet_code plaintext name sn"

fun reveal_step :: "reveal_event \<Rightarrow> reveal_state \<Rightarrow> reveal_state" where
  "reveal_step (Copied x ok) r = (if ok then r\<lparr>rv_copied := Some x\<rparr> else r)"
| "reveal_step CopyTimer r = r\<lparr>rv_copied := None\<rparr>"
| "reveal_step ToggleShow r = r\<lparr>rv_showKey := \<not> rv_showKey r\<rparr>"
| "reveal_step (SelectSnippet sn) r = r\<lparr>rv_activeSnippet := sn\<rparr>"

section \<open>The dialog\<close>

text \<open>
  \<open>md_scopes\<close> is the memo of the scopes, computed when the state was last set. \<open>md_running\<close> is the body
  of the running request with the name it was sent for; the button is disabled while there is one.
  \<open>md_resets\<close> counts the resets a close has scheduled.
\<close>

record modal =
  md_open :: bool
  md_step :: nat
  md_state :: WizardState
  md_scopes :: "jsstr list"
  md_revealed :: "(jsstr \<times> jsstr) option"
  md_running :: "(ApiKeyCreate \<times> jsstr) option"
  md_resets :: nat

definition modal_init :: modal where
  "modal_init = \<lparr>md_open = False, md_step = 0, md_state = DEFAULT_STATE, md_scopes = buildScopes (\<lambda>_. []) DEFAULT_STATE,
     md_revealed = None, md_running = None, md_resets = 0\<rparr>"

datatype key_outcome = KeyCreated "jsstr option" | KeyFailed "json option"

datatype key_effect = KeysRefetched | KeyToast json

datatype modal_event =
    OpenModal | CloseModal | ResetFires | EditModal "nat \<Rightarrow> jsstr" wizard_edit | BackModal | ContinueModal | SubmitModal

definition canAdvance :: "modal \<Rightarrow> bool" where
  "canAdvance m \<longleftrightarrow> (if md_step m = 0 then trim (wz_name (md_state m)) \<noteq> [] else True)"

definition handleClose :: "modal \<Rightarrow> modal" where
  "handleClose m = m\<lparr>md_open := False, md_resets := md_resets m + 1\<rparr>"

definition key_body :: "modal \<Rightarrow> ApiKeyCreate" where
  "key_body m = \<lparr>kc_name = trim (wz_name (md_state m)), kc_scopes = md_scopes m\<rparr>"

fun modal_step :: "modal_event \<Rightarrow> modal \<Rightarrow> modal" where
  "modal_step OpenModal m = m\<lparr>md_open := True\<rparr>"
| "modal_step CloseModal m = (if md_open m then handleClose m else m)"
| "modal_step ResetFires m =
     (if md_resets m > 0 then
        m\<lparr>md_resets := md_resets m - 1, md_step := 0, md_state := DEFAULT_STATE, md_scopes := buildScopes (\<lambda>_. []) DEFAULT_STATE, md_revealed := None\<rparr>
      else m)"
| "modal_step (EditModal date_in e) m =
     (if md_open m \<and> md_step m = edit_step e then
        m\<lparr>md_state := apply_edit e (md_state m), md_scopes := buildScopes date_in (apply_edit e (md_state m))\<rparr>
      else m)"
| "modal_step BackModal m =
     (if md_open m \<and> md_step m < 4 then (if md_step m = 0 then handleClose m else m\<lparr>md_step := md_step m - 1\<rparr>) else m)"
| "modal_step ContinueModal m = (if md_open m \<and> md_step m < 3 \<and> canAdvance m then m\<lparr>md_step := md_step m + 1\<rparr> else m)"
| "modal_step SubmitModal m =
     (if md_open m \<and> md_step m = 3 \<and> md_running m = None then m\<lparr>md_running := Some (key_body m, wz_name (md_state m))\<rparr> else m)"

text \<open>The continuation of \<open>handleSubmit\<close>.\<close>

fun submit_finish :: "key_outcome \<Rightarrow> modal \<Rightarrow> modal \<times> key_effect list" where
  "submit_finish (KeyCreated plaintext) m =
     (case md_running m of
        None \<Rightarrow> (m, [])
      | Some (_, name) \<Rightarrow>
          if truthy plaintext
          then (m\<lparr>md_running := None, md_revealed := Some (the plaintext, name), md_step := 4\<rparr>, [KeysRefetched])
          else (m\<lparr>md_running := None\<rparr>, [KeyToast (JStr ''Failed to create key'')]))"
| "submit_finish (KeyFailed detail) m = (m\<lparr>md_running := None\<rparr>, [KeyToast (nullish detail (JStr ''Failed to create key''))])"

section \<open>The table\<close>

definition envScope :: "jsstr list \<Rightarrow> jsstr option" where
  "envScope scopes = map_option (drop 4) (find (prefix ''env:'') scopes)"

definition otherScopes :: "jsstr list \<Rightarrow> jsstr list" where
  "otherScopes scopes = filter (\<lambda>s. \<not> prefix ''env:'' s \<and> \<not> prefix ''owner:'' s) scopes"

record key_row =
  kr_name :: jsstr
  kr_prefix :: jsstr
  kr_env :: jsstr
  kr_scopes :: "jsstr list"
  kr_more :: jsstr
  kr_last_used :: jsstr

definition key_row :: "(int \<Rightarrow> jsstr) \<Rightarrow> ApiKeyView \<Rightarrow> key_row" where
  "key_row local_date k =
     (let other = otherScopes (kv_scopes k) in
      \<lparr>kr_name = kv_name k, kr_prefix = kv_key_prefix k @ [ellipsis],
       kr_env = (if truthy (envScope (kv_scopes k)) then env_badge (the (envScope (kv_scopes k))) else [em_dash]),
       kr_scopes = take 3 other,
       kr_more = (if length other > 3 then ''+'' @ nat_str (length other - 3) else if other = [] then [em_dash] else []),
       kr_last_used = (case kv_last_used_at k of Some t \<Rightarrow> local_date t | None \<Rightarrow> ''Never'')\<rparr>)"

definition revoke_question :: "jsstr \<Rightarrow> jsstr" where
  "revoke_question name = ''Revoke '' @ dq name @ ''? This action cannot be undone.''"

definition handleRevoke_finish :: "jsstr \<Rightarrow> bool \<Rightarrow> effect list" where
  "handleRevoke_finish name ok =
     (if ok then [ToastSuccess (dq name @ '' revoked''), Refetch ''/v1/api-keys''] else [ToastError ''Failed to revoke key''])"

text \<open>The handler with the answer to the question and the result of the call: the key revoked, if one is, and the effects.\<close>

definition handleRevoke :: "bool \<Rightarrow> (jsstr \<Rightarrow> bool) \<Rightarrow> jsstr \<Rightarrow> jsstr \<Rightarrow> jsstr option \<times> effect list" where
  "handleRevoke confirmed call keyId name =
     (if confirmed then (Some keyId, handleRevoke_finish name (call keyId)) else (None, []))"

section \<open>The dialog and the route\<close>

text \<open>
  An answer of the route as the client sees it; \<open>detail\<close> is the value the framework puts into the body of
  a refused request.
\<close>

fun answer_outcome :: "json \<Rightarrow> api_error + ApiKeyView \<times> jsstr \<Rightarrow> key_outcome" where
  "answer_outcome detail (Inr (v, plain)) = KeyCreated (Some plain)"
| "answer_outcome detail (Inl (status, text)) = KeyFailed (Some (if status = 422 then detail else JStr text))"

datatype page_event = Ui modal_event | Answer json key_source "api_error + Subject"

fun page_step :: "(jsstr \<Rightarrow> jsstr option) \<Rightarrow> page_event \<Rightarrow> modal \<times> accounts \<Rightarrow> modal \<times> accounts" where
  "page_step uuid (Ui e) (m, ac) = (modal_step e m, ac)"
| "page_step uuid (Answer detail src who) (m, ac) =
     (case md_running m of
        None \<Rightarrow> (m, ac)
      | Some (body, _) \<Rightarrow>
          (case post_api_keys uuid src who body ac of
             (r, ac') \<Rightarrow> (fst (submit_finish (answer_outcome detail r) m), ac')))"

section \<open>Lemmas\<close>

definition wizard_scopes :: "jsstr list \<Rightarrow> bool" where
  "wizard_scopes scopes \<longleftrightarrow> (\<exists>date_in s. scopes = buildScopes date_in s)"

lemma scopes_name_server: "\<exists>slug. ''server:'' @ slug \<in> set (buildScopes date_in s)"
proof (cases "wz_allowedServers s")
  case Nil
  then have "''server:'' @ ''*'' \<in> set (buildScopes date_in s)" by (simp add: buildScopes_def)
  then show ?thesis by blast
qed (auto simp: buildScopes_def)

lemma wizard_scopes_refused: "wizard_scopes (kc_scopes body) \<Longrightarrow> \<not> valid_create body"
  using scopes_name_server
  by (fastforce simp: wizard_scopes_def valid_create_def validate_scopes_def ALLOWED_SCOPES_def list_all_iff)

lemma post_refused: "\<not> valid_create body \<Longrightarrow> \<exists>e. post_api_keys uuid src who body ac = (Inl e, ac)"
  by (auto simp: post_api_keys_def split: sum.split)

text \<open>What the dialog keeps: its scopes and those of the running request encode a wizard state, and no key was revealed.\<close>

definition modal_ok :: "modal \<Rightarrow> bool" where
  "modal_ok m \<longleftrightarrow> wizard_scopes (md_scopes m) \<and> md_step m \<le> 3 \<and> md_revealed m = None \<and>
     (case md_running m of None \<Rightarrow> True | Some (body, _) \<Rightarrow> wizard_scopes (kc_scopes body))"

lemma wizard_scopes_built [simp]: "wizard_scopes (buildScopes date_in s)"
  by (auto simp: wizard_scopes_def)

lemma modal_ok_init: "modal_ok modal_init"
  by (simp add: modal_ok_def modal_init_def)

lemma modal_ok_step: "modal_ok m \<Longrightarrow> modal_ok (modal_step e m)"
  by (cases e) (auto simp: modal_ok_def handleClose_def key_body_def split: option.split)

lemma modal_ok_failed: "modal_ok m \<Longrightarrow> modal_ok (fst (submit_finish (answer_outcome detail (Inl e)) m))"
  by (cases e) (simp add: modal_ok_def)

definition page_ok :: "accounts \<Rightarrow> modal \<times> accounts \<Rightarrow> bool" where
  "page_ok ac s \<longleftrightarrow> modal_ok (fst s) \<and> snd s = ac"

lemma page_ok_step:
  assumes "page_ok ac s"
  shows "page_ok ac (page_step uuid ev s)"
proof -
  obtain m where s: "s = (m, ac)" and m: "modal_ok m" using assms by (metis page_ok_def prod.collapse)
  show ?thesis
  proof (cases ev)
    case (Ui e)
    then show ?thesis using m by (simp add: s page_ok_def modal_ok_step)
  next
    case (Answer detail src who)
    show ?thesis
    proof (cases "md_running m")
      case None
      then show ?thesis using assms by (simp add: Answer s)
    next
      case (Some run)
      obtain body name where run: "run = (body, name)" by (cases run)
      have "\<not> valid_create body"
        using m wizard_scopes_refused [of body] by (simp add: modal_ok_def Some run)
      from post_refused [OF this] obtain e where "post_api_keys uuid src who body ac = (Inl e, ac)" by blast
      then show ?thesis
        using modal_ok_failed [OF m] by (simp add: Answer Some run s page_ok_def del: submit_finish.simps answer_outcome.simps)
    qed
  qed
qed

interpretation key_dialog: step_invariant "page_ok ac" "page_step uuid" for ac uuid
  by unfold_locales (rule page_ok_step)

text \<open>Joining patterns that hold no comma and no outer space gives them back.\<close>

definition plain_pattern :: "jsstr \<Rightarrow> bool" where
  "plain_pattern p \<longleftrightarrow> p \<noteq> [] \<and> trim p = p \<and> CHR '','' \<notin> set p"

lemma trim_space: "trim (CHR '' '' # s) = trim s"
  by (simp add: trim_def is_space_def)

lemma split_on_Cons_other: "x \<noteq> c \<Longrightarrow> map trim (split_on c (x # s)) = trim (x # hd (split_on c s)) # map trim (List.tl (split_on c s))"
  by (cases "split_on c s") simp_all

lemma map_trim_space: "map trim (split_on (CHR '','') (CHR '' '' # s)) = map trim (split_on (CHR '','') s)"
  unfolding split_on_Cons_other [of "CHR '' ''" "CHR '',''" s, simplified] trim_space
  by (cases "split_on (CHR '','') s") (simp_all add: trim_space)

lemma trim_empty_spaces:
  assumes "trim s = []"
  shows "\<forall>c\<in>set s. is_space c"
proof -
  have "\<forall>c\<in>set (dropWhile is_space s). is_space c" using assms by (simp add: trim_def)
  then have "dropWhile is_space s = []" by (metis hd_dropWhile hd_in_set)
  then show ?thesis by simp
qed

lemma comma_parts_join: "list_all plain_pattern ps \<Longrightarrow> comma_parts (join '', '' ps) = ps"
proof (induction "'', ''" ps rule: join.induct)
  case (3 x y ys)
  have x: "CHR '','' \<notin> set x" "trim x = x" "x \<noteq> []" using 3(2) by (simp_all add: plain_pattern_def)
  have "comma_parts (join '', '' (x # y # ys)) = x # comma_parts (join '', '' (y # ys))"
    unfolding comma_parts_def join.simps(3) using split_on_append_sep [OF x(1)] map_trim_space x by simp
  then show ?case using 3 by simp
qed (simp_all add: comma_parts_def plain_pattern_def split_on_no_sep)

lemma comma_parts_plain: "list_all plain_pattern (comma_parts s)"
  unfolding comma_parts_def list_all_iff plain_pattern_def using trim_subset split_on_pieces by fastforce

lemma chips_plain: "p \<in> set TOOL_CHIPS \<Longrightarrow> plain_pattern p"
  unfolding TOOL_CHIPS_def by (auto simp: plain_pattern_def trim_def is_space_def)

lemma parts_click_chip:
  assumes "plain_pattern p"
  shows "comma_parts (click_chip p s) = toggle p (comma_parts s)"
  unfolding click_chip_def
  by (rule comma_parts_join) (use comma_parts_plain [of s] assms in \<open>auto simp: toggle_def list_all_iff\<close>)

text \<open>The parts of the encoding are told apart by their marks.\<close>

lemma filter_marked: "filter (prefix ''tool:'') (map (\<lambda>x. m @ x) xs) = (if m = ''tool:'' then map (\<lambda>x. m @ x) xs else [])"
  if "m \<in> {''server:'', ''tool:'', ''ip:''}"
  using that by (induction xs) auto

lemma tool_scopes:
  "filter (prefix ''tool:'') (buildScopes date_in s) =
     (if trim (wz_toolPatterns s) \<noteq> [] then map (\<lambda>p. ''tool:'' @ p) (comma_parts (wz_toolPatterns s)) else [''tool:*''])"
  unfolding buildScopes_def filter_append by (simp add: filter_marked Let_def split: option.split)

lemma env_shown: "envScope (buildScopes date_in s) = map_option env_text (wz_environment s)"
proof (cases "wz_environment s")
  case None
  have "filter (prefix ''env:'') (buildScopes date_in s) = []"
    unfolding buildScopes_def filter_append None by (simp add: Let_def filter_empty_conv) auto
  then have "find (prefix ''env:'') (buildScopes date_in s) = None" by (simp add: find_None_iff filter_empty_conv)
  then show ?thesis using None by (simp add: envScope_def)
qed (simp add: buildScopes_def envScope_def)

section \<open>Properties\<close>

text \<open>
  The chips edit the list of patterns: clicking one adds it to the patterns the text stands for or
  takes it out, and leaves the others in their order, whatever spaces and empty parts the text has.
  Hence the scopes of tools follow the chips, except that taking out the last one allows every tool.
\<close>

lemma chip_toggles_pattern:
  assumes "p \<in> set TOOL_CHIPS"
  shows "comma_parts (click_chip p s) = toggle p (comma_parts s) \<and>
    filter (prefix ''tool:'') (buildScopes date_in (apply_scope (ClickChip p) w)) =
      (if toggle p (comma_parts (wz_toolPatterns w)) = [] then [''tool:*''] else map (\<lambda>q. ''tool:'' @ q) (toggle p (comma_parts (wz_toolPatterns w))))"
proof -
  have c: "comma_parts (click_chip p s) = toggle p (comma_parts s)" for s by (rule parts_click_chip [OF chips_plain [OF assms]])
  have "trim (click_chip p s) = [] \<longleftrightarrow> toggle p (comma_parts s) = []" for s
  proof
    assume "toggle p (comma_parts s) = []"
    then show "trim (click_chip p s) = []" by (simp add: click_chip_def)
  next
    assume "trim (click_chip p s) = []"
    then have "\<forall>x\<in>set (click_chip p s). is_space x" by (rule trim_empty_spaces)
    moreover have "\<not> is_space (CHR '','')" by (simp add: is_space_def)
    ultimately have "CHR '','' \<notin> set (click_chip p s)" by blast
    with \<open>trim (click_chip p s) = []\<close> have "comma_parts (click_chip p s) = []" by (simp add: comma_parts_def split_on_no_sep)
    then show "toggle p (comma_parts s) = []" using c by simp
  qed
  then show ?thesis unfolding tool_scopes apply_scope.simps using c by simp
qed

text \<open>
  C17. The wizard never obtains a key: whatever the user enters, clicks and submits, whoever is signed in
  and whatever the directory holds, a dialog whose requests are answered by the creation route leaves
  the table of keys as it was, never reaches the reveal screen and never holds a plaintext. Every state
  is encoded with a scope that names a server, and the schema of the route refuses such a body.
\<close>

theorem wizard_never_issues:
  "snd (fold (page_step uuid) evs (modal_init, ac)) = ac \<and>
   md_revealed (fst (fold (page_step uuid) evs (modal_init, ac))) = None \<and>
   md_step (fst (fold (page_step uuid) evs (modal_init, ac))) \<le> 3"
  using key_dialog.inv_run [of ac "(modal_init, ac)" uuid evs] modal_ok_init by (simp add: page_ok_def modal_ok_def)

end
