(* ===== verification/Key_Restrictions.thy ===== *)
theory Key_Restrictions
  imports Api_Keys_Page Gateway_Pipeline
begin

text \<open>
  The restrictions of an API key and the pipeline: what the key wizard encodes as scopes (servers, tools,
  expiry, rate limit, addresses) against what \<open>gateway/router.py\<close> reads of an authenticated subject.
\<close>

section \<open>The pipeline and the scopes of a subject\<close>

text \<open>The gateway with the scopes of every authenticated subject changed.\<close>

definition rescoped :: "(jsstr list \<Rightarrow> jsstr list) \<Rightarrow> gateway \<Rightarrow> gateway" where
  "rescoped f gw = gw\<lparr>gw_authenticate := \<lambda>tok. map_option (sj_scopes_update f) (gw_authenticate gw tok)\<rparr>"

lemma rescoped_fields:
  "gw_settings (rescoped f gw) = gw_settings gw" "gw_tables (rescoped f gw) = gw_tables gw"
  "gw_now (rescoped f gw) = gw_now gw" "gw_member_pre (rescoped f gw) = gw_member_pre gw"
  "gw_member (rescoped f gw) = gw_member gw" "gw_up (rescoped f gw) = gw_up gw"
  "gw_loads (rescoped f gw) = gw_loads gw" "gw_str (rescoped f gw) = gw_str gw"
  "gw_upstream (rescoped f gw) = gw_upstream gw" "gw_environ (rescoped f gw) = gw_environ gw"
  "gw_plugin (rescoped f gw) = gw_plugin gw"
  by (simp_all add: rescoped_def)

lemma subject_fields:
  fixes s :: Subject
  shows "sj_subject_id (sj_scopes_update f s) = sj_subject_id s" "sj_subject_type (sj_scopes_update f s) = sj_subject_type s"
    "sj_tenant_id (sj_scopes_update f s) = sj_tenant_id s"
  by simp_all

lemma scope_free_records:
  fixes s :: Subject
  shows "caller (sj_scopes_update f s) slug = caller s slug"
    and "audit_of req slug ty outcome (Some (sj_scopes_update f s)) tool mth = audit_of req slug ty outcome (Some s) tool mth"
  by (simp_all add: caller_def audit_of_def)

lemma scope_free_steps:
  fixes s :: Subject
  shows "resolve_server (rescoped f gw) req slug i (sj_scopes_update f s) = resolve_server gw req slug i s"
    and "validate_session (rescoped f gw) req slug i (sj_scopes_update f s) = validate_session gw req slug i s"
    and "check_rate_limit (rescoped f gw) req slug i (sj_scopes_update f s) tool = check_rate_limit gw req slug i s tool"
    and "check_rbac (rescoped f gw) req slug rpc (sj_scopes_update f s) = check_rbac gw req slug rpc s"
    and "check_terminable (rescoped f gw) req slug i (sj_scopes_update f s) = check_terminable gw req slug i s"
    and "adopt_session (rescoped f gw) req slug i (sj_scopes_update f s) u hs = adopt_session gw req slug i s u hs"
    and "answer_list (rescoped f gw) req slug rpc (sj_scopes_update f s) u hs = answer_list gw req slug rpc s u hs"
    and "meter (rescoped f gw) req rpc (sj_scopes_update f s) = meter gw req rpc s"
    and "forward (rescoped f gw) = forward gw" and "forget_session (rescoped f gw) req = forget_session gw req"
    and "too_large (rescoped f gw) u = too_large gw u"
    and "tool_audit req slug (sj_scopes_update f s) = tool_audit req slug s"
    and "explain req slug rpc (sj_scopes_update f s) = explain req slug rpc s"
  unfolding fun_eq_iff resolve_server_def validate_session_def check_rate_limit_def check_rbac_def check_terminable_def adopt_session_def
    answer_list_def meter_def forward_def upstream_headers_def forget_session_def too_large_def tool_audit_def explain_def
    rescoped_fields subject_fields scope_free_records
  by (rule allI refl)+

lemma scope_free_serving:
  fixes s :: Subject
  shows "serve (rescoped f gw) req slug rpc (sj_scopes_update f s) server name = serve gw req slug rpc s server name"
    and "terminate_session (rescoped f gw) req slug rpc (sj_scopes_update f s) server = terminate_session gw req slug rpc s server"
  unfolding serve_def terminate_session_def answer_def deliver_def [abs_def] scope_free_steps by (rule refl)+

lemma rescoped_auth:
  "run_pre_auth_checks (rescoped f gw) req slug i w =
     (case run_pre_auth_checks gw req slug i w of (r, w') \<Rightarrow> (map_sum id (sj_scopes_update f) r, w'))"
  unfolding run_pre_auth_checks_def rescoped_fields
  by (simp add: rescoped_def Let_def split: option.split sum.split)

lemma and_then_mapped:
  assumes "m' w = (case m w of (r, w') \<Rightarrow> (map_sum id g r, w'))" and "\<And>a w1. k' (g a) w1 = k a w1"
  shows "and_then m' k' w = and_then m k w"
  using assms by (auto simp: and_then_def split: prod.splits sum.splits)

lemma rescoped_admission:
  "admission (rescoped f gw) req slug rpc w =
     (case admission gw req slug rpc w of (r, w') \<Rightarrow> (map_sum id (map_prod (sj_scopes_update f) id) r, w'))"
proof -
  have "and_then (run_pre_auth_checks gw req slug (rpc_id rpc)) (\<lambda>subject.
      and_then (resolve_server gw req slug (rpc_id rpc) subject) (\<lambda>server.
      and_then (validate_session gw req slug (rpc_id rpc) subject) (\<lambda>_.
      and_then (check_rbac gw req slug rpc subject) (\<lambda>name.
      ret (sj_scopes_update f subject, server, name))))) w = admission (rescoped f gw) req slug rpc w"
    unfolding admission_def by (rule and_then_mapped [symmetric, OF rescoped_auth]) (simp add: scope_free_steps)
  then show ?thesis
    by (auto simp: admission_def and_then_def ret_def split: prod.splits sum.splits)
qed

lemma rescoped_proxy:
  "proxy_steps (rescoped f gw) req slug rpc w = proxy_steps gw req slug rpc w"
  "stream_steps (rescoped f gw) req slug w = stream_steps gw req slug w"
proof -
  show "proxy_steps (rescoped f gw) req slug rpc w = proxy_steps gw req slug rpc w"
    unfolding proxy_steps_def
    by (rule and_then_mapped [OF rescoped_admission]) (auto simp: scope_free_serving)
  show "stream_steps (rescoped f gw) req slug w = stream_steps gw req slug w"
    unfolding stream_steps_def by (rule and_then_mapped [OF rescoped_auth]) (simp add: scope_free_steps)
qed

section \<open>Properties\<close>

text \<open>
  C21. The scopes of a key restrict no proxied request: whatever scopes the authenticated subject is given,
  both endpoints answer the same, send the same upstream and record the same. The servers, tools, expiry,
  rate limit and addresses that the key wizard writes into scopes have no effect on the pipeline; what a
  key may do there is decided by its tenant, its role bindings and the policies alone.
\<close>

theorem scopes_do_not_restrict:
  fixes gw :: gateway
  shows "mcp_proxy (rescoped f gw) req slug w = mcp_proxy gw req slug w \<and>
    mcp_sse_stream (rescoped f gw) req slug w = mcp_sse_stream gw req slug w"
  unfolding mcp_proxy_def mcp_sse_stream_def rescoped_proxy rescoped_fields by (rule conjI refl)+

end
