(* ===== verification/Server_Registry.thy ===== *)
theory Server_Registry
  imports Keys_Api
begin

text \<open>
  The registry of upstream servers: the request schemas of \<open>models/schemas.py\<close>, \<open>gateway/registry.py\<close> over
  \<open>repositories/servers.py\<close>, the licence check of \<open>auth/licenses.py\<close> and the health monitor of
  \<open>gateway/health_monitor.py\<close>. Rows extend the server rows the proxy reads, so that the tables of
  \<^theory_text>\<open>Gateway_Router\<close> are a view of the registry. The moment of an operation and the answer of a health
  endpoint are arguments; row ids and the times of creation and change are left out. The columns have the
  lengths and constraints the schema declares.
\<close>

text \<open>A check of a value that may be left out.\<close>

fun given :: "('a \<Rightarrow> bool) \<Rightarrow> 'a option \<Rightarrow> bool" where
  "given P None = True"
| "given P (Some v) = P v"

section \<open>Slugs\<close>

definition slug_char :: "char \<Rightarrow> bool" where
  "slug_char c \<longleftrightarrow> c \<in> set ''abcdefghijklmnopqrstuvwxyz0123456789-''"

definition strip_hyphens :: "jsstr \<Rightarrow> jsstr" where
  "strip_hyphens s = rev (dropWhile (\<lambda>c. c = CHR ''-'') (rev (dropWhile (\<lambda>c. c = CHR ''-'') s)))"

definition normalize_slug :: "jsstr \<Rightarrow> jsstr" where
  "normalize_slug v =
     strip_hyphens (filter slug_char (map (\<lambda>c. if c = CHR '' '' then CHR ''-'' else c) (to_lower v)))"

text \<open>The field validator; \<^const>\<open>None\<close> where it raises.\<close>

definition check_slug :: "jsstr \<Rightarrow> jsstr option" where
  "check_slug v =
     (let n = normalize_slug v in if n = [] then None else if \<not> list_all slug_char n then None else Some n)"

section \<open>Bridge commands\<close>

text \<open>
  \<open>shlex.split\<close>, in its POSIX mode without comments: outside a word, in a word, in quotes, after a
  backslash in a word or in quotes. \<^const>\<open>None\<close> for an open quotation or a backslash at the end.
\<close>

datatype sh_state = ShSpace | ShWord | ShQuote char | ShEscape "char option"

definition sh_blank :: "char \<Rightarrow> bool" where
  "sh_blank c \<longleftrightarrow> c \<in> {CHR '' '', CHR 0x09, CHR 0x0D, newline}"

definition sh_flush :: "bool \<Rightarrow> jsstr \<Rightarrow> jsstr list \<Rightarrow> jsstr list" where
  "sh_flush qd tok acc = (if tok \<noteq> [] \<or> qd then acc @ [tok] else acc)"

fun sh_scan :: "sh_state \<Rightarrow> bool \<Rightarrow> jsstr \<Rightarrow> jsstr list \<Rightarrow> jsstr \<Rightarrow> jsstr list option" where
  "sh_scan ShSpace qd tok acc [] = Some (sh_flush qd tok acc)"
| "sh_scan ShWord qd tok acc [] = Some (sh_flush qd tok acc)"
| "sh_scan (ShQuote q) qd tok acc [] = None"
| "sh_scan (ShEscape e) qd tok acc [] = None"
| "sh_scan (ShQuote q) qd tok acc (c # cs) =
     (if c = q then sh_scan ShWord True tok acc cs
      else if c = CHR 0x5C \<and> q = quote_c then sh_scan (ShEscape (Some q)) True tok acc cs
      else sh_scan (ShQuote q) True (tok @ [c]) acc cs)"
| "sh_scan (ShEscape None) qd tok acc (c # cs) = sh_scan ShWord qd (tok @ [c]) acc cs"
| "sh_scan (ShEscape (Some q)) qd tok acc (c # cs) =
     sh_scan (ShQuote q) qd (tok @ (if c \<noteq> CHR 0x5C \<and> c \<noteq> q then [CHR 0x5C, c] else [c])) acc cs"
| "sh_scan st qd tok acc (c # cs) =
     (if sh_blank c then sh_scan ShSpace False [] (sh_flush qd tok acc) cs
      else if c = CHR 0x5C then sh_scan (ShEscape None) qd tok acc cs
      else if c = quote_c \<or> c = CHR 0x27 then sh_scan (ShQuote c) qd tok acc cs
      else sh_scan ShWord qd (tok @ [c]) acc cs)"

definition shlex_split :: "jsstr \<Rightarrow> jsstr list option" where
  "shlex_split s = sh_scan ShSpace False [] [] s"

definition validate_bridge_command :: "jsstr \<Rightarrow> bool" where
  "validate_bridge_command v =
     (case shlex_split v of
        None \<Rightarrow> False
      | Some argv \<Rightarrow>
          argv \<noteq> [] \<and> length v \<le> 2000 \<and>
          list_all (\<lambda>tok. list_all (\<lambda>c. c \<notin> {CHR '';'', CHR ''|'', CHR ''&'', CHR ''$'', CHR 0x60, newline, CHR 0x0D}) tok) argv)"

section \<open>Requests\<close>

datatype ServerTransport = STREAMABLE_HTTP | STDIO_BRIDGE

record ServerCreate =
  sc_name :: jsstr
  sc_slug :: jsstr
  sc_upstream_url :: jsstr
  sc_transport :: ServerTransport
  sc_auth_mode :: ServerAuthMode
  sc_service_token_env_var :: "jsstr option"
  sc_ssl :: "jsstr option \<times> jsstr option \<times> jsstr option"
  sc_health_check_path :: jsstr
  sc_bridge_command :: "jsstr option"
  sc_bridge_port :: "nat option"

record ServerUpdate =
  su_name :: "jsstr option"
  su_slug :: "jsstr option"
  su_upstream_url :: "jsstr option"
  su_transport :: "ServerTransport option"
  su_auth_mode :: "ServerAuthMode option"
  su_service_token_env_var :: "jsstr option"
  su_ssl :: "jsstr option \<times> jsstr option \<times> jsstr option"
  su_health_check_path :: "jsstr option"
  su_bridge_command :: "jsstr option"
  su_bridge_port :: "nat option"
  su_status :: "ServerStatus option"

definition len_in :: "nat \<Rightarrow> nat \<Rightarrow> jsstr \<Rightarrow> bool" where
  "len_in lo hi s \<longleftrightarrow> lo \<le> length s \<and> length s \<le> hi"

text \<open>The body with its slug in normal form, \<^const>\<open>None\<close> where the schema refuses it.\<close>

definition parse_create :: "ServerCreate \<Rightarrow> ServerCreate option" where
  "parse_create c =
     (case check_slug (sc_slug c) of
        None \<Rightarrow> None
      | Some n \<Rightarrow>
          if len_in 1 200 (sc_name c) \<and> len_in 1 2000 (sc_upstream_url c) \<and> len_in 1 500 (sc_health_check_path c) \<and>
             given (\<lambda>v. length v \<le> 200 \<and> token_var_ok v) (sc_service_token_env_var c) \<and>
             given validate_bridge_command (sc_bridge_command c) \<and>
             given (\<lambda>p. 1 \<le> p \<and> p \<le> 65535) (sc_bridge_port c)
          then Some (c\<lparr>sc_slug := n\<rparr>) else None)"

definition parse_update :: "ServerUpdate \<Rightarrow> ServerUpdate option" where
  "parse_update c =
     (if (case su_slug c of None \<Rightarrow> False | Some v \<Rightarrow> check_slug v = None) then None
      else if given (len_in 1 200) (su_name c) \<and> given (len_in 1 2000) (su_upstream_url c) \<and>
              given (len_in 1 500) (su_health_check_path c) \<and>
              given (\<lambda>v. length v \<le> 200 \<and> token_var_ok v) (su_service_token_env_var c) \<and>
              given validate_bridge_command (su_bridge_command c) \<and>
              given (\<lambda>p. 1 \<le> p \<and> p \<le> 65535) (su_bridge_port c)
      then Some (c\<lparr>su_slug := Option.bind (su_slug c) check_slug\<rparr>) else None)"

section \<open>Rows\<close>

record ServerRow = McpServer +
  sr_name :: jsstr
  sr_transport :: ServerTransport
  sr_ssl :: "jsstr option \<times> jsstr option \<times> jsstr option"
  sr_health_check_path :: jsstr
  sr_failures :: nat
  sr_last_check :: "int option"
  sr_bridge_command :: "jsstr option"
  sr_bridge_port :: "nat option"

datatype LicenseStatus = LIC_ACTIVE | LIC_EXPIRED | LIC_REVOKED

record License =
  li_tenant_id :: jsstr
  li_status :: LicenseStatus
  li_seat_limit :: nat
  li_server_limit :: "nat option"
  li_expires_at :: int

text \<open>Licences stand in the order of their creation; roles and permissions as the proxy reads them.\<close>

record registry =
  rg_servers :: "ServerRow list"
  rg_roles :: "(jsstr \<times> jsstr) list"
  rg_permissions :: "(jsstr \<times> ToolPermission) list"
  rg_licenses :: "License list"

record RegistrySettings = Settings +
  st_stdio_bridge_enabled :: bool
  st_health_check_failure_threshold :: nat

definition is_row :: "jsstr \<Rightarrow> jsstr \<Rightarrow> 'a McpServer_scheme \<Rightarrow> bool" where
  "is_row tenant_id slug r \<longleftrightarrow> ms_tenant_id r = tenant_id \<and> ms_slug r = slug"

definition find_server :: "jsstr \<Rightarrow> jsstr \<Rightarrow> registry \<Rightarrow> ServerRow option" where
  "find_server tenant_id slug rg = find (is_row tenant_id slug) (rg_servers rg)"

definition count_servers :: "jsstr \<Rightarrow> registry \<Rightarrow> nat" where
  "count_servers tenant_id rg = length (filter (\<lambda>r. ms_tenant_id r = tenant_id) (rg_servers rg))"

definition row_key :: "'a McpServer_scheme \<Rightarrow> jsstr \<times> jsstr" where
  "row_key r = (ms_tenant_id r, ms_slug r)"

text \<open>
  What the database accepts: a slug of the column's length, else another error than that of a
  constraint; a token variable for the token mode and no second row with the key, else the error of a
  constraint.
\<close>

datatype db_error = IntegrityError | DataError

definition row_error :: "ServerRow \<Rightarrow> (jsstr \<times> jsstr) list \<Rightarrow> db_error option" where
  "row_error r others =
     (if length (ms_slug r) > 100 then Some DataError
      else if ms_auth_mode r = SERVICE_TOKEN \<and> ms_service_token_env_var r = None then Some IntegrityError
      else if row_key r \<in> set others then Some IntegrityError
      else None)"

definition new_row :: "jsstr \<Rightarrow> ServerCreate \<Rightarrow> ServerRow" where
  "new_row tenant_id c =
     \<lparr>ms_tenant_id = tenant_id, ms_slug = sc_slug c, ms_upstream_url = sc_upstream_url c, ms_status = ACTIVE,
      ms_auth_mode = sc_auth_mode c, ms_service_token_env_var = sc_service_token_env_var c,
      sr_name = sc_name c, sr_transport = sc_transport c, sr_ssl = sc_ssl c, sr_health_check_path = sc_health_check_path c,
      sr_failures = 0, sr_last_check = None, sr_bridge_command = sc_bridge_command c, sr_bridge_port = sc_bridge_port c\<rparr>"

definition or_keep :: "'a option \<Rightarrow> 'a option \<Rightarrow> 'a option" where
  "or_keep new old = (case new of None \<Rightarrow> old | Some v \<Rightarrow> Some v)"

definition updated_row :: "ServerUpdate \<Rightarrow> ServerRow \<Rightarrow> ServerRow" where
  "updated_row d r =
     r\<lparr>sr_name := nullish (su_name d) (sr_name r), ms_slug := nullish (su_slug d) (ms_slug r),
       ms_upstream_url := nullish (su_upstream_url d) (ms_upstream_url r), sr_transport := nullish (su_transport d) (sr_transport r),
       ms_auth_mode := nullish (su_auth_mode d) (ms_auth_mode r),
       ms_service_token_env_var := or_keep (su_service_token_env_var d) (ms_service_token_env_var r),
       sr_ssl := (or_keep (fst (su_ssl d)) (fst (sr_ssl r)), or_keep (fst (snd (su_ssl d))) (fst (snd (sr_ssl r))),
                  or_keep (snd (snd (su_ssl d))) (snd (snd (sr_ssl r)))),
       sr_health_check_path := nullish (su_health_check_path d) (sr_health_check_path r),
       sr_bridge_command := or_keep (su_bridge_command d) (sr_bridge_command r),
       sr_bridge_port := or_keep (su_bridge_port d) (sr_bridge_port r), ms_status := nullish (su_status d) (ms_status r)\<rparr>"

definition on_row :: "jsstr \<Rightarrow> jsstr \<Rightarrow> (ServerRow \<Rightarrow> ServerRow) \<Rightarrow> registry \<Rightarrow> registry" where
  "on_row tenant_id slug f rg = rg\<lparr>rg_servers := map (\<lambda>r. if is_row tenant_id slug r then f r else r) (rg_servers rg)\<rparr>"

definition delete_exact_slug_permissions :: "jsstr \<Rightarrow> jsstr \<Rightarrow> registry \<Rightarrow> registry" where
  "delete_exact_slug_permissions tenant_id slug rg =
     rg\<lparr>rg_permissions := filter (\<lambda>(role, p). \<not> (tp_server_pattern p = slug \<and> (role, tenant_id) \<in> set (rg_roles rg))) (rg_permissions rg)\<rparr>"

section \<open>Licences\<close>

definition current_license :: "jsstr \<Rightarrow> License list \<Rightarrow> License option" where
  "current_license tenant_id ls = find (\<lambda>l. li_tenant_id l = tenant_id) (rev ls)"

text \<open>\<^const>\<open>None\<close> where the request is covered, else the text of the error.\<close>

definition require_license :: "int \<Rightarrow> jsstr \<Rightarrow> nat \<Rightarrow> nat \<Rightarrow> License list \<Rightarrow> jsstr option" where
  "require_license moment tenant_id users servers ls =
     (case current_license tenant_id ls of
        None \<Rightarrow> None
      | Some l \<Rightarrow>
          if li_status l \<noteq> LIC_ACTIVE then Some ''license is not active''
          else if li_expires_at l < moment then Some ''license expired''
          else if users > li_seat_limit l
          then Some (''seat limit exceeded ('' @ nat_str users @ '' > '' @ nat_str (li_seat_limit l) @ '')'')
          else (case li_server_limit l of
             None \<Rightarrow> None
           | Some n \<Rightarrow>
               if servers > n then Some (''server limit exceeded ('' @ nat_str servers @ '' > '' @ nat_str n @ '')'') else None))"

section \<open>The service\<close>

datatype reg_error =
    BadUrl | BadTokenVar | BridgeDisabled | BridgeMissing | BadBridge | TokenVarMissing
  | NotEntitled jsstr | SlugConflict jsstr | NotFound jsstr | Crash

fun reg_status :: "reg_error \<Rightarrow> nat" where
  "reg_status (SlugConflict _) = 409"
| "reg_status (NotFound _) = 404"
| "reg_status Crash = 500"
| "reg_status _ = 422"

fun db_failure :: "jsstr \<Rightarrow> db_error \<Rightarrow> reg_error" where
  "db_failure slug IntegrityError = SlugConflict slug"
| "db_failure slug DataError = Crash"

definition create_refusal :: "'a RegistrySettings_scheme \<Rightarrow> int \<Rightarrow> jsstr \<Rightarrow> ServerCreate \<Rightarrow> registry \<Rightarrow> reg_error option" where
  "create_refusal st moment tenant_id c rg =
     (if \<not> validate_upstream_url (sc_upstream_url c) (st_upstream_hosts st) (st_environment st) then Some BadUrl
      else if \<not> given token_var_ok (sc_service_token_env_var c) then Some BadTokenVar
      else if sc_transport c = STDIO_BRIDGE \<and> \<not> st_stdio_bridge_enabled st then Some BridgeDisabled
      else if sc_transport c = STDIO_BRIDGE \<and> \<not> truthy (sc_bridge_command c) then Some BridgeMissing
      else if sc_transport c = STDIO_BRIDGE \<and> \<not> validate_bridge_command (the (sc_bridge_command c)) then Some BadBridge
      else if sc_transport c \<noteq> STDIO_BRIDGE \<and> sc_auth_mode c = SERVICE_TOKEN \<and> \<not> truthy (sc_service_token_env_var c)
      then Some TokenVarMissing
      else map_option NotEntitled (require_license moment tenant_id 0 (count_servers tenant_id rg + 1) (rg_licenses rg)))"

definition registry_create ::
  "'a RegistrySettings_scheme \<Rightarrow> int \<Rightarrow> jsstr \<Rightarrow> ServerCreate \<Rightarrow> registry \<Rightarrow> (reg_error + ServerRow) \<times> registry" where
  "registry_create st moment tenant_id c rg =
     (case create_refusal st moment tenant_id c rg of
        Some e \<Rightarrow> (Inl e, rg)
      | None \<Rightarrow>
          (let r = new_row tenant_id c in
           case row_error r (map row_key (rg_servers rg)) of
             Some e \<Rightarrow> (Inl (db_failure (sc_slug c) e), rg)
           | None \<Rightarrow> (Inr r, rg\<lparr>rg_servers := rg_servers rg @ [r]\<rparr>)))"

text \<open>The checks on the merged state of an update.\<close>

definition update_refusal :: "'a RegistrySettings_scheme \<Rightarrow> ServerUpdate \<Rightarrow> ServerRow \<Rightarrow> reg_error option" where
  "update_refusal st d r =
     (let final_auth_mode = nullish (su_auth_mode d) (ms_auth_mode r);
          final_token_env = or_keep (su_service_token_env_var d) (ms_service_token_env_var r)
      in if \<not> given (\<lambda>u. validate_upstream_url u (st_upstream_hosts st) (st_environment st)) (su_upstream_url d) then Some BadUrl
         else if final_auth_mode = SERVICE_TOKEN \<and> \<not> truthy final_token_env then Some TokenVarMissing
         else if \<not> given token_var_ok final_token_env then Some BadTokenVar
         else None)"

definition registry_update ::
  "'a RegistrySettings_scheme \<Rightarrow> jsstr \<Rightarrow> jsstr \<Rightarrow> ServerUpdate \<Rightarrow> registry \<Rightarrow> (reg_error + ServerRow) \<times> registry" where
  "registry_update st tenant_id slug d rg =
     (case find_server tenant_id slug rg of
        None \<Rightarrow> (Inl (NotFound slug), rg)
      | Some r \<Rightarrow>
          (case update_refusal st d r of
             Some e \<Rightarrow> (Inl e, rg)
           | None \<Rightarrow>
               (let r' = updated_row d r in
                case row_error r' (map row_key (filter (\<lambda>x. \<not> is_row tenant_id slug x) (rg_servers rg))) of
                  Some e \<Rightarrow> (Inl (db_failure (nullish (su_slug d) []) e), rg)
                | None \<Rightarrow> (Inr r', on_row tenant_id slug (updated_row d) rg))))"

definition registry_delete :: "jsstr \<Rightarrow> jsstr \<Rightarrow> registry \<Rightarrow> (reg_error + unit) \<times> registry" where
  "registry_delete tenant_id slug rg =
     (case find_server tenant_id slug rg of
        None \<Rightarrow> (Inl (NotFound slug), rg)
      | Some _ \<Rightarrow>
          (let rg' = delete_exact_slug_permissions tenant_id slug rg
           in (Inr (), rg'\<lparr>rg_servers := filter (\<lambda>r. \<not> is_row tenant_id slug r) (rg_servers rg')\<rparr>)))"

section \<open>The health monitor\<close>

definition check_url :: "(jsstr \<Rightarrow> nat option) \<Rightarrow> jsstr \<Rightarrow> jsstr \<Rightarrow> bool" where
  "check_url get upstream_url health_check_path =
     (case get (build_url upstream_url health_check_path) of None \<Rightarrow> False | Some status \<Rightarrow> status < 400)"

definition apply_result :: "'a RegistrySettings_scheme \<Rightarrow> int \<Rightarrow> bool \<Rightarrow> ServerRow \<Rightarrow> ServerRow" where
  "apply_result st moment healthy r =
     (if healthy
      then r\<lparr>sr_last_check := Some moment, sr_failures := 0, ms_status := (if ms_status r = UNHEALTHY then ACTIVE else ms_status r)\<rparr>
      else (let n = sr_failures r + 1
            in r\<lparr>sr_last_check := Some moment, sr_failures := n,
                 ms_status := (if n \<ge> st_health_check_failure_threshold st then UNHEALTHY else ms_status r)\<rparr>))"

text \<open>The route of a manual probe: the row is looked up whatever its status.\<close>

definition probe :: "'a RegistrySettings_scheme \<Rightarrow> int \<Rightarrow> (jsstr \<Rightarrow> nat option) \<Rightarrow> jsstr \<Rightarrow> jsstr \<Rightarrow> registry \<Rightarrow> (reg_error + ServerStatus) \<times> registry" where
  "probe st moment get tenant_id slug rg =
     (case find_server tenant_id slug rg of
        None \<Rightarrow> (Inl (NotFound slug), rg)
      | Some r \<Rightarrow>
          (let healthy = check_url get (ms_upstream_url r) (sr_health_check_path r)
           in (Inr (ms_status (apply_result st moment healthy r)), on_row tenant_id slug (apply_result st moment healthy) rg)))"

text \<open>
  A pass of the monitor: the targets are read first, the endpoints are asked, and each result is written to
  the row its key has at that time. Other operations may come between the two.
\<close>

type_synonym probe_target = "jsstr \<times> jsstr \<times> jsstr \<times> jsstr"

definition probe_targets :: "registry \<Rightarrow> probe_target list" where
  "probe_targets rg =
     map (\<lambda>r. (ms_tenant_id r, ms_slug r, ms_upstream_url r, sr_health_check_path r))
       (filter (\<lambda>r. ms_status r \<in> {ACTIVE, UNHEALTHY}) (rg_servers rg))"

fun persist_result :: "'a RegistrySettings_scheme \<Rightarrow> int \<Rightarrow> probe_target \<times> bool \<Rightarrow> registry \<Rightarrow> registry" where
  "persist_result st moment ((tenant_id, slug, _, _), healthy) rg = on_row tenant_id slug (apply_result st moment healthy) rg"

definition run_once :: "'a RegistrySettings_scheme \<Rightarrow> int \<Rightarrow> (jsstr \<Rightarrow> nat option) \<Rightarrow> registry \<Rightarrow> registry" where
  "run_once st moment get rg =
     fold (persist_result st moment) (map (\<lambda>(ten, slug, url, path). ((ten, slug, url, path), check_url get url path)) (probe_targets rg)) rg"

section \<open>Operations\<close>

text \<open>A request passes the schema before the service sees it.\<close>

datatype reg_op =
    RegCreate int jsstr ServerCreate
  | RegUpdate jsstr jsstr ServerUpdate
  | RegDelete jsstr jsstr
  | RegProbe int "jsstr \<Rightarrow> nat option" jsstr jsstr
  | RegPersist int probe_target bool

fun reg_step :: "'a RegistrySettings_scheme \<Rightarrow> reg_op \<Rightarrow> registry \<Rightarrow> registry" where
  "reg_step st (RegCreate moment ten c) rg = (case parse_create c of None \<Rightarrow> rg | Some c' \<Rightarrow> snd (registry_create st moment ten c' rg))"
| "reg_step st (RegUpdate ten slug d) rg = (case parse_update d of None \<Rightarrow> rg | Some d' \<Rightarrow> snd (registry_update st ten slug d' rg))"
| "reg_step st (RegDelete ten slug) rg = snd (registry_delete ten slug rg)"
| "reg_step st (RegProbe moment get ten slug) rg = snd (probe st moment get ten slug rg)"
| "reg_step st (RegPersist moment tgt healthy) rg = persist_result st moment (tgt, healthy) rg"

text \<open>The tables of the proxy that the registry feeds.\<close>

definition gateway_row :: "ServerRow \<Rightarrow> McpServer" where
  "gateway_row r =
     \<lparr>ms_tenant_id = ms_tenant_id r, ms_slug = ms_slug r, ms_upstream_url = ms_upstream_url r, ms_status = ms_status r,
      ms_auth_mode = ms_auth_mode r, ms_service_token_env_var = ms_service_token_env_var r\<rparr>"

definition registry_tables :: "registry \<Rightarrow> tables \<Rightarrow> tables" where
  "registry_tables rg db =
     db\<lparr>tb_servers := map gateway_row (rg_servers rg), tb_roles := rg_roles rg, tb_permissions := rg_permissions rg\<rparr>"

section \<open>Lemmas\<close>

subsection \<open>Slugs\<close>

definition slug_ok :: "jsstr \<Rightarrow> bool" where
  "slug_ok s \<longleftrightarrow> s \<noteq> [] \<and> list_all slug_char s \<and> hd s \<noteq> CHR ''-'' \<and> last s \<noteq> CHR ''-''"

lemma strip_hyphens_set: "set (strip_hyphens s) \<subseteq> set s"
  unfolding strip_hyphens_def by (auto dest!: set_dropWhileD)

lemma strip_hyphens_last: "strip_hyphens s \<noteq> [] \<Longrightarrow> last (strip_hyphens s) \<noteq> CHR ''-''"
  using hd_dropWhile [of "\<lambda>c. c = CHR ''-''" "rev (dropWhile (\<lambda>c. c = CHR ''-'') s)"]
  unfolding strip_hyphens_def by (simp only: last_rev rev_is_Nil_conv) simp

lemma strip_hyphens_hd:
  assumes "strip_hyphens s \<noteq> []"
  shows "hd (strip_hyphens s) \<noteq> CHR ''-''"
proof -
  let ?d = "dropWhile (\<lambda>c. c = CHR ''-'') s" and ?h = "\<lambda>c. c = CHR ''-''"
  have "rev (takeWhile ?h (rev ?d) @ dropWhile ?h (rev ?d)) = ?d" by (simp only: takeWhile_dropWhile_id rev_rev_ident)
  then have d: "strip_hyphens s @ rev (takeWhile ?h (rev ?d)) = ?d" unfolding strip_hyphens_def by (simp only: rev_append)
  then have "hd ?d = hd (strip_hyphens s)" using hd_append2 [OF assms, of "rev (takeWhile ?h (rev ?d))"] by (simp only:)
  moreover have "?d \<noteq> []" using assms by (subst d [symmetric]) simp
  ultimately show ?thesis using hd_dropWhile [of ?h s] by (simp only:) simp
qed

lemma strip_hyphens_id:
  assumes "s \<noteq> []" "hd s \<noteq> CHR ''-''" "last s \<noteq> CHR ''-''"
  shows "strip_hyphens s = s"
proof -
  have "dropWhile (\<lambda>c. c = CHR ''-'') s = s" "dropWhile (\<lambda>c. c = CHR ''-'') (rev s) = rev s"
    using assms by (simp_all add: dropWhile_eq_self_iff hd_rev)
  then show ?thesis by (simp add: strip_hyphens_def)
qed

lemma normalize_slug_chars: "list_all slug_char (normalize_slug v)"
  unfolding normalize_slug_def list_all_iff using strip_hyphens_set by fastforce

lemma check_slug_ok: "check_slug v = Some n \<Longrightarrow> slug_ok n"
  using strip_hyphens_hd strip_hyphens_last
  by (auto simp: check_slug_def Let_def slug_ok_def normalize_slug_def split: if_splits)

lemma slug_char_lower: "slug_char c \<Longrightarrow> to_lower_char c = c"
  unfolding slug_char_def by (auto simp: to_lower_char_def)

lemma slug_char_space: "slug_char c \<Longrightarrow> c \<noteq> CHR '' ''"
  unfolding slug_char_def by auto

lemma lower_slug:
  assumes "list_all slug_char s"
  shows "filter slug_char (map (\<lambda>c. if c = CHR '' '' then CHR ''-'' else c) (to_lower s)) = s"
  using assms by (induction s) (auto simp: to_lower_def slug_char_lower slug_char_space)

lemma normalize_slug_strip: "list_all slug_char s \<Longrightarrow> normalize_slug s = strip_hyphens s"
  by (simp add: normalize_slug_def lower_slug)

lemma slug_ok_fixed: "slug_ok s \<Longrightarrow> check_slug s = Some s"
  by (simp add: check_slug_def slug_ok_def normalize_slug_strip strip_hyphens_id)

subsection \<open>The invariant\<close>

definition row_ok :: "'a RegistrySettings_scheme \<Rightarrow> ServerRow \<Rightarrow> bool" where
  "row_ok st r \<longleftrightarrow>
     slug_ok (ms_slug r) \<and> length (ms_slug r) \<le> 100 \<and>
     validate_upstream_url (ms_upstream_url r) (st_upstream_hosts st) (st_environment st) \<and>
     given token_var_ok (ms_service_token_env_var r) \<and>
     (ms_auth_mode r = SERVICE_TOKEN \<longrightarrow> ms_service_token_env_var r \<noteq> None) \<and>
     given validate_bridge_command (sr_bridge_command r)"

definition registry_ok :: "'a RegistrySettings_scheme \<Rightarrow> registry \<Rightarrow> bool" where
  "registry_ok st rg \<longleftrightarrow> distinct (map row_key (rg_servers rg)) \<and> list_all (row_ok st) (rg_servers rg)"

lemma parse_create_fields:
  "parse_create c = Some c' \<Longrightarrow>
   slug_ok (sc_slug c') \<and> check_slug (sc_slug c) = Some (sc_slug c') \<and> c' = c\<lparr>sc_slug := sc_slug c'\<rparr> \<and>
   given validate_bridge_command (sc_bridge_command c')"
  by (auto simp: parse_create_def check_slug_ok split: option.splits if_splits)

lemma parse_update_fields:
  "parse_update d = Some d' \<Longrightarrow> given slug_ok (su_slug d') \<and> given validate_bridge_command (su_bridge_command d')"
  by (auto simp: parse_update_def check_slug_ok split: option.splits if_splits)

lemma row_error_None:
  "row_error r others = None \<longleftrightarrow>
   length (ms_slug r) \<le> 100 \<and> (ms_auth_mode r = SERVICE_TOKEN \<longrightarrow> ms_service_token_env_var r \<noteq> None) \<and> row_key r \<notin> set others"
  by (auto simp: row_error_def)

lemma create_refusal_None:
  "create_refusal st moment ten c rg = None \<Longrightarrow>
   validate_upstream_url (sc_upstream_url c) (st_upstream_hosts st) (st_environment st) \<and> given token_var_ok (sc_service_token_env_var c) \<and>
   (sc_transport c = STDIO_BRIDGE \<longrightarrow> st_stdio_bridge_enabled st)"
  by (auto simp: create_refusal_def split: if_splits)

lemma registry_create_cases:
  assumes "registry_create st moment ten c rg = (res, rg')"
  obtains e where "res = Inl e" "rg' = rg"
  | "res = Inr (new_row ten c)" "rg' = rg\<lparr>rg_servers := rg_servers rg @ [new_row ten c]\<rparr>"
    "create_refusal st moment ten c rg = None" "row_error (new_row ten c) (map row_key (rg_servers rg)) = None"
  using assms by (auto simp: registry_create_def Let_def split: option.splits)

lemma registry_update_cases:
  assumes "registry_update st ten slug d rg = (res, rg')"
  obtains e where "res = Inl e" "rg' = rg"
  | r where "find_server ten slug rg = Some r" "update_refusal st d r = None"
    "row_error (updated_row d r) (map row_key (filter (\<lambda>x. \<not> is_row ten slug x) (rg_servers rg))) = None"
    "res = Inr (updated_row d r)" "rg' = on_row ten slug (updated_row d) rg"
  using assms by (auto simp: registry_update_def Let_def split: option.splits)

lemma create_keeps:
  assumes "registry_ok st rg" and "slug_ok (sc_slug c)" and "given validate_bridge_command (sc_bridge_command c)"
  shows "registry_ok st (snd (registry_create st moment ten c rg))"
proof (cases "registry_create st moment ten c rg")
  case (Pair res rg')
  from this show ?thesis
  proof (cases rule: registry_create_cases)
    case 2
    have "row_ok st (new_row ten c)"
      using assms(2,3) create_refusal_None [OF 2(3)] 2(4) by (simp add: row_ok_def row_error_None new_row_def)
    then show ?thesis using assms(1) 2 Pair by (simp add: registry_ok_def row_error_None)
  qed (simp add: Pair assms(1))
qed

lemma is_row_key: "is_row ten slug r \<longleftrightarrow> row_key r = (ten, slug)"
  by (simp add: is_row_def row_key_def)

text \<open>Changing the one row of a key to a row with a key no other row has.\<close>

lemma distinct_on_row:
  assumes "distinct (map key xs)" and "\<And>x. x \<in> set xs \<Longrightarrow> key x = k \<Longrightarrow> key (f x) \<notin> key ` {y \<in> set xs. key y \<noteq> k}"
  shows "distinct (map (\<lambda>x. key (if key x = k then f x else x)) xs)" (is "distinct (map ?g xs)")
proof -
  have i: "inj_on key (set xs)" and d: "distinct xs" using assms(1) by (simp_all add: distinct_map)
  have "inj_on ?g (set xs)"
  proof (rule inj_onI)
    fix x y assume xy: "x \<in> set xs" "y \<in> set xs" "?g x = ?g y"
    have other: "key a \<noteq> key (f b)" if "a \<in> set xs" "b \<in> set xs" "key a \<noteq> k" "key b = k" for a b
    proof -
      have "key a \<in> key ` {y \<in> set xs. key y \<noteq> k}" using that by blast
      with assms(2) [OF that(2,4)] show ?thesis by metis
    qed
    show "x = y"
    proof (cases "key x = k"; cases "key y = k")
      assume "key x = k" "key y = k"
      then show ?thesis using inj_onD [OF i _ xy(1,2)] by simp
    next
      assume "key x = k" "key y \<noteq> k"
      then show ?thesis using xy(3) other [OF xy(2,1)] by simp
    next
      assume "key x \<noteq> k" "key y = k"
      then show ?thesis using xy(3) other [OF xy(1,2)] by simp
    next
      assume "key x \<noteq> k" "key y \<noteq> k"
      then show ?thesis using xy(3) inj_onD [OF i _ xy(1,2)] by simp
    qed
  qed
  then show ?thesis using d by (simp add: distinct_map)
qed

lemma find_server_Some:
  assumes "find_server ten slug rg = Some r"
  shows "r \<in> set (rg_servers rg)" and "row_key r = (ten, slug)"
  using assms unfolding find_server_def find_Some_iff by (auto simp: is_row_key)

lemma unique_row:
  assumes "registry_ok st rg" and "r \<in> set (rg_servers rg)" and "x \<in> set (rg_servers rg)" and "row_key x = row_key r"
  shows "x = r"
  using assms by (auto simp: registry_ok_def distinct_map inj_on_def)

lemma on_row_keeps:
  assumes "registry_ok st rg"
    and "\<And>r. r \<in> set (rg_servers rg) \<Longrightarrow> row_key r = (ten, slug) \<Longrightarrow>
      row_ok st (f r) \<and> row_key (f r) \<notin> row_key ` {y \<in> set (rg_servers rg). row_key y \<noteq> (ten, slug)}"
  shows "registry_ok st (on_row ten slug f rg)"
  unfolding registry_ok_def
proof
  show "distinct (map row_key (rg_servers (on_row ten slug f rg)))"
    using distinct_on_row [of row_key "rg_servers rg" "(ten, slug)" f] assms by (simp add: on_row_def is_row_key registry_ok_def o_def)
  show "list_all (row_ok st) (rg_servers (on_row ten slug f rg))"
    using assms by (auto simp: on_row_def is_row_key registry_ok_def list_all_iff)
qed

lemma updated_row_fields:
  "row_key (updated_row d r) = (ms_tenant_id r, nullish (su_slug d) (ms_slug r))"
  "ms_slug (updated_row d r) = nullish (su_slug d) (ms_slug r)"
  "ms_upstream_url (updated_row d r) = nullish (su_upstream_url d) (ms_upstream_url r)"
  "ms_auth_mode (updated_row d r) = nullish (su_auth_mode d) (ms_auth_mode r)"
  "ms_service_token_env_var (updated_row d r) = or_keep (su_service_token_env_var d) (ms_service_token_env_var r)"
  "sr_bridge_command (updated_row d r) = or_keep (su_bridge_command d) (sr_bridge_command r)"
  "sr_transport (updated_row d r) = nullish (su_transport d) (sr_transport r)"
  by (simp_all add: updated_row_def row_key_def)

lemma pred_nullish: "P x \<Longrightarrow> given P y \<Longrightarrow> P (nullish y x)"
  by (cases y) (auto simp: nullish_def)

lemma pred_or_keep: "given P x \<Longrightarrow> given P y \<Longrightarrow> given P (or_keep y x)"
  by (cases y) (auto simp: or_keep_def)

lemma update_keeps:
  assumes ok: "registry_ok st rg" and d: "given slug_ok (su_slug d)" "given validate_bridge_command (su_bridge_command d)"
  shows "registry_ok st (snd (registry_update st ten slug d rg))"
proof (cases "registry_update st ten slug d rg")
  case (Pair res rg')
  from this show ?thesis
  proof (cases rule: registry_update_cases)
    case (2 r)
    have "registry_ok st (on_row ten slug (updated_row d) rg)"
    proof (rule on_row_keeps [OF ok])
      fix x assume x: "x \<in> set (rg_servers rg)" "row_key x = (ten, slug)"
      have xr: "x = r"
        by (rule unique_row [OF ok find_server_Some(1) [OF 2(1)] x(1)]) (simp add: x(2) find_server_Some(2) [OF 2(1)])
      have r: "row_ok st r" using ok find_server_Some(1) [OF 2(1)] by (simp add: registry_ok_def list_all_iff)
      have url: "given (\<lambda>u. validate_upstream_url u (st_upstream_hosts st) (st_environment st)) (su_upstream_url d)"
        and tok: "given token_var_ok (or_keep (su_service_token_env_var d) (ms_service_token_env_var r))"
        using 2(2) by (auto simp: update_refusal_def Let_def split: if_splits)
      have "slug_ok (nullish (su_slug d) (ms_slug r))" "validate_upstream_url (nullish (su_upstream_url d) (ms_upstream_url r)) (st_upstream_hosts st) (st_environment st)"
        "given validate_bridge_command (or_keep (su_bridge_command d) (sr_bridge_command r))"
        using r d url pred_nullish [of slug_ok] pred_nullish [of "\<lambda>u. validate_upstream_url u (st_upstream_hosts st) (st_environment st)"]
          pred_or_keep [of validate_bridge_command]
        by (simp_all add: row_ok_def)
      then have "row_ok st (updated_row d r)"
        using tok 2(3) unfolding row_ok_def row_error_None updated_row_fields by simp
      moreover have "row_key (updated_row d r) \<notin> row_key ` {y \<in> set (rg_servers rg). row_key y \<noteq> (ten, slug)}"
        using 2(3) by (auto simp: row_error_None is_row_key)
      ultimately show "row_ok st (updated_row d x) \<and> row_key (updated_row d x) \<notin> row_key ` {y \<in> set (rg_servers rg). row_key y \<noteq> (ten, slug)}"
        by (simp add: xr)
    qed
    then show ?thesis by (simp add: Pair 2(5))
  qed (simp add: Pair ok)
qed

lemma delete_keeps: "registry_ok st rg \<Longrightarrow> registry_ok st (snd (registry_delete ten slug rg))"
  by (auto simp: registry_ok_def registry_delete_def Let_def delete_exact_slug_permissions_def list_all_iff
      distinct_map_filter split: option.split)

lemma apply_result_fields:
  "row_key (apply_result st moment healthy r) = row_key r" "row_ok st' (apply_result st moment healthy r) = row_ok st' r"
  by (simp_all add: apply_result_def row_key_def row_ok_def Let_def)

lemma result_keeps: "registry_ok st rg \<Longrightarrow> registry_ok st (on_row ten slug (apply_result st' moment healthy) rg)"
  by (rule on_row_keeps) (auto simp: apply_result_fields registry_ok_def list_all_iff)

lemma reg_step_keeps: "registry_ok st rg \<Longrightarrow> registry_ok st (reg_step st op rg)"
proof (cases op)
  case (RegCreate moment ten c)
  assume "registry_ok st rg"
  then show ?thesis using RegCreate by (auto intro!: create_keeps dest!: parse_create_fields split: option.split)
next
  case (RegUpdate ten slug d)
  assume "registry_ok st rg"
  then show ?thesis using RegUpdate by (auto intro!: update_keeps dest!: parse_update_fields split: option.split)
next
  case (RegProbe moment get ten slug)
  assume "registry_ok st rg"
  then show ?thesis using RegProbe by (auto simp: probe_def Let_def intro: result_keeps split: option.split)
next
  case (RegPersist moment tgt healthy)
  assume "registry_ok st rg"
  then show ?thesis using RegPersist by (cases tgt) (simp add: result_keeps)
qed (simp add: delete_keeps)

interpretation registered: step_invariant "registry_ok st" "reg_step st" for st
  by unfold_locales (rule reg_step_keeps)

subsection \<open>The proxy's view\<close>

lemma find_map: "find P (map f xs) = map_option f (find (\<lambda>x. P (f x)) xs)"
  by (induction xs) auto

lemma registered_slug: "get_by_slug (registry_tables rg db) ten slug = map_option gateway_row (find_server ten slug rg)"
  by (simp add: get_by_slug_def registry_tables_def find_map find_server_def gateway_row_def is_row_def [abs_def])

definition feeds :: "'a RegistrySettings_scheme \<Rightarrow> registry \<Rightarrow> gateway \<Rightarrow> bool" where
  "feeds st rg gw \<longleftrightarrow>
     st_upstream_hosts (gw_settings gw) = st_upstream_hosts st \<and> st_environment (gw_settings gw) = st_environment st \<and>
     (\<exists>db. gw_tables gw = registry_tables rg db)"

lemma resolve_registered:
  assumes "feeds st rg gw" and "find_server (sj_tenant_id subject) slug rg = Some r"
    and "validate_upstream_url (ms_upstream_url r) (st_upstream_hosts st) (st_environment st)"
  shows "resolve_server gw req slug i subject w =
    (if ms_status r = ACTIVE then (Inr (gateway_row r), w) else (fst (resolve_server gw req slug i subject w), w))"
    and "(\<exists>server. fst (resolve_server gw req slug i subject w) = Inr server) \<longleftrightarrow> ms_status r = ACTIVE"
proof -
  obtain db where db: "gw_tables gw = registry_tables rg db" using assms(1) by (auto simp: feeds_def)
  have "get_by_slug (gw_tables gw) (sj_tenant_id subject) slug = Some (gateway_row r)" unfolding db registered_slug assms(2) by simp
  moreover have "validate_upstream_url (ms_upstream_url (gateway_row r)) (st_upstream_hosts (gw_settings gw)) (st_environment (gw_settings gw))"
    "ms_status (gateway_row r) = ms_status r"
    using assms(1,3) by (simp_all add: feeds_def gateway_row_def)
  ultimately have eq: "resolve_server gw req slug i subject =
      (case ms_status r of
         DISABLED \<Rightarrow> stop (json_error req 503 i UPSTREAM_UNAVAILABLE (''Server '' @ quoted slug @ '' is disabled'') [])
       | UNHEALTHY \<Rightarrow> stop (json_error req 503 i UPSTREAM_UNAVAILABLE (''Server '' @ quoted slug @ '' is unhealthy'') [])
       | ACTIVE \<Rightarrow> ret (gateway_row r))"
    unfolding resolve_server_def by simp
  show "resolve_server gw req slug i subject w =
      (if ms_status r = ACTIVE then (Inr (gateway_row r), w) else (fst (resolve_server gw req slug i subject w), w))"
    unfolding eq by (cases "ms_status r") (simp_all add: stop_def ret_def)
  show "(\<exists>server. fst (resolve_server gw req slug i subject w) = Inr server) \<longleftrightarrow> ms_status r = ACTIVE"
    unfolding eq by (cases "ms_status r") (simp_all add: stop_def ret_def)
qed

subsection \<open>Probes\<close>

lemma find_on_row:
  assumes "\<And>r. row_key (f r) = row_key r"
  shows "find_server ten slug (on_row ten slug f rg) = map_option f (find_server ten slug rg)"
proof -
  have "is_row ten slug (if is_row ten slug r then f r else r) = is_row ten slug r" for r by (simp add: is_row_key assms)
  then have "find_server ten slug (on_row ten slug f rg) =
      map_option (\<lambda>r. if is_row ten slug r then f r else r) (find (is_row ten slug) (rg_servers rg))"
    unfolding find_server_def on_row_def by (simp add: find_map)
  also have "\<dots> = map_option f (find_server ten slug rg)"
    using find_server_Some(2) [of ten slug rg] unfolding find_server_def by (auto simp: is_row_key intro!: map_option_cong)
  finally show ?thesis .
qed

lemma find_persist: "find_server ten slug (persist_result st t ((ten, slug, u, p), h) rg) = map_option (apply_result st t h) (find_server ten slug rg)"
  by (simp add: find_on_row apply_result_fields)

lemma on_row_absent: "find_server ten slug rg = None \<Longrightarrow> on_row ten slug f rg = rg"
  by (simp add: find_server_def find_None_iff on_row_def map_idI)

lemma probe_const:
  "reg_step st (RegProbe t (\<lambda>_. x) ten slug) rg = persist_result st t ((ten, slug, u, p), case x of None \<Rightarrow> False | Some c \<Rightarrow> c < 400) rg"
  by (simp add: probe_def check_url_def Let_def on_row_absent split: option.split)

definition probed :: "'a RegistrySettings_scheme \<Rightarrow> (int \<times> bool) list \<Rightarrow> ServerRow \<Rightarrow> ServerRow" where
  "probed st hs r = fold (\<lambda>(t, h). apply_result st t h) hs r"

lemma probed_snoc: "probed st (hs @ [(t, h)]) r = apply_result st t h (probed st hs r)"
  by (simp add: probed_def)

lemma find_probed:
  "find_server ten slug (fold (\<lambda>(t, h). persist_result st t ((ten, slug, u, p), h)) hs rg) = map_option (probed st hs) (find_server ten slug rg)"
  by (induction hs rule: rev_induct)
    (auto simp: probed_def [abs_def] find_persist option.map_comp o_def option.map_ident simp del: persist_result.simps)

lemma probed_url: "ms_upstream_url (probed st hs r) = ms_upstream_url r"
  by (induction hs rule: rev_induct) (auto simp: probed_def apply_result_def Let_def)

text \<open>The count is the length of the last run of failures, plus the old count while nothing succeeded.\<close>

lemma probed_failures: "sr_failures (probed st hs r) = (if \<forall>(t, h)\<in>set hs. \<not> h then sr_failures r else 0) + length (takeWhile (\<lambda>(t, h). \<not> h) (rev hs))"
proof (induction hs rule: rev_induct)
  case (snoc x hs)
  obtain t h where x: "x = (t, h)" by (cases x)
  show ?case using snoc unfolding x probed_snoc by (simp add: apply_result_def Let_def)
qed (simp add: probed_def)

lemma probed_status:
  assumes "1 \<le> st_health_check_failure_threshold st" and "ms_status r = ACTIVE" and "sr_failures r = 0"
  shows "ms_status (probed st hs r) =
    (if st_health_check_failure_threshold st \<le> length (takeWhile (\<lambda>(t, h). \<not> h) (rev hs)) then UNHEALTHY else ACTIVE)"
proof (induction hs rule: rev_induct)
  case (snoc x hs)
  obtain t h where x: "x = (t, h)" by (cases x)
  have "sr_failures (probed st hs r) = length (takeWhile (\<lambda>(t, h). \<not> h) (rev hs))" using probed_failures [of st hs r] assms(3) by simp
  then show ?case using snoc assms(1) unfolding x probed_snoc by (simp add: apply_result_def Let_def)
qed (use assms in \<open>simp add: probed_def\<close>)

section \<open>A registry with one server\<close>

definition demo_st :: RegistrySettings where
  "demo_st = \<lparr>st_environment = DEVELOPMENT, st_max_request_body_bytes = 10, st_max_response_body_bytes = 10, st_auth_rate_limit_default = [],
     st_rate_limit_default = [], st_upstream_hosts = [''up''], st_usage_enforcement_enabled = False, st_cap_pro = 0, st_cap_enterprise = 0,
     st_cap_community = 0, st_stdio_bridge_enabled = False, st_health_check_failure_threshold = 2\<rparr>"

definition demo_create :: ServerCreate where
  "demo_create = \<lparr>sc_name = ''S'', sc_slug = ''-My S1'', sc_upstream_url = ''http://up'', sc_transport = STREAMABLE_HTTP, sc_auth_mode = SERVICE_TOKEN,
     sc_service_token_env_var = Some ''PORTCULLIS_UPSTREAM_TOKEN_X'', sc_ssl = (None, None, None), sc_health_check_path = ''/health'',
     sc_bridge_command = None, sc_bridge_port = None\<rparr>"

definition demo_registry :: registry where
  "demo_registry = \<lparr>rg_servers = [], rg_roles = [], rg_permissions = [], rg_licenses = []\<rparr>"

definition demo_row :: ServerRow where
  "demo_row = new_row ''t'' (demo_create\<lparr>sc_slug := ''my-s1''\<rparr>)"

definition demo_one :: registry where
  "demo_one = demo_registry\<lparr>rg_servers := [demo_row]\<rparr>"

definition demo_reader :: "registry \<Rightarrow> gateway" where
  "demo_reader rg =
     \<lparr>gw_settings = \<lparr>st_environment = DEVELOPMENT, st_max_request_body_bytes = 10, st_max_response_body_bytes = 10, st_auth_rate_limit_default = [],
        st_rate_limit_default = [], st_upstream_hosts = [''up''], st_usage_enforcement_enabled = False, st_cap_pro = 0, st_cap_enterprise = 0, st_cap_community = 0\<rparr>,
      gw_tables = registry_tables rg \<lparr>tb_servers = [], tb_roles = [], tb_bindings = [], tb_permissions = [], tb_policies = [], tb_plans = [], tb_month_calls = []\<rparr>,
      gw_now = 0, gw_member_pre = [], gw_member = [], gw_up = (\<lambda>_. True), gw_loads = (\<lambda>_. None), gw_str = (\<lambda>_. []), gw_authenticate = (\<lambda>_. None),
      gw_upstream = (\<lambda>_. Inl UpstreamError), gw_environ = (\<lambda>_. Some ''tok''), gw_plugin = (\<lambda>_. None)\<rparr>"

definition demo_get :: http_request where
  "demo_get = \<lparr>hr_headers = [], hr_body = [], hr_method = ''POST'', hr_dry_run = None, hr_client_ip = [], hr_request_id = None\<rparr>"

definition demo_still :: world where
  "demo_still = \<lparr>wd_redis = Map.empty, wd_audit = [], wd_usage = [], wd_sent = []\<rparr>"

lemma demo_feeds: "feeds demo_st rg (demo_reader rg)"
  by (auto simp: feeds_def demo_st_def demo_reader_def)

lemma demo_parsed: "parse_create demo_create = Some (demo_create\<lparr>sc_slug := ''my-s1''\<rparr>)"
  by code_simp

lemma demo_created: "registry_create demo_st 0 ''t'' (demo_create\<lparr>sc_slug := ''my-s1''\<rparr>) demo_registry = (Inr demo_row, demo_one)"
  by code_simp

lemma demo_row_ok: "row_ok demo_st demo_row" and demo_normal: "normalize_slug ''-My S1'' = ''my-s1''"
  by code_simp+

lemma demo_ok: "registry_ok demo_st demo_registry" "registry_ok demo_st demo_one" "find_server ''t'' ''my-s1'' demo_one = Some demo_row"
  using demo_row_ok by (simp_all add: registry_ok_def demo_registry_def demo_one_def find_server_def is_row_def demo_row_def new_row_def)

section \<open>Properties\<close>

text \<open>
  C33. The registry stays valid: from a valid one, any requests to create, change and delete servers and any
  results of probes, in any order, leave a registry in which no two servers of a tenant share a slug,
  slugs are in normal form and fit their column, every address passes the upstream check, a server in
  token mode names a token variable, every such name is on the allow-list, and bridge commands are plain.
\<close>

theorem registry_stays_valid:
  assumes "registry_ok st rg"
  shows "registry_ok st (fold (reg_step st) ops rg)"
  by (rule registered.inv_run [OF assms])

theorem registry_stays_valid_witness:
  "registry_ok demo_st (fold (reg_step demo_st) [RegCreate 0 ''t'' demo_create, RegProbe 1 (\<lambda>_. None) ''t'' ''my-s1''] demo_registry) \<and>
   map ms_slug (rg_servers (fold (reg_step demo_st) [RegCreate 0 ''t'' demo_create, RegProbe 1 (\<lambda>_. None) ''t'' ''my-s1''] demo_registry)) = [''my-s1'']"
proof
  show "registry_ok demo_st (fold (reg_step demo_st) [RegCreate 0 ''t'' demo_create, RegProbe 1 (\<lambda>_. None) ''t'' ''my-s1''] demo_registry)"
    by (rule registry_stays_valid [OF demo_ok(1)])
qed code_simp

text \<open>
  C32. What is registered is served: after a body passed the schema and the service answered with a row, the
  proxy that reads the registry resolves the normal form of the slug, for a subject of the tenant, to
  exactly that row; and the credential it adds upstream is the value of the named variable in token mode
  and none otherwise.
\<close>

theorem registered_server_served:
  fixes gw :: gateway
  assumes "parse_create c = Some c'" and "registry_create st moment (sj_tenant_id subject) c' rg = (Inr r, rg')" and "feeds st rg' gw"
  shows "resolve_server gw req (normalize_slug (sc_slug c)) i subject w = (Inr (gateway_row r), w) \<and>
    upstream_headers gw req (gateway_row r) = build_upstream_headers (hr_headers req)
      (if sc_auth_mode c = SERVICE_TOKEN then or_absent (nullish (Option.bind (sc_service_token_env_var c) (gw_environ gw)) []) else None)"
proof -
  let ?ten = "sj_tenant_id subject"
  have c': "c' = c\<lparr>sc_slug := sc_slug c'\<rparr>" and slug: "normalize_slug (sc_slug c) = sc_slug c'"
    using parse_create_fields [OF assms(1)] by (auto simp: check_slug_def Let_def split: if_splits)
  have auth: "sc_auth_mode c' = sc_auth_mode c" "sc_service_token_env_var c' = sc_service_token_env_var c"
    by (subst c', simp)+
  from assms(2) have r: "r = new_row ?ten c'" "rg' = rg\<lparr>rg_servers := rg_servers rg @ [r]\<rparr>"
    and ref: "create_refusal st moment ?ten c' rg = None" and err: "row_error (new_row ?ten c') (map row_key (rg_servers rg)) = None"
    by (cases rule: registry_create_cases; simp)+
  have "find (is_row ?ten (sc_slug c')) (rg_servers rg) = None"
    using err by (intro find_None_all) (force simp: row_error_None is_row_def new_row_def row_key_def)
  then have found: "find_server ?ten (sc_slug c') rg' = Some r"
    using r by (simp add: find_server_def find_append is_row_def new_row_def)
  have "validate_upstream_url (ms_upstream_url r) (st_upstream_hosts st) (st_environment st)" "ms_status r = ACTIVE"
    using create_refusal_None [OF ref] r(1) by (simp_all add: new_row_def)
  then have "resolve_server gw req (sc_slug c') i subject w = (Inr (gateway_row r), w)"
    using resolve_registered(1) [OF assms(3) found, of req i w] by simp
  moreover have "given token_var_ok (sc_service_token_env_var c)" "sc_auth_mode c = SERVICE_TOKEN \<Longrightarrow> sc_service_token_env_var c \<noteq> None"
    using create_refusal_None [OF ref] err auth by (simp_all add: row_error_None new_row_def)
  then have "extract_service_token (gw_environ gw) (if ms_auth_mode (gateway_row r) = SERVICE_TOKEN then ms_service_token_env_var (gateway_row r) else None) =
      (if sc_auth_mode c = SERVICE_TOKEN then or_absent (nullish (Option.bind (sc_service_token_env_var c) (gw_environ gw)) []) else None)"
    unfolding r(1) using auth token_var_ok_def
    by (auto simp: extract_service_token_def gateway_row_def new_row_def TOKEN_VAR_PREFIX_def)
  ultimately show ?thesis unfolding upstream_headers_def slug by simp
qed

theorem registered_server_served_witness:
  "resolve_server (demo_reader demo_one) demo_get ''my-s1'' JNull (demo_admin ''t'') demo_still = (Inr (gateway_row demo_row), demo_still) \<and>
   upstream_headers (demo_reader demo_one) demo_get (gateway_row demo_row) = [(''Authorization'', ''Bearer tok'')]"
proof -
  have c: "registry_create demo_st 0 (sj_tenant_id (demo_admin ''t'')) (demo_create\<lparr>sc_slug := ''my-s1''\<rparr>) demo_registry = (Inr demo_row, demo_one)"
    using demo_created by (simp add: demo_admin_def)
  have b: "build_upstream_headers [] (or_absent ''tok'') = [(''Authorization'', ''Bearer tok'')]" by code_simp
  from registered_server_served [OF demo_parsed c demo_feeds, of demo_get JNull demo_still] show ?thesis
    using b demo_normal by (simp add: demo_create_def demo_get_def demo_reader_def nullish_def)
qed



text \<open>
  C35. A probe switches a disabled server on again: the manual probe asks a server whatever its status, enough
  failures mark a disabled one as unhealthy, and the next success makes that active, so that the proxy
  serves a server an administrator has disabled.
\<close>

theorem probe_reactivates_disabled:
  fixes gw :: gateway
  assumes "find_server (sj_tenant_id subject) slug rg = Some r" and "row_ok st r" and "ms_status r = DISABLED"
    and "1 \<le> n" and "st_health_check_failure_threshold st \<le> n"
    and "feeds st (fold (reg_step st)
      (replicate n (RegProbe t (\<lambda>_. None) (sj_tenant_id subject) slug) @ [RegProbe t (\<lambda>_. Some 200) (sj_tenant_id subject) slug]) rg) gw"
  shows "\<exists>server. fst (resolve_server gw req slug i subject w) = Inr server"
proof -
  let ?ten = "sj_tenant_id subject" and ?hs = "replicate n (t, False) @ [(t, True)]"
  have step: "fold (reg_step st) (replicate m (RegProbe t (\<lambda>_. None) ?ten slug)) rg' =
      fold (\<lambda>(t, h). persist_result st t ((?ten, slug, [], []), h)) (replicate m (t, False)) rg'" for m rg'
    by (induction m arbitrary: rg') (simp_all add: probe_const [of st t None ?ten slug _ "[]" "[]"] del: reg_step.simps persist_result.simps)
  have "find_server ?ten slug (fold (reg_step st) (replicate n (RegProbe t (\<lambda>_. None) ?ten slug) @ [RegProbe t (\<lambda>_. Some 200) ?ten slug]) rg) = Some (probed st ?hs r)"
    using find_probed [of ?ten slug st "[]" "[]" ?hs rg] assms(1) step [of n rg]
    by (simp add: probe_const [of st t "Some 200" ?ten slug _ "[]" "[]"] del: reg_step.simps persist_result.simps)
  moreover have "ms_status (probed st ?hs r) = ACTIVE"
  proof -
    obtain m where n: "n = Suc m" using assms(4) by (cases n) auto
    have "replicate n (t, False) = replicate m (t, False) @ [(t, False)]" unfolding n by (simp add: replicate_append_same)
    then have "ms_status (probed st (replicate n (t, False)) r) = UNHEALTHY"
      using assms(5) probed_failures [of st "replicate m (t, False)" r] n
      by (simp only: probed_snoc) (simp add: apply_result_def Let_def)
    then show ?thesis unfolding probed_snoc by (simp add: apply_result_def)
  qed
  ultimately show ?thesis
    using resolve_registered(2) [OF assms(6)] assms(2) by (simp add: probed_url row_ok_def)
qed

definition demo_disabled :: registry where
  "demo_disabled = demo_registry\<lparr>rg_servers := [demo_row\<lparr>ms_status := DISABLED\<rparr>]\<rparr>"

theorem probe_reactivates_disabled_witness:
  "\<exists>server. fst (resolve_server
     (demo_reader (fold (reg_step demo_st)
        (replicate 2 (RegProbe 1 (\<lambda>_. None) ''t'' ''my-s1'') @ [RegProbe 1 (\<lambda>_. Some 200) ''t'' ''my-s1'']) demo_disabled))
     demo_get ''my-s1'' JNull (demo_admin ''t'') demo_still) = Inr server"
proof -
  have t: "sj_tenant_id (demo_admin ''t'') = ''t''" by (simp add: demo_admin_def)
  have f: "find_server ''t'' ''my-s1'' demo_disabled = Some (demo_row\<lparr>ms_status := DISABLED\<rparr>)"
    by (simp add: demo_disabled_def demo_registry_def find_server_def is_row_def demo_row_def new_row_def)
  have r: "row_ok demo_st (demo_row\<lparr>ms_status := DISABLED\<rparr>)" "ms_status (demo_row\<lparr>ms_status := DISABLED\<rparr>) = DISABLED"
    using demo_row_ok by (simp_all add: row_ok_def)
  have n: "(1::nat) \<le> 2" "st_health_check_failure_threshold demo_st \<le> 2" by (simp_all add: demo_st_def)
  show ?thesis
    by (rule probe_reactivates_disabled [where subject = "demo_admin ''t''", unfolded t, OF f r n demo_feeds])
qed

definition to_bridge :: "jsstr \<Rightarrow> ServerUpdate" where
  "to_bridge cmd = \<lparr>su_name = None, su_slug = None, su_upstream_url = None, su_transport = Some STDIO_BRIDGE, su_auth_mode = None,
     su_service_token_env_var = None, su_ssl = (None, None, None), su_health_check_path = None, su_bridge_command = Some cmd,
     su_bridge_port = None, su_status = None\<rparr>"

text \<open>
  C36. The switch for bridges guards creation only: with it off no body creates a server with the bridge
  transport, but an update of any registered server to that transport with a plain command is accepted.
\<close>

theorem bridge_switch_bypassed:
  assumes "\<not> st_stdio_bridge_enabled st" and "registry_ok st rg" and "find_server ten slug rg = Some r" and "validate_bridge_command cmd"
  shows "(sc_transport c = STDIO_BRIDGE \<longrightarrow> (\<exists>e. registry_create st moment ten' c rg = (Inl e, rg))) \<and>
    (\<exists>r' rg'. parse_update (to_bridge cmd) = Some (to_bridge cmd) \<and> registry_update st ten slug (to_bridge cmd) rg = (Inr r', rg') \<and>
      sr_transport r' = STDIO_BRIDGE \<and> sr_bridge_command r' = Some cmd \<and> r' \<in> set (rg_servers rg'))"
proof
  show "sc_transport c = STDIO_BRIDGE \<longrightarrow> (\<exists>e. registry_create st moment ten' c rg = (Inl e, rg))"
    using assms(1) create_refusal_None [of st moment ten' c rg]
    by (cases "create_refusal st moment ten' c rg") (auto simp: registry_create_def)
  have r: "r \<in> set (rg_servers rg)" "row_key r = (ten, slug)" "row_ok st r"
    using find_server_Some [OF assms(3)] assms(2) by (auto simp: registry_ok_def list_all_iff)
  have p: "parse_update (to_bridge cmd) = Some (to_bridge cmd)" using assms(4) by (simp add: parse_update_def to_bridge_def)
  have ok: "update_refusal st (to_bridge cmd) r = None"
    using r(3) by (auto simp: update_refusal_def to_bridge_def row_ok_def or_keep_def nullish_def truthy_def token_var_ok_def TOKEN_VAR_PREFIX_def
        split: option.splits)
  have key: "row_key (updated_row (to_bridge cmd) r) = (ten, slug)" using r(2) unfolding updated_row_fields to_bridge_def by (simp add: nullish_def row_key_def)
  have "row_error (updated_row (to_bridge cmd) r) (map row_key (filter (\<lambda>x. \<not> is_row ten slug x) (rg_servers rg))) = None"
    unfolding row_error_None key using r(3)
    by (auto simp: updated_row_fields to_bridge_def nullish_def or_keep_def row_ok_def is_row_key)
  then have "registry_update st ten slug (to_bridge cmd) rg = (Inr (updated_row (to_bridge cmd) r), on_row ten slug (updated_row (to_bridge cmd)) rg)"
    by (simp add: registry_update_def assms(3) ok)
  moreover have "updated_row (to_bridge cmd) r \<in> set (rg_servers (on_row ten slug (updated_row (to_bridge cmd)) rg))"
    using r(1,2) by (force simp: on_row_def is_row_key)
  ultimately show "\<exists>r' rg'. parse_update (to_bridge cmd) = Some (to_bridge cmd) \<and> registry_update st ten slug (to_bridge cmd) rg = (Inr r', rg') \<and>
      sr_transport r' = STDIO_BRIDGE \<and> sr_bridge_command r' = Some cmd \<and> r' \<in> set (rg_servers rg')"
    using p by (auto simp: updated_row_fields to_bridge_def nullish_def or_keep_def)
qed

theorem bridge_switch_bypassed_witness:
  "\<exists>r' rg'. registry_update demo_st ''t'' ''my-s1'' (to_bridge ''run it'') demo_one = (Inr r', rg') \<and> sr_transport r' = STDIO_BRIDGE"
proof -
  have "\<not> st_stdio_bridge_enabled demo_st" by (simp add: demo_st_def)
  moreover have "validate_bridge_command ''run it''" by code_simp
  ultimately show ?thesis using bridge_switch_bypassed [OF _ demo_ok(2,3), of "''run it''"] by blast
qed

end
