(* ===== verification/Server_Pages.thy ===== *)
theory Server_Pages
  imports Form_Action Server_Registry
begin

text \<open>
  The pages for upstream servers: the registration form of \<open>web/src/app/dashboard/servers/new/page.tsx\<close> with
  its connection test, and the list of \<open>web/src/app/dashboard/servers/page.tsx\<close>; and the form composed with
  the registry of \<^theory_text>\<open>Server_Registry\<close> that answers it. The URL constructor of the browser is an argument, as
  are the latency of a test and the times of a row.
\<close>

section \<open>The connection test\<close>

definition slugify :: "jsstr \<Rightarrow> jsstr" where
  "slugify s = filter slug_char (hyphenate (to_lower s))"

datatype test_state = TestIdle | Testing | TestSuccess | TestError

record TestResult =
  tr_latencyMs :: nat
  tr_status :: nat
  tr_ok :: bool

record test_panel =
  tp_state :: test_state
  tp_result :: "TestResult option"
  tp_error :: "jsstr option"

definition test_init :: test_panel where
  "test_init = \<lparr>tp_state = TestIdle, tp_result = None, tp_error = None\<rparr>"

definition drop_slash :: "jsstr \<Rightarrow> jsstr" where
  "drop_slash url = (if url \<noteq> [] \<and> last url = CHR ''/'' then butlast url else url)"

definition full_url :: "jsstr \<Rightarrow> jsstr \<Rightarrow> jsstr" where
  "full_url upstreamUrl healthCheckPath =
     (if upstreamUrl \<noteq> [] then drop_slash upstreamUrl @ str_or healthCheckPath ''/healthz'' else [])"

text \<open>The button is disabled for an address that does not parse and while a test runs.\<close>

definition test_start :: "(jsstr \<Rightarrow> bool) \<Rightarrow> jsstr \<Rightarrow> jsstr \<Rightarrow> test_panel \<Rightarrow> (jsstr \<times> test_panel) option" where
  "test_start url_ok upstreamUrl healthCheckPath t =
     (if \<not> url_ok upstreamUrl \<or> tp_state t = Testing then None
      else Some (full_url upstreamUrl healthCheckPath, \<lparr>tp_state = Testing, tp_result = None, tp_error = None\<rparr>))"

text \<open>An opaque answer has no status; a test is aborted after five seconds.\<close>

datatype fetch_outcome = Opaque | Answered nat bool | Aborted | NoNetwork

fun test_finish :: "nat \<Rightarrow> fetch_outcome \<Rightarrow> test_panel \<Rightarrow> test_panel" where
  "test_finish latency Opaque t = t\<lparr>tp_result := Some \<lparr>tr_latencyMs = latency, tr_status = 200, tr_ok = True\<rparr>, tp_state := TestSuccess\<rparr>"
| "test_finish latency (Answered status ok) t =
     t\<lparr>tp_result := Some \<lparr>tr_latencyMs = latency, tr_status = status, tr_ok = ok\<rparr>, tp_state := (if ok then TestSuccess else TestError)\<rparr>"
| "test_finish latency Aborted t = t\<lparr>tp_error := Some ''Request timed out after 5 seconds'', tp_state := TestError\<rparr>"
| "test_finish latency NoNetwork t =
     t\<lparr>tp_error := Some (''Network or CORS error '' @ [em_dash] @ '' the host may be unreachable from the browser''), tp_state := TestError\<rparr>"

record test_view =
  tv_preview :: jsstr
  tv_button :: jsstr
  tv_disabled :: bool
  tv_verdict :: "jsstr option"
  tv_numbers :: "jsstr list"
  tv_error :: "jsstr option"
  tv_checks :: "(jsstr \<times> bool) list"

definition form_status :: "(jsstr \<Rightarrow> bool) \<Rightarrow> jsstr \<Rightarrow> jsstr \<Rightarrow> (jsstr \<times> bool) list" where
  "form_status url_ok upstreamUrl slug =
     [(''Name provided'', slug \<noteq> []), (''Slug provided'', slug \<noteq> []), (''Base URL valid'', url_ok upstreamUrl)]"

definition ConnectionTestPanel :: "(jsstr \<Rightarrow> bool) \<Rightarrow> jsstr \<Rightarrow> jsstr \<Rightarrow> jsstr \<Rightarrow> test_panel \<Rightarrow> test_view" where
  "ConnectionTestPanel url_ok upstreamUrl healthCheckPath slug t =
     (let done = tp_state t \<in> {TestSuccess, TestError} in
      \<lparr>tv_preview = str_or (full_url upstreamUrl healthCheckPath) (''Enter a Base URL to preview'' @ [ellipsis]),
       tv_button = (if tp_state t = Testing then ''Testing'' @ [ellipsis] else ''Test Connection''),
       tv_disabled = (\<not> url_ok upstreamUrl \<or> tp_state t = Testing),
       tv_verdict = (if done then Some (if tp_state t = TestSuccess then ''Reachable'' else ''Unreachable'') else None),
       tv_numbers = (case (done, tp_result t) of
          (True, Some r) \<Rightarrow> (if tr_status r \<noteq> 200 then [''HTTP '' @ nat_str (tr_status r)] else []) @ [nat_str (tr_latencyMs r) @ '' ms'']
        | _ \<Rightarrow> []),
       tv_error = (if done then tp_error t else None),
       tv_checks = form_status url_ok upstreamUrl slug\<rparr>)"

section \<open>The registration form\<close>

text \<open>The fields the page says it does not send are left out.\<close>

record server_form =
  sf_name :: jsstr
  sf_slug :: jsstr
  sf_slugTouched :: bool
  sf_upstreamUrl :: jsstr
  sf_healthCheckPath :: jsstr
  sf_authMode :: ServerAuthMode
  sf_serviceTokenEnvVar :: jsstr
  sf_pending :: bool

definition server_form_init :: server_form where
  "server_form_init = \<lparr>sf_name = [], sf_slug = [], sf_slugTouched = False, sf_upstreamUrl = [], sf_healthCheckPath = ''/healthz'',
     sf_authMode = NONE, sf_serviceTokenEnvVar = [], sf_pending = False\<rparr>"

datatype server_edit =
    SetName jsstr | SetSlug jsstr | SetUrl jsstr | SetHealthPath jsstr | SetAuthMode ServerAuthMode | SetTokenVar jsstr

text \<open>The effect that follows a change of the name sets the slug until the user has edited it.\<close>

fun server_change :: "server_edit \<Rightarrow> server_form \<Rightarrow> server_form" where
  "server_change (SetName v) s = s\<lparr>sf_name := v, sf_slug := (if sf_slugTouched s then sf_slug s else slugify v)\<rparr>"
| "server_change (SetSlug v) s = s\<lparr>sf_slug := slugify v, sf_slugTouched := True\<rparr>"
| "server_change (SetUrl v) s = s\<lparr>sf_upstreamUrl := v\<rparr>"
| "server_change (SetHealthPath v) s = s\<lparr>sf_healthCheckPath := v\<rparr>"
| "server_change (SetAuthMode m) s = s\<lparr>sf_authMode := m\<rparr>"
| "server_change (SetTokenVar v) s = (if sf_authMode s = SERVICE_TOKEN then s\<lparr>sf_serviceTokenEnvVar := v\<rparr> else s)"

definition server_blank :: "server_form \<Rightarrow> bool" where
  "server_blank s \<longleftrightarrow> trim (sf_name s) = [] \<or> trim (sf_slug s) = [] \<or> trim (sf_upstreamUrl s) = []"

definition server_complaint :: "(jsstr \<Rightarrow> bool) \<Rightarrow> server_form \<Rightarrow> jsstr option" where
  "server_complaint url_ok s =
     (if server_blank s then Some ''Name, slug, and base URL are required''
      else if \<not> url_ok (sf_upstreamUrl s) then Some ''Please enter a valid base URL (include http:// or https://)''
      else None)"

definition server_payload :: "server_form \<Rightarrow> ServerCreate" where
  "server_payload s =
     \<lparr>sc_name = trim (sf_name s), sc_slug = trim (sf_slug s), sc_upstream_url = trim (sf_upstreamUrl s),
      sc_transport = STREAMABLE_HTTP, sc_auth_mode = sf_authMode s,
      sc_service_token_env_var =
        (if sf_authMode s = SERVICE_TOKEN \<and> trim (sf_serviceTokenEnvVar s) \<noteq> [] then Some (trim (sf_serviceTokenEnvVar s)) else None),
      sc_ssl = (None, None, None), sc_health_check_path = str_or (sf_healthCheckPath s) ''/healthz'',
      sc_bridge_command = None, sc_bridge_port = None\<rparr>"

text \<open>The button is disabled while a request runs and while a required field is blank.\<close>

definition server_submit :: "(jsstr \<Rightarrow> bool) \<Rightarrow> server_form \<Rightarrow> (ServerCreate \<times> server_form) option" where
  "server_submit url_ok s =
     (if sf_pending s \<or> server_blank s \<or> server_complaint url_ok s \<noteq> None then None
      else Some (server_payload s, s\<lparr>sf_pending := True\<rparr>))"

text \<open>The message of a failure is the one of the error object, if it is one.\<close>

definition server_finish :: "server_form \<Rightarrow> ServerCreate \<Rightarrow> jsstr option + unit \<Rightarrow> server_form \<Rightarrow> server_form \<times> effect list" where
  "server_finish s0 payload out s =
     (s\<lparr>sf_pending := False\<rparr>,
      case out of
        Inr _ \<Rightarrow> [ToastSuccess ''Server registered successfully'', Navigate (''/dashboard/servers/'' @ trim (sf_slug s0))]
      | Inl msg \<Rightarrow> [ToastError (nullish msg ''Failed to register server'')])"

section \<open>The list\<close>

record ServerView =
  sv_slug :: jsstr
  sv_upstream_url :: jsstr
  sv_transport :: jsstr
  sv_status :: jsstr
  sv_failures :: nat
  sv_last_check :: "int option option"

fun status_text :: "ServerStatus \<Rightarrow> jsstr" where
  "status_text ACTIVE = ''active''"
| "status_text DISABLED = ''disabled''"
| "status_text UNHEALTHY = ''unhealthy''"

fun transport_text :: "ServerTransport \<Rightarrow> jsstr" where
  "transport_text STREAMABLE_HTTP = ''streamable_http''"
| "transport_text STDIO_BRIDGE = ''stdio_bridge''"

text \<open>The fields of the view the list reads.\<close>

definition to_view :: "ServerRow \<Rightarrow> ServerView" where
  "to_view r = \<lparr>sv_slug = ms_slug r, sv_upstream_url = ms_upstream_url r, sv_transport = transport_text (sr_transport r),
     sv_status = status_text (ms_status r), sv_failures = sr_failures r, sv_last_check = map_option Some (sr_last_check r)\<rparr>"

text \<open>The colour and the icon of the pill.\<close>

datatype pill_tone = Good | Bad | Neutral

definition statusStyle :: "jsstr \<Rightarrow> pill_tone" where
  "statusStyle status = (if status = ''active'' then Good else if status = ''unhealthy'' then Bad else Neutral)"

definition StatusPill :: "jsstr \<Rightarrow> jsstr \<times> pill_tone \<times> jsstr" where
  "StatusPill status =
     (if status = ''active'' then ''CheckCircle2'' else if status = ''unhealthy'' then ''AlertTriangle'' else ''XCircle'',
      statusStyle status, status)"

definition health_title :: "nat \<Rightarrow> jsstr" where
  "health_title failures =
     (if failures = 0 then ''Healthy'' else nat_str failures @ '' consecutive failure'' @ (if failures \<noteq> 1 then ''s'' else []))"

text \<open>A missing time, a time that does not parse, or milliseconds.\<close>

definition relativeTime :: "int \<Rightarrow> int option option \<Rightarrow> jsstr" where
  "relativeTime time stamp =
     (case stamp of
        None \<Rightarrow> ''Never''
      | Some None \<Rightarrow> ''NaNd ago''
      | Some (Some t) \<Rightarrow>
          let mins = (time - t) div 60000; hrs = mins div 60 in
          if mins < 1 then ''just now''
          else if mins < 60 then int_str mins @ ''m ago''
          else if hrs < 24 then int_str hrs @ ''h ago''
          else int_str (hrs div 24) @ ''d ago'')"

record server_filters =
  fl_search :: jsstr
  fl_status :: jsstr
  fl_transport :: jsstr

definition no_filters :: server_filters where
  "no_filters = \<lparr>fl_search = [], fl_status = ''all'', fl_transport = ''all''\<rparr>"

definition STATUS_OPTIONS :: "jsstr list" where
  "STATUS_OPTIONS = [''all'', ''active'', ''disabled'', ''unhealthy'']"

definition TRANSPORT_OPTIONS :: "jsstr list" where
  "TRANSPORT_OPTIONS = [''all'', ''streamable_http'', ''sse'', ''stdio'']"

definition server_matches :: "server_filters \<Rightarrow> ServerView \<Rightarrow> bool" where
  "server_matches f s \<longleftrightarrow>
     (let q = to_lower (fl_search f) in
      (q = [] \<or> sublist q (to_lower (sv_slug s)) \<or> sublist q (to_lower (sv_upstream_url s))) \<and>
      (fl_status f = ''all'' \<or> sv_status s = fl_status f) \<and>
      (fl_transport f = ''all'' \<or> sv_transport s = fl_transport f))"

definition servers_filtered :: "server_filters \<Rightarrow> ServerView list \<Rightarrow> ServerView list" where
  "servers_filtered f servers = filter (server_matches f) servers"

datatype servers_content = LoadingRows | NoServers | NothingMatches | CardGrid "ServerView list" | ServerTable "ServerView list"

definition servers_page :: "bool \<Rightarrow> bool \<Rightarrow> server_filters \<Rightarrow> ServerView list \<Rightarrow> servers_content" where
  "servers_page isLoading cards f servers =
     (if isLoading then LoadingRows
      else if servers = [] then NoServers
      else if servers_filtered f servers = [] then NothingMatches
      else if cards then CardGrid (servers_filtered f servers)
      else ServerTable (servers_filtered f servers))"

definition server_cells :: "int \<Rightarrow> ServerView \<Rightarrow> jsstr list" where
  "server_cells time s = [sv_slug s, sv_upstream_url s, sv_transport s, sv_status s, health_title (sv_failures s), relativeTime time (sv_last_check s)]"

definition delete_question :: "jsstr \<Rightarrow> jsstr" where
  "delete_question slug = ''Delete server '' @ [quote_c] @ slug @ [quote_c] @ ''?''"

definition handleDelete :: "bool \<Rightarrow> (jsstr \<Rightarrow> bool) \<Rightarrow> jsstr \<Rightarrow> jsstr option \<times> effect list" where
  "handleDelete confirmed call slug =
     (if \<not> confirmed then (None, [])
      else (Some slug, if call slug then [ToastSuccess ''Server deleted'', Refetch ''/v1/servers''] else [ToastError ''Failed to delete server'']))"

text \<open>The outcome of the probe route: the status in its answer, if it has one, or the message of the error.\<close>

definition handleHealthCheck :: "jsstr + jsstr option \<Rightarrow> effect list" where
  "handleHealthCheck out =
     (case out of
        Inr status \<Rightarrow> [ToastSuccess (''Health check: '' @ nullish status ''ok''), Refetch ''/v1/servers'']
      | Inl msg \<Rightarrow> [ToastError (''Health check error: '' @ msg)])"

section \<open>The form and the registry\<close>

text \<open>
  A submit of a caller the route admits, answered by the schema and the service for the caller's tenant: what
  the page does and the registry after it. The message the HTTP client puts into the error of a status is
  an argument, \<open>message\<close>; the detail of the answer is not read.
\<close>

definition register_page ::
  "(nat \<Rightarrow> jsstr option) \<Rightarrow> 'a RegistrySettings_scheme \<Rightarrow> int \<Rightarrow> jsstr \<Rightarrow> (jsstr \<Rightarrow> bool) \<Rightarrow> server_form \<Rightarrow> registry \<Rightarrow>
   effect list \<times> registry" where
  "register_page message st moment ten url_ok s rg =
     (case server_submit url_ok s of
        None \<Rightarrow> (if sf_pending s \<or> server_blank s then []
                  else case server_complaint url_ok s of None \<Rightarrow> [] | Some m \<Rightarrow> [ToastError m], rg)
      | Some (payload, s') \<Rightarrow>
          (case parse_create payload of
             None \<Rightarrow> (snd (server_finish s payload (Inl (message 422)) s'), rg)
           | Some c \<Rightarrow>
               (case registry_create st moment ten c rg of
                  (Inr r, rg') \<Rightarrow> (snd (server_finish s payload (Inr ()) s'), rg')
                | (Inl e, rg') \<Rightarrow> (snd (server_finish s payload (Inl (message (reg_status e))) s'), rg'))))"

section \<open>Lemmas\<close>

lemma slugify_chars: "list_all slug_char (slugify v)"
  by (simp add: slugify_def list_all_iff)

lemma relativeTime_ago: "relativeTime time (Some t) = ago time t"
  by (auto simp: relativeTime_def ago_def Let_def zdiv_zmult2_eq [symmetric] split: option.split)

interpretation server_form: guarded_form "server_submit url_ok" server_finish server_change sf_pending
  "\<lambda>c. sc_name c \<noteq> [] \<and> sc_slug c \<noteq> [] \<and> sc_upstream_url c \<noteq> [] \<and> sc_bridge_command c = None" for url_ok
proof unfold_locales
  show "sf_pending (server_change x s) = sf_pending s" for x s by (cases x) simp_all
qed (auto simp: server_submit_def server_finish_def server_payload_def server_blank_def split: if_splits)

interpretation slug_field: step_invariant "\<lambda>s. list_all slug_char (sf_slug s)" server_change
proof unfold_locales
  show "list_all slug_char (sf_slug s) \<Longrightarrow> list_all slug_char (sf_slug (server_change x s))" for x s
    by (cases x) (simp_all add: slugify_chars)
qed

lemma slug_char_not_space: "slug_char c \<Longrightarrow> \<not> is_space c"
  unfolding slug_char_def is_space_def by auto

lemma trim_slug: "list_all slug_char s \<Longrightarrow> trim s = s"
  by (rule trim_no_space) (simp add: list_all_iff slug_char_not_space)

lemma check_slug_field: "list_all slug_char s \<Longrightarrow> check_slug s = Some n \<Longrightarrow> n = strip_hyphens s"
  by (auto simp: check_slug_def Let_def normalize_slug_strip split: if_splits)

text \<open>What a submit that navigates has done.\<close>

lemma register_page_navigates:
  assumes "register_page message st moment ten url_ok s rg = (eff, rg')" and "Navigate p \<in> set eff"
  obtains c where "parse_create (server_payload s) = Some c" "p = ''/dashboard/servers/'' @ trim (sf_slug s)"
    "registry_create st moment ten c rg = (Inr (new_row ten c), rg')" "rg_servers rg' = rg_servers rg @ [new_row ten c]"
    "new_row ten c \<notin> set (rg_servers rg)" "row_key (new_row ten c) \<notin> row_key ` set (rg_servers rg)"
proof -
  obtain s' c r where b: "server_submit url_ok s = Some (server_payload s, s')" "parse_create (server_payload s) = Some c"
    "registry_create st moment ten c rg = (Inr r, rg')" "p = ''/dashboard/servers/'' @ trim (sf_slug s)"
    using assms
    by (auto simp: register_page_def server_finish_def server_submit_def split: option.splits prod.splits sum.splits if_splits)
  from b(3) show thesis
  proof (cases rule: registry_create_cases)
    case 2
    then show thesis using that b by (auto simp: row_error_None)
  qed simp
qed

lemma find_new_row:
  assumes "rg_servers rg' = rg_servers rg @ [new_row ten c]" and "row_key (new_row ten c) \<notin> row_key ` set (rg_servers rg)"
  shows "find_server ten (sc_slug c) rg' = Some (new_row ten c)"
proof -
  have "find (is_row ten (sc_slug c)) (rg_servers rg) = None"
    using assms(2) by (auto simp: find_None_iff is_row_def row_key_def new_row_def)
  then show ?thesis
    by (simp add: find_server_def assms(1) find_append is_row_def new_row_def)
qed

lemma found_iff_plain:
  assumes "registry_ok st rg" and "find_server ten n rg = Some r" and "n = strip_hyphens slug"
  shows "find_server ten slug rg \<noteq> None \<longleftrightarrow> hd slug \<noteq> CHR ''-'' \<and> last slug \<noteq> CHR ''-''"
proof
  assume "find_server ten slug rg \<noteq> None"
  then obtain x where x: "find_server ten slug rg = Some x" by blast
  then have "row_ok st x" "ms_slug x = slug"
    using find_server_Some [OF x] assms(1) by (simp_all add: registry_ok_def list_all_iff row_key_def)
  then show "hd slug \<noteq> CHR ''-'' \<and> last slug \<noteq> CHR ''-''" by (simp add: row_ok_def slug_ok_def)
next
  assume plain: "hd slug \<noteq> CHR ''-'' \<and> last slug \<noteq> CHR ''-''"
  have "row_ok st r" "ms_slug r = n"
    using find_server_Some [OF assms(2)] assms(1) by (simp_all add: registry_ok_def list_all_iff row_key_def)
  then have "slug \<noteq> []" using assms(3) by (auto simp: row_ok_def slug_ok_def strip_hyphens_def)
  then show "find_server ten slug rg \<noteq> None" using assms(2,3) plain by (simp add: strip_hyphens_id)
qed

text \<open>The two transports the list offers and no server has filter every server away.\<close>

lemma dead_transport_filters:
  "servers_filtered (f\<lparr>fl_transport := ''sse''\<rparr>) (map to_view rows) = []"
  "servers_filtered (f\<lparr>fl_transport := ''stdio''\<rparr>) (map to_view rows) = []"
proof -
  have "sv_transport (to_view r) \<notin> {''sse'', ''stdio'', ''all''}" for r
    by (cases "sr_transport r") (simp_all add: to_view_def)
  then show "servers_filtered (f\<lparr>fl_transport := ''sse''\<rparr>) (map to_view rows) = []"
    "servers_filtered (f\<lparr>fl_transport := ''stdio''\<rparr>) (map to_view rows) = []"
    by (auto simp: servers_filtered_def server_matches_def Let_def filter_empty_conv)
qed

lemma clear_filters_shows_all: "servers_filtered no_filters servers = servers"
  by (simp add: servers_filtered_def server_matches_def no_filters_def to_lower_def)

text \<open>An active row in the registry the gateway reads is listed under the active filter, and only such.\<close>

lemma active_filter: "servers_filtered (no_filters\<lparr>fl_status := ''active''\<rparr>) (map to_view rows) = map to_view (filter (\<lambda>r. ms_status r = ACTIVE) rows)"
proof (induction rows)
  case (Cons r rows)
  then show ?case
    by (cases "ms_status r") (simp_all add: servers_filtered_def server_matches_def no_filters_def to_lower_def to_view_def)
qed (simp add: servers_filtered_def)

section \<open>Where a registration lands\<close>

text \<open>
  C37. Whatever the user types, when the page reports a registration the server is in the registry under the
  slug without its outer hyphens, with the trimmed name and address of the form, and every row that was there
  is kept. The page navigates to the slug as typed: that address names a registered server exactly if
  the slug neither begins nor ends with a hyphen.
\<close>

theorem registration_lands:
  assumes "registry_ok st rg"
    and "register_page message st moment ten url_ok (fold server_change edits server_form_init) rg = (eff, rg')"
    and "Navigate p \<in> set eff"
  shows "let s = fold server_change edits server_form_init in
    p = ''/dashboard/servers/'' @ sf_slug s \<and>
    (\<exists>r. find_server ten (strip_hyphens (sf_slug s)) rg' = Some r \<and> sr_name r = trim (sf_name s) \<and>
         ms_upstream_url r = trim (sf_upstreamUrl s) \<and> ms_status r = ACTIVE \<and> rg_servers rg' = rg_servers rg @ [r]) \<and>
    (find_server ten (sf_slug s) rg' \<noteq> None \<longleftrightarrow> hd (sf_slug s) \<noteq> CHR ''-'' \<and> last (sf_slug s) \<noteq> CHR ''-'')"
proof -
  define s where "s = fold server_change edits server_form_init"
  have chars: "list_all slug_char (sf_slug s)"
    unfolding s_def by (rule slug_field.inv_run) (simp add: server_form_init_def)
  obtain c where c: "parse_create (server_payload s) = Some c" "p = ''/dashboard/servers/'' @ trim (sf_slug s)"
      "registry_create st moment ten c rg = (Inr (new_row ten c), rg')" "rg_servers rg' = rg_servers rg @ [new_row ten c]"
      "row_key (new_row ten c) \<notin> row_key ` set (rg_servers rg)"
    using register_page_navigates assms(2,3) unfolding s_def by metis
  have pc: "slug_ok (sc_slug c)" "check_slug (trim (sf_slug s)) = Some (sc_slug c)" "c = server_payload s\<lparr>sc_slug := sc_slug c\<rparr>"
    "given validate_bridge_command (sc_bridge_command c)"
    using parse_create_fields [OF c(1)] by (simp_all add: server_payload_def)
  have slug: "sc_slug c = strip_hyphens (sf_slug s)"
    using pc(2) check_slug_field [OF chars] by (simp add: trim_slug [OF chars])
  have ok: "registry_ok st rg'"
    using create_keeps [OF assms(1) pc(1,4), of moment ten] c(3) by simp
  have found: "find_server ten (sc_slug c) rg' = Some (new_row ten c)"
    by (rule find_new_row [OF c(4,5)])
  have fields: "sr_name (new_row ten c) = trim (sf_name s)" "ms_upstream_url (new_row ten c) = trim (sf_upstreamUrl s)"
    "ms_status (new_row ten c) = ACTIVE"
    by (subst pc(3), simp add: new_row_def server_payload_def)+
  have "find_server ten (sf_slug s) rg' \<noteq> None \<longleftrightarrow> hd (sf_slug s) \<noteq> CHR ''-'' \<and> last (sf_slug s) \<noteq> CHR ''-''"
    by (rule found_iff_plain [OF ok found slug])
  then show ?thesis
    using c(2,4) found fields unfolding s_def [symmetric] by (simp add: Let_def trim_slug [OF chars] slug [symmetric])
qed

definition demo_edits :: "server_edit list" where
  "demo_edits = [SetName ''My S1 '', SetUrl ''http://up'']"

lemma demo_page:
  "register_page (\<lambda>_. None) demo_st 0 ''t'' (\<lambda>_. True) (fold server_change demo_edits server_form_init) demo_registry =
   ([ToastSuccess ''Server registered successfully'', Navigate ''/dashboard/servers/my-s1-''],
    demo_registry\<lparr>rg_servers := [new_row ''t'' ((server_payload (fold server_change demo_edits server_form_init))\<lparr>sc_slug := ''my-s1''\<rparr>)]\<rparr>)"
  by code_simp

theorem registration_lands_witness:
  "find_server ''t'' ''my-s1-'' (snd (register_page (\<lambda>_. None) demo_st 0 ''t'' (\<lambda>_. True) (fold server_change demo_edits server_form_init) demo_registry)) = None \<and>
   sf_slug (fold server_change demo_edits server_form_init) = ''my-s1-''"
proof -
  have slug: "sf_slug (fold server_change demo_edits server_form_init) = ''my-s1-''" by code_simp
  have "Navigate ''/dashboard/servers/my-s1-'' \<in> set [ToastSuccess ''Server registered successfully'', Navigate ''/dashboard/servers/my-s1-'']" by simp
  from registration_lands [OF demo_ok(1) demo_page this] show ?thesis
    unfolding Let_def slug demo_page snd_conv by simp
qed

end
