(* ===== verification/Onboarding.thy ===== *)
theory Onboarding
  imports Server_Pages Api_Keys_Page
begin

text \<open>
  The onboarding page, \<open>web/src/app/onboarding/page.tsx\<close>: the six steps with their forms, the state kept in the
  tab, the connection test and the three calls, answered by the server registry of \<^theory_text>\<open>Server_Registry\<close>
  and the key route of \<^theory_text>\<open>Keys_Api\<close>. The saved state is the value that is written and read back as JSON.
  A step is a component defined inside the page, so each render of the page mounts it anew with its
  initial fields; the fields of the key step are part of the state for that reason, those of the server
  and the policy step are given with the submit.
\<close>

section \<open>Steps and the checklist\<close>

datatype OnboardRole = OrgAdmin | Developer | SecurityAuditor

datatype StepId = Welcome | OrgS | ServerS | PolicyS | ApiKeyS | DoneS

record OnboardingState =
  ob_role :: "OnboardRole option"
  ob_orgName :: jsstr
  ob_orgSlug :: jsstr
  ob_companySize :: jsstr
  ob_region :: jsstr
  ob_createdServerId :: "jsstr option"
  ob_createdServerSlug :: "jsstr option"
  ob_createdApiKeyPlaintext :: "jsstr option"
  ob_createdApiKeyName :: "jsstr option"
  ob_policyCreated :: bool

definition INITIAL_STATE :: OnboardingState where
  "INITIAL_STATE = \<lparr>ob_role = None, ob_orgName = [], ob_orgSlug = [], ob_companySize = [], ob_region = [], ob_createdServerId = None,
     ob_createdServerSlug = None, ob_createdApiKeyPlaintext = None, ob_createdApiKeyName = None, ob_policyCreated = False\<rparr>"

definition CHECKLIST :: "(jsstr \<times> jsstr) list" where
  "CHECKLIST =
     [(''org'', ''Set up organization''), (''server'', ''Register MCP server''), (''policy'', ''Create access policy''),
      (''apikey'', ''Generate API key''), (''request'', ''Send first request''), (''trace'', ''View audit trace''), (''invite'', ''Invite a teammate'')]"

definition STEPS :: "(StepId \<times> jsstr) list" where
  "STEPS = [(Welcome, ''Welcome''), (OrgS, ''Organization''), (ServerS, ''MCP Server''), (PolicyS, ''Policy''), (ApiKeyS, ''API Key''), (DoneS, ''Done'')]"

fun step_index :: "StepId \<Rightarrow> nat" where
  "step_index Welcome = 0"
| "step_index OrgS = 1"
| "step_index ServerS = 2"
| "step_index PolicyS = 3"
| "step_index ApiKeyS = 4"
| "step_index DoneS = 5"

datatype step_mark = MarkDone | MarkCurrent | MarkAhead nat

definition StepBar :: "StepId \<Rightarrow> (step_mark \<times> jsstr) list" where
  "StepBar current =
     map (\<lambda>(sid, label). (if step_index sid < step_index current then MarkDone
                          else if sid = current then MarkCurrent else MarkAhead (step_index sid + 1), label)) STEPS"

definition completedSteps :: "OnboardingState \<Rightarrow> jsstr list" where
  "completedSteps ob =
     (if ob_orgName ob \<noteq> [] then [''org''] else []) @ (if truthy (ob_createdServerId ob) then [''server''] else []) @
     (if ob_policyCreated ob then [''policy''] else []) @ (if truthy (ob_createdApiKeyPlaintext ob) then [''apikey''] else [])"

definition checklist_view :: "OnboardingState \<Rightarrow> (jsstr \<times> bool) list \<times> jsstr" where
  "checklist_view ob =
     (map (\<lambda>(i, label). (label, i \<in> set (completedSteps ob))) CHECKLIST,
      nat_str (length (completedSteps ob)) @ '' / '' @ nat_str (length CHECKLIST))"

section \<open>The organization and the server\<close>

fun dash_runs :: "bool \<Rightarrow> jsstr \<Rightarrow> jsstr" where
  "dash_runs _ [] = []"
| "dash_runs dashed (c # cs) =
     (if slug_char c \<and> c \<noteq> CHR ''-'' then c # dash_runs False cs
      else if dashed then dash_runs True cs else CHR ''-'' # dash_runs True cs)"

definition autoSlug :: "jsstr \<Rightarrow> jsstr" where
  "autoSlug n = strip_hyphens (dash_runs False (to_lower n))"

record server_step =
  ss_name :: jsstr
  ss_slug :: jsstr
  ss_url :: jsstr
  ss_transport :: jsstr
  ss_authMode :: jsstr
  ss_tokenEnvVar :: jsstr
  ss_healthPath :: jsstr

definition server_step_init :: server_step where
  "server_step_init = \<lparr>ss_name = [], ss_slug = [], ss_url = [], ss_transport = ''streamable_http'', ss_authMode = ''none'',
     ss_tokenEnvVar = [], ss_healthPath = ''/health''\<rparr>"

text \<open>The name sets the slug only while the slug is empty.\<close>

definition type_name :: "jsstr \<Rightarrow> server_step \<Rightarrow> server_step" where
  "type_name v s = s\<lparr>ss_name := v, ss_slug := (if ss_slug s = [] then autoSlug v else ss_slug s)\<rparr>"

definition type_slug :: "jsstr \<Rightarrow> server_step \<Rightarrow> server_step" where
  "type_slug v s = s\<lparr>ss_slug := autoSlug v\<rparr>"

text \<open>
  The body as the schema sees it: an absent transport is the schema's default, which is also the only
  other value sent, and an absent path is the default \<open>/health\<close>.
\<close>

definition server_step_body :: "server_step \<Rightarrow> ServerCreate" where
  "server_step_body s =
     \<lparr>sc_name = ss_name s, sc_slug = ss_slug s, sc_upstream_url = ss_url s, sc_transport = STREAMABLE_HTTP,
      sc_auth_mode = (if ss_authMode s = ''service_token'' then SERVICE_TOKEN else NONE),
      sc_service_token_env_var = (if ss_tokenEnvVar s = [] then None else Some (ss_tokenEnvVar s)),
      sc_ssl = (None, None, None), sc_health_check_path = str_or (ss_healthPath s) ''/health'',
      sc_bridge_command = None, sc_bridge_port = None\<rparr>"

section \<open>The connection test\<close>

record onboard_test =
  ot_ok :: bool
  ot_latencyMs :: nat
  ot_tls :: bool
  ot_error :: "jsstr option"

text \<open>The test goes through the shared client, which resolves, rejects with a status, or rejects without.\<close>

definition test_config :: "env \<Rightarrow> server_step \<Rightarrow> unit axios_config" where
  "test_config e s = (axios_client e ''GET'' (drop_slash (ss_url s) @ str_or (ss_healthPath s) ''/health'') [] None)\<lparr>cf_timeout := 5000\<rparr>"

definition testConnection ::
  "env \<Rightarrow> location \<Rightarrow> (unit axios_config \<Rightarrow> 'd axios_outcome) \<Rightarrow> nat \<Rightarrow> server_step \<Rightarrow> browser \<Rightarrow> browser \<times> jsstr option \<times> onboard_test option" where
  "testConnection e loc transport latency s b =
     (if ss_url s = [] then (b, None, None)
      else case client_request loc transport (test_config e s) b of
        (b', nav, out) \<Rightarrow>
          (b', nav,
           let reached = \<lparr>ot_ok = True, ot_latencyMs = latency, ot_tls = prefix ''https'' (ss_url s), ot_error = None\<rparr>;
               failed = \<lparr>ot_ok = False, ot_latencyMs = latency, ot_tls = False,
                 ot_error = Some ''Could not reach server. Check the URL and ensure the server is running.''\<rparr>
           in Some (case out of
                Inr _ \<Rightarrow> reached
              | Inl (Failed (Some status) _) \<Rightarrow> if status \<noteq> 0 then reached else failed
              | Inl _ \<Rightarrow> failed)))"

definition test_cells :: "onboard_test \<Rightarrow> jsstr list" where
  "test_cells t =
     [if ot_ok t then ''Connection successful'' else ''Connection failed'', if ot_ok t then ''Reachable'' else ''Unreachable'',
      if ot_latencyMs t \<noteq> 0 then nat_str (ot_latencyMs t) @ '' ms'' else [em_dash],
      if ot_tls t then ''Yes (HTTPS)'' else ''No (HTTP)'', ''MCP / JSON-RPC 2.0''] @ (case ot_error t of None \<Rightarrow> [] | Some m \<Rightarrow> [m])"

section \<open>The policy step\<close>

record policy_step =
  ps_serverSlug :: jsstr
  ps_toolPattern :: jsstr
  ps_algorithm :: RateLimitAlgorithm
  ps_limit :: jsstr
  ps_window :: jsstr
  ps_burst :: jsstr

definition policy_step_init :: "jsstr list \<Rightarrow> OnboardingState \<Rightarrow> policy_step" where
  "policy_step_init servers ob =
     \<lparr>ps_serverSlug = nullish (ob_createdServerSlug ob) (case servers of [] \<Rightarrow> [] | x # _ \<Rightarrow> x), ps_toolPattern = ''*'',
      ps_algorithm = TOKEN_BUCKET, ps_limit = ''100'', ps_window = ''60'', ps_burst = ''10''\<rparr>"

text \<open>A number that does not parse is sent as null; an absent burst is null as well.\<close>

record policy_body =
  pb_server_pattern :: "jsstr option"
  pb_tool_pattern :: "jsstr option"
  pb_algorithm :: RateLimitAlgorithm
  pb_request_limit :: "int option"
  pb_window_seconds :: "int option"
  pb_burst_capacity :: "int option"

definition policy_step_body :: "policy_step \<Rightarrow> policy_body" where
  "policy_step_body s =
     \<lparr>pb_server_pattern = (if ps_serverSlug s = [] then None else Some (ps_serverSlug s)),
      pb_tool_pattern = (if ps_toolPattern s = [] then None else Some (ps_toolPattern s)),
      pb_algorithm = ps_algorithm s, pb_request_limit = parse_int (ps_limit s), pb_window_seconds = parse_int (ps_window s),
      pb_burst_capacity = (if ps_burst s = [] then None else parse_int (ps_burst s))\<rparr>"

definition policy_body_ok :: "policy_body \<Rightarrow> bool" where
  "policy_body_ok b \<longleftrightarrow>
     given (\<lambda>p. length p \<le> 200) (pb_server_pattern b) \<and> given (\<lambda>p. length p \<le> 200) (pb_tool_pattern b) \<and>
     pb_request_limit b \<noteq> None \<and> given (\<lambda>n. 0 < n \<and> n \<le> 1000000) (pb_request_limit b) \<and>
     pb_window_seconds b \<noteq> None \<and> given (\<lambda>n. 0 < n \<and> n \<le> 86400) (pb_window_seconds b) \<and>
     given (\<lambda>n. 0 < n \<and> n \<le> 1000000) (pb_burst_capacity b)"

section \<open>The key step\<close>

record key_step =
  ky_name :: jsstr
  ky_scopes :: "jsstr list"
  ky_created :: "(jsstr \<times> jsstr) option"
  ky_show :: bool

definition key_step_init :: "OnboardingState \<Rightarrow> key_step" where
  "key_step_init ob =
     \<lparr>ky_name = ''My first key'', ky_scopes = [''tools:call'', ''tools:list''],
      ky_created = (if truthy (ob_createdApiKeyPlaintext ob)
        then Some (the (ob_createdApiKeyPlaintext ob), nullish (ob_createdApiKeyName ob) ''Key'') else None),
      ky_show = False\<rparr>"

definition ALL_SCOPES :: "jsstr list" where
  "ALL_SCOPES = [''tools:list'', ''tools:call'', ''audit:read'', ''keys:read'']"

definition shown_key :: "key_step \<Rightarrow> jsstr option" where
  "shown_key k = map_option (\<lambda>(p, _). if ky_show k then p else take 12 p @ replicate 24 bullet) (ky_created k)"

section \<open>The page\<close>

text \<open>
  A call keeps the state of the page it was made from. The component that made it is mounted, has been replaced, or is
  gone with the page after a reload, when only the backend still sees the call.
\<close>

datatype maker = Mounted | Replaced | Gone

datatype onboard_call = CallServer ServerCreate | CallPolicy policy_body | CallKey ApiKeyCreate

record onboarding =
  on_step :: StepId
  on_ob :: OnboardingState
  on_saved :: "(StepId \<times> OnboardingState) option"
  on_key :: key_step
  on_busy :: bool
  on_calls :: "(maker \<times> onboard_call \<times> OnboardingState) list"

definition demote_calls :: "maker \<Rightarrow> (maker \<times> 'c \<times> 'o) list \<Rightarrow> (maker \<times> 'c \<times> 'o) list" where
  "demote_calls m = map (\<lambda>(m0, c, o0). (if m0 = Gone then Gone else m, c, o0))"

text \<open>A render of the page with a given step and state: the steps are mounted anew.\<close>

definition render :: "StepId \<Rightarrow> OnboardingState \<Rightarrow> onboarding \<Rightarrow> onboarding" where
  "render st ob s = s\<lparr>on_step := st, on_ob := ob, on_key := key_step_init ob, on_busy := False, on_calls := demote_calls Replaced (on_calls s)\<rparr>"

definition go :: "StepId \<Rightarrow> OnboardingState \<Rightarrow> onboarding \<Rightarrow> onboarding" where
  "go st ob s = (render st ob s)\<lparr>on_saved := Some (st, ob)\<rparr>"

definition onboarding_mount :: "(StepId \<times> OnboardingState) option \<Rightarrow> onboarding" where
  "onboarding_mount saved =
     (case saved of
        None \<Rightarrow> \<lparr>on_step = Welcome, on_ob = INITIAL_STATE, on_saved = None, on_key = key_step_init INITIAL_STATE, on_busy = False, on_calls = []\<rparr>
      | Some (st, ob) \<Rightarrow> \<lparr>on_step = st, on_ob = ob, on_saved = saved, on_key = key_step_init ob, on_busy = False, on_calls = []\<rparr>)"

fun step_back :: "StepId \<Rightarrow> StepId" where
  "step_back OrgS = Welcome"
| "step_back ServerS = OrgS"
| "step_back PolicyS = ServerS"
| "step_back ApiKeyS = PolicyS"
| "step_back st = st"

text \<open>
  What the user does; a query that settles renders the page. An existing server is the first of the list, and
  the key step may be skipped with the number of keys the list of keys holds.
\<close>

datatype onboard_event =
    PickRole OnboardRole
  | GetStarted
  | OrgNext jsstr jsstr jsstr jsstr
  | GoBack
  | UseExisting jsstr jsstr
  | SubmitServer server_step
  | SubmitPolicy policy_step
  | SkipPolicy
  | KeyName jsstr
  | ToggleScope nat
  | ToggleShow
  | SubmitKey
  | SkipKey nat
  | Rerender
  | Reload
  | Finish

fun onboard_ui :: "onboard_event \<Rightarrow> onboarding \<Rightarrow> onboarding" where
  "onboard_ui (PickRole r) s = (if on_step s = Welcome then render Welcome ((on_ob s)\<lparr>ob_role := Some r\<rparr>) s else s)"
| "onboard_ui GetStarted s = (if on_step s = Welcome \<and> ob_role (on_ob s) \<noteq> None then go OrgS (on_ob s) s else s)"
| "onboard_ui (OrgNext name slug csize region) s =
     (if on_step s = OrgS \<and> name \<noteq> [] \<and> slug \<noteq> []
      then go ServerS ((on_ob s)\<lparr>ob_orgName := name, ob_orgSlug := slug, ob_companySize := csize, ob_region := region\<rparr>) s else s)"
| "onboard_ui GoBack s =
     (if step_back (on_step s) = on_step s \<or> (on_step s = ApiKeyS \<and> ky_created (on_key s) \<noteq> None) then s else go (step_back (on_step s)) (on_ob s) s)"
| "onboard_ui (UseExisting sid slug) s =
     (if on_step s = ServerS then go PolicyS ((on_ob s)\<lparr>ob_createdServerId := Some sid, ob_createdServerSlug := Some slug\<rparr>) s else s)"
| "onboard_ui (SubmitServer f) s =
     (if on_step s = ServerS \<and> \<not> on_busy s \<and> ss_name f \<noteq> [] \<and> ss_slug f \<noteq> [] \<and> ss_url f \<noteq> []
      then s\<lparr>on_busy := True, on_calls := on_calls s @ [(Mounted, CallServer (server_step_body f), on_ob s)]\<rparr> else s)"
| "onboard_ui (SubmitPolicy f) s =
     (if on_step s = PolicyS \<and> \<not> on_busy s \<and> ps_limit f \<noteq> [] \<and> ps_window f \<noteq> []
      then s\<lparr>on_busy := True, on_calls := on_calls s @ [(Mounted, CallPolicy (policy_step_body f), on_ob s)]\<rparr> else s)"
| "onboard_ui SkipPolicy s = (if on_step s = PolicyS then go ApiKeyS ((on_ob s)\<lparr>ob_policyCreated := False\<rparr>) s else s)"
| "onboard_ui (KeyName v) s = (if on_step s = ApiKeyS \<and> ky_created (on_key s) = None then s\<lparr>on_key := (on_key s)\<lparr>ky_name := v\<rparr>\<rparr> else s)"
| "onboard_ui (ToggleScope i) s =
     (if on_step s = ApiKeyS \<and> ky_created (on_key s) = None \<and> i < length ALL_SCOPES
      then s\<lparr>on_key := (on_key s)\<lparr>ky_scopes := toggle (ALL_SCOPES ! i) (ky_scopes (on_key s))\<rparr>\<rparr> else s)"
| "onboard_ui ToggleShow s = (if on_step s = ApiKeyS \<and> ky_created (on_key s) \<noteq> None then s\<lparr>on_key := (on_key s)\<lparr>ky_show := \<not> ky_show (on_key s)\<rparr>\<rparr> else s)"
| "onboard_ui SubmitKey s =
     (if on_step s = ApiKeyS \<and> ky_created (on_key s) = None \<and> ky_name (on_key s) \<noteq> [] \<and>
         \<not> on_busy s \<and> ky_scopes (on_key s) \<noteq> []
      then s\<lparr>on_busy := True,
             on_calls := on_calls s @ [(Mounted, CallKey \<lparr>kc_name = ky_name (on_key s), kc_scopes = ky_scopes (on_key s)\<rparr>, on_ob s)]\<rparr>
      else s)"
| "onboard_ui (SkipKey existing) s = (if on_step s = ApiKeyS \<and> (ky_created (on_key s) \<noteq> None \<or> existing > 0) then go DoneS (on_ob s) s else s)"
| "onboard_ui Rerender s = render (on_step s) (on_ob s) s"
| "onboard_ui Reload s = (onboarding_mount (on_saved s))\<lparr>on_calls := demote_calls Gone (on_calls s)\<rparr>"
| "onboard_ui Finish s = (if on_step s = DoneS then s\<lparr>on_saved := None\<rparr> else s)"

text \<open>
  What a settled call does to the page. A call that succeeds sets the state it was made from with its own result; one
  that fails enables the button of the component that made it, if it is mounted. The messages are left out.
\<close>

definition call_failed :: "maker \<Rightarrow> onboarding \<Rightarrow> onboarding" where
  "call_failed m s = (if m = Mounted then s\<lparr>on_busy := False\<rparr> else s)"

definition server_settled :: "(jsstr \<times> jsstr) option \<Rightarrow> maker \<Rightarrow> OnboardingState \<Rightarrow> onboarding \<Rightarrow> onboarding" where
  "server_settled out m o0 s =
     (case out of
        None \<Rightarrow> call_failed m s
      | Some (sid, slug) \<Rightarrow>
          if m = Gone then s else go PolicyS (o0\<lparr>ob_createdServerId := Some sid, ob_createdServerSlug := Some slug\<rparr>) s)"

definition policy_settled :: "bool \<Rightarrow> maker \<Rightarrow> OnboardingState \<Rightarrow> onboarding \<Rightarrow> onboarding" where
  "policy_settled ok m o0 s =
     (if \<not> ok then call_failed m s else if m = Gone then s else go ApiKeyS (o0\<lparr>ob_policyCreated := True\<rparr>) s)"

definition key_settled :: "jsstr option \<Rightarrow> maker \<Rightarrow> ApiKeyCreate \<Rightarrow> OnboardingState \<Rightarrow> onboarding \<Rightarrow> onboarding" where
  "key_settled out m body o0 s =
     (case out of
        None \<Rightarrow> call_failed m s
      | Some p \<Rightarrow>
          if m = Gone then s
          else (let ob = o0\<lparr>ob_createdApiKeyPlaintext := Some p, ob_createdApiKeyName := Some (kc_name body)\<rparr>
                in (render (on_step s) ob s)\<lparr>on_saved := Some (ApiKeyS, ob)\<rparr>))"

section \<open>The page and the backend\<close>

record backend =
  bk_accounts :: accounts
  bk_registry :: registry

text \<open>
  Any call may be answered next: with who is asking, their tenant, the moment and the id the new server gets, and
  whether the policy service stores a body its schema accepts.
\<close>

record answer =
  an_index :: nat
  an_who :: "(nat \<times> jsstr) + Subject"
  an_source :: key_source
  an_tenant :: jsstr
  an_moment :: int
  an_id :: jsstr
  an_policy :: bool

datatype onboard_step = Act onboard_event | Settled answer

definition answer_server :: "'a RegistrySettings_scheme \<Rightarrow> answer \<Rightarrow> ServerCreate \<Rightarrow> registry \<Rightarrow> (jsstr \<times> jsstr) option \<times> registry" where
  "answer_server st a body rg =
     (case parse_create body of
        None \<Rightarrow> (None, rg)
      | Some c \<Rightarrow>
          (case registry_create st (an_moment a) (an_tenant a) c rg of
             (Inl _, rg') \<Rightarrow> (None, rg')
           | (Inr r, rg') \<Rightarrow> (Some (an_id a, ms_slug r), rg')))"

definition answer_key :: "(jsstr \<Rightarrow> jsstr option) \<Rightarrow> answer \<Rightarrow> ApiKeyCreate \<Rightarrow> accounts \<Rightarrow> jsstr option \<times> accounts" where
  "answer_key uuid a body ac =
     (case post_api_keys uuid (an_source a) (an_who a) body ac of
        (Inl _, ac') \<Rightarrow> (None, ac')
      | (Inr (_, plaintext), ac') \<Rightarrow> (Some plaintext, ac'))"

fun onboard_run :: "'a RegistrySettings_scheme \<Rightarrow> (jsstr \<Rightarrow> jsstr option) \<Rightarrow> onboard_step \<Rightarrow> onboarding \<times> backend \<Rightarrow> onboarding \<times> backend" where
  "onboard_run st uuid (Act ev) (s, bk) = (onboard_ui ev s, bk)"
| "onboard_run st uuid (Settled a) (s, bk) =
     (if an_index a < length (on_calls s) then
        (let s' = s\<lparr>on_calls := remove_nth (an_index a) (on_calls s)\<rparr> in
         case on_calls s ! an_index a of
           (m, CallServer body, o0) \<Rightarrow>
             (case answer_server st a body (bk_registry bk) of (out, rg) \<Rightarrow> (server_settled out m o0 s', bk\<lparr>bk_registry := rg\<rparr>))
         | (m, CallPolicy body, o0) \<Rightarrow> (policy_settled (policy_body_ok body \<and> an_policy a) m o0 s', bk)
         | (m, CallKey body, o0) \<Rightarrow>
             (case answer_key uuid a body (bk_accounts bk) of (out, ac) \<Rightarrow> (key_settled out m body o0 s', bk\<lparr>bk_accounts := ac\<rparr>)))
      else (s, bk))"

section \<open>The last step\<close>

definition allDone :: "OnboardingState \<Rightarrow> bool" where
  "allDone ob \<longleftrightarrow> length (completedSteps ob) \<ge> 4"

definition done_headline :: "OnboardingState \<Rightarrow> jsstr" where
  "done_headline ob = (if allDone ob then ''You'' @ [CHR 0x27] @ ''re all set!'' else ''Good start!'')"

text \<open>The rows of the summary: label, value, whether it is ticked; \<open>servers\<close> are slugs, \<open>keys\<close> the number of keys.\<close>

definition done_summary :: "jsstr list \<Rightarrow> nat \<Rightarrow> OnboardingState \<Rightarrow> (jsstr \<times> jsstr \<times> bool) list" where
  "done_summary servers keys ob =
     [(''Organization'', str_or (ob_orgName ob) ''Default'', ob_orgName ob \<noteq> []),
      (''MCP Server'', nullish (ob_createdServerSlug ob) (case servers of [] \<Rightarrow> [em_dash] | x # _ \<Rightarrow> x),
        (case ob_createdServerId ob of None \<Rightarrow> servers \<noteq> [] | Some v \<Rightarrow> v \<noteq> [])),
      (''Rate Policy'', if ob_policyCreated ob then ''Active'' else ''Not set'', ob_policyCreated ob),
      (''API Key'', nullish (ob_createdApiKeyName ob) (if keys > 0 then ''Existing'' else [em_dash]),
        (case ob_createdApiKeyPlaintext ob of None \<Rightarrow> keys > 0 | Some v \<Rightarrow> v \<noteq> []))]"

section \<open>Lemmas\<close>

lemma slug_char_hyphen: "slug_char (CHR ''-'')"
  by (simp add: slug_char_def)

lemma dash_runs_chars: "list_all slug_char (dash_runs d s)"
  by (induction d s rule: dash_runs.induct) (simp_all add: slug_char_hyphen)

lemma ball_subset: "A \<subseteq> B \<Longrightarrow> \<forall>x\<in>B. P x \<Longrightarrow> \<forall>x\<in>A. P x"
  by blast

lemma autoSlug_chars: "list_all slug_char (autoSlug n)"
proof -
  have "\<forall>c\<in>set (dash_runs False (to_lower n)). slug_char c" using dash_runs_chars by (simp only: list_all_iff)
  then show ?thesis unfolding autoSlug_def list_all_iff by (rule ball_subset [OF strip_hyphens_set])
qed

text \<open>A slug the field holds is in the normal form of the registry, so it is stored as shown.\<close>

lemma autoSlug_stored:
  assumes "autoSlug n \<noteq> []"
  shows "check_slug (autoSlug n) = Some (autoSlug n)"
proof (rule slug_ok_fixed)
  have "hd (autoSlug n) \<noteq> CHR ''-''" "last (autoSlug n) \<noteq> CHR ''-''"
    using assms unfolding autoSlug_def by (rule strip_hyphens_hd, rule strip_hyphens_last)
  then show "slug_ok (autoSlug n)" unfolding slug_ok_def by (intro conjI assms autoSlug_chars)
qed

text \<open>Once the slug is not empty the name no longer changes it: typing a name leaves the slug of its first letters.\<close>

lemma typed_name_slug: "ss_slug s \<noteq> [] \<Longrightarrow> ss_slug (fold type_name vs s) = ss_slug s"
  by (induction vs arbitrary: s) (simp_all add: type_name_def)

text \<open>The transport chosen is not sent.\<close>

lemma transport_ignored: "server_step_body (s\<lparr>ss_transport := t\<rparr>) = server_step_body s"
  by (simp add: server_step_body_def)

lemma zero_burst_refused: "\<not> policy_body_ok (policy_step_body (s\<lparr>ps_burst := ''0''\<rparr>))"
proof -
  have "parse_int ''0'' = Some 0" by code_simp
  then show ?thesis by (simp add: policy_body_ok_def policy_step_body_def)
qed

lemma default_policy_ok: "ob_createdServerSlug ob = None \<Longrightarrow> policy_body_ok (policy_step_body (policy_step_init [] ob))"
proof -
  have "parse_int ''100'' = Some 100" "parse_int ''60'' = Some 60" "parse_int ''10'' = Some 10" by code_simp+
  then show "ob_createdServerSlug ob = None \<Longrightarrow> policy_body_ok (policy_step_body (policy_step_init [] ob))"
    by (simp add: policy_body_ok_def policy_step_body_def policy_step_init_def nullish_def)
qed

text \<open>A reload shows the step and the state last saved.\<close>

lemma reload_after_go: "on_step (onboard_ui Reload (go st ob s)) = st" "on_ob (onboard_ui Reload (go st ob s)) = ob"
  by (simp_all add: go_def onboarding_mount_def)

subsection \<open>No key\<close>

definition own_scopes :: "jsstr list \<Rightarrow> bool" where
  "own_scopes scopes \<longleftrightarrow> set scopes \<subseteq> set ALL_SCOPES"

fun call_ok :: "onboard_call \<Rightarrow> bool" where
  "call_ok (CallKey body) \<longleftrightarrow> own_scopes (kc_scopes body) \<and> kc_scopes body \<noteq> []"
| "call_ok _ \<longleftrightarrow> True"

definition keyless :: "OnboardingState \<Rightarrow> bool" where
  "keyless ob \<longleftrightarrow> ob_createdApiKeyPlaintext ob = None"

definition page_keyless :: "onboarding \<Rightarrow> bool" where
  "page_keyless s \<longleftrightarrow>
     keyless (on_ob s) \<and> given (\<lambda>(_, ob). keyless ob) (on_saved s) \<and> own_scopes (ky_scopes (on_key s)) \<and>
     ky_created (on_key s) = None \<and> list_all (\<lambda>(_, c, ob). call_ok c \<and> keyless ob) (on_calls s)"

lemma scopes_disjoint: "list_all (\<lambda>x. x \<notin> set ALLOWED_SCOPES) ALL_SCOPES"
  by code_simp

lemma own_scopes_refused:
  assumes "own_scopes (kc_scopes body)" and "kc_scopes body \<noteq> []"
  shows "\<not> valid_create body"
proof
  assume "valid_create body"
  then have v: "\<forall>x\<in>set (kc_scopes body). x \<in> set ALLOWED_SCOPES" by (simp add: valid_create_def validate_scopes_def list_all_iff)
  have h: "hd (kc_scopes body) \<in> set (kc_scopes body)" using assms(2) by (rule hd_in_set)
  then have "hd (kc_scopes body) \<in> set ALL_SCOPES" using assms(1) unfolding own_scopes_def by (rule rev_subsetD)
  then show False using scopes_disjoint bspec [OF v h] by (simp only: list_all_iff)
qed

lemma answer_key_refused:
  "own_scopes (kc_scopes body) \<Longrightarrow> kc_scopes body \<noteq> [] \<Longrightarrow> answer_key uuid a body ac = (None, ac)"
  by (auto simp: answer_key_def post_api_keys_def own_scopes_refused split: sum.split)

lemma key_init_keyless: "keyless ob \<Longrightarrow> own_scopes (ky_scopes (key_step_init ob)) \<and> ky_created (key_step_init ob) = None"
  by (simp add: key_step_init_def keyless_def own_scopes_def ALL_SCOPES_def truthy_def)

lemma demote_calls_ok:
  "list_all (\<lambda>(_, c, ob). P c ob) (demote_calls m cs) = list_all (\<lambda>(_, c, ob). P c ob) cs"
  by (auto simp: demote_calls_def list_all_iff split_beta)

lemma render_keyless: "page_keyless s \<Longrightarrow> keyless ob \<Longrightarrow> page_keyless (render st ob s)"
  by (simp add: page_keyless_def render_def key_init_keyless demote_calls_ok)

lemma go_keyless: "page_keyless s \<Longrightarrow> keyless ob \<Longrightarrow> page_keyless (go st ob s)"
  using render_keyless [of s ob st] by (simp add: go_def page_keyless_def)

lemma mount_keyless: "given (\<lambda>(_, ob). keyless ob) saved \<Longrightarrow> page_keyless (onboarding_mount saved)"
  by (auto simp: onboarding_mount_def page_keyless_def key_init_keyless keyless_def INITIAL_STATE_def split: option.split)

lemma toggle_own: "own_scopes xs \<Longrightarrow> i < length ALL_SCOPES \<Longrightarrow> own_scopes (toggle (ALL_SCOPES ! i) xs)"
  by (auto simp: own_scopes_def toggle_def)

lemma keyless_updates [simp]:
  "keyless (ob\<lparr>ob_role := r\<rparr>) = keyless ob" "keyless (ob\<lparr>ob_policyCreated := p\<rparr>) = keyless ob"
  "keyless (ob\<lparr>ob_createdServerId := i, ob_createdServerSlug := g\<rparr>) = keyless ob"
  "keyless (ob\<lparr>ob_orgName := n, ob_orgSlug := g', ob_companySize := c, ob_region := rg\<rparr>) = keyless ob"
  by (simp_all add: keyless_def)

text \<open>The fields of a mounted step and the calls.\<close>

lemma local_keyless:
  assumes "page_keyless s"
  shows "page_keyless (s\<lparr>on_key := (on_key s)\<lparr>ky_name := v\<rparr>\<rparr>)" "page_keyless (s\<lparr>on_key := (on_key s)\<lparr>ky_show := w\<rparr>\<rparr>)"
    "page_keyless (s\<lparr>on_saved := None\<rparr>)" "page_keyless (s\<lparr>on_busy := q\<rparr>)"
    "call_ok c \<Longrightarrow> page_keyless (s\<lparr>on_busy := q, on_calls := on_calls s @ [(m, c, on_ob s)]\<rparr>)"
    "i < length ALL_SCOPES \<Longrightarrow> page_keyless (s\<lparr>on_key := (on_key s)\<lparr>ky_scopes := toggle (ALL_SCOPES ! i) (ky_scopes (on_key s))\<rparr>\<rparr>)"
  using assms by (simp_all add: page_keyless_def toggle_own)

lemma ui_keyless:
  assumes "page_keyless s"
  shows "page_keyless (onboard_ui ev s)"
proof -
  have k: "keyless (on_ob s)" "own_scopes (ky_scopes (on_key s))" using assms by (simp_all add: page_keyless_def)
  show ?thesis
  proof (cases ev)
    case Reload
    have "page_keyless (onboarding_mount (on_saved s))" using assms by (intro mount_keyless) (simp add: page_keyless_def)
    then show ?thesis using assms Reload by (simp add: page_keyless_def demote_calls_ok)
  qed (use assms k in \<open>simp_all add: go_keyless render_keyless local_keyless\<close>)
qed

lemma remove_nth_subset: "list_all P xs \<Longrightarrow> list_all P (remove_nth i xs)"
  by (auto simp: list_all_iff remove_nth_def dest: in_set_takeD in_set_dropD)

lemma settle_keyless:
  assumes "page_keyless s" and "keyless o0"
  shows "page_keyless (call_failed m s)" "page_keyless (server_settled out m o0 s)" "page_keyless (policy_settled ok m o0 s)"
  using assms by (auto simp: call_failed_def server_settled_def policy_settled_def go_keyless local_keyless split: option.split)

definition run_keyless :: "accounts \<Rightarrow> onboarding \<times> backend \<Rightarrow> bool" where
  "run_keyless ac w \<longleftrightarrow> page_keyless (fst w) \<and> bk_accounts (snd w) = ac"

lemma step_keyless:
  assumes "run_keyless ac w"
  shows "run_keyless ac (onboard_run st uuid x w)"
proof -
  obtain s bk where w: "w = (s, bk)" by (cases w)
  have inv: "page_keyless s" "bk_accounts bk = ac" using assms by (simp_all add: run_keyless_def w)
  show ?thesis
  proof (cases x)
    case (Act ev)
    then show ?thesis using inv by (simp add: run_keyless_def w ui_keyless)
  next
    case (Settled a)
    show ?thesis
    proof (cases "an_index a < length (on_calls s)")
      case True
      let ?s = "s\<lparr>on_calls := remove_nth (an_index a) (on_calls s)\<rparr>"
      obtain m c o0 where call: "on_calls s ! an_index a = (m, c, o0)" by (cases "on_calls s ! an_index a")
      have ok: "call_ok c" "keyless o0"
        using inv(1) True call nth_mem [OF True] by (auto simp: page_keyless_def list_all_iff)
      have s': "page_keyless ?s" using inv(1) by (simp add: page_keyless_def remove_nth_subset)
      show ?thesis
      proof (cases c)
        case (CallKey body)
        then have "answer_key uuid a body ac = (None, ac)" using ok(1) by (simp add: answer_key_refused)
        then show ?thesis
          using True call CallKey inv(2) settle_keyless(1) [OF s' ok(2)] by (simp add: run_keyless_def w Settled key_settled_def)
      qed (use True call inv(2) settle_keyless [OF s' ok(2)] in \<open>simp_all add: run_keyless_def w Settled split: prod.split\<close>)
    next
      case False
      then show ?thesis using inv by (simp add: run_keyless_def w Settled)
    qed
  qed
qed

interpretation onboard: step_invariant "run_keyless ac" "onboard_run st uuid" for ac st uuid
  by unfold_locales (rule step_keyless)

lemma keyless_not_done: "keyless ob \<Longrightarrow> \<not> allDone ob"
  by (simp add: allDone_def completedSteps_def keyless_def truthy_def)

text \<open>
  C38. Onboarding never yields a key: from a fresh tab, whatever the user does, whoever is signed in, however often the page
  is rendered or reloaded and in whatever order the calls are answered, the key route leaves the accounts as they were,
  no key is kept in the page or in the tab, and the last step never reports that the setup is complete.
\<close>

theorem onboarding_never_issues:
  "case fold (onboard_run st uuid) xs (onboarding_mount None, bk) of (s, bk') \<Rightarrow>
     bk_accounts bk' = bk_accounts bk \<and> shown_key (on_key s) = None \<and> ob_createdApiKeyPlaintext (on_ob s) = None \<and>
     map_option (\<lambda>(_, ob). ob_createdApiKeyPlaintext ob) (on_saved s) \<in> {None, Some None} \<and>
     done_headline (on_ob s) = ''Good start!''"
proof -
  obtain s bk' where r: "fold (onboard_run st uuid) xs (onboarding_mount None, bk) = (s, bk')" by fastforce
  have "run_keyless (bk_accounts bk) (onboarding_mount None, bk)" by (simp add: run_keyless_def mount_keyless)
  from onboard.inv_run [OF this, of st uuid xs] have inv: "page_keyless s" "bk_accounts bk' = bk_accounts bk"
    by (simp_all add: r run_keyless_def)
  then show ?thesis
    by (cases "on_saved s") (auto simp: r page_keyless_def keyless_def shown_key_def done_headline_def keyless_not_done)
qed

subsection \<open>The last step\<close>

fun no_key_skip :: "onboard_step \<Rightarrow> bool" where
  "no_key_skip (Act (SkipKey n)) \<longleftrightarrow> n = 0"
| "no_key_skip _ \<longleftrightarrow> True"

definition unfinished :: "onboarding \<times> backend \<Rightarrow> bool" where
  "unfinished w \<longleftrightarrow> page_keyless (fst w) \<and> on_step (fst w) \<noteq> DoneS \<and> given (\<lambda>(st, _). st \<noteq> DoneS) (on_saved (fst w))"

lemma go_step [simp]: "on_step (go st ob s) = st" "on_saved (go st ob s) = Some (st, ob)"
  by (simp_all add: go_def render_def)

lemma render_step [simp]: "on_step (render st ob s) = st" "on_saved (render st ob s) = on_saved s"
  by (simp_all add: render_def)

lemma step_back_not_done: "st \<noteq> DoneS \<Longrightarrow> step_back st \<noteq> DoneS"
  by (cases st) simp_all

lemma mount_unfinished: "given (\<lambda>(st, _). st \<noteq> DoneS) saved \<Longrightarrow> on_step (onboarding_mount saved) \<noteq> DoneS \<and> on_saved (onboarding_mount saved) = saved"
  by (auto simp: onboarding_mount_def split: option.split)

lemma ui_unfinished:
  assumes "unfinished (s, bk)" and "no_key_skip (Act ev)"
  shows "unfinished (onboard_ui ev s, bk)"
proof -
  have s: "page_keyless s" "on_step s \<noteq> DoneS" "given (\<lambda>(st, _). st \<noteq> DoneS) (on_saved s)" "ky_created (on_key s) = None"
    using assms(1) by (simp_all add: unfinished_def page_keyless_def)
  have "on_step (onboard_ui ev s) \<noteq> DoneS \<and> given (\<lambda>(st, _). st \<noteq> DoneS) (on_saved (onboard_ui ev s))"
    using s(2-4) assms(2) by (cases ev) (simp_all add: step_back_not_done mount_unfinished)
  then show ?thesis using ui_keyless [OF s(1), of ev] by (simp add: unfinished_def)
qed

lemma settled_unfinished:
  assumes "unfinished (s, bk)"
  shows "unfinished (onboard_run st uuid (Settled a) (s, bk))"
proof -
  have s: "page_keyless s" "on_step s \<noteq> DoneS" "given (\<lambda>(st, _). st \<noteq> DoneS) (on_saved s)"
    using assms by (simp_all add: unfinished_def)
  have k: "page_keyless (fst (onboard_run st uuid (Settled a) (s, bk)))"
    using step_keyless [of "bk_accounts bk" "(s, bk)" st uuid "Settled a"] s(1) by (simp add: run_keyless_def)
  show ?thesis
  proof (cases "an_index a < length (on_calls s)")
    case True
    obtain m c o0 where "on_calls s ! an_index a = (m, c, o0)" by (cases "on_calls s ! an_index a")
    then show ?thesis
      using k s(2,3) True
      by (cases c) (auto simp: unfinished_def server_settled_def policy_settled_def key_settled_def call_failed_def Let_def
          split: option.splits prod.splits if_splits)
  next
    case False
    then show ?thesis using assms by simp
  qed
qed

lemma run_unfinished: "list_all no_key_skip xs \<Longrightarrow> unfinished w \<Longrightarrow> unfinished (fold (onboard_run st uuid) xs w)"
proof (induction xs arbitrary: w)
  case (Cons x xs)
  obtain s bk where w: "w = (s, bk)" by (cases w)
  have "unfinished (onboard_run st uuid x w)"
    using Cons.prems unfolding w by (cases x) (simp_all add: ui_unfinished settled_unfinished del: onboard_run.simps(2))
  then show ?case using Cons by simp
qed simp

text \<open>
  C39. A newcomer cannot finish the onboarding: if the list of keys is empty whenever the key step offers to skip, no
  run from a fresh tab reaches the last step, because the only other way there is a created key.
\<close>

theorem onboarding_stuck_without_key:
  assumes "list_all no_key_skip xs"
  shows "on_step (fst (fold (onboard_run st uuid) xs (onboarding_mount None, bk))) \<noteq> DoneS"
proof -
  have "unfinished (onboarding_mount None, bk)" using mount_keyless [of None] by (simp add: unfinished_def mount_unfinished)
  from run_unfinished [OF assms this, of st uuid] show ?thesis by (simp add: unfinished_def)
qed

definition demo_server_form :: server_step where
  "demo_server_form = server_step_init\<lparr>ss_name := ''S1'', ss_slug := ''s1'', ss_url := ''http://up''\<rparr>"

definition demo_backend :: backend where
  "demo_backend = \<lparr>bk_accounts = demo_accounts, bk_registry = demo_registry\<rparr>"

definition demo_answer :: answer where
  "demo_answer = \<lparr>an_index = 0, an_who = Inr (demo_admin ''t''), an_source = demo_source, an_tenant = ''t'', an_moment = 0, an_id = ''i'', an_policy = True\<rparr>"

definition demo_walk :: "onboard_step list" where
  "demo_walk =
     [Act (PickRole OrgAdmin), Act GetStarted, Act (OrgNext ''Acme'' ''acme'' [] ''us-east-1''), Act (SubmitServer demo_server_form), Settled demo_answer,
      Act (SubmitPolicy (policy_step_init [] INITIAL_STATE)), Settled demo_answer, Act SubmitKey, Settled demo_answer, Act (SkipKey 0)]"

text \<open>The walk comes as far as the key step, and to the last step for a user who has a key.\<close>

lemma walk_reaches_key_step:
  "on_step (fst (fold (onboard_run demo_st (\<lambda>_. None)) demo_walk (onboarding_mount None, demo_backend))) = ApiKeyS"
  "on_step (fst (fold (onboard_run demo_st (\<lambda>_. None)) (demo_walk @ [Act (SkipKey 1)]) (onboarding_mount None, demo_backend))) = DoneS"
  by code_simp+

theorem onboarding_stuck_without_key_witness:
  "on_step (fst (fold (onboard_run demo_st (\<lambda>_. None)) demo_walk (onboarding_mount None, demo_backend))) \<noteq> DoneS \<and>
   on_step (fst (fold (onboard_run demo_st (\<lambda>_. None)) demo_walk (onboarding_mount None, demo_backend))) = ApiKeyS"
proof
  have "list_all no_key_skip demo_walk" by (simp add: demo_walk_def)
  then show "on_step (fst (fold (onboard_run demo_st (\<lambda>_. None)) demo_walk (onboarding_mount None, demo_backend))) \<noteq> DoneS"
    by (rule onboarding_stuck_without_key)
qed (rule walk_reaches_key_step(1))

section \<open>What the connection test sends\<close>

lemma nav_on_401:
  assumes "auth_ok b" and "on_response_error loc (Some 401) b = (b', nav)"
  shows "nav = None \<longleftrightarrow> prefix ''/login'' (pathname loc)"
  using assms by (cases "prefix ''/login'' (pathname loc)") (simp_all add: on_response_error_def auth_ok_def Let_def, blast+)

text \<open>
  C40. The connection test hands the session to the address under test: after a sign-in with a key, the request the
  test makes goes to the address typed into the form and carries that key as its bearer token. If
  it is answered 401 the session is over and the page leaves for the login page, while the test reports a
  successful connection; any other answer leaves the session as it was.
\<close>

theorem connection_test_leaks_key:
  assumes "auth_ok b" and "key \<noteq> []" and "ss_url s \<noteq> []"
  shows "\<exists>c. cf_url c = drop_slash (ss_url s) @ str_or (ss_healthPath s) ''/health'' \<and>
    map_of (cf_headers c) ''Authorization'' = Some (''Bearer '' @ key) \<and>
    (\<forall>transport :: unit axios_config \<Rightarrow> 'd axios_outcome. case testConnection e loc transport latency s (fst (set_token key r rnd b)) of (b', nav, t) \<Rightarrow>
      if \<exists>det. transport c = Rejected (Some 401) det
      then v_token (view b') = None \<and> (nav = None \<longleftrightarrow> prefix ''/login'' (pathname loc)) \<and> map_option ot_ok t = Some True
      else b' = fst (set_token key r rnd b) \<and> nav = None)"
proof -
  let ?b = "fst (set_token key r rnd b)"
  note ref = set_token_refines [OF assms(1), of key r rnd]
  obtain c where c: "request_interceptor ?b (test_config e s) = Inr c" "cf_url c = cf_url (test_config e s)"
      "map_of (cf_headers c) ''Authorization'' = Some (''Bearer '' @ key)"
    using signed_request [OF assms(1,2)] by blast
  obtain b' nav where o: "on_response_error loc (Some 401) ?b = (b', nav)" by fastforce
  have tok: "v_token (view b') = None" using on_401(2) [OF ref(2), of loc] o by simp
  note nav = nav_on_401 [OF ref(2) o]
  have "case testConnection e loc transport latency s ?b of (b', nav, t) \<Rightarrow>
      if \<exists>det. transport c = Rejected (Some 401) det
      then v_token (view b') = None \<and> (nav = None \<longleftrightarrow> prefix ''/login'' (pathname loc)) \<and> map_option ot_ok t = Some True
      else b' = ?b \<and> nav = None" for transport :: "unit axios_config \<Rightarrow> 'd axios_outcome"
  proof (cases "\<exists>det. transport c = Rejected (Some 401) det")
    case True
    then obtain det where "transport c = Rejected (Some 401) det" by blast
    then show ?thesis using assms(3) tok nav by (simp add: testConnection_def client_request_def c(1) o Let_def)
  next
    case False
    then have "fst (client_request loc transport (test_config e s) ?b) = ?b \<and> fst (snd (client_request loc transport (test_config e s) ?b)) = None"
      by (cases "transport c") (auto simp: client_request_def c(1) on_other_status)
    then show ?thesis using assms(3) False by (cases "client_request loc transport (test_config e s) ?b") (simp add: testConnection_def)
  qed
  moreover have "cf_url c = drop_slash (ss_url s) @ str_or (ss_healthPath s) ''/health''"
    using c(2) by (simp add: test_config_def axios_client_def)
  ultimately show ?thesis using c(3) by blast
qed

theorem connection_test_leaks_key_witness:
  "v_token (view (fst (testConnection demo_env \<lparr>pathname = ''/onboarding'', search = []\<rparr> (\<lambda>_. Rejected (Some 401) None :: unit axios_outcome) 5
      demo_server_form (fst (set_token ''pk'' False demo_rnd new_tab))))) = None"
proof -
  have u: "''pk'' \<noteq> []" "ss_url demo_server_form \<noteq> []" by (simp_all add: demo_server_form_def)
  let ?loc = "\<lparr>pathname = ''/onboarding'', search = []\<rparr>"
  obtain c :: "unit axios_config" where
    "\<forall>transport :: unit axios_config \<Rightarrow> unit axios_outcome.
      case testConnection demo_env ?loc transport 5 demo_server_form (fst (set_token ''pk'' False demo_rnd new_tab)) of (b', nav, t) \<Rightarrow>
        if \<exists>det. transport c = Rejected (Some 401) det
        then v_token (view b') = None \<and> (nav = None \<longleftrightarrow> prefix ''/login'' (pathname ?loc)) \<and> map_option ot_ok t = Some True
        else b' = fst (set_token ''pk'' False demo_rnd new_tab) \<and> nav = None"
    using connection_test_leaks_key [OF new_tab_ok u, where e = demo_env and loc = ?loc and latency = 5 and r = False and rnd = demo_rnd] by blast
  from spec [OF this, of "\<lambda>_. Rejected (Some 401) None"] show ?thesis by (simp split: prod.splits)
qed

end
