(* ===== verification/Spec2Isabelle.thy ===== *)
theory Spec2Isabelle
  imports Roles_Tab Teams_Tab Middleware Session_Gates Account_Pages Policy_List Audit_Page Gateway_Pipeline Key_Restrictions Onboarding
begin

text \<open>
  A verification library for Portcullis, a multi-tenant gateway in front of MCP servers, and its web client.
  Paths below are relative to \<^verbatim>\<open>src/\<close>.

  \<^bold>\<open>The program.\<close> A client signs in with the web application (\<^verbatim>\<open>web/src\<close>), which keeps a session in the
  browser, guards its pages and calls the management API (\<^verbatim>\<open>api/app/api\<close>). That API writes the tables of
  servers, keys, roles and limits. The proxy (\<^verbatim>\<open>api/app/gateway\<close>) reads them: it authenticates a request, limits its
  rate, resolves the server, checks the permissions, forwards the request and filters what comes back.

  \<^bold>\<open>Shared theories.\<close>
    \<^item> \<^verbatim>\<open>Js_Prelude\<close>, \<^verbatim>\<open>Js_Uri\<close>, \<^verbatim>\<open>Js_Json\<close>, \<^verbatim>\<open>Browser\<close>: strings, numbers, URI coding, JSON values, storage and cookies as the
      source uses them, with the locales for comparators, functional refinement and step invariants.
    \<^item> \<^verbatim>\<open>Form_Action\<close>: a form whose handler is split at its await; \<^verbatim>\<open>guarded_form\<close> shows that at most
      one call runs.

  \<^bold>\<open>The session and the gates of the client.\<close>
    \<^item> \<^verbatim>\<open>Auth_Storage\<close> (\<^verbatim>\<open>lib/auth.ts\<close>) refines a session of key, guard and CSRF token, and keeps the key out
      of persistent storage and cookies; \<^verbatim>\<open>Http_Client\<close> (\<^verbatim>\<open>lib/axios-instance.ts\<close>) shows what a request
      carries and what a 401 does.
    \<^item> \<^verbatim>\<open>Middleware\<close> (\<^verbatim>\<open>middleware.ts\<close>) and \<^verbatim>\<open>Session_Gates\<close> (\<^verbatim>\<open>clerk-sync-gate.tsx\<close>, the area layouts): a
      protected page needs a session, a gate opens only after the backend confirmed it, and settles.
    \<^item> \<^verbatim>\<open>Account_Pages\<close>: sign-in, registration, second factor, password reset.

  \<^bold>\<open>The pages of the client.\<close>
    \<^item> \<^verbatim>\<open>Confirm_Dialog\<close>, \<^verbatim>\<open>Admin_Rbac\<close>, \<^verbatim>\<open>Members_Tab\<close>, \<^verbatim>\<open>Teams_Tab\<close>, \<^verbatim>\<open>Roles_Tab\<close>: access control.
    \<^item> \<^verbatim>\<open>Policy_Wizard\<close>, \<^verbatim>\<open>Policy_List\<close>, \<^verbatim>\<open>Audit_Page\<close>: policies and the audit log.
    \<^item> \<^verbatim>\<open>Api_Keys_Page\<close> (\<^verbatim>\<open>dashboard/api-keys\<close>), \<^verbatim>\<open>Server_Pages\<close> (\<^verbatim>\<open>dashboard/servers\<close>) and
      \<^verbatim>\<open>Onboarding\<close> (\<^verbatim>\<open>onboarding/page.tsx\<close>): each is composed with the routes that answer it, so their
      theorems speak of page and backend together.

  \<^bold>\<open>The management API.\<close>
    \<^item> \<^verbatim>\<open>Keys_Api\<close> (\<^verbatim>\<open>api/api_keys.py\<close>, \<^verbatim>\<open>auth/dependencies.py\<close>): who may manage keys, and that
      tenants are kept apart.
    \<^item> \<^verbatim>\<open>Server_Registry\<close> (\<^verbatim>\<open>gateway/registry.py\<close>, \<^verbatim>\<open>gateway/health_monitor.py\<close>, \<^verbatim>\<open>auth/licenses.py\<close>): an
      invariant of the table under all operations, that a registered server is served, and how probes
      decide its service.

  \<^bold>\<open>The proxy.\<close>
    \<^item> \<^verbatim>\<open>Gateway_Rules\<close> (\<^verbatim>\<open>auth/rbac.py\<close>, \<^verbatim>\<open>auth/tool_filter.py\<close>, \<^verbatim>\<open>limits/policies.py\<close>), \<^verbatim>\<open>Gateway_Limiter\<close>
      (\<^verbatim>\<open>limits/redis_bucket.py\<close>), \<^verbatim>\<open>Gateway_Auth\<close> (\<^verbatim>\<open>auth/api_keys.py\<close>) and \<^verbatim>\<open>Gateway_Protocol\<close>
      (\<^verbatim>\<open>gateway/jsonrpc.py\<close>, \<^verbatim>\<open>headers.py\<close>, \<^verbatim>\<open>session.py\<close>): decisions, bounds, keys and sessions.
    \<^item> \<^verbatim>\<open>Gateway_Router\<close> (\<^verbatim>\<open>gateway/router.py\<close>) composes them in an error monad; \<^verbatim>\<open>Gateway_Pipeline\<close> and
      \<^verbatim>\<open>Key_Restrictions\<close> prove what holds of both endpoints. This theory adds what follows when the proxy
      authenticates with the table of keys.

  \<^bold>\<open>Parameters.\<close> Code that is not part of the repository is an argument: the axios transport and its error text,
  Clerk, the URL parser and the dates of the browser, the hash of a key, token signatures, the answers of Redis and of
  upstream servers. A request of the proxy is modelled at one instant. Interleaving is modelled where the code
  awaits: calls of a page settle in any order, and results of probes are written after other operations.

  \<^bold>\<open>Bounds.\<close> Recursion is structural or has a proved measure. Python and JavaScript integers are unbounded \<^typ>\<open>int\<close> or
  \<^typ>\<open>nat\<close>, except for the 32-bit shift of the colour hash. Strings hold characters below 256; the em dash, the ellipsis
  and the bullet of the program's texts stand on three control positions.

  \<^bold>\<open>Not modelled.\<close>
    \<^item> The generated client, layout, styles, artwork and static pages: they decide nothing the theorems speak of.
    \<^item> The tool, playground, monitoring, alert, settings, roles, rate-limit, detail, developer and platform pages, and the routes for
      accounts, tenants, roles, single sign-on, provisioning and usage: further components, left for later.
    \<^item> Cryptography, e-mail, metrics, logs and subprocesses: they are effects outside the state modelled.
\<close>

section \<open>Keys and the pipeline\<close>

text \<open>
  C11. Revoking a key cuts it off at once: when the proxy authenticates with the table of keys, then after a
  key was revoked and whatever keys were issued, used or revoked since, a request that carries a token
  with its prefix sends nothing upstream on either endpoint.
\<close>

theorem revoked_key_never_forwards:
  fixes gw :: gateway
  assumes "distinct (map ak_key_prefix keys)" and "k \<in> set keys" and "revoke_key moment (ak_id k) (ak_tenant_id k) keys = Some keys'"
    and "gw_authenticate gw = authenticate (verify_key verify pepper fb (fold (key_step hash verify' pepper') ops keys')) by_jwt jwt"
    and "parse_key (bearer_token req) = Some (ak_key_prefix k, secret)"
  shows "wd_sent (snd (mcp_proxy gw req slug w)) = wd_sent w \<and> wd_sent (snd (mcp_sse_stream gw req slug w)) = wd_sent w"
proof -
  have "prefix ''pk_'' (bearer_token req)" by (rule parse_key_marker [OF assms(5)])
  then have none: "gw_authenticate gw (bearer_token req) = None"
    using revoked_key_rejected [OF assms(1-3,5)] by (simp add: assms(4) authenticate_def)
  have "wd_sent (snd (mcp_proxy gw req slug w)) = wd_sent w"
    using proxy_sent_authenticated [OF surjective_pairing] none by blast
  moreover have "wd_sent (snd (stream_steps gw req slug w)) = wd_sent w"
    using stream_sent_authenticated [OF surjective_pairing] none by blast
  ultimately show ?thesis by (simp add: mcp_sse_stream_def merge_return_def)
qed

definition demo_revoked :: "ApiKey list" where
  "demo_revoked = the (revoke_key ''now'' ''k1'' ''t'' [demo_key])"

definition demo_keyed :: gateway where
  "demo_keyed = demo_gw\<lparr>gw_authenticate := authenticate (verify_key (\<lambda>_ _. True) ''p'' None demo_revoked) (\<lambda>_. None) False\<rparr>"

definition demo_bearer :: http_request where
  "demo_bearer = (demo_req [] ''tools/call'')\<lparr>hr_headers := [(''authorization'', ''Bearer pk_aaaaaaaa_'' @ replicate 43 (CHR ''b''))]\<rparr>"

theorem revoked_key_never_forwards_witness: "wd_sent (snd (mcp_proxy demo_keyed demo_bearer ''s'' demo_world)) = []"
proof -
  have r: "revoke_key ''now'' (ak_id demo_key) (ak_tenant_id demo_key) [demo_key] = Some demo_revoked"
    by (simp add: demo_revoked_def revoke_key_def key_revoke_def Let_def demo_key_def)
  have g: "gw_authenticate demo_keyed =
      authenticate (verify_key (\<lambda>_ _. True) ''p'' None (fold (key_step id (\<lambda>_ _. True) ''p'') [] demo_revoked)) (\<lambda>_. None) False"
    by (simp add: demo_keyed_def)
  have p: "parse_key (bearer_token demo_bearer) = Some (ak_key_prefix demo_key, replicate 43 (CHR ''b''))" by code_simp
  from revoked_key_never_forwards [OF _ _ r g p, of "''s''" demo_world] show ?thesis by (simp add: demo_world_def)
qed

end
